(* ===== verification/Prelude.thy ===== *)
theory Prelude
  imports Main
begin

text \<open>
  What the components share: the collections of automation hints, results that are either a
  raised exception or a value, the loops that stop at the first exception, dictionaries as
  association lists in insertion order, and the string operations of Python that the source
  calls.

  A string is a \<open>char list\<close>.  A \<open>char\<close> is read as a code point of U+0000..U+00FF, and every
  string operation below agrees with Python's on strings over those code points.
\<close>

named_theorems str_simps
named_theorems res_simps

section \<open>Results: a raised exception or a value\<close>

text \<open>\<open>Inl e\<close> is "raised e", \<open>Inr v\<close> is "returned v".\<close>

definition rbind :: "'e + 'a \<Rightarrow> ('a \<Rightarrow> 'e + 'b) \<Rightarrow> 'e + 'b" where
  "rbind r f = (case r of Inl e \<Rightarrow> Inl e | Inr v \<Rightarrow> f v)"

lemma rbind_Inl [simp, res_simps]: "rbind (Inl e) f = Inl e"
  by (simp add: rbind_def)

lemma rbind_Inr [simp, res_simps]: "rbind (Inr v) f = f v"
  by (simp add: rbind_def)

lemma rbind_eq_Inr [res_simps]: "rbind r f = Inr w \<longleftrightarrow> (\<exists>v. r = Inr v \<and> f v = Inr w)"
  by (cases r) auto

lemma rbind_eq_Inl [res_simps]:
  "rbind r f = Inl e \<longleftrightarrow> r = Inl e \<or> (\<exists>v. r = Inr v \<and> f v = Inl e)"
  by (cases r) auto

definition rmap :: "('a \<Rightarrow> 'b) \<Rightarrow> 'e + 'a \<Rightarrow> 'e + 'b" where
  "rmap f r = (case r of Inl e \<Rightarrow> Inl e | Inr v \<Rightarrow> Inr (f v))"

lemma rmap_Inl [simp, res_simps]: "rmap f (Inl e) = Inl e"
  by (simp add: rmap_def)

lemma rmap_Inr [simp, res_simps]: "rmap f (Inr v) = Inr (f v)"
  by (simp add: rmap_def)

lemma rmap_eq_Inr [res_simps]: "rmap f r = Inr w \<longleftrightarrow> (\<exists>v. r = Inr v \<and> w = f v)"
  by (cases r) auto

text \<open>
  A call that also changes a state returns the state next to its result: an exception does not
  undo what was done before it.
\<close>

definition sbind ::
  "('s \<Rightarrow> ('e + 'a) \<times> 's) \<Rightarrow> ('a \<Rightarrow> 's \<Rightarrow> ('e + 'b) \<times> 's) \<Rightarrow> 's \<Rightarrow> ('e + 'b) \<times> 's" where
  "sbind m f s = (case m s of (Inl e, t) \<Rightarrow> (Inl e, t) | (Inr v, t) \<Rightarrow> f v t)"

definition sreturn :: "'a \<Rightarrow> 's \<Rightarrow> ('e + 'a) \<times> 's" where
  "sreturn v s = (Inr v, s)"

definition slift :: "'e + 'a \<Rightarrow> 's \<Rightarrow> ('e + 'a) \<times> 's" where
  "slift r s = (r, s)"

lemma sreturn_apply [simp, res_simps]: "sreturn v s = (Inr v, s)"
  by (simp add: sreturn_def)

lemma slift_apply [simp, res_simps]: "slift r s = (r, s)"
  by (simp add: slift_def)

lemma sbind_raise [res_simps]: "m s = (Inl e, t) \<Longrightarrow> sbind m f s = (Inl e, t)"
  by (simp add: sbind_def)

lemma sbind_return [res_simps]: "m s = (Inr v, t) \<Longrightarrow> sbind m f s = f v t"
  by (simp add: sbind_def)

text \<open>
  What every call keeps, the calls composed with \<^const>\<open>sbind\<close> keep: one rule for a relation
  between the state before and the state after.
\<close>

lemma sbind_keeps:
  assumes "R s (snd (m s))"
    and "\<And>v. fst (m s) = Inr v \<Longrightarrow> R (snd (m s)) (snd (f v (snd (m s))))"
    and "\<And>a b c. R a b \<Longrightarrow> R b c \<Longrightarrow> R a c"
  shows "R s (snd (sbind m f s))"
proof (cases "m s")
  case (Pair r t)
  show ?thesis
  proof (cases r)
    case (Inl e)
    with Pair assms(1) show ?thesis by (simp add: sbind_def)
  next
    case (Inr v)
    with Pair have "R s t" and "R t (snd (f v t))"
      using assms(1) assms(2) [of v] by simp_all
    then have "R s (snd (f v t))" by (rule assms(3))
    with Pair Inr show ?thesis by (simp add: sbind_def)
  qed
qed

lemma sbind_keeps_inv:
  assumes "P (snd (m s))"
    and "\<And>v. fst (m s) = Inr v \<Longrightarrow> P (snd (m s)) \<Longrightarrow> P (snd (f v (snd (m s))))"
  shows "P (snd (sbind m f s))"
  using assms by (cases "m s"; cases "fst (m s)") (auto simp: sbind_def)

lemma sbindE:
  assumes "sbind m f s = (r, t)"
  obtains (raise) e where "m s = (Inl e, t)" "r = Inl e"
  | (return) v u where "m s = (Inr v, u)" "f v u = (r, t)"
  using assms by (auto simp: sbind_def split: prod.splits sum.splits)

section \<open>Exceptions\<close>

text \<open>
  What the modelled code raises or lets through.  \<open>NormalizationError\<close> is the source's own
  (a subclass of \<open>ValueError\<close>, \<open>app/integrations/normalizer.py\<close>); the others are Python's,
  pydantic's and SQLAlchemy's.  The text of a \<open>ValueError\<close> raised by \<open>strptime\<close> or by pydantic
  is never read by the source, so those constructors carry what was refused.
\<close>

datatype exn =
    NormalizationError string
  | ValueError string
  | FloatParseError string
  | NaNToIntError
  | StrptimeError string string
  | ValidationError string
  | OverflowError string
  | MultipleResultsFound
  | DatabaseError
  | PendingRollbackError
  | InvalidRequestError
  | ReadError
  | RedisError
  | KeyError string
  | AttributeError
  | RuntimeError string
  | TimeoutError string
  | OSError
  | TypeError
  | BrokerError

fun is_value_error :: "exn \<Rightarrow> bool" where
  "is_value_error (NormalizationError _) = True"
| "is_value_error (ValueError _) = True"
| "is_value_error (FloatParseError _) = True"
| "is_value_error NaNToIntError = True"
| "is_value_error (StrptimeError _ _) = True"
| "is_value_error (ValidationError _) = True"
| "is_value_error _ = False"

section \<open>Dictionaries\<close>

text \<open>
  A Python dict: keys with their values in insertion order, one entry per key.  \<open>map_of\<close> is the
  lookup, \<open>d.get(k, default)\<close> is \<open>dict_get_or\<close>, and assignment to a present key keeps the key's
  place.
\<close>

type_synonym ('k, 'v) pydict = "('k \<times> 'v) list"

definition dict_get_or :: "('k, 'v) pydict \<Rightarrow> 'k \<Rightarrow> 'v \<Rightarrow> 'v" where
  "dict_get_or d k v = (case map_of d k of None \<Rightarrow> v | Some w \<Rightarrow> w)"

fun dict_set :: "'k \<Rightarrow> 'v \<Rightarrow> ('k, 'v) pydict \<Rightarrow> ('k, 'v) pydict" where
  "dict_set k v [] = [(k, v)]"
| "dict_set k v ((k', v') # d) = (if k = k' then (k, v) # d else (k', v') # dict_set k v d)"

definition dict_setdefault :: "'k \<Rightarrow> 'v \<Rightarrow> ('k, 'v) pydict \<Rightarrow> ('k, 'v) pydict" where
  "dict_setdefault k v d = (case map_of d k of None \<Rightarrow> dict_set k v d | Some _ \<Rightarrow> d)"

lemma map_of_dict_set [simp]: "map_of (dict_set k v d) = (map_of d)(k \<mapsto> v)"
  by (induction k v d rule: dict_set.induct) (auto simp: fun_eq_iff)

lemma map_of_dict_setdefault [simp]:
  "map_of (dict_setdefault k v d) = (map_of d)(k \<mapsto> dict_get_or d k v)"
  by (auto simp: dict_setdefault_def dict_get_or_def fun_eq_iff split: option.splits)

lemma dict_set_fst: "set (map fst (dict_set k v d)) = insert k (set (map fst d))"
  by (induction k v d rule: dict_set.induct) auto

lemma distinct_dict_set: "distinct (map fst d) \<Longrightarrow> distinct (map fst (dict_set k v d))"
proof (induction k v d rule: dict_set.induct)
  case (2 k v k' v' d)
  then show ?case using dict_set_fst [of k v d] by auto
qed simp

section \<open>Strings\<close>

definition is_space :: "char \<Rightarrow> bool" where
  "is_space c \<longleftrightarrow> (let n = (of_char c :: nat) in
     9 \<le> n \<and> n \<le> 13 \<or> 28 \<le> n \<and> n \<le> 32 \<or> n = 133 \<or> n = 160)"

text \<open>\<open>str.strip()\<close> with no argument.\<close>

definition strip :: "string \<Rightarrow> string" where
  "strip s = rev (dropWhile is_space (rev (dropWhile is_space s)))"

definition is_digit :: "char \<Rightarrow> bool" where
  "is_digit c \<longleftrightarrow> 48 \<le> (of_char c :: nat) \<and> (of_char c :: nat) \<le> 57"

definition digit_val :: "char \<Rightarrow> nat" where
  "digit_val c = of_char c - 48"

definition digit_char :: "nat \<Rightarrow> char" where
  "digit_char d = char_of (d + 48)"

text \<open>\<open>str.lower()\<close>: A-Z, and U+00C0..U+00DE but for the multiplication sign U+00D7.\<close>

definition lower_char :: "char \<Rightarrow> char" where
  "lower_char c = (let n = (of_char c :: nat) in
     if 65 \<le> n \<and> n \<le> 90 \<or> 192 \<le> n \<and> n \<le> 222 \<and> n \<noteq> 215 then char_of (n + 32) else c)"

definition lower :: "string \<Rightarrow> string" where
  "lower s = map lower_char s"

text \<open>\<open>s.replace(",", "")\<close>.\<close>

definition drop_commas :: "string \<Rightarrow> string" where
  "drop_commas s = filter (\<lambda>c. c \<noteq> CHR '','') s"

lemma strip_Nil [simp, str_simps]: "strip [] = []"
  by (simp add: strip_def)

lemma dropWhile_idem: "dropWhile P (dropWhile P xs) = dropWhile P xs"
  by (induction xs) auto

lemma rev_dropWhile_rev_idem:
  assumes "dropWhile P xs = xs"
  shows "dropWhile P (rev (dropWhile P (rev xs))) = rev (dropWhile P (rev xs))"
proof -
  let ?ys = "rev (dropWhile P (rev xs))"
  have "rev xs = takeWhile P (rev xs) @ dropWhile P (rev xs)"
    by simp
  then have split: "xs = ?ys @ rev (takeWhile P (rev xs))"
    by (metis rev_append rev_rev_ident)
  have "?ys = [] \<or> \<not> P (hd ?ys)"
    using assms split by (metis dropWhile_eq_self_iff hd_append2 self_append_conv2 append_is_Nil_conv)
  then show ?thesis by (simp only: dropWhile_eq_self_iff)
qed

lemma strip_idem [simp, str_simps]: "strip (strip s) = strip s"
proof -
  let ?t = "dropWhile is_space s"
  have "dropWhile is_space ?t = ?t" by (rule dropWhile_idem)
  then have "dropWhile is_space (strip s) = strip s"
    unfolding strip_def by (rule rev_dropWhile_rev_idem)
  moreover have "rev (dropWhile is_space (rev (strip s))) = strip s"
    by (simp add: strip_def dropWhile_idem)
  ultimately show ?thesis by (simp add: strip_def [of "strip s"])
qed

lemma strip_no_space: "\<forall>c \<in> set s. \<not> is_space c \<Longrightarrow> strip s = s"
proof -
  assume a: "\<forall>c \<in> set s. \<not> is_space c"
  have b: "dropWhile is_space xs = xs" if "\<forall>c \<in> set xs. \<not> is_space c" for xs
    using that by (cases xs) auto
  show ?thesis using a b [of s] b [of "rev s"] by (simp add: strip_def)
qed

lemma set_strip: "set (strip s) \<subseteq> set s"
  unfolding strip_def by (metis set_dropWhileD set_rev subsetI)

lemma length_strip: "length (strip s) \<le> length s"
  unfolding strip_def by (metis length_dropWhile_le length_rev order_trans)

lemma of_digit_char [simp]: "d < 10 \<Longrightarrow> (of_char (digit_char d) :: nat) = d + 48"
  by (simp add: digit_char_def)

lemma is_digit_digit_char [simp]: "d < 10 \<Longrightarrow> is_digit (digit_char d)"
  by (simp add: is_digit_def)

lemma digit_val_digit_char [simp]: "d < 10 \<Longrightarrow> digit_val (digit_char d) = d"
  by (simp add: digit_val_def)

lemma digit_val_less: "is_digit c \<Longrightarrow> digit_val c < 10"
  unfolding is_digit_def digit_val_def by arith

lemma digit_not_space: "is_digit c \<Longrightarrow> \<not> is_space c"
  by (auto simp: is_digit_def is_space_def Let_def)

lemma lower_length [simp]: "length (lower s) = length s"
  by (simp add: lower_def)

lemma lower_char_idem [simp]: "lower_char (lower_char c) = lower_char c"
  by (auto simp: lower_char_def Let_def)

lemma lower_idem [simp, str_simps]: "lower (lower s) = lower s"
  by (simp add: lower_def)

section \<open>Decimal numerals\<close>

text \<open>\<open>str(n)\<close> of a natural number, and the number a string of digits denotes.\<close>

fun show_nat :: "nat \<Rightarrow> string" where
  "show_nat n = (if n < 10 then [digit_char n] else show_nat (n div 10) @ [digit_char (n mod 10)])"

declare show_nat.simps [simp del]

definition read_nat :: "string \<Rightarrow> nat" where
  "read_nat s = foldl (\<lambda>a c. 10 * a + digit_val c) 0 s"

definition show_int :: "int \<Rightarrow> string" where
  "show_int i = (if i < 0 then CHR ''-'' # show_nat (nat (- i)) else show_nat (nat i))"

text \<open>\<open>f"{n:0wd}"\<close> for a natural number: zeros in front up to the width.\<close>

definition pad_nat :: "nat \<Rightarrow> nat \<Rightarrow> string" where
  "pad_nat w n = replicate (w - length (show_nat n)) (CHR ''0'') @ show_nat n"

lemma read_nat_snoc [simp]: "read_nat (s @ [c]) = 10 * read_nat s + digit_val c"
  by (simp add: read_nat_def)

lemma read_nat_Nil [simp]: "read_nat [] = 0"
  by (simp add: read_nat_def)

lemma show_nat_nonempty: "show_nat n \<noteq> []"
  by (subst show_nat.simps) simp

lemma show_nat_digits: "\<forall>c \<in> set (show_nat n). is_digit c"
proof (induction n rule: show_nat.induct)
  case (1 n)
  then show ?case by (cases "n < 10") (auto simp: show_nat.simps [of n])
qed

lemma read_show_nat [simp]: "read_nat (show_nat n) = n"
proof (induction n rule: show_nat.induct)
  case (1 n)
  show ?case
  proof (cases "n < 10")
    case True
    then show ?thesis by (simp add: show_nat.simps [of n] read_nat_def)
  next
    case False
    with 1 show ?thesis by (simp add: show_nat.simps [of n])
  qed
qed

lemma foldl_zeros: "foldl (\<lambda>a c. 10 * a + digit_val c) 0 (replicate k (CHR ''0'')) = 0"
  by (induction k) (simp_all add: digit_val_def)

lemma read_pad_nat [simp]: "read_nat (pad_nat w n) = n"
proof -
  have "read_nat (pad_nat w n) =
      foldl (\<lambda>a c. 10 * a + digit_val c)
        (foldl (\<lambda>a c. 10 * a + digit_val c) 0 (replicate (w - length (show_nat n)) (CHR ''0'')))
        (show_nat n)"
    by (simp add: pad_nat_def read_nat_def)
  also have "\<dots> = read_nat (show_nat n)"
    by (simp add: foldl_zeros read_nat_def)
  finally show ?thesis by simp
qed

lemma pad_nat_digits: "\<forall>c \<in> set (pad_nat w n). is_digit c"
  using show_nat_digits [of n] by (auto simp: pad_nat_def is_digit_def)

lemma length_show_nat: "0 < k \<Longrightarrow> n < 10 ^ k \<Longrightarrow> length (show_nat n) \<le> k"
proof (induction k arbitrary: n)
  case (Suc k)
  show ?case
  proof (cases "n < 10")
    case True
    then show ?thesis by (simp add: show_nat.simps [of n])
  next
    case False
    with Suc.prems have "n div 10 < 10 ^ k" by (simp add: less_mult_imp_div_less mult.commute)
    moreover from False Suc.prems have "0 < k" by (cases k) auto
    ultimately have "length (show_nat (n div 10)) \<le> k" using Suc.IH by blast
    with False show ?thesis by (simp add: show_nat.simps [of n])
  qed
qed simp

lemma length_pad_nat: "0 < w \<Longrightarrow> n < 10 ^ w \<Longrightarrow> length (pad_nat w n) = w"
  using length_show_nat [of w n] by (simp add: pad_nat_def)

end
