(* ===== verification/PyFloat.thy ===== *)
theory PyFloat
  imports Complex_Main Prelude
begin

text \<open>
  Python's \<open>float\<close>: IEEE binary64 with rounding to nearest, ties to even.  The source parses
  rupee amounts with \<open>float(s)\<close>, multiplies by 100 and rounds, and computes the quality score of
  a job in floats, so the conversions are exact only where this arithmetic is.  \<open>Fin m e\<close> is
  \<open>m * 2 ^ e\<close>; the sign of a zero is not kept (nothing in the source reads it).
\<close>

datatype pyfloat = NaN | Infty bool | Fin int int

section \<open>Rounding\<close>

text \<open>The integer nearest to \<open>n / d\<close> for \<open>d > 0\<close>, the even one of two at the same distance.\<close>

definition rdiv :: "int \<Rightarrow> int \<Rightarrow> int" where
  "rdiv n d = (let q = n div d; r = n mod d in
     if 2 * r < d then q else if d < 2 * r then q + 1 else if even q then q else q + 1)"

fun bits :: "nat \<Rightarrow> nat" where
  "bits n = (if n = 0 then 0 else Suc (bits (n div 2)))"

declare bits.simps [simp del]

text \<open>The exponent \<open>e\<close> with \<open>2 ^ 52 \<le> |n| / (d * 2 ^ e) < 2 ^ 53\<close>.\<close>

definition fl_exponent :: "int \<Rightarrow> int \<Rightarrow> int" where
  "fl_exponent n d =
     (let e = int (bits (nat \<bar>n\<bar>)) - int (bits (nat d)) - 53
      in if \<bar>n\<bar> * 2 ^ nat (- e) < 2 ^ 53 * d * 2 ^ nat e then e else e + 1)"

text \<open>The double nearest to \<open>n / d\<close> for \<open>d > 0\<close>; infinite from \<open>2 ^ 1024\<close> on.\<close>

definition fl_round :: "int \<Rightarrow> int \<Rightarrow> pyfloat" where
  "fl_round n d =
     (if n = 0 then Fin 0 0
      else let e = max (fl_exponent n d) (-1074);
               m = rdiv (n * 2 ^ nat (- e)) (d * 2 ^ nat e)
           in if 0 < e \<and> 2 ^ 1024 \<le> \<bar>m\<bar> * 2 ^ nat e then Infty (n < 0) else Fin m e)"

section \<open>Operations\<close>

text \<open>Multiplication by a positive integer constant (\<open>value * 100\<close>, \<open>failure_rate * 50\<close>).\<close>

fun fl_scale :: "int \<Rightarrow> pyfloat \<Rightarrow> pyfloat" where
  "fl_scale k (Fin m e) = fl_round (k * m * 2 ^ nat e) (2 ^ nat (- e))"
| "fl_scale k f = f"

text \<open>\<open>c - x\<close> for an integer-valued float \<open>c\<close>.\<close>

fun fl_int_minus :: "int \<Rightarrow> pyfloat \<Rightarrow> pyfloat" where
  "fl_int_minus c (Fin m e) = fl_round (c * 2 ^ nat (- e) - m * 2 ^ nat e) (2 ^ nat (- e))"
| "fl_int_minus c (Infty b) = Infty (\<not> b)"
| "fl_int_minus c NaN = NaN"

text \<open>\<open>int(round(x))\<close> and \<open>int(x)\<close>.\<close>

fun py_round_int :: "pyfloat \<Rightarrow> exn + int" where
  "py_round_int (Fin m e) = Inr (rdiv (m * 2 ^ nat e) (2 ^ nat (- e)))"
| "py_round_int NaN = Inl NaNToIntError"
| "py_round_int (Infty _) = Inl (OverflowError ''cannot convert float infinity to integer'')"

fun py_trunc_int :: "pyfloat \<Rightarrow> exn + int" where
  "py_trunc_int (Fin m e) = Inr (sgn m * (\<bar>m\<bar> * 2 ^ nat e div 2 ^ nat (- e)))"
| "py_trunc_int NaN = Inl NaNToIntError"
| "py_trunc_int (Infty _) = Inl (OverflowError ''cannot convert float infinity to integer'')"

text \<open>\<open>float(i)\<close> of an integer.\<close>

definition py_float_of_int :: "int \<Rightarrow> exn + pyfloat" where
  "py_float_of_int i = (case fl_round i 1 of
     Infty _ \<Rightarrow> Inl (OverflowError ''int too large to convert to float'')
   | f \<Rightarrow> Inr f)"

text \<open>\<open>round(x, 1)\<close>: to one decimal, exactly, and back to the nearest double.\<close>

fun py_round1 :: "pyfloat \<Rightarrow> pyfloat" where
  "py_round1 (Fin m e) = fl_round (rdiv (10 * m * 2 ^ nat e) (2 ^ nat (- e))) 10"
| "py_round1 f = f"

text \<open>\<open>max(0.0, x)\<close>: the first argument unless the second is greater.\<close>

fun py_max0 :: "pyfloat \<Rightarrow> pyfloat" where
  "py_max0 (Fin m e) = (if 0 < m then Fin m e else Fin 0 0)"
| "py_max0 (Infty b) = (if b then Fin 0 0 else Infty b)"
| "py_max0 NaN = Fin 0 0"

section \<open>Parsing\<close>

text \<open>
  \<open>float(s)\<close>: surrounding white space, a sign, \<open>inf\<close>, \<open>infinity\<close> and \<open>nan\<close> in any case, digits
  with single underscores between digits, a fraction, an exponent; anything else is a
  \<open>ValueError\<close>.
\<close>

fun digits_tail :: "string \<Rightarrow> string \<times> string" where
  "digits_tail [] = ([], [])"
| "digits_tail (c # cs) =
     (if is_digit c then (let (ds, r) = digits_tail cs in (c # ds, r))
      else if c = CHR ''_'' then
        (case cs of [] \<Rightarrow> ([], c # cs)
         | d # cs' \<Rightarrow> if is_digit d then (let (ds, r) = digits_tail cs' in (d # ds, r))
                     else ([], c # cs))
      else ([], c # cs))"

definition digit_part :: "string \<Rightarrow> string \<times> string" where
  "digit_part s = (case s of [] \<Rightarrow> ([], []) | c # cs \<Rightarrow>
     if is_digit c then digits_tail s else ([], s))"

definition sign_part :: "string \<Rightarrow> bool \<times> string" where
  "sign_part s = (case s of [] \<Rightarrow> (False, [])
     | c # cs \<Rightarrow> if c = CHR ''-'' then (True, cs) else if c = CHR ''+'' then (False, cs)
                 else (False, s))"

definition exponent_part :: "string \<Rightarrow> int option" where
  "exponent_part s = (case s of [] \<Rightarrow> Some 0
     | c # cs \<Rightarrow>
       if c = CHR ''e'' \<or> c = CHR ''E'' then
         (let (neg, t) = sign_part cs; (ds, r) = digit_part t in
          if ds = [] \<or> r \<noteq> [] then None
          else Some (if neg then - int (read_nat ds) else int (read_nat ds)))
       else None)"

definition decimal_float :: "bool \<Rightarrow> nat \<Rightarrow> int \<Rightarrow> pyfloat" where
  "decimal_float neg m e = (let n = (if neg then - int m else int m) in
     if 0 \<le> e then fl_round (n * 10 ^ nat e) 1 else fl_round n (10 ^ nat (- e)))"

definition parse_float :: "string \<Rightarrow> exn + pyfloat" where
  "parse_float s =
     (let (neg, u) = sign_part (strip s) in
      if lower u = ''inf'' \<or> lower u = ''infinity'' then Inr (Infty neg)
      else if lower u = ''nan'' then Inr NaN
      else let (ip, r1) = digit_part u;
               (fp, r2) = (case r1 of [] \<Rightarrow> ([], []) | c # cs \<Rightarrow>
                             if c = CHR ''.'' then digit_part cs else ([], r1))
           in if ip = [] \<and> fp = [] then Inl (FloatParseError s)
              else (case exponent_part r2 of None \<Rightarrow> Inl (FloatParseError s)
                    | Some e \<Rightarrow> Inr (decimal_float neg (read_nat (ip @ fp)) (e - int (length fp)))))"

section \<open>How far rounding can be off\<close>

fun fval :: "pyfloat \<Rightarrow> real" where
  "fval (Fin m e) = of_int m * 2 powi e"
| "fval _ = 0"

lemma powi_split: "(2::real) powi e = 2 ^ nat e / 2 ^ nat (- e)"
proof (cases "0 \<le> e")
  case False
  then show ?thesis
    by (simp add: power_int_def power_inverse inverse_eq_divide power_one_over)
qed (simp add: power_int_def)

lemma powi_less [simp]: "(2::real) powi a < 2 powi b \<longleftrightarrow> a < b"
  using power_int_strict_increasing [of a b "2::real"] power_int_increasing [of b a "2::real"]
  by (cases "a < b") (auto simp: not_less)

lemma powi_le [simp]: "(2::real) powi a \<le> 2 powi b \<longleftrightarrow> a \<le> b"
  using powi_less [of b a] by (simp only: not_less [symmetric])

lemma fval_fraction: "fval (Fin m e) = of_int (m * 2 ^ nat e) / of_int (2 ^ nat (- e))"
  by (simp add: powi_split)

lemma rdiv_half:
  assumes "0 < d"
  shows "\<bar>of_int (rdiv n d) - of_int n / of_int d\<bar> \<le> (1/2 :: real)"
proof -
  let ?q = "n div d" and ?r = "n mod d"
  have n: "(of_int n :: real) = of_int ?q * of_int d + of_int ?r"
    by (simp flip: of_int_mult of_int_add)
  have r: "0 \<le> ?r" "?r < d" using assms by simp_all
  have "of_int n / of_int d = (of_int ?q * of_int d + of_int ?r) / (of_int d :: real)"
    by (simp only: n)
  then have x: "of_int n / of_int d = (of_int ?q + of_int ?r / of_int d :: real)"
    using assms by (simp add: add_divide_distrib)
  have lo: "2 * ?r \<le> d \<Longrightarrow> of_int ?r / of_int d \<le> (1/2 :: real)"
    using assms by (simp add: field_simps)
  have hi: "d \<le> 2 * ?r \<Longrightarrow> (1/2 :: real) \<le> of_int ?r / of_int d"
    using assms by (simp add: field_simps)
  have b: "0 \<le> (of_int ?r / of_int d :: real)" "of_int ?r / of_int d \<le> (1 :: real)"
    using r assms by (simp_all add: less_imp_le)
  show ?thesis
    using lo hi b by (auto simp: rdiv_def Let_def x abs_le_iff)
qed

lemma rdiv_unique:
  assumes "0 < d" "\<bar>of_int n / of_int d - of_int k\<bar> < (1/2 :: real)"
  shows "rdiv n d = k"
proof -
  have "\<bar>of_int (rdiv n d) - of_int k\<bar> < (1 :: real)"
    using rdiv_half [OF assms(1), of n] assms(2) by linarith
  then show ?thesis by linarith
qed

lemma rdiv_exact [simp]: "rdiv n 1 = n"
  by (simp add: rdiv_def)

lemma bits_pos: "0 < n \<Longrightarrow> 0 < bits n"
  by (subst bits.simps) simp

lemma bits_bounds: "0 < n \<Longrightarrow> 2 ^ (bits n - 1) \<le> n \<and> n < 2 ^ bits n"
proof (induction n rule: bits.induct)
  case (1 n)
  show ?case
  proof (cases "n div 2 = 0")
    case True
    with 1 have "n = 1" by simp
    then show ?thesis by (simp add: bits.simps)
  next
    case False
    then have "0 < n div 2" by simp
    with 1 have ih: "2 ^ (bits (n div 2) - 1) \<le> n div 2" "n div 2 < 2 ^ bits (n div 2)"
      by auto
    have "0 < bits (n div 2)" using False by (simp add: bits_pos)
    then obtain k where k: "bits (n div 2) = Suc k" by (cases "bits (n div 2)") auto
    have "bits n = Suc (Suc k)" using 1 k by (subst bits.simps) simp
    with ih k show ?thesis by simp linarith
  qed
qed

lemma bits_real:
  assumes "0 < n"
  shows "2 powi (int (bits n) - 1) \<le> (real n)" "real n < 2 powi (int (bits n))"
proof -
  have p: "0 < bits n" using assms by (rule bits_pos)
  have "real (2 ^ (bits n - 1)) \<le> real n" "real n < real (2 ^ bits n)"
    using bits_bounds [OF assms] by (simp_all only: of_nat_le_iff of_nat_less_iff)
  with p show "2 powi (int (bits n) - 1) \<le> (real n)" "real n < 2 powi (int (bits n))"
    by (simp_all add: power_int_def nat_diff_distrib)
qed

lemma exponent_test:
  assumes "0 < d"
  shows "\<bar>n\<bar> * 2 ^ nat (- e) < 2 ^ 53 * d * 2 ^ nat e \<longleftrightarrow>
    \<bar>of_int n\<bar> / of_int d < (2 ^ 53 * 2 powi e :: real)"
proof -
  have "\<bar>n\<bar> * 2 ^ nat (- e) < 2 ^ 53 * d * 2 ^ nat e \<longleftrightarrow>
      (of_int (\<bar>n\<bar> * 2 ^ nat (- e)) :: real) < of_int (2 ^ 53 * d * 2 ^ nat e)"
    by (simp only: of_int_less_iff)
  also have "\<dots> \<longleftrightarrow> \<bar>of_int n\<bar> / of_int d < (2 ^ 53 * 2 powi e :: real)"
    using assms by (simp add: powi_split field_simps)
  finally show ?thesis .
qed

lemma fl_exponent_bounds:
  assumes "n \<noteq> 0" "0 < d"
  shows "2 ^ 52 * 2 powi fl_exponent n d \<le> \<bar>of_int n :: real\<bar> / of_int d"
    and "\<bar>of_int n :: real\<bar> / of_int d < 2 ^ 53 * 2 powi fl_exponent n d"
proof -
  let ?x = "\<bar>of_int n :: real\<bar> / of_int d"
  let ?a = "int (bits (nat \<bar>n\<bar>))" and ?b = "int (bits (nat d))"
  let ?e = "?a - ?b - 53"
  have N: "2 powi (?a - 1) \<le> \<bar>of_int n :: real\<bar>" "\<bar>of_int n :: real\<bar> < 2 powi ?a"
    using bits_real [of "nat \<bar>n\<bar>"] assms(1) by simp_all
  have D: "2 powi (?b - 1) \<le> (of_int d :: real)" "(of_int d :: real) < 2 powi ?b"
    using bits_real [of "nat d"] assms(2) by simp_all
  have pos: "0 < (of_int d :: real)" using assms(2) by simp
  have "?x < 2 powi ?a / 2 powi (?b - 1)"
    using N(2) D(1) pos by (intro frac_less) auto
  also have "(2 :: real) powi ?a / 2 powi (?b - 1) = 2 powi (?a - (?b - 1))"
    by (simp add: power_int_diff)
  also have "\<dots> = 2 powi (53 + (?e + 1))"
    by (rule arg_cong [where f = "power_int 2"]) simp
  also have "\<dots> = 2 ^ 53 * 2 powi (?e + 1)"
    by (subst power_int_add) (simp_all add: power_int_def)
  finally have hi: "?x < 2 ^ 53 * 2 powi (?e + 1)" .
  have "2 ^ 52 * 2 powi ?e = (2 :: real) powi (52 + ?e)"
    by (subst power_int_add) (simp_all add: power_int_def)
  also have "\<dots> = 2 powi ((?a - 1) - ?b)"
    by (rule arg_cong [where f = "power_int 2"]) simp
  also have "\<dots> = 2 powi (?a - 1) / 2 powi ?b"
    by (simp add: power_int_diff)
  also have "\<dots> \<le> ?x"
    using N(1) D(2) pos by (intro frac_le) auto
  finally have lo: "2 ^ 52 * 2 powi ?e \<le> ?x" .
  have step: "(2 :: real) ^ 52 * 2 powi (?e + 1) = 2 ^ 53 * 2 powi ?e"
    by (subst power_int_add) simp_all
  have "fl_exponent n d = (if ?x < 2 ^ 53 * 2 powi ?e then ?e else ?e + 1)"
    by (simp only: fl_exponent_def Let_def exponent_test [OF assms(2)])
  then have e: "fl_exponent n d = ?e \<and> ?x < 2 ^ 53 * 2 powi ?e \<or>
      fl_exponent n d = ?e + 1 \<and> 2 ^ 53 * 2 powi ?e \<le> ?x"
    by (metis not_less)
  show "2 ^ 52 * 2 powi fl_exponent n d \<le> ?x"
    using e lo step by (elim disjE conjE) (simp_all only:)
  show "?x < 2 ^ 53 * 2 powi fl_exponent n d"
    using e hi by (elim disjE conjE) (simp_all only:)
qed

text \<open>
  One rounding: for a quotient in the normal range and far from overflow the result is finite
  and off by at most one part in \<open>2 ^ 53\<close>.
\<close>

lemma fl_round_error:
  assumes d: "0 < d" and n: "n \<noteq> 0"
    and small: "2 powi (- 1022) \<le> \<bar>of_int n :: real\<bar> / of_int d"
    and big: "\<bar>of_int n :: real\<bar> / of_int d \<le> 2 ^ 1000"
  obtains m e where "fl_round n d = Fin m e"
    and "\<bar>fval (Fin m e) - of_int n / of_int d\<bar> \<le> \<bar>of_int n :: real\<bar> / of_int d / 2 ^ 53"
proof -
  let ?x = "\<bar>of_int n :: real\<bar> / of_int d" and ?e = "fl_exponent n d"
  note b = fl_exponent_bounds [OF n d]
  have "(2 :: real) powi (- 1022) < 2 ^ 53 * 2 powi ?e"
    using small b(2) by linarith
  also have "\<dots> = 2 powi (53 + ?e)"
    by (subst power_int_add) (simp_all add: power_int_def)
  finally have "- 1022 < 53 + ?e" by (simp only: powi_less)
  then have e1: "- 1074 \<le> ?e" by simp
  have "2 powi (52 + ?e) = (2 :: real) ^ 52 * 2 powi ?e"
    by (subst power_int_add) (simp_all add: power_int_def)
  also have "\<dots> \<le> 2 powi 1000"
    using big b(1) by (simp add: power_int_def)
  finally have "52 + ?e \<le> 1000" by (simp only: powi_le)
  then have e2: "?e \<le> 948" by simp
  let ?N = "n * 2 ^ nat (- ?e)" and ?D = "d * 2 ^ nat ?e"
  let ?m = "rdiv ?N ?D"
  have D: "0 < ?D" using d by simp
  have quot: "(of_int ?N / of_int ?D :: real) = of_int n / of_int d / 2 powi ?e"
    using d by (simp add: powi_split field_simps)
  have m: "\<bar>of_int ?m - of_int n / of_int d / 2 powi ?e\<bar> \<le> (1/2 :: real)"
    using rdiv_half [OF D, of ?N] by (simp only: quot)
  have "\<bar>fval (Fin ?m ?e) - of_int n / of_int d\<bar> =
      \<bar>of_int ?m - of_int n / of_int d / 2 powi ?e\<bar> * (2 powi ?e :: real)"
  proof -
    have p: "0 < (2 powi ?e :: real)" by simp
    have "fval (Fin ?m ?e) - of_int n / of_int d =
        (of_int ?m - of_int n / of_int d / 2 powi ?e) * (2 powi ?e :: real)"
      using p d by (simp add: field_simps)
    then show ?thesis using p by (simp only: abs_mult abs_of_pos)
  qed
  also have "\<dots> \<le> 1/2 * 2 powi ?e"
    using m by (intro mult_right_mono) simp_all
  also have "\<dots> \<le> ?x / 2 ^ 53"
    using b(1) by (simp add: field_simps)
  finally have err: "\<bar>fval (Fin ?m ?e) - of_int n / of_int d\<bar> \<le> ?x / 2 ^ 53" .
  have "\<bar>of_int ?m :: real\<bar> \<le> 2 ^ 53 + 1/2"
  proof -
    have "\<bar>of_int n / of_int d / 2 powi ?e :: real\<bar> \<le> 2 ^ 53"
      using b(2) d by (simp add: abs_divide field_simps)
    with m show ?thesis by linarith
  qed
  then have "of_int \<bar>?m\<bar> < (of_int (2 ^ 53 + 1) :: real)" by simp
  then have "\<bar>?m\<bar> < 2 ^ 53 + 1" by (simp only: of_int_less_iff)
  then have "\<bar>?m\<bar> \<le> 2 ^ 53" by simp
  then have "\<bar>?m\<bar> * 2 ^ nat ?e \<le> 2 ^ 53 * 2 ^ 948"
    using e2 by (intro mult_mono power_increasing) auto
  also have "\<dots> < (2 :: int) ^ 1024" by simp
  finally have "fl_round n d = Fin ?m ?e"
    using n e1 by (simp add: fl_round_def Let_def max_def)
  with err show ?thesis by (rule that [rotated])
qed

text \<open>The quotient an operation rounds is the operation on the values.\<close>

lemma fl_scale_quotient:
  "of_int (k * m * 2 ^ nat e) / of_int (2 ^ nat (- e)) = of_int k * fval (Fin m e)"
  by (simp add: powi_split)

lemma fl_minus_quotient:
  "of_int (c * 2 ^ nat (- e) - m * 2 ^ nat e) / of_int (2 ^ nat (- e)) = of_int c - fval (Fin m e)"
  by (simp add: powi_split diff_divide_distrib)

lemma powi_1022: "2 powi (- 1022) \<le> (1 / 1000 :: real)"
proof -
  have "(2::real) powi (- 1022) \<le> 2 powi (- 10)" by (simp only: powi_le)
  also have "(2::real) powi (- 10) \<le> 1 / 1000" by (simp add: power_int_def power_divide)
  finally show ?thesis .
qed

text \<open>
  The rounding of a value between a thousandth and \<open>2 ^ 60\<close>, in the form the conversions use it.
\<close>

lemma fl_round_near:
  assumes "0 < d" and "1 / 1000 \<le> \<bar>of_int n / of_int d :: real\<bar>"
    and "\<bar>of_int n / of_int d :: real\<bar> \<le> 2 ^ 60"
  obtains m e where "fl_round n d = Fin m e"
    and "\<bar>fval (Fin m e) - of_int n / of_int d\<bar> \<le> \<bar>of_int n / of_int d :: real\<bar> / 2 ^ 53"
proof -
  have n: "n \<noteq> 0" using assms(2) by auto
  have a: "\<bar>of_int n / of_int d :: real\<bar> = \<bar>of_int n\<bar> / of_int d"
    using assms(1) by (simp add: abs_divide)
  have "2 powi (- 1022) \<le> \<bar>of_int n :: real\<bar> / of_int d"
    using assms(2) powi_1022 unfolding a by linarith
  moreover have "\<bar>of_int n :: real\<bar> / of_int d \<le> 2 ^ 1000"
    using assms(3) unfolding a by simp
  ultimately obtain m e where "fl_round n d = Fin m e"
    and "\<bar>fval (Fin m e) - of_int n / of_int d\<bar> \<le> \<bar>of_int n :: real\<bar> / of_int d / 2 ^ 53"
    using fl_round_error [OF assms(1) n] by metis
  then show ?thesis using that unfolding a by blast
qed

lemma py_round_int_near:
  assumes "\<bar>fval (Fin m e) - of_int k\<bar> < 1 / 2"
  shows "py_round_int (Fin m e) = Inr k"
  using rdiv_unique [of "2 ^ nat (- e)" "m * 2 ^ nat e" k] assms
  by (simp add: fval_fraction del: fval.simps of_int_mult of_int_power)

text \<open>
  Two decimals survive the way through the binary fraction: the amount of \<open>k\<close> paise, rounded to
  the nearest double as rupees, times 100 and rounded again, is \<open>k\<close>, up to \<open>2 ^ 50\<close> paise.
\<close>

lemma paise_exact:
  assumes "\<bar>k\<bar> \<le> 2 ^ 50"
  shows "py_round_int (fl_scale 100 (fl_round k 100)) = Inr k"
proof (cases "k = 0")
  case True
  then show ?thesis by (simp add: fl_round_def rdiv_def)
next
  case False
  define K where "K = (of_int k :: real)"
  have K1: "1 \<le> \<bar>K\<bar>" using False by (simp add: K_def)
  have "(of_int \<bar>k\<bar> :: real) \<le> of_int (2 ^ 50)" using assms by (simp only: of_int_le_iff)
  then have K2: "\<bar>K\<bar> \<le> 2 ^ 50" by (simp add: K_def)
  obtain m e where r: "fl_round k 100 = Fin m e"
    and x: "\<bar>fval (Fin m e) - K / 100\<bar> \<le> \<bar>K / 100\<bar> / 2 ^ 53"
    using fl_round_near [of 100 k] K1 K2 by (auto simp: K_def)
  define X where "X = fval (Fin m e)"
  have x': "\<bar>100 * X - K\<bar> \<le> \<bar>K\<bar> / 9007199254740992"
    using x by (simp add: X_def abs_le_iff field_simps)
  have t: "\<bar>100 * X\<bar> \<le> \<bar>100 * X - K\<bar> + \<bar>K\<bar>" "\<bar>K\<bar> - \<bar>100 * X - K\<bar> \<le> \<bar>100 * X\<bar>"
    by linarith+
  have b1: "1 / 1000 \<le> \<bar>100 * X\<bar>" using x' K1 t(2) by simp
  have b2: "\<bar>100 * X\<bar> \<le> 2 ^ 60" using x' K2 t(1) by simp
  obtain m' e' where s: "fl_round (100 * m * 2 ^ nat e) (2 ^ nat (- e)) = Fin m' e'"
    and y: "\<bar>fval (Fin m' e') - 100 * X\<bar> \<le> \<bar>100 * X\<bar> / 2 ^ 53"
    using fl_round_near [of "2 ^ nat (- e)" "100 * m * 2 ^ nat e"] b1 b2
    unfolding fl_scale_quotient X_def by auto
  have "\<bar>fval (Fin m' e') - K\<bar> \<le> \<bar>fval (Fin m' e') - 100 * X\<bar> + \<bar>100 * X - K\<bar>"
    by linarith
  then have "\<bar>fval (Fin m' e') - K\<bar> < 1 / 2"
    using x' y K2 t(1) by simp
  then show ?thesis
    unfolding K_def r fl_scale.simps s by (rule py_round_int_near)
qed

end
