(* ===== verification/PyTime.thy ===== *)
theory PyTime
  imports Prelude
begin

text \<open>
  Python's \<open>date\<close> and \<open>datetime\<close> values and \<open>datetime.strptime\<close>, for the directives the source
  uses.  \<open>strptime\<close> turns its format into a regular expression, takes the expression's first
  match from the start of the string, and refuses the string when something is left over; a
  directive is therefore a list of alternatives tried in order, without a second try once the
  whole format has matched.  The alternatives are those of \<open>Lib/_strptime.py\<close> of CPython 3.14.
\<close>

section \<open>Dates and times\<close>

datatype pydate = Date (d_year: nat) (d_month: nat) (d_day: nat)

text \<open>Date, hour, minute, second, microsecond, and the UTC offset in microseconds if aware.\<close>

datatype pydatetime =
  Datetime (dt_date: pydate) (dt_hour: nat) (dt_minute: nat) (dt_second: nat) (dt_micro: nat)
    (dt_tz: "int option")

definition leap_year :: "nat \<Rightarrow> bool" where
  "leap_year y \<longleftrightarrow> y mod 4 = 0 \<and> (y mod 100 \<noteq> 0 \<or> y mod 400 = 0)"

definition days_in_month :: "nat \<Rightarrow> nat \<Rightarrow> nat" where
  "days_in_month y m =
     (if m = 2 then (if leap_year y then 29 else 28)
      else if m = 4 \<or> m = 6 \<or> m = 9 \<or> m = 11 then 30 else 31)"

fun valid_date :: "pydate \<Rightarrow> bool" where
  "valid_date (Date y m d) \<longleftrightarrow>
     1 \<le> y \<and> y \<le> 9999 \<and> 1 \<le> m \<and> m \<le> 12 \<and> 1 \<le> d \<and> d \<le> days_in_month y m"

fun valid_datetime :: "pydatetime \<Rightarrow> bool" where
  "valid_datetime (Datetime d h mi s us tz) \<longleftrightarrow>
     valid_date d \<and> h < 24 \<and> mi < 60 \<and> s < 60 \<and> us < 1000000"

text \<open>\<open>datetime(d.year, d.month, d.day, tzinfo=UTC)\<close> and \<open>.replace(tzinfo=UTC)\<close>.\<close>

definition midnight_utc :: "pydate \<Rightarrow> pydatetime" where
  "midnight_utc d = Datetime d 0 0 0 0 (Some 0)"

fun replace_utc :: "pydatetime \<Rightarrow> pydatetime" where
  "replace_utc (Datetime d h mi s us tz) = Datetime d h mi s us (Some 0)"

text \<open>\<open>date.isoformat()\<close>, which is \<open>str\<close> of a date.\<close>

fun show_date :: "pydate \<Rightarrow> string" where
  "show_date (Date y m d) = pad_nat 4 y @ ''-'' @ pad_nat 2 m @ ''-'' @ pad_nat 2 d"

section \<open>The directives\<close>

datatype directive = DY | Dm | Dd | DH | DM | DS | Dz | DSpace | DLit char

record tm =
  tm_year :: nat
  tm_month :: nat
  tm_day :: nat
  tm_hour :: nat
  tm_minute :: nat
  tm_second :: nat
  tm_offset :: "int option"
  tm_zone_ok :: bool

definition tm0 :: tm where
  "tm0 = \<lparr>tm_year = 1900, tm_month = 1, tm_day = 1, tm_hour = 0, tm_minute = 0,
     tm_second = 0, tm_offset = None, tm_zone_ok = True\<rparr>"

text \<open>Alternatives of a numeric group: one digit, two digits, a space and a digit.\<close>

definition one_digit :: "(nat \<Rightarrow> bool) \<Rightarrow> string \<Rightarrow> (nat \<times> string) list" where
  "one_digit P s = (case s of a # r \<Rightarrow>
     if is_digit a \<and> P (digit_val a) then [(digit_val a, r)] else [] | [] \<Rightarrow> [])"

definition two_digits :: "(nat \<Rightarrow> nat \<Rightarrow> bool) \<Rightarrow> string \<Rightarrow> (nat \<times> string) list" where
  "two_digits P s = (case s of a # b # r \<Rightarrow>
     if is_digit a \<and> is_digit b \<and> P (digit_val a) (digit_val b)
     then [(10 * digit_val a + digit_val b, r)] else [] | _ \<Rightarrow> [])"

definition space_digit :: "(nat \<Rightarrow> bool) \<Rightarrow> string \<Rightarrow> (nat \<times> string) list" where
  "space_digit P s = (case s of c # r \<Rightarrow> if c = CHR '' '' then one_digit P r else [] | [] \<Rightarrow> [])"

definition four_digits :: "string \<Rightarrow> (nat \<times> string) list" where
  "four_digits s =
     (if 4 \<le> length s \<and> list_all is_digit (take 4 s) then [(read_nat (take 4 s), drop 4 s)] else [])"

fun alternatives :: "directive \<Rightarrow> string \<Rightarrow> (nat \<times> string) list" where
  "alternatives DY s = four_digits s"
| "alternatives Dm s =
     two_digits (\<lambda>a b. a = 1 \<and> b \<le> 2) s @ two_digits (\<lambda>a b. a = 0 \<and> 1 \<le> b) s @
     one_digit (\<lambda>a. 1 \<le> a) s"
| "alternatives Dd s =
     two_digits (\<lambda>a b. a = 3 \<and> b \<le> 1) s @ two_digits (\<lambda>a b. 1 \<le> a \<and> a \<le> 2) s @
     two_digits (\<lambda>a b. a = 0 \<and> 1 \<le> b) s @ one_digit (\<lambda>a. 1 \<le> a) s @
     space_digit (\<lambda>a. 1 \<le> a) s"
| "alternatives DH s =
     two_digits (\<lambda>a b. a = 2 \<and> b \<le> 3) s @ two_digits (\<lambda>a b. a \<le> 1) s @
     one_digit (\<lambda>a. True) s @ space_digit (\<lambda>a. True) s"
| "alternatives DM s = two_digits (\<lambda>a b. a \<le> 5) s @ one_digit (\<lambda>a. True) s"
| "alternatives DS s =
     two_digits (\<lambda>a b. a = 6 \<and> b \<le> 1) s @ two_digits (\<lambda>a b. a \<le> 5) s @ one_digit (\<lambda>a. True) s"
| "alternatives _ s = []"

fun set_field :: "directive \<Rightarrow> nat \<Rightarrow> tm \<Rightarrow> tm" where
  "set_field DY v t = t\<lparr>tm_year := v\<rparr>"
| "set_field Dm v t = t\<lparr>tm_month := v\<rparr>"
| "set_field Dd v t = t\<lparr>tm_day := v\<rparr>"
| "set_field DH v t = t\<lparr>tm_hour := v\<rparr>"
| "set_field DM v t = t\<lparr>tm_minute := v\<rparr>"
| "set_field DS v t = t\<lparr>tm_second := v\<rparr>"
| "set_field _ v t = t"

text \<open>
  The zone: a sign, hours, minutes, and perhaps seconds with up to six decimals, colons between
  them or not, or a capital Z.  After the match a colon in one place only is refused, and so is
  an offset of a day or more.
\<close>

definition opt_colon :: "string \<Rightarrow> bool \<times> string" where
  "opt_colon s = (case s of c # r \<Rightarrow> if c = CHR '':'' then (True, r) else (False, s) | [] \<Rightarrow> (False, s))"

definition fractions :: "string \<Rightarrow> (nat \<times> string) list" where
  "fractions s = (case s of c # r \<Rightarrow>
     if c = CHR ''.'' then
       (let n = min 6 (length (takeWhile is_digit r)) in
        map (\<lambda>k. (read_nat (take k r) * 10 ^ (6 - k), drop k r)) (rev [1..<Suc n]))
     else [] | [] \<Rightarrow> [])"

definition zone_value :: "bool \<Rightarrow> nat \<Rightarrow> nat \<Rightarrow> nat \<Rightarrow> nat \<Rightarrow> int" where
  "zone_value neg hh mm ss us =
     (let v = int ((hh * 3600 + mm * 60 + ss) * 1000000 + us) in if neg then - v else v)"

text \<open>Each alternative is an offset, whether it passes the check after the match, and the rest.\<close>

definition zones :: "string \<Rightarrow> (int \<times> bool \<times> string) list" where
  "zones s = (case s of [] \<Rightarrow> []
     | c # r \<Rightarrow>
       if c = CHR ''Z'' then [(0, True, r)]
       else if c = CHR ''+'' \<or> c = CHR ''-'' then
         concat (map (\<lambda>(hh, r1). let (c1, r2) = opt_colon r1 in
           concat (map (\<lambda>(mm, r3). let (c2, r4) = opt_colon r3; neg = (c = CHR ''-'') in
             concat (map (\<lambda>(ss, r5).
               map (\<lambda>(us, r6). (zone_value neg hh mm ss us, c1 = c2 \<and> hh < 24, r6)) (fractions r5)
               @ [(zone_value neg hh mm ss 0, c1 = c2 \<and> hh < 24, r5)])
               (two_digits (\<lambda>a b. a \<le> 5) r4))
             @ [(zone_value neg hh mm 0 0, hh < 24, r3)])
             (two_digits (\<lambda>a b. a \<le> 5) r2)))
           (two_digits (\<lambda>a b. True) r))
       else [])"

text \<open>\<open>\s+\<close>: the longest run of white space first.\<close>

definition space_runs :: "string \<Rightarrow> string list" where
  "space_runs s = map (\<lambda>k. drop k s) (rev [1..<Suc (length (takeWhile is_space s))])"

section \<open>Matching\<close>

fun first_some :: "('a \<Rightarrow> 'b option) \<Rightarrow> 'a list \<Rightarrow> 'b option" where
  "first_some f [] = None"
| "first_some f (x # xs) = (case f x of None \<Rightarrow> first_some f xs | Some y \<Rightarrow> Some y)"

lemma first_some_cong [fundef_cong]:
  "xs = ys \<Longrightarrow> (\<And>x. x \<in> set ys \<Longrightarrow> f x = g x) \<Longrightarrow> first_some f xs = first_some g ys"
  by (induction xs arbitrary: ys) (auto split: option.splits)

fun strp :: "directive list \<Rightarrow> tm \<Rightarrow> string \<Rightarrow> (tm \<times> string) option" where
  "strp [] t s = Some (t, s)"
| "strp (DLit c # f) t s = (case s of [] \<Rightarrow> None
     | x # r \<Rightarrow> if lower_char x = lower_char c then strp f t r else None)"
| "strp (DSpace # f) t s = first_some (\<lambda>r. strp f t r) (space_runs s)"
| "strp (Dz # f) t s =
     first_some (\<lambda>(v, ok, r). strp f (t\<lparr>tm_offset := Some v, tm_zone_ok := ok\<rparr>) r) (zones s)"
| "strp (d # f) t s = first_some (\<lambda>(v, r). strp f (set_field d v t) r) (alternatives d s)"

definition tm_datetime :: "tm \<Rightarrow> pydatetime option" where
  "tm_datetime t =
     (let dt = Datetime (Date (tm_year t) (tm_month t) (tm_day t)) (tm_hour t) (tm_minute t)
                 (tm_second t) 0 (tm_offset t)
      in if tm_zone_ok t \<and> valid_datetime dt then Some dt else None)"

text \<open>\<open>datetime.strptime(s, format)\<close>; \<open>None\<close> is its \<open>ValueError\<close>.\<close>

definition strptime :: "directive list \<Rightarrow> string \<Rightarrow> pydatetime option" where
  "strptime f s = (case strp f tm0 s of None \<Rightarrow> None
     | Some (t, r) \<Rightarrow> if r = [] then tm_datetime t else None)"

text \<open>The formats of the source.\<close>

definition fmt_Y_m_d :: "directive list" where
  "fmt_Y_m_d = [DY, DLit (CHR ''-''), Dm, DLit (CHR ''-''), Dd]"

definition fmt_d_m_Y :: "directive list" where
  "fmt_d_m_Y = [Dd, DLit (CHR ''-''), Dm, DLit (CHR ''-''), DY]"

definition fmt_m_d_Y_slash :: "directive list" where
  "fmt_m_d_Y_slash = [Dm, DLit (CHR ''/''), Dd, DLit (CHR ''/''), DY]"

definition fmt_Y_m_d_slash :: "directive list" where
  "fmt_Y_m_d_slash = [DY, DLit (CHR ''/''), Dm, DLit (CHR ''/''), Dd]"

definition fmt_YmdPlain :: "directive list" where
  "fmt_YmdPlain = [DY, Dm, Dd]"

definition fmt_time :: "directive list" where
  "fmt_time = [DH, DLit (CHR '':''), DM, DLit (CHR '':''), DS]"

definition fmt_T :: "directive list" where
  "fmt_T = fmt_Y_m_d @ [DLit (CHR ''T'')] @ fmt_time"

definition fmt_space :: "directive list" where
  "fmt_space = fmt_Y_m_d @ [DSpace] @ fmt_time"

definition fmt_Tz :: "directive list" where
  "fmt_Tz = fmt_T @ [Dz]"

lemmas fmt_defs = fmt_Y_m_d_def fmt_d_m_Y_def fmt_m_d_Y_slash_def fmt_Y_m_d_slash_def
  fmt_YmdPlain_def fmt_time_def fmt_T_def fmt_space_def fmt_Tz_def

section \<open>What is parsed is a real date\<close>

lemma tm_datetime_valid: "tm_datetime t = Some dt \<Longrightarrow> valid_datetime dt"
  by (auto simp: tm_datetime_def Let_def split: if_splits)

lemma strptime_valid: "strptime f s = Some dt \<Longrightarrow> valid_datetime dt"
  by (auto simp: strptime_def dest: tm_datetime_valid split: option.splits if_splits prod.splits)

lemma valid_datetime_date: "valid_datetime dt \<Longrightarrow> valid_date (dt_date dt)"
  by (cases dt) simp

lemma valid_midnight [simp]: "valid_datetime (midnight_utc d) \<longleftrightarrow> valid_date d"
  by (simp add: midnight_utc_def)

lemma valid_replace_utc [simp]: "valid_datetime (replace_utc dt) \<longleftrightarrow> valid_datetime dt"
  by (cases dt) simp

lemma replace_utc_idem [simp]: "replace_utc (replace_utc dt) = replace_utc dt"
  by (cases dt) simp

section \<open>Printed dates are read back\<close>

lemma digit_char_zero: "digit_char 0 = CHR ''0''"
  by (simp add: digit_char_def char_of_def bit_0 bit_Suc)

lemma pad_nat_two: "v < 100 \<Longrightarrow> pad_nat 2 v = [digit_char (v div 10), digit_char (v mod 10)]"
proof (cases "v < 10")
  case True
  then show ?thesis by (simp add: pad_nat_def show_nat.simps [of v] digit_char_zero)
next
  case False
  moreover assume "v < 100"
  ultimately have "v div 10 < 10" "\<not> v < 10" by auto
  then show ?thesis
    by (simp add: pad_nat_def show_nat.simps [of v] show_nat.simps [of "v div 10"])
qed

lemma digit_pair: "(10::nat) * (v div 10) + v mod 10 = v"
  by simp

lemma alternatives_month:
  assumes "1 \<le> m" "m \<le> 12"
  obtains rest where "alternatives Dm (pad_nat 2 m @ r) = (m, r) # rest"
proof (cases "m < 10")
  case True
  with assms that show ?thesis by (simp add: pad_nat_two two_digits_def)
next
  case False
  with assms have "m div 10 = 1" "m mod 10 \<le> 2" by presburger+
  with assms that show ?thesis using digit_pair [of m] by (simp add: pad_nat_two two_digits_def)
qed

lemma alternatives_day:
  assumes "1 \<le> d" "d \<le> 31"
  obtains rest where "alternatives Dd (pad_nat 2 d @ r) = (d, r) # rest"
proof -
  have "d div 10 \<le> 3" using assms by simp
  then consider "d div 10 = 0" | "d div 10 = 1 \<or> d div 10 = 2" | "d div 10 = 3" by linarith
  then show ?thesis
  proof cases
    case 1
    then have "1 \<le> d mod 10" using assms digit_pair [of d] by simp
    with 1 assms that show ?thesis using digit_pair [of d] by (simp add: pad_nat_two two_digits_def)
  next
    case 2
    then have "10 * (d div 10) + d mod 10 = d" "1 \<le> d div 10" "d div 10 \<le> 2" by auto
    with assms that show ?thesis by (simp add: pad_nat_two two_digits_def)
  next
    case 3
    then have "d mod 10 \<le> 1" using assms digit_pair [of d] by simp
    with 3 assms that show ?thesis using digit_pair [of d] by (simp add: pad_nat_two two_digits_def)
  qed
qed

lemma alternatives_year:
  assumes "y \<le> 9999"
  shows "alternatives DY (pad_nat 4 y @ r) = [(y, r)]"
proof -
  have "length (pad_nat 4 y) = 4" using assms by (intro length_pad_nat) auto
  then show ?thesis
    using pad_nat_digits [of 4 y] by (simp add: four_digits_def list_all_iff)
qed

text \<open>One step of the match: the first alternative decides when the rest matches after it.\<close>

lemma strp_first:
  assumes "alternatives d s = (v, r) # rest" "strp f (set_field d v t) r = Some x"
  shows "strp (d # f) t s = Some x"
  using assms by (cases d) auto

lemma strp_lit: "strp f t r = Some x \<Longrightarrow> strp (DLit c # f) t (c # r) = Some x"
  by simp

lemma strp_end: "t = t' \<Longrightarrow> strp [] t [] = Some (t', [])"
  by simp

lemma strp_year:
  assumes "y \<le> 9999" "strp f (t\<lparr>tm_year := y\<rparr>) r = Some x"
  shows "strp (DY # f) t (pad_nat 4 y @ r) = Some x"
  by (rule strp_first [OF alternatives_year [OF assms(1)]]) (simp add: assms(2))

lemma strp_month:
  assumes "1 \<le> m" "m \<le> 12" "strp f (t\<lparr>tm_month := m\<rparr>) r = Some x"
  shows "strp (Dm # f) t (pad_nat 2 m @ r) = Some x"
  using alternatives_month [OF assms(1,2), of r] strp_first assms(3) by (metis set_field.simps(2))

lemma strp_day:
  assumes "1 \<le> d" "d \<le> 31" "strp f (t\<lparr>tm_day := d\<rparr>) r = Some x"
  shows "strp (Dd # f) t (pad_nat 2 d @ r) = Some x"
  using alternatives_day [OF assms(1,2), of r] strp_first assms(3) by (metis set_field.simps(3))

lemmas strp_steps = strp_lit strp_end strp_year strp_month strp_day
  strp_year [where r = "[]", unfolded append_Nil2] strp_day [where r = "[]", unfolded append_Nil2]

lemma days_in_month_le: "days_in_month y m \<le> 31"
  by (simp add: days_in_month_def)

lemma strptime_I:
  assumes "strp f tm0 s = Some (tm0\<lparr>tm_year := y, tm_month := m, tm_day := d\<rparr>, [])"
    and "valid_date (Date y m d)"
  shows "strptime f s = Some (Datetime (Date y m d) 0 0 0 0 None)"
  using assms by (simp add: strptime_def tm_datetime_def tm0_def)

definition show_dmy :: "char \<Rightarrow> pydate \<Rightarrow> string" where
  "show_dmy c d = pad_nat 2 (d_day d) @ [c] @ pad_nat 2 (d_month d) @ [c] @ pad_nat 4 (d_year d)"

definition show_mdy :: "char \<Rightarrow> pydate \<Rightarrow> string" where
  "show_mdy c d = pad_nat 2 (d_month d) @ [c] @ pad_nat 2 (d_day d) @ [c] @ pad_nat 4 (d_year d)"

definition show_ymd :: "char \<Rightarrow> pydate \<Rightarrow> string" where
  "show_ymd c d = pad_nat 4 (d_year d) @ [c] @ pad_nat 2 (d_month d) @ [c] @ pad_nat 2 (d_day d)"

lemma show_date_ymd: "show_date d = show_ymd (CHR ''-'') d"
  by (cases d) (simp add: show_ymd_def)

lemma valid_date_bounds:
  assumes "valid_date d"
  shows "d_year d \<le> 9999" "1 \<le> d_month d" "d_month d \<le> 12" "1 \<le> d_day d" "d_day d \<le> 31"
  using assms days_in_month_le by (cases d; auto intro: order_trans)+

lemma strptime_ymd:
  assumes "valid_date d"
  shows "strptime [DY, DLit c, Dm, DLit c, Dd] (show_ymd c d) = Some (Datetime d 0 0 0 0 None)"
proof (cases d)
  case (Date y m dd)
  have b: "y \<le> 9999" "1 \<le> m" "m \<le> 12" "1 \<le> dd" "dd \<le> 31"
    using valid_date_bounds [OF assms] Date by simp_all
  show ?thesis
    unfolding Date show_ymd_def append_Cons append_Nil pydate.sel
    by (rule strptime_I, intro strp_steps b) (use assms Date in \<open>simp_all add: tm0_def\<close>)
qed

lemma strptime_dmy:
  assumes "valid_date d"
  shows "strptime [Dd, DLit c, Dm, DLit c, DY] (show_dmy c d) = Some (Datetime d 0 0 0 0 None)"
proof (cases d)
  case (Date y m dd)
  have b: "y \<le> 9999" "1 \<le> m" "m \<le> 12" "1 \<le> dd" "dd \<le> 31"
    using valid_date_bounds [OF assms] Date by simp_all
  show ?thesis
    unfolding Date show_dmy_def append_Cons append_Nil pydate.sel
    by (rule strptime_I, intro strp_steps b) (use assms Date in \<open>simp_all add: tm0_def\<close>)
qed

lemma strptime_mdy:
  assumes "valid_date d"
  shows "strptime [Dm, DLit c, Dd, DLit c, DY] (show_mdy c d) = Some (Datetime d 0 0 0 0 None)"
proof (cases d)
  case (Date y m dd)
  have b: "y \<le> 9999" "1 \<le> m" "m \<le> 12" "1 \<le> dd" "dd \<le> 31"
    using valid_date_bounds [OF assms] Date by simp_all
  show ?thesis
    unfolding Date show_mdy_def append_Cons append_Nil pydate.sel
    by (rule strptime_I, intro strp_steps b) (use assms Date in \<open>simp_all add: tm0_def\<close>)
qed

end
