(* ===== verification/Domain.thy ===== *)
theory Domain
  imports PyFloat PyTime
begin

text \<open>
  The data the components pass around: the enums of \<open>app/models/enums.py\<close>, the connector output
  schemas of \<open>app/schemas/integration.py\<close>, JSON, and the Python values a row may hold, with
  \<open>str\<close>, \<open>repr\<close> and truth as the source uses them.
\<close>

section \<open>Enums (app/models/enums.py)\<close>

datatype UserRole = OWNER | ADMIN | OPS | VIEWER

datatype LocationType = WAREHOUSE | BRANCH | STORE

datatype TransactionType = IN | OUT | TRANSFER | RETURN | ADJUSTMENT

datatype SyncStatus = PENDING | RUNNING | COMPLETED | FAILED

datatype SyncConnectorType = CSV

text \<open>
  Iterating over an enum class gives its members in the order of their definition: the library's class
  \<open>enum\<close>.
\<close>

lemma UserRole_UNIV: "UNIV = {OWNER, ADMIN, OPS, VIEWER}"
  by (auto intro: UserRole.exhaust)

instantiation UserRole :: enum
begin

definition enum_UserRole :: "UserRole list" where
  "enum_UserRole = [OWNER, ADMIN, OPS, VIEWER]"

definition enum_all_UserRole :: "(UserRole \<Rightarrow> bool) \<Rightarrow> bool" where
  "enum_all_UserRole P \<longleftrightarrow> list_all P [OWNER, ADMIN, OPS, VIEWER]"

definition enum_ex_UserRole :: "(UserRole \<Rightarrow> bool) \<Rightarrow> bool" where
  "enum_ex_UserRole P \<longleftrightarrow> list_ex P [OWNER, ADMIN, OPS, VIEWER]"

instance
  by standard (simp_all only: enum_UserRole_def enum_all_UserRole_def enum_ex_UserRole_def UserRole_UNIV, simp_all)

end

lemma TransactionType_UNIV: "UNIV = {IN, OUT, TRANSFER, RETURN, ADJUSTMENT}"
  by (auto intro: TransactionType.exhaust)

instantiation TransactionType :: enum
begin

definition enum_TransactionType :: "TransactionType list" where
  "enum_TransactionType = [IN, OUT, TRANSFER, RETURN, ADJUSTMENT]"

definition enum_all_TransactionType :: "(TransactionType \<Rightarrow> bool) \<Rightarrow> bool" where
  "enum_all_TransactionType P \<longleftrightarrow> list_all P [IN, OUT, TRANSFER, RETURN, ADJUSTMENT]"

definition enum_ex_TransactionType :: "(TransactionType \<Rightarrow> bool) \<Rightarrow> bool" where
  "enum_ex_TransactionType P \<longleftrightarrow> list_ex P [IN, OUT, TRANSFER, RETURN, ADJUSTMENT]"

instance
  by standard (simp_all only: enum_TransactionType_def enum_all_TransactionType_def enum_ex_TransactionType_def TransactionType_UNIV, simp_all)

end

lemma SyncConnectorType_UNIV: "UNIV = {CSV}"
  by (auto intro: SyncConnectorType.exhaust)

instantiation SyncConnectorType :: enum
begin

definition enum_SyncConnectorType :: "SyncConnectorType list" where
  "enum_SyncConnectorType = [CSV]"

definition enum_all_SyncConnectorType :: "(SyncConnectorType \<Rightarrow> bool) \<Rightarrow> bool" where
  "enum_all_SyncConnectorType P \<longleftrightarrow> list_all P [CSV]"

definition enum_ex_SyncConnectorType :: "(SyncConnectorType \<Rightarrow> bool) \<Rightarrow> bool" where
  "enum_ex_SyncConnectorType P \<longleftrightarrow> list_ex P [CSV]"

instance
  by standard (simp_all only: enum_SyncConnectorType_def enum_all_SyncConnectorType_def enum_ex_SyncConnectorType_def SyncConnectorType_UNIV, simp_all)

end

text \<open>A \<open>StrEnum\<close> member is its value; calling the class with a value finds the member.\<close>

fun role_value :: "UserRole \<Rightarrow> string" where
  "role_value OWNER = ''owner''"
| "role_value ADMIN = ''admin''"
| "role_value OPS = ''ops''"
| "role_value VIEWER = ''viewer''"

fun txn_value :: "TransactionType \<Rightarrow> string" where
  "txn_value IN = ''in''"
| "txn_value OUT = ''out''"
| "txn_value TRANSFER = ''transfer''"
| "txn_value RETURN = ''return''"
| "txn_value ADJUSTMENT = ''adjustment''"

fun status_value :: "SyncStatus \<Rightarrow> string" where
  "status_value PENDING = ''pending''"
| "status_value RUNNING = ''running''"
| "status_value COMPLETED = ''completed''"
| "status_value FAILED = ''failed''"

fun connector_value :: "SyncConnectorType \<Rightarrow> string" where
  "connector_value CSV = ''csv''"

definition enum_of_value :: "('a::enum \<Rightarrow> string) \<Rightarrow> string \<Rightarrow> 'a option" where
  "enum_of_value val s = find (\<lambda>m. val m = s) Enum.enum"

definition role_of :: "string \<Rightarrow> UserRole option" where
  "role_of = enum_of_value role_value"

definition txn_of :: "string \<Rightarrow> TransactionType option" where
  "txn_of = enum_of_value txn_value"

definition connector_of :: "string \<Rightarrow> SyncConnectorType option" where
  "connector_of = enum_of_value connector_value"

lemma enum_of_value_of:
  assumes "inj val"
  shows "enum_of_value val (val m) = Some m"
proof -
  have "find (\<lambda>x. val x = val m) xs = Some m" if "m \<in> set xs" for xs
    using that by (induction xs) (auto dest: injD[OF assms])
  then show ?thesis by (simp add: enum_of_value_def in_enum)
qed

lemma inj_values: "inj role_value" "inj txn_value" "inj connector_value"
  by (rule injI; case_tac x; case_tac y; simp)+

lemma role_of_value [simp]: "role_of (role_value r) = Some r"
  by (simp add: role_of_def enum_of_value_of inj_values)

lemma txn_of_value [simp]: "txn_of (txn_value t) = Some t"
  by (simp add: txn_of_def enum_of_value_of inj_values)

lemma connector_of_value [simp]: "connector_of (connector_value c) = Some c"
  by (simp add: connector_of_def enum_of_value_of inj_values)

lemma enum_of_value_sound: "enum_of_value val s = Some m \<Longrightarrow> val m = s"
  by (auto simp: enum_of_value_def find_Some_iff)

lemma txn_value_plain [simp]: "strip (txn_value t) = txn_value t" "lower (txn_value t) = txn_value t"
    "txn_value t \<noteq> []"
  by (cases t; simp add: strip_def is_space_def lower_def lower_char_def Let_def)+

section \<open>repr\<close>

text \<open>
  \<open>repr\<close> of a string: single quotes unless the string has a single quote and no double one;
  backslash, the quote and what is not printable are escaped.
\<close>

definition hex_char :: "nat \<Rightarrow> char" where
  "hex_char d = (if d < 10 then digit_char d else char_of (d + 87))"

definition repr_char :: "char \<Rightarrow> char \<Rightarrow> string" where
  "repr_char q c = (let n = (of_char c :: nat) in
     if c = q \<or> n = 92 then [char_of (92::nat), c]
     else if n = 9 then [char_of (92::nat), CHR ''t'']
     else if n = 10 then [char_of (92::nat), CHR ''n'']
     else if n = 13 then [char_of (92::nat), CHR ''r'']
     else if n < 32 \<or> 127 \<le> n \<and> n \<le> 160 \<or> n = 173
       then [char_of (92::nat), CHR ''x'', hex_char (n div 16), hex_char (n mod 16)]
     else [c])"

definition py_repr :: "string \<Rightarrow> string" where
  "py_repr s =
     (let sq = char_of (39::nat); dq = char_of (34::nat);
          q = (if sq \<in> set s \<and> dq \<notin> set s then dq else sq)
      in q # concat (map (repr_char q) s) @ [q])"

text \<open>
  \<open>repr\<close> of a float: the fewest digits that give the double back, the nearer of two such; an
  exponent from \<open>1e16\<close> on and below \<open>1e-4\<close>.
\<close>

definition fl_same :: "pyfloat \<Rightarrow> pyfloat \<Rightarrow> bool" where
  "fl_same f g = (case (f, g) of
     (Fin m e, Fin m' e') \<Rightarrow> m * 2 ^ nat e * 2 ^ nat (- e') = m' * 2 ^ nat e' * 2 ^ nat (- e)
   | _ \<Rightarrow> f = g)"

definition dec_exponent :: "int \<Rightarrow> int \<Rightarrow> int" where
  "dec_exponent n d =
     (if d \<le> n then int (length (show_nat (nat (n div d))))
      else (case find (\<lambda>j. d \<le> n * 10 ^ Suc j) [0..<400] of Some j \<Rightarrow> - int j | None \<Rightarrow> 0))"

definition digits_for :: "pyfloat \<Rightarrow> int \<Rightarrow> int \<Rightarrow> int \<Rightarrow> nat \<Rightarrow> int option" where
  "digits_for f n d k p =
     (let up = nat (int p - k); dn = nat (k - int p);
          N = n * 10 ^ up; D = d * 10 ^ dn; q = N div D; r = N mod D;
          good = (\<lambda>c. fl_same (fl_round (c * 10 ^ dn) (10 ^ up)) f)
      in if good q \<and> (2 * r \<le> D \<or> \<not> good (q + 1)) then Some q
         else if good (q + 1) then Some (q + 1) else None)"

definition strip_zeros :: "string \<Rightarrow> string" where
  "strip_zeros s = rev (dropWhile (\<lambda>c. c = CHR ''0'') (rev s))"

definition layout_digits :: "string \<Rightarrow> int \<Rightarrow> string" where
  "layout_digits ds k =
     (if - 4 < k \<and> k \<le> 16 then
        (if k \<le> 0 then ''0.'' @ replicate (nat (- k)) (CHR ''0'') @ ds
         else if int (length ds) \<le> k then ds @ replicate (nat k - length ds) (CHR ''0'') @ ''.0''
         else take (nat k) ds @ ''.'' @ drop (nat k) ds)
      else take 1 ds @ (if length ds = 1 then [] else ''.'' @ drop 1 ds) @ ''e''
        @ (if k - 1 < 0 then ''-'' else ''+'') @ pad_nat 2 (nat \<bar>k - 1\<bar>))"

fun float_repr :: "pyfloat \<Rightarrow> string" where
  "float_repr NaN = ''nan''"
| "float_repr (Infty b) = (if b then ''-inf'' else ''inf'')"
| "float_repr (Fin m e) =
     (if m = 0 then ''0.0'' else
      let n = \<bar>m\<bar> * 2 ^ nat e; d = 2 ^ nat (- e); k = dec_exponent n d; f = Fin \<bar>m\<bar> e;
          body = (case first_some (digits_for f n d k) [1..<18] of None \<Rightarrow> []
            | Some c \<Rightarrow> let s = show_nat (nat c); p = first_some (\<lambda>p. map_option (\<lambda>_. p) (digits_for f n d k p)) [1..<18]
                        in layout_digits (strip_zeros s) (k + int (length s) - int (case p of None \<Rightarrow> 0 | Some q \<Rightarrow> q)))
      in (if m < 0 then ''-'' else []) @ body)"

section \<open>JSON and Python values\<close>

datatype json =
    JNull
  | JBool bool
  | JInt int
  | JFloat pyfloat
  | JStr string
  | JList "json list"
  | JObj "(string \<times> json) list"

definition commas :: "string list \<Rightarrow> string" where
  "commas ss = concat (case ss of [] \<Rightarrow> [] | s # rest \<Rightarrow> s # map (\<lambda>t. '', '' @ t) rest)"

fun json_repr :: "json \<Rightarrow> string" where
  "json_repr JNull = ''None''"
| "json_repr (JBool b) = (if b then ''True'' else ''False'')"
| "json_repr (JInt i) = show_int i"
| "json_repr (JFloat f) = float_repr f"
| "json_repr (JStr s) = py_repr s"
| "json_repr (JList js) = ''['' @ commas (map json_repr js) @ '']''"
| "json_repr (JObj kvs) =
     ''{'' @ commas (map (\<lambda>(k, j). py_repr k @ '': '' @ json_repr j) kvs) @ ''}''"

text \<open>
  The values a row can hold on its way from a connector to the database.  A member of the
  \<open>StrEnum\<close> \<open>TransactionType\<close> is also a string.
\<close>

datatype pyval =
    VNone
  | VStr string
  | VInt int
  | VFloat pyfloat
  | VDate pydate
  | VDatetime pydatetime
  | VTxn TransactionType
  | VDict "(string \<times> json) list"

type_synonym row = "(string, pyval) pydict"

fun fl_zero :: "pyfloat \<Rightarrow> bool" where
  "fl_zero (Fin m e) = (m = 0)"
| "fl_zero _ = False"

fun truthy :: "pyval \<Rightarrow> bool" where
  "truthy VNone = False"
| "truthy (VStr s) = (s \<noteq> [])"
| "truthy (VInt i) = (i \<noteq> 0)"
| "truthy (VFloat f) = (\<not> fl_zero f)"
| "truthy (VDate _) = True"
| "truthy (VDatetime _) = True"
| "truthy (VTxn _) = True"
| "truthy (VDict kvs) = (kvs \<noteq> [])"

fun show_offset :: "int \<Rightarrow> string" where
  "show_offset us =
     (let a = nat \<bar>us\<bar>; s = a div 1000000; f = a mod 1000000 in
      (if us < 0 then ''-'' else ''+'') @ pad_nat 2 (s div 3600) @ '':'' @ pad_nat 2 (s div 60 mod 60)
      @ (if s mod 60 = 0 \<and> f = 0 then [] else '':'' @ pad_nat 2 (s mod 60))
      @ (if f = 0 then [] else ''.'' @ pad_nat 6 f))"

fun show_datetime :: "pydatetime \<Rightarrow> string" where
  "show_datetime (Datetime d h mi s us tz) =
     show_date d @ '' '' @ pad_nat 2 h @ '':'' @ pad_nat 2 mi @ '':'' @ pad_nat 2 s
     @ (if us = 0 then [] else ''.'' @ pad_nat 6 us)
     @ (case tz of None \<Rightarrow> [] | Some off \<Rightarrow> show_offset off)"

fun py_str :: "pyval \<Rightarrow> string" where
  "py_str VNone = ''None''"
| "py_str (VStr s) = s"
| "py_str (VInt i) = show_int i"
| "py_str (VFloat f) = float_repr f"
| "py_str (VDate d) = show_date d"
| "py_str (VDatetime dt) = show_datetime dt"
| "py_str (VTxn t) = txn_value t"
| "py_str (VDict kvs) = json_repr (JObj kvs)"

text \<open>\<open>row.get(k)\<close>.\<close>

definition row_get :: "row \<Rightarrow> string \<Rightarrow> pyval" where
  "row_get r k = dict_get_or r k VNone"

text \<open>\<open>str(x).strip() if (x := mapped.get(k)) else None\<close>.\<close>

definition opt_text :: "pyval \<Rightarrow> string option" where
  "opt_text v = (if truthy v then Some (strip (py_str v)) else None)"

text \<open>\<open>str(exc)\<close> of the errors whose text the source puts into a message of its own.\<close>

fun exn_text :: "exn \<Rightarrow> string" where
  "exn_text (NormalizationError m) = m"
| "exn_text (ValueError m) = m"
| "exn_text (FloatParseError s) = ''could not convert string to float: '' @ py_repr s"
| "exn_text NaNToIntError = ''cannot convert float NaN to integer''"
| "exn_text (StrptimeError f s) = ''time data '' @ py_repr s @ '' does not match format '' @ py_repr f"
| "exn_text (ValidationError f) = f"
| "exn_text (OverflowError m) = m"
| "exn_text _ = []"

section \<open>Connector output schemas (app/schemas/integration.py)\<close>

record NormalizedProduct =
  np_sku_code :: string
  np_name :: string
  np_category :: "string option"
  np_unit_of_measure :: string
  np_unit_cost_paise :: int
  np_selling_price_paise :: int
  np_industry_attributes :: "(string \<times> json) list"

record NormalizedInventoryRecord =
  ni_sku_code :: string
  ni_quantity :: int
  ni_location_name :: string
  ni_batch_no :: "string option"
  ni_unit_cost_paise :: int

record NormalizedTransaction =
  nt_sku_code :: string
  nt_location_name :: string
  nt_transaction_type :: TransactionType
  nt_quantity :: int
  nt_unit_cost_paise :: int
  nt_reference_no :: "string option"
  nt_transaction_date :: pydatetime

record NormalizedBatch =
  nb_sku_code :: string
  nb_batch_no :: string
  nb_manufactured_date :: "pydate option"
  nb_expiry_date :: "pydate option"
  nb_quantity :: int
  nb_location_name :: "string option"

end
