(* ===== verification/Normalizer.thy ===== *)
theory Normalizer
  imports Domain
begin

text \<open>
  The pure half of \<open>app/integrations/normalizer.py\<close>: the conversion helpers of
  \<open>DataNormalizer\<close> and its four \<open>normalize_*\<close> methods, which turn a row into a record or raise.
  The half that writes to the database is in the theory Persist.
\<close>

section \<open>Conversions\<close>

definition paise_of_float :: "pyfloat \<Rightarrow> exn + int" where
  "paise_of_float f = py_round_int (fl_scale 100 f)"

definition paise_of_text :: "string \<Rightarrow> exn + int" where
  "paise_of_text s = (let cleaned = strip (drop_commas s) in
     if cleaned = [] then Inr 0 else rbind (parse_float cleaned) paise_of_float)"

fun to_paise :: "pyval \<Rightarrow> exn + int" where
  "to_paise VNone = Inr 0"
| "to_paise (VInt i) = Inr i"
| "to_paise (VFloat f) = paise_of_float f"
| "to_paise (VStr s) = paise_of_text s"
| "to_paise (VTxn t) = paise_of_text (txn_value t)"
| "to_paise _ = Inr 0"

definition int_of_text :: "string \<Rightarrow> exn + int" where
  "int_of_text s = (let cleaned = strip (drop_commas s) in
     if cleaned = [] then Inr 0 else rbind (parse_float cleaned) py_trunc_int)"

fun to_int :: "pyval \<Rightarrow> exn + int" where
  "to_int VNone = Inr 0"
| "to_int (VInt i) = Inr i"
| "to_int (VFloat f) = py_trunc_int f"
| "to_int (VStr s) = int_of_text s"
| "to_int (VTxn t) = int_of_text (txn_value t)"
| "to_int _ = Inr 0"

text \<open>
  \<open>re.match(r"^\d{4}-\d{2}-\d{2}$", s)\<close> and its like, written as a shape in which 9 stands for a
  digit.  (The string is stripped, so \<open>$\<close> has no newline to stop before.)
\<close>

definition matches_shape :: "string \<Rightarrow> string \<Rightarrow> bool" where
  "matches_shape sh s =
     list_all2 (\<lambda>p c. if p = CHR ''9'' then is_digit c else c = p) sh s"

definition strptime_date :: "string \<Rightarrow> directive list \<Rightarrow> string \<Rightarrow> exn + pyval" where
  "strptime_date name f s = (case strptime f s of
     None \<Rightarrow> Inl (StrptimeError name s) | Some dt \<Rightarrow> Inr (VDate (dt_date dt)))"

definition parse_date_text :: "string \<Rightarrow> exn + pyval" where
  "parse_date_text s =
     (if matches_shape ''9999-99-99'' s then strptime_date ''%Y-%m-%d'' fmt_Y_m_d s
      else if matches_shape ''99-99-9999'' s then strptime_date ''%d-%m-%Y'' fmt_d_m_Y s
      else if matches_shape ''99/99/9999'' s then strptime_date ''%m/%d/%Y'' fmt_m_d_Y_slash s
      else if matches_shape ''9999/99/99'' s then strptime_date ''%Y/%m/%d'' fmt_Y_m_d_slash s
      else Inl (ValueError (''Unrecognized date format: '' @ py_repr s)))"

fun parse_date :: "pyval \<Rightarrow> exn + pyval" where
  "parse_date VNone = Inr VNone"
| "parse_date (VDate d) = Inr (VDate d)"
| "parse_date (VDatetime dt) = Inr (VDatetime dt)"
| "parse_date v = parse_date_text (strip (py_str v))"

definition parse_datetime_text :: "string \<Rightarrow> exn + pydatetime" where
  "parse_datetime_text s =
     (case first_some (\<lambda>f. strptime f s) [fmt_T, fmt_space, fmt_Tz] of
        Some dt \<Rightarrow> Inr (replace_utc dt)
      | None \<Rightarrow>
        (case parse_date_text (strip s) of
           Inr (VDate d) \<Rightarrow> Inr (midnight_utc d)
         | _ \<Rightarrow> Inl (ValueError (''Unrecognized datetime format: '' @ py_repr s))))"

fun parse_datetime :: "pyval \<Rightarrow> exn + pydatetime" where
  "parse_datetime VNone = Inl (ValueError ''datetime value is required'')"
| "parse_datetime (VDatetime dt) = Inr dt"
| "parse_datetime v = parse_datetime_text (strip (py_str v))"

text \<open>\<open>mapping\<close> is target field to source column; an empty one leaves the row as it is.\<close>

definition apply_mapping :: "row \<Rightarrow> (string, string) pydict \<Rightarrow> row" where
  "apply_mapping r mapping =
     (if mapping = [] then r
      else foldl (\<lambda>mapped (target_field, source_column).
             case map_of r source_column of None \<Rightarrow> mapped
             | Some v \<Rightarrow> dict_set target_field v mapped) [] mapping)"

section \<open>The normalize methods\<close>

definition missing :: "string \<Rightarrow> exn" where
  "missing field = NormalizationError (''Missing required field: '' @ field)"

text \<open>\<open>except (ValueError, TypeError) as exc: raise NormalizationError(prefix + str(exc))\<close>.\<close>

definition rewrap :: "string \<Rightarrow> exn + 'a \<Rightarrow> exn + 'a" where
  "rewrap prefix r = (case r of
     Inl e \<Rightarrow> Inl (if is_value_error e then NormalizationError (prefix @ exn_text e) else e)
   | Inr v \<Rightarrow> Inr v)"

text \<open>\<open>v or {}\<close> for a field that the schema declares a dict.\<close>

definition attributes_of :: "pyval \<Rightarrow> exn + (string \<times> json) list" where
  "attributes_of v = (if \<not> truthy v then Inr [] else
     case v of VDict kvs \<Rightarrow> Inr kvs | _ \<Rightarrow> Inl (ValidationError ''industry_attributes''))"

definition normalize_product :: "row \<Rightarrow> (string, string) pydict \<Rightarrow> exn + NormalizedProduct" where
  "normalize_product r mapping =
     (let mapped = apply_mapping r mapping;
          sku_code = row_get mapped ''sku_code'';
          name = row_get mapped ''name'';
          uom = (let u = row_get mapped ''unit_of_measure'' in if truthy u then u else VStr ''pcs'')
      in if \<not> truthy sku_code then Inl (missing ''sku_code'')
         else if \<not> truthy name then Inl (missing ''name'')
         else rewrap []
           (rbind (to_paise (dict_get_or mapped ''unit_cost_paise'' (VInt 0))) (\<lambda>cost.
            rbind (to_paise (dict_get_or mapped ''selling_price_paise'' (VInt 0))) (\<lambda>price.
            rbind (attributes_of (row_get mapped ''industry_attributes'')) (\<lambda>attrs.
            Inr \<lparr>np_sku_code = strip (py_str sku_code),
                 np_name = strip (py_str name),
                 np_category = opt_text (row_get mapped ''category''),
                 np_unit_of_measure = strip (py_str uom),
                 np_unit_cost_paise = cost,
                 np_selling_price_paise = price,
                 np_industry_attributes = attrs\<rparr>)))))"

definition normalize_inventory ::
  "row \<Rightarrow> (string, string) pydict \<Rightarrow> exn + NormalizedInventoryRecord" where
  "normalize_inventory r mapping =
     (let mapped = apply_mapping r mapping;
          sku_code = row_get mapped ''sku_code'';
          location_name = row_get mapped ''location_name''
      in if \<not> truthy sku_code then Inl (missing ''sku_code'')
         else if \<not> truthy location_name then Inl (missing ''location_name'')
         else rbind (rewrap ''Invalid quantity: '' (to_int (dict_get_or mapped ''quantity'' (VInt 0)))) (\<lambda>quantity.
              rbind (to_paise (dict_get_or mapped ''unit_cost_paise'' (VInt 0))) (\<lambda>cost.
              Inr \<lparr>ni_sku_code = strip (py_str sku_code),
                   ni_quantity = quantity,
                   ni_location_name = strip (py_str location_name),
                   ni_batch_no = opt_text (row_get mapped ''batch_no''),
                   ni_unit_cost_paise = cost\<rparr>)))"

text \<open>\<open>f"{v!r}"\<close> in the message about a transaction type.\<close>

fun repr_datetime_zone :: "int option \<Rightarrow> string" where
  "repr_datetime_zone None = []"
| "repr_datetime_zone (Some off) =
     (if off = 0 then '', tzinfo=datetime.timezone.utc''
      else '', tzinfo=datetime.timezone(datetime.timedelta('' @
        (let days = off div 86400000000; secs = off mod 86400000000 div 1000000; us = off mod 1000000 in
         commas ((if days = 0 then [] else [''days='' @ show_int days])
                 @ (if secs = 0 then [] else [''seconds='' @ show_int secs])
                 @ (if us = 0 then [] else [''microseconds='' @ show_int us])))
        @ ''))'')"

fun value_repr :: "pyval \<Rightarrow> string" where
  "value_repr (VStr s) = py_repr s"
| "value_repr (VDate (Date y m d)) =
     ''datetime.date('' @ commas (map show_nat [y, m, d]) @ '')''"
| "value_repr (VDatetime (Datetime (Date y m d) h mi s us tz)) =
     ''datetime.datetime('' @ commas (map show_nat ([y, m, d, h, mi]
        @ (if s = 0 \<and> us = 0 then [] else [s]) @ (if us = 0 then [] else [us])))
     @ repr_datetime_zone tz @ '')''"
| "value_repr v = py_str v"

definition to_txn_type :: "pyval \<Rightarrow> exn + TransactionType" where
  "to_txn_type v = (case txn_of (lower (strip (py_str v))) of
     None \<Rightarrow> Inl (NormalizationError (''Invalid transaction_type: '' @ value_repr v))
   | Some t \<Rightarrow> Inr t)"

definition normalize_transaction ::
  "row \<Rightarrow> (string, string) pydict \<Rightarrow> exn + NormalizedTransaction" where
  "normalize_transaction r mapping =
     (let mapped = apply_mapping r mapping;
          sku_code = row_get mapped ''sku_code'';
          location_name = row_get mapped ''location_name'';
          txn_date = row_get mapped ''transaction_date''
      in if \<not> truthy sku_code then Inl (missing ''sku_code'')
         else if \<not> truthy location_name then Inl (missing ''location_name'')
         else if txn_date = VNone then Inl (missing ''transaction_date'')
         else rbind (rewrap ''Invalid transaction_date: '' (parse_datetime txn_date)) (\<lambda>parsed_date.
              rbind (to_txn_type (dict_get_or mapped ''transaction_type'' (VStr ''in''))) (\<lambda>tt.
              rbind (rewrap ''Invalid quantity: '' (to_int (dict_get_or mapped ''quantity'' (VInt 0)))) (\<lambda>quantity.
              rbind (to_paise (dict_get_or mapped ''unit_cost_paise'' (VInt 0))) (\<lambda>cost.
              Inr \<lparr>nt_sku_code = strip (py_str sku_code),
                   nt_location_name = strip (py_str location_name),
                   nt_transaction_type = tt,
                   nt_quantity = quantity,
                   nt_unit_cost_paise = cost,
                   nt_reference_no = opt_text (row_get mapped ''reference_no''),
                   nt_transaction_date = parsed_date\<rparr>)))))"

text \<open>
  A \<open>date | None\<close> field of a pydantic model: a date is taken as it is, a datetime only at
  midnight.
\<close>

fun date_field :: "pyval \<Rightarrow> exn + pydate option" where
  "date_field VNone = Inr None"
| "date_field (VDate d) = Inr (Some d)"
| "date_field (VDatetime (Datetime d h mi s us tz)) =
     (if h = 0 \<and> mi = 0 \<and> s = 0 \<and> us = 0 then Inr (Some d) else Inl (ValidationError ''date''))"
| "date_field _ = Inl (ValidationError ''date'')"

definition parse_optional_date :: "pyval \<Rightarrow> exn + pyval" where
  "parse_optional_date v = (if truthy v then parse_date v else Inr VNone)"

definition normalize_batch :: "row \<Rightarrow> (string, string) pydict \<Rightarrow> exn + NormalizedBatch" where
  "normalize_batch r mapping =
     (let mapped = apply_mapping r mapping;
          sku_code = row_get mapped ''sku_code'';
          batch_no = row_get mapped ''batch_no''
      in if \<not> truthy sku_code then Inl (missing ''sku_code'')
         else if \<not> truthy batch_no then Inl (missing ''batch_no'')
         else rbind (rewrap ''Invalid quantity: '' (to_int (dict_get_or mapped ''quantity'' (VInt 0)))) (\<lambda>quantity.
              rbind (parse_optional_date (row_get mapped ''manufactured_date'')) (\<lambda>mfg.
              rbind (parse_optional_date (row_get mapped ''expiry_date'')) (\<lambda>exp.
              rbind (date_field mfg) (\<lambda>mfg_date.
              rbind (date_field exp) (\<lambda>exp_date.
              Inr \<lparr>nb_sku_code = strip (py_str sku_code),
                   nb_batch_no = strip (py_str batch_no),
                   nb_manufactured_date = mfg_date,
                   nb_expiry_date = exp_date,
                   nb_quantity = quantity,
                   nb_location_name = opt_text (row_get mapped ''location_name'')\<rparr>))))))"

section \<open>Lemmas\<close>

lemma rewrap_Inr [simp, res_simps]: "rewrap p (Inr v) = Inr v"
  by (simp add: rewrap_def)

lemma rewrap_eq_Inr [res_simps]: "rewrap p r = Inr v \<longleftrightarrow> r = Inr v"
  by (cases r) (auto simp: rewrap_def)

lemma row_get_Nil [simp]: "row_get [] k = VNone"
  by (simp add: row_get_def dict_get_or_def)

lemma row_get_Cons [simp]: "row_get ((k', v) # r) k = (if k = k' then v else row_get r k)"
  by (simp add: row_get_def dict_get_or_def)

lemma dict_get_or_Nil [simp]: "dict_get_or [] k v = v"
  by (simp add: dict_get_or_def)

lemma dict_get_or_Cons [simp]:
  "dict_get_or ((k', w) # r) k v = (if k = k' then w else dict_get_or r k v)"
  by (simp add: dict_get_or_def)

lemma apply_no_mapping [simp]: "apply_mapping r [] = r"
  by (simp add: apply_mapping_def)

lemma to_txn_type_member [simp]: "to_txn_type (VTxn t) = Inr t"
  by (simp add: to_txn_type_def)

lemma opt_text_Some: "opt_text v = Some t \<Longrightarrow> strip t = t"
  by (auto simp: opt_text_def split: if_splits)

text \<open>What the record holds is stripped, whatever the row held.\<close>

lemma normalize_product_stripped:
  assumes "normalize_product r m = Inr p"
  shows "strip (np_sku_code p) = np_sku_code p" "strip (np_name p) = np_name p"
    "strip (np_unit_of_measure p) = np_unit_of_measure p"
    "np_category p = Some c \<Longrightarrow> strip c = c"
  using assms
  by (auto simp: normalize_product_def Let_def res_simps dest: opt_text_Some split: if_splits)

section \<open>Amounts\<close>

text \<open>The amount of \<open>k\<close> paise written as rupees with two decimals.\<close>

definition rupee_text :: "nat \<Rightarrow> string" where
  "rupee_text k = show_nat (k div 100) @ ''.'' @ pad_nat 2 (k mod 100)"

lemma digits_tail_all: "\<forall>c \<in> set s. is_digit c \<Longrightarrow> digits_tail s = (s, [])"
  by (induction s) auto

lemma digits_tail_dot:
  "\<forall>c \<in> set s. is_digit c \<Longrightarrow> digits_tail (s @ CHR ''.'' # r) = (s, CHR ''.'' # r)"
  by (induction s) (auto simp: is_digit_def)

lemma digit_part_all:
  "\<forall>c \<in> set s. is_digit c \<Longrightarrow> digit_part s = (s, [])"
  by (cases s) (simp_all add: digit_part_def digits_tail_all del: digits_tail.simps)

lemma digit_part_dot:
  assumes "\<forall>c \<in> set s. is_digit c"
  shows "digit_part (s @ CHR ''.'' # r) = (s, CHR ''.'' # r)"
proof (cases s)
  case Nil
  then show ?thesis by (simp add: digit_part_def is_digit_def)
next
  case (Cons c t)
  with assms digits_tail_dot [OF assms, of r] show ?thesis
    by (simp add: digit_part_def del: digits_tail.simps)
qed

lemma digits_no_comma: "\<forall>c \<in> set s. is_digit c \<or> c = CHR ''.'' \<Longrightarrow> drop_commas s = s"
  by (auto simp: drop_commas_def is_digit_def intro!: filter_True)

lemma digits_strip: "\<forall>c \<in> set s. is_digit c \<or> c = CHR ''.'' \<Longrightarrow> strip s = s"
  by (rule strip_no_space) (auto simp: is_space_def is_digit_def Let_def)

lemma rupee_text_chars: "\<forall>c \<in> set (rupee_text k). is_digit c \<or> c = CHR ''.''"
  using show_nat_digits [of "k div 100"] pad_nat_digits [of 2 "k mod 100"]
  by (auto simp: rupee_text_def)

lemma lower_digit_char: "is_digit c \<Longrightarrow> lower_char c = c"
  by (simp add: is_digit_def lower_char_def Let_def)

lemma read_nat_pad2:
  "j < 100 \<Longrightarrow> read_nat (s @ pad_nat 2 j) = 100 * read_nat s + j"
proof -
  assume j: "j < 100"
  have "j div 10 < 10" "10 * (j div 10) + j mod 10 = j" using j by auto
  then show ?thesis using j
    by (simp add: pad_nat_two read_nat_def)
qed

lemma parse_rupee_text: "parse_float (rupee_text k) = Inr (fl_round (int k) 100)"
proof -
  let ?a = "show_nat (k div 100)" and ?b = "pad_nat 2 (k mod 100)"
  have da: "\<forall>c \<in> set ?a. is_digit c" by (rule show_nat_digits)
  have db: "\<forall>c \<in> set ?b. is_digit c" by (rule pad_nat_digits)
  obtain c cs where ca: "?a = c # cs" "is_digit c"
    using da show_nat_nonempty [of "k div 100"] by (cases ?a) auto
  have head: "lower (rupee_text k) = c # lower (cs @ ''.'' @ ?b)"
    using ca by (simp add: rupee_text_def lower_def lower_digit_char)
  have "c \<noteq> CHR ''i''" "c \<noteq> CHR ''n''" "c \<noteq> CHR ''-''" "c \<noteq> CHR ''+''"
    using ca(2) by (auto simp: is_digit_def)
  then have nosign: "sign_part (rupee_text k) = (False, rupee_text k)"
    and noname: "lower (rupee_text k) \<noteq> ''inf''" "lower (rupee_text k) \<noteq> ''infinity''"
      "lower (rupee_text k) \<noteq> ''nan''"
    using ca(1) head by (simp_all add: sign_part_def rupee_text_def)
  have dp: "digit_part (rupee_text k) = (?a, CHR ''.'' # ?b)"
    using digit_part_dot [OF da, of ?b] by (simp add: rupee_text_def)
  have len: "length ?b = 2" by (rule length_pad_nat) simp_all
  have val: "read_nat (?a @ ?b) = k"
    using read_nat_pad2 [of "k mod 100" ?a] by simp
  show ?thesis
    using nosign noname dp len val show_nat_nonempty [of "k div 100"]
    by (simp add: parse_float_def digits_strip [OF rupee_text_chars] digit_part_all [OF db]
        exponent_part_def decimal_float_def Let_def)
qed

lemma paise_of_rupee_text:
  assumes "k \<le> 2 ^ 50"
  shows "paise_of_text (rupee_text k) = Inr (int k)"
proof -
  have "rupee_text k \<noteq> []" by (simp add: rupee_text_def)
  moreover have "\<bar>int k\<bar> \<le> 2 ^ 50" using assms by simp
  ultimately show ?thesis
    using paise_exact [of "int k"]
    by (simp add: paise_of_text_def Let_def digits_no_comma [OF rupee_text_chars]
        digits_strip [OF rupee_text_chars] parse_rupee_text paise_of_float_def)
qed

end
