(* ===== verification/Connector.thy ===== *)
theory Connector
  imports Normalizer "HOL-Library.Char_ord" "HOL-Library.List_Lexorder"
begin

text \<open>
  \<open>app/integrations/csv_connector.py\<close> and \<open>app/integrations/factory.py\<close>: the registry of
  connectors, and the CSV/Excel connector, which maps the rows of a data frame to records.
  Reading the file is pandas' work: \<open>readers\<close> holds \<open>pd.read_csv\<close> and \<open>pd.read_excel\<close> (both
  with \<open>dtype=str\<close>) as functions of their arguments, and every definition that reads takes it.
\<close>

section \<open>Paths\<close>

text \<open>\<open>Path(p).name\<close> and \<open>Path(p).suffix\<close>.\<close>

fun split_on :: "char \<Rightarrow> string \<Rightarrow> string list" where
  "split_on c [] = [[]]"
| "split_on c (x # xs) =
     (if x = c then [] # split_on c xs
      else (case split_on c xs of [] \<Rightarrow> [[x]] | s # ss \<Rightarrow> (x # s) # ss))"

lemma split_on_nonempty: "split_on c xs \<noteq> []"
  by (induction xs) (auto split: list.splits)

lemma split_on_append: "split_on c (xs @ c # ys) = split_on c xs @ split_on c ys"
proof (induction xs)
  case (Cons x xs)
  with split_on_nonempty [of c xs] show ?case by (auto split: list.splits)
qed simp

lemma split_on_absent: "c \<notin> set xs \<Longrightarrow> split_on c xs = [xs]"
  by (induction xs) auto

definition path_name :: "string \<Rightarrow> string" where
  "path_name p =
     (case filter (\<lambda>s. s \<noteq> [] \<and> s \<noteq> ''.'') (split_on (CHR ''/'') p) of
        [] \<Rightarrow> [] | ss \<Rightarrow> last ss)"

text \<open>The part of a string before its last dot, and the rest with the dot.\<close>

definition before_last_dot :: "string \<Rightarrow> string" where
  "before_last_dot s = rev (tl (dropWhile (\<lambda>c. c \<noteq> CHR ''.'') (rev s)))"

definition from_last_dot :: "string \<Rightarrow> string" where
  "from_last_dot s = CHR ''.'' # rev (takeWhile (\<lambda>c. c \<noteq> CHR ''.'') (rev s))"

definition name_suffix :: "string \<Rightarrow> string" where
  "name_suffix name =
     (if CHR ''.'' \<in> set name \<and> (\<exists>c \<in> set (before_last_dot name). c \<noteq> CHR ''.'')
      then from_last_dot name else [])"

definition path_suffix :: "string \<Rightarrow> string" where
  "path_suffix p = name_suffix (path_name p)"

section \<open>The registry (app/integrations/factory.py)\<close>

type_synonym 'c registry = "(string, 'c) pydict"

definition factory_register :: "string \<Rightarrow> 'c \<Rightarrow> 'c registry \<Rightarrow> 'c registry" where
  "factory_register erp_type connector_cls reg = dict_set erp_type connector_cls reg"

definition factory_get :: "'c registry \<Rightarrow> string \<Rightarrow> exn + 'c" where
  "factory_get reg erp_type = (case map_of reg erp_type of
     None \<Rightarrow> Inl (ValueError (''Unknown ERP type: '' @ py_repr erp_type
       @ ''. Supported: '' @ commas (sort (map fst reg))))
   | Some cls \<Rightarrow> Inr cls)"

datatype connector_class = CSVConnectorClass

text \<open>The registry once \<open>app.integrations\<close> has been imported.\<close>

definition registry :: "connector_class registry" where
  "registry = factory_register ''csv'' CSVConnectorClass []"

section \<open>The connector's configuration\<close>

datatype sheet = SheetIndex int | SheetName string | NoSheet

text \<open>A missing key is \<open>None\<close>; \<open>file_path\<close> is required.\<close>

record connector_config =
  cfg_file_path :: string
  cfg_mappings :: "(string, (string, string) pydict) pydict option"
  cfg_delimiter :: "string option"
  cfg_sheet_name :: "sheet option"
  cfg_entity_type :: "string option"

record CSVConnector =
  cc_file_path :: string
  cc_mappings :: "(string, (string, string) pydict) pydict"
  cc_delimiter :: string
  cc_sheet_name :: sheet
  cc_entity_type :: string

definition get_or :: "'a option \<Rightarrow> 'a \<Rightarrow> 'a" where
  "get_or x d = (case x of None \<Rightarrow> d | Some v \<Rightarrow> v)"

definition csv_init :: "connector_config \<Rightarrow> CSVConnector" where
  "csv_init config =
     \<lparr>cc_file_path = cfg_file_path config,
      cc_mappings = get_or (cfg_mappings config) [],
      cc_delimiter = get_or (cfg_delimiter config) '','',
      cc_sheet_name = get_or (cfg_sheet_name config) (SheetIndex 0),
      cc_entity_type = get_or (cfg_entity_type config) ''products''\<rparr>"

definition DEFAULT_PRODUCT_MAPPING :: "(string, string) pydict" where
  "DEFAULT_PRODUCT_MAPPING =
     [(''sku_code'', ''SKU Code''), (''name'', ''Product Name''), (''category'', ''Category''),
      (''unit_of_measure'', ''UOM''), (''unit_cost_paise'', ''Unit Cost''),
      (''selling_price_paise'', ''Selling Price'')]"

definition DEFAULT_TRANSACTION_MAPPING :: "(string, string) pydict" where
  "DEFAULT_TRANSACTION_MAPPING =
     [(''sku_code'', ''SKU Code''), (''location_name'', ''Location''),
      (''transaction_type'', ''Transaction Type''), (''quantity'', ''Quantity''),
      (''unit_cost_paise'', ''Unit Cost''), (''reference_no'', ''Reference No''),
      (''transaction_date'', ''Transaction Date'')]"

definition DEFAULT_BATCH_MAPPING :: "(string, string) pydict" where
  "DEFAULT_BATCH_MAPPING =
     [(''sku_code'', ''SKU Code''), (''batch_no'', ''Batch No''), (''manufactured_date'', ''MFD''),
      (''expiry_date'', ''EXP''), (''quantity'', ''Quantity''), (''location_name'', ''Location'')]"

section \<open>Cell conversions\<close>

text \<open>\<open>except ValueError, TypeError: return d\<close>; an \<open>OverflowError\<close> is not caught.\<close>

definition or_on_value_error :: "'a \<Rightarrow> exn + 'a \<Rightarrow> exn + 'a" where
  "or_on_value_error d r = (case r of
     Inl e \<Rightarrow> if is_value_error e then Inr d else Inl e | Inr v \<Rightarrow> Inr v)"

definition csv_number :: "(pyfloat \<Rightarrow> exn + int) \<Rightarrow> pyval \<Rightarrow> exn + int" where
  "csv_number conv v =
     (let s = strip (drop_commas (py_str v)) in
      if s = [] then Inr 0 else or_on_value_error 0 (rbind (parse_float s) conv))"

fun csv_to_paise :: "pyval \<Rightarrow> exn + int" where
  "csv_to_paise VNone = Inr 0"
| "csv_to_paise (VInt i) = rbind (py_float_of_int i) paise_of_float"
| "csv_to_paise (VFloat f) = (if f = NaN then Inr 0 else paise_of_float f)"
| "csv_to_paise v = csv_number paise_of_float v"

fun csv_to_int :: "pyval \<Rightarrow> exn + int" where
  "csv_to_int VNone = Inr 0"
| "csv_to_int (VInt i) = rbind (py_float_of_int i) py_trunc_int"
| "csv_to_int (VFloat f) = (if f = NaN then Inr 0 else py_trunc_int f)"
| "csv_to_int v = csv_number py_trunc_int v"

definition csv_to_transaction_type :: "pyval \<Rightarrow> TransactionType" where
  "csv_to_transaction_type v = (case txn_of (lower (strip (py_str v))) of
     None \<Rightarrow> IN | Some t \<Rightarrow> t)"

definition date_formats :: "directive list list" where
  "date_formats = [fmt_Y_m_d, fmt_d_m_Y, fmt_m_d_Y_slash, fmt_Y_m_d_slash, fmt_YmdPlain]"

definition csv_date_text :: "string \<Rightarrow> pydate option" where
  "csv_date_text s = (if s = [] then None
     else map_option dt_date (first_some (\<lambda>f. strptime f s) date_formats))"

fun csv_to_date :: "pyval \<Rightarrow> pydate option" where
  "csv_to_date VNone = None"
| "csv_to_date (VDatetime dt) = Some (dt_date dt)"
| "csv_to_date (VDate d) = Some d"
| "csv_to_date v = csv_date_text (strip (py_str v))"

text \<open>\<open>now\<close> is what \<open>datetime.now(UTC)\<close> returns at this call.\<close>

fun csv_to_datetime :: "pydatetime \<Rightarrow> pyval \<Rightarrow> pydatetime" where
  "csv_to_datetime now VNone = now"
| "csv_to_datetime now (VDatetime dt) = (case dt_tz dt of None \<Rightarrow> replace_utc dt | Some _ \<Rightarrow> dt)"
| "csv_to_datetime now v =
     (case csv_to_date v of Some d \<Rightarrow> midnight_utc d
      | None \<Rightarrow> (case first_some (\<lambda>f. strptime f (strip (py_str v))) [fmt_T, fmt_space] of
          Some dt \<Rightarrow> replace_utc dt | None \<Rightarrow> now))"

section \<open>Rows to records\<close>

definition csv_apply_mapping :: "row \<Rightarrow> (string, string) pydict \<Rightarrow> row" where
  "csv_apply_mapping r mapping =
     foldl (\<lambda>mapped (target_field, source_column).
       case map_of r source_column of None \<Rightarrow> mapped
       | Some v \<Rightarrow> if v = VFloat NaN then mapped else dict_set target_field v mapped) [] mapping"

definition map_to_product :: "row \<Rightarrow> (string, string) pydict \<Rightarrow> exn + NormalizedProduct" where
  "map_to_product r mapping =
     (let mapped = dict_setdefault ''selling_price_paise'' (VInt 0)
            (dict_setdefault ''unit_cost_paise'' (VInt 0)
            (dict_setdefault ''unit_of_measure'' (VStr ''pcs'')
            (dict_setdefault ''name'' (VStr [])
            (dict_setdefault ''sku_code'' (VStr []) (csv_apply_mapping r mapping)))))
      in rbind (csv_to_paise (row_get mapped ''unit_cost_paise'')) (\<lambda>cost.
         rbind (csv_to_paise (row_get mapped ''selling_price_paise'')) (\<lambda>price.
         Inr \<lparr>np_sku_code = strip (py_str (row_get mapped ''sku_code'')),
              np_name = strip (py_str (row_get mapped ''name'')),
              np_category = opt_text (row_get mapped ''category''),
              np_unit_of_measure = strip (py_str (row_get mapped ''unit_of_measure'')),
              np_unit_cost_paise = cost,
              np_selling_price_paise = price,
              np_industry_attributes = []\<rparr>)))"

definition map_to_transaction ::
  "pydatetime \<Rightarrow> row \<Rightarrow> (string, string) pydict \<Rightarrow> exn + NormalizedTransaction" where
  "map_to_transaction now r mapping =
     (let mapped = csv_apply_mapping r mapping in
      rbind (csv_to_int (dict_get_or mapped ''quantity'' (VInt 0))) (\<lambda>quantity.
      rbind (csv_to_paise (dict_get_or mapped ''unit_cost_paise'' (VInt 0))) (\<lambda>cost.
      Inr \<lparr>nt_sku_code = strip (py_str (dict_get_or mapped ''sku_code'' (VStr []))),
           nt_location_name = strip (py_str (dict_get_or mapped ''location_name'' (VStr []))),
           nt_transaction_type =
             csv_to_transaction_type (dict_get_or mapped ''transaction_type'' (VTxn IN)),
           nt_quantity = quantity,
           nt_unit_cost_paise = cost,
           nt_reference_no = opt_text (row_get mapped ''reference_no''),
           nt_transaction_date = csv_to_datetime now (row_get mapped ''transaction_date'')\<rparr>)))"

definition map_to_batch :: "row \<Rightarrow> (string, string) pydict \<Rightarrow> exn + NormalizedBatch" where
  "map_to_batch r mapping =
     (let mapped = csv_apply_mapping r mapping in
      rbind (csv_to_int (dict_get_or mapped ''quantity'' (VInt 0))) (\<lambda>quantity.
      Inr \<lparr>nb_sku_code = strip (py_str (dict_get_or mapped ''sku_code'' (VStr []))),
           nb_batch_no = strip (py_str (dict_get_or mapped ''batch_no'' (VStr []))),
           nb_manufactured_date = csv_to_date (row_get mapped ''manufactured_date''),
           nb_expiry_date = csv_to_date (row_get mapped ''expiry_date''),
           nb_quantity = quantity,
           nb_location_name = opt_text (row_get mapped ''location_name'')\<rparr>))"

section \<open>Reading the file\<close>

text \<open>A cell of a data frame read with \<open>dtype=str\<close>: a string, or missing.\<close>

datatype cell = Missing | Cell string

type_synonym frame = "(string \<times> cell) list list"

record readers =
  read_csv :: "string \<Rightarrow> string \<Rightarrow> exn + frame"
  read_excel :: "string \<Rightarrow> sheet \<Rightarrow> exn + frame"

definition sheet_or_0 :: "sheet \<Rightarrow> sheet" where
  "sheet_or_0 s = (if s = NoSheet \<or> s = SheetName [] then SheetIndex 0 else s)"

definition read_dataframe :: "readers \<Rightarrow> CSVConnector \<Rightarrow> sheet \<Rightarrow> exn + frame" where
  "read_dataframe rd c sheet_name =
     (if lower (path_suffix (cc_file_path c)) = ''.csv''
      then read_csv rd (cc_file_path c) (cc_delimiter c)
      else read_excel rd (cc_file_path c) (sheet_or_0 sheet_name))"

text \<open>\<open>row.dropna().to_dict()\<close>.\<close>

definition dropna :: "(string \<times> cell) list \<Rightarrow> row" where
  "dropna r = concat (map (\<lambda>(k, c). case c of Missing \<Rightarrow> [] | Cell s \<Rightarrow> [(k, VStr s)]) r)"

text \<open>
  An asynchronous generator is the list of what it yields; a raised exception is an \<open>Inl\<close>, after
  which the consumer asks for nothing more.
\<close>

type_synonym 'r stream = "(exn + 'r) list"

definition rows_of :: "exn + frame \<Rightarrow> (row \<Rightarrow> exn + 'r) \<Rightarrow> 'r stream" where
  "rows_of df f = (case df of Inl e \<Rightarrow> [Inl e] | Inr rows \<Rightarrow> map (\<lambda>r. f (dropna r)) rows)"

definition fetch_products :: "readers \<Rightarrow> CSVConnector \<Rightarrow> NormalizedProduct stream" where
  "fetch_products rd c =
     (if cc_entity_type c \<noteq> ''products'' then []
      else let mapping = dict_get_or (cc_mappings c) ''products'' DEFAULT_PRODUCT_MAPPING
           in rows_of (read_dataframe rd c (cc_sheet_name c)) (\<lambda>r. map_to_product r mapping))"

definition fetch_inventory :: "CSVConnector \<Rightarrow> NormalizedInventoryRecord stream" where
  "fetch_inventory c = []"

text \<open>\<open>clock\<close> gives the time of the conversion of each row.\<close>

definition fetch_transactions ::
  "readers \<Rightarrow> (nat \<Rightarrow> pydatetime) \<Rightarrow> CSVConnector \<Rightarrow> NormalizedTransaction stream" where
  "fetch_transactions rd clock c =
     (if cc_entity_type c \<noteq> ''transactions'' then []
      else let mapping = dict_get_or (cc_mappings c) ''transactions'' DEFAULT_TRANSACTION_MAPPING
           in (case read_dataframe rd c (cc_sheet_name c) of
                 Inl e \<Rightarrow> [Inl e]
               | Inr rows \<Rightarrow> map (\<lambda>(i, r). map_to_transaction (clock i) (dropna r) mapping)
                              (zip [0..<length rows] rows)))"

definition fetch_batches :: "readers \<Rightarrow> CSVConnector \<Rightarrow> NormalizedBatch stream" where
  "fetch_batches rd c =
     (if cc_entity_type c \<noteq> ''batches'' then []
      else let mapping = dict_get_or (cc_mappings c) ''batches'' DEFAULT_BATCH_MAPPING
           in rows_of (read_dataframe rd c (cc_sheet_name c)) (\<lambda>r. map_to_batch r mapping))"

text \<open>\<open>Path(self.file_path).exists()\<close> over the files there are.\<close>

definition validate_connection :: "(string \<Rightarrow> bool) \<Rightarrow> CSVConnector \<Rightarrow> bool" where
  "validate_connection exists_path c = exists_path (cc_file_path c)"

section \<open>The interface of the connectors (app/integrations/base.py)\<close>

text \<open>
  What the service sees of a connector: the methods of \<open>BaseERPConnector\<close>, over what its source system
  shows to \<open>validate_connection\<close>.  (\<open>CSVConnector\<close> has an \<open>__init__\<close> of its own, which does not set the
  \<open>config\<close> of the base class.)
\<close>

record 'x BaseERPConnector =
  erp_validate_connection :: "'x \<Rightarrow> bool"
  erp_fetch_products :: "NormalizedProduct stream"
  erp_fetch_inventory :: "NormalizedInventoryRecord stream"
  erp_fetch_transactions :: "NormalizedTransaction stream"
  erp_fetch_batches :: "NormalizedBatch stream"

definition csv_as_erp :: "readers \<Rightarrow> (nat \<Rightarrow> pydatetime) \<Rightarrow> CSVConnector \<Rightarrow> (string \<Rightarrow> bool) BaseERPConnector" where
  "csv_as_erp rd clock c =
     \<lparr>erp_validate_connection = (\<lambda>exists_path. validate_connection exists_path c),
      erp_fetch_products = fetch_products rd c,
      erp_fetch_inventory = fetch_inventory c,
      erp_fetch_transactions = fetch_transactions rd clock c,
      erp_fetch_batches = fetch_batches rd c\<rparr>"

section \<open>What can be raised\<close>

text \<open>
  Every conversion error of a cell is caught but an \<open>OverflowError\<close>, which a cell that reads as an
  infinite or too large a number raises.
\<close>

definition is_overflow :: "exn \<Rightarrow> bool" where
  "is_overflow e = (case e of OverflowError _ \<Rightarrow> True | _ \<Rightarrow> False)"

definition only_overflow :: "exn + 'a \<Rightarrow> bool" where
  "only_overflow r = (case r of Inl e \<Rightarrow> is_overflow e | Inr _ \<Rightarrow> True)"

named_theorems overflow_intros

lemma only_overflow_Inr [simp, intro, overflow_intros]: "only_overflow (Inr v)"
  by (simp add: only_overflow_def)

lemma only_overflow_rbind [overflow_intros]:
  "only_overflow r \<Longrightarrow> (\<And>v. only_overflow (f v)) \<Longrightarrow> only_overflow (rbind r f)"
  by (cases r) (simp_all add: only_overflow_def)

lemma only_overflow_Inl: "only_overflow (Inl e) \<longleftrightarrow> (\<exists>m. e = OverflowError m)"
  by (cases e) (simp_all add: only_overflow_def is_overflow_def)

lemma parse_float_value_error: "parse_float s = Inl e \<Longrightarrow> is_value_error e"
  by (auto simp: parse_float_def Let_def split: if_splits prod.splits option.splits)

lemma py_round_int_errors: "py_round_int f = Inl e \<Longrightarrow> f = NaN \<and> is_value_error e \<or> is_overflow e"
  by (cases f) (auto simp: is_overflow_def)

lemma py_trunc_int_errors: "py_trunc_int f = Inl e \<Longrightarrow> f = NaN \<and> is_value_error e \<or> is_overflow e"
  by (cases f) (auto simp: is_overflow_def)

lemma fl_scale_not_NaN: "f \<noteq> NaN \<Longrightarrow> fl_scale k f \<noteq> NaN"
  by (cases f) (auto simp: fl_round_def Let_def)

lemma paise_of_float_errors: "paise_of_float f = Inl e \<Longrightarrow> f = NaN \<and> is_value_error e \<or> is_overflow e"
  using py_round_int_errors [of "fl_scale 100 f" e] fl_scale_not_NaN [of f 100]
  by (auto simp: paise_of_float_def)

lemma py_float_of_int_cases: "py_float_of_int i = Inr f \<Longrightarrow> f \<noteq> NaN"
  "only_overflow (py_float_of_int i)"
  by (auto simp: py_float_of_int_def only_overflow_def is_overflow_def fl_round_def Let_def
      split: pyfloat.splits if_splits)

lemma csv_number_overflow:
  assumes "\<And>f e. conv f = Inl e \<Longrightarrow> is_value_error e \<or> is_overflow e"
  shows "only_overflow (csv_number conv v)"
  using assms parse_float_value_error
  by (auto simp: csv_number_def Let_def or_on_value_error_def only_overflow_def res_simps
      split: sum.splits)

lemma csv_to_paise_overflow [overflow_intros]: "only_overflow (csv_to_paise v)"
proof (cases v)
  case (VInt i)
  then show ?thesis
    using py_float_of_int_cases [of i] paise_of_float_errors
    by (cases "py_float_of_int i") (auto simp: only_overflow_def split: sum.splits)
next
  case (VFloat f)
  then show ?thesis using paise_of_float_errors by (auto simp: only_overflow_def split: sum.splits)
qed (use csv_number_overflow [of paise_of_float] paise_of_float_errors in auto)

lemma csv_to_int_overflow [overflow_intros]: "only_overflow (csv_to_int v)"
proof (cases v)
  case (VInt i)
  then show ?thesis
    using py_float_of_int_cases [of i] py_trunc_int_errors
    by (cases "py_float_of_int i") (auto simp: only_overflow_def split: sum.splits)
next
  case (VFloat f)
  then show ?thesis using py_trunc_int_errors by (auto simp: only_overflow_def split: sum.splits)
qed (use csv_number_overflow [of py_trunc_int] py_trunc_int_errors in auto)

lemma map_to_overflow:
  "only_overflow (map_to_product r m)" "only_overflow (map_to_transaction now r m)"
  "only_overflow (map_to_batch r m)"
  unfolding map_to_product_def map_to_transaction_def map_to_batch_def Let_def
  by (intro overflow_intros)+

section \<open>Dates\<close>

lemma strp_lit_refused: "lower_char x \<noteq> lower_char c \<Longrightarrow> strp (DLit c # f) t (x # r) = None"
  by simp

lemma digit_not_lit:
  "is_digit x \<Longrightarrow> lower_char x \<noteq> lower_char (CHR ''-'')"
  "is_digit x \<Longrightarrow> lower_char x \<noteq> lower_char (CHR ''/'')"
  by (auto simp: is_digit_def lower_char_def Let_def)

lemma dash_slash: "lower_char (CHR ''-'') \<noteq> lower_char (CHR ''/'')"
  by (simp add: lower_char_def Let_def)

text \<open>A format whose year comes first refuses what has no four digits in front, and so on.\<close>

lemma year_first_refused:
  "\<not> list_all is_digit (take 4 s) \<Longrightarrow> strptime (DY # f) s = None"
  by (simp add: strptime_def four_digits_def)

lemma day_first_refused:
  assumes "is_digit a" "is_digit b" "lower_char x \<noteq> lower_char c" "lower_char b \<noteq> lower_char c"
  shows "strptime (Dd # DLit c # f) (a # b # x # r) = None"
  using assms
  by (auto simp: strptime_def one_digit_def two_digits_def space_digit_def is_digit_def)

lemma month_first_refused:
  assumes "is_digit a" "is_digit b" "lower_char x \<noteq> lower_char c" "lower_char b \<noteq> lower_char c"
  shows "strptime (Dm # DLit c # f) (a # b # x # r) = None"
  using assms
  by (auto simp: strptime_def one_digit_def two_digits_def)

lemma year_then_refused:
  assumes "is_digit a" "lower_char x \<noteq> lower_char c"
  shows "strptime (DY # DLit c # f) (p # q # w # a # x # r) = None"
  using assms by (simp add: strptime_def four_digits_def)

lemmas refused = year_first_refused day_first_refused month_first_refused year_then_refused

lemma matches_shape_Cons:
  "matches_shape (p # sh) s \<longleftrightarrow>
     (\<exists>c r. s = c # r \<and> (if p = CHR ''9'' then is_digit c else c = p) \<and> matches_shape sh r)"
  "matches_shape [] s \<longleftrightarrow> s = []"
  by (auto simp: matches_shape_def list_all2_Cons1)

lemma csv_date_agrees:
  assumes "parse_date_text s = Inr (VDate d)"
  shows "csv_date_text s = Some d"
proof -
  have sp: "\<not> is_digit (CHR ''-'')" "\<not> is_digit (CHR ''/'')" by (simp_all add: is_digit_def)
  consider "matches_shape ''9999-99-99'' s" "strptime fmt_Y_m_d s \<noteq> None" "d = dt_date (the (strptime fmt_Y_m_d s))"
    | "matches_shape ''99-99-9999'' s" "strptime fmt_d_m_Y s \<noteq> None" "d = dt_date (the (strptime fmt_d_m_Y s))"
    | "matches_shape ''99/99/9999'' s" "strptime fmt_m_d_Y_slash s \<noteq> None"
        "d = dt_date (the (strptime fmt_m_d_Y_slash s))"
    | "matches_shape ''9999/99/99'' s" "strptime fmt_Y_m_d_slash s \<noteq> None"
        "d = dt_date (the (strptime fmt_Y_m_d_slash s))"
    using assms
    by (auto simp: parse_date_text_def strptime_date_def split: if_splits option.splits)
  then show ?thesis
  proof cases
    case 1
    then show ?thesis by (auto simp: csv_date_text_def date_formats_def matches_shape_Cons)
  next
    case 2
    then have "strptime fmt_Y_m_d s = None"
      using sp by (auto simp: fmt_defs matches_shape_Cons intro!: year_first_refused)
    with 2 show ?thesis by (auto simp: csv_date_text_def date_formats_def matches_shape_Cons)
  next
    case 3
    then have "strptime fmt_Y_m_d s = None" "strptime fmt_d_m_Y s = None"
      using sp digit_not_lit dash_slash
      by (auto simp: fmt_defs matches_shape_Cons intro!: year_first_refused day_first_refused)
    with 3 show ?thesis by (auto simp: csv_date_text_def date_formats_def matches_shape_Cons)
  next
    case 4
    then have "strptime fmt_Y_m_d s = None" "strptime fmt_d_m_Y s = None"
        "strptime fmt_m_d_Y_slash s = None"
      using sp digit_not_lit dash_slash [symmetric]
      by (auto simp: fmt_defs matches_shape_Cons
          intro!: year_then_refused day_first_refused month_first_refused)
    with 4 show ?thesis by (auto simp: csv_date_text_def date_formats_def matches_shape_Cons)
  qed
qed

lemma digit_chars:
  "digit_char 0 = CHR ''0''" "digit_char 1 = CHR ''1''" "digit_char (Suc 0) = CHR ''1''"
  "digit_char 2 = CHR ''2''" "digit_char 3 = CHR ''3''" "digit_char 4 = CHR ''4''"
  "digit_char 5 = CHR ''5''" "digit_char 6 = CHR ''6''" "digit_char 7 = CHR ''7''"
  "digit_char 8 = CHR ''8''" "digit_char 9 = CHR ''9''"
  by (simp_all add: digit_char_def char_of_def bit_0 bit_Suc)

lemma pad_chars: "c \<in> set (pad_nat w n) \<Longrightarrow> is_digit c"
  using pad_nat_digits [of w n] by blast

lemma pad_four: "n \<le> 9999 \<Longrightarrow> \<exists>a b c d. pad_nat 4 n = [a, b, c, d] \<and> list_all is_digit [a, b, c, d]"
proof -
  assume "n \<le> 9999"
  then have "length (pad_nat 4 n) = 4" by (intro length_pad_nat) simp_all
  then obtain a b c d where "pad_nat 4 n = [a, b, c, d]"
    by (auto simp: length_Suc_conv numeral_eq_Suc)
  with pad_chars [of _ 4 n] show ?thesis by auto
qed

lemma pad_two: "n \<le> 99 \<Longrightarrow> \<exists>a b. pad_nat 2 n = [a, b] \<and> list_all is_digit [a, b]"
  using pad_nat_two [of n] pad_chars [of _ 2 n] by simp

definition date_forms :: "pydate \<Rightarrow> string list" where
  "date_forms d = [show_ymd (CHR ''-'') d, show_dmy (CHR ''-'') d, show_mdy (CHR ''/'') d,
     show_ymd (CHR ''/'') d]"

lemma parse_date_text_forms:
  assumes "valid_date d" and "s \<in> set (date_forms d)"
  shows "parse_date_text s = Inr (VDate d)"
proof -
  have b: "d_year d \<le> 9999" "d_month d \<le> 99" "d_day d \<le> 99"
    using valid_date_bounds [OF assms(1)] by simp_all
  have sp: "\<not> is_digit (CHR ''-'')" "\<not> is_digit (CHR ''/'')" by (simp_all add: is_digit_def)
  obtain a1 a2 a3 a4 where y: "pad_nat 4 (d_year d) = [a1, a2, a3, a4]" "list_all is_digit [a1, a2, a3, a4]"
    using pad_four b by blast
  obtain m1 m2 where m: "pad_nat 2 (d_month d) = [m1, m2]" "list_all is_digit [m1, m2]"
    using pad_two b by blast
  obtain d1 d2 where dd: "pad_nat 2 (d_day d) = [d1, d2]" "list_all is_digit [d1, d2]"
    using pad_two b by blast
  note shapes = matches_shape_Cons y m dd sp show_ymd_def show_dmy_def show_mdy_def
  have s1: "matches_shape ''9999-99-99'' (show_ymd (CHR ''-'') d)"
    and s2: "\<not> matches_shape ''9999-99-99'' (show_dmy (CHR ''-'') d)"
      "matches_shape ''99-99-9999'' (show_dmy (CHR ''-'') d)"
    and s3: "\<not> matches_shape ''9999-99-99'' (show_mdy (CHR ''/'') d)"
      "\<not> matches_shape ''99-99-9999'' (show_mdy (CHR ''/'') d)"
      "matches_shape ''99/99/9999'' (show_mdy (CHR ''/'') d)"
    and s4: "\<not> matches_shape ''9999-99-99'' (show_ymd (CHR ''/'') d)"
      "\<not> matches_shape ''99-99-9999'' (show_ymd (CHR ''/'') d)"
      "\<not> matches_shape ''99/99/9999'' (show_ymd (CHR ''/'') d)"
      "matches_shape ''9999/99/99'' (show_ymd (CHR ''/'') d)"
    using y(2) m(2) dd(2) sp by (auto simp: shapes)
  note reads = strptime_ymd [OF assms(1)] strptime_dmy [OF assms(1)] strptime_mdy [OF assms(1)]
  consider "s = show_ymd (CHR ''-'') d" | "s = show_dmy (CHR ''-'') d"
    | "s = show_mdy (CHR ''/'') d" | "s = show_ymd (CHR ''/'') d"
    using assms(2) by (auto simp: date_forms_def)
  then show ?thesis
    by cases (simp_all add: parse_date_text_def s1 s2 s3 s4 strptime_date_def fmt_defs reads)
qed

lemma date_forms_strip:
  assumes "s \<in> set (date_forms d)"
  shows "strip s = s"
proof (rule strip_no_space, rule ballI)
  fix c assume "c \<in> set s"
  then have "is_digit c \<or> c = CHR ''-'' \<or> c = CHR ''/''"
    using assms pad_chars by (auto simp: date_forms_def show_ymd_def show_dmy_def show_mdy_def)
  moreover have "\<not> is_space (CHR ''-'')" "\<not> is_space (CHR ''/'')"
    by (simp_all add: is_space_def)
  ultimately show "\<not> is_space c" using digit_not_space by blast
qed

text \<open>
  Property C40.  A real calendar date written in any of the four supported forms (ISO, DD-MM-YYYY,
  MM/DD/YYYY, YYYY/MM/DD) is read back as that date by both the normalizer and the CSV connector.
\<close>

theorem date_forms_read_back:
  assumes "valid_date d" and "s \<in> set (date_forms d)"
  shows "parse_date (VStr s) = Inr (VDate d) \<and> csv_to_date (VStr s) = Some d"
  using parse_date_text_forms [OF assms] csv_date_agrees [of s d]
  by (simp add: date_forms_strip [OF assms(2)])

theorem date_forms_read_back_witness:
  "parse_date (VStr ''29-02-2024'') = Inr (VDate (Date 2024 2 29)) \<and>
   csv_to_date (VStr ''29-02-2024'') = Some (Date 2024 2 29)"
  by (rule date_forms_read_back)
    (simp_all add: date_forms_def show_dmy_def pad_nat_def show_nat.simps digit_chars
      days_in_month_def leap_year_def)

lemma csv_paise_of_rupee_text:
  assumes "k \<le> 2 ^ 50"
  shows "csv_to_paise (VStr (rupee_text k)) = Inr (int k)"
proof -
  have "rupee_text k \<noteq> []" by (simp add: rupee_text_def)
  then show ?thesis
    using paise_of_rupee_text [OF assms]
    by (simp add: csv_number_def paise_of_text_def Let_def digits_no_comma [OF rupee_text_chars]
        digits_strip [OF rupee_text_chars] or_on_value_error_def)
qed

text \<open>
  Property C39.  Amounts are exact: a cell holding rupees with two decimals becomes exactly that
  many paise, in the connector and in the normalizer, for every amount up to 2^50 paise (eleven
  trillion rupees), although both go through binary floating point.
\<close>

theorem amounts_exact:
  assumes "k \<le> 2 ^ 50"
  shows "csv_to_paise (VStr (rupee_text k)) = Inr (int k) \<and> to_paise (VStr (rupee_text k)) = Inr (int k)"
  using csv_paise_of_rupee_text [OF assms] paise_of_rupee_text [OF assms] by simp

theorem amounts_exact_witness:
  "csv_to_paise (VStr (rupee_text 123456)) = Inr 123456 \<and>
   to_paise (VStr (rupee_text 123456)) = Inr 123456"
  using amounts_exact [of 123456] by simp

text \<open>
  No cell makes the connector raise but a number too large for an integer
  conversion: whatever the row and the mapping hold, building a product, a transaction or a batch
  returns a record or raises \<open>OverflowError\<close>.
\<close>

lemma connector_raises_only_overflow:
  "map_to_product r m = Inl e \<or> map_to_transaction now r m = Inl e \<or> map_to_batch r m = Inl e
     \<Longrightarrow> \<exists>msg. e = OverflowError msg"
  using map_to_overflow only_overflow_Inl by metis

lemma connector_raises_only_overflow_witness:
  "\<exists>msg. OverflowError ''cannot convert float infinity to integer'' = OverflowError msg"
  by (rule connector_raises_only_overflow
      [where r = "[(''Unit Cost'', VStr ''inf'')]" and m = "[(''unit_cost_paise'', ''Unit Cost'')]"
        and now = "Datetime (Date 2024 1 1) 0 0 0 0 None"])
    (simp add: map_to_product_def csv_apply_mapping_def Let_def dict_setdefault_def
      csv_number_def drop_commas_def strip_def is_space_def parse_float_def sign_part_def
      lower_def lower_char_def paise_of_float_def or_on_value_error_def)

end
