(* ===== verification/Store.thy ===== *)
theory Store
  imports Domain
begin

text \<open>
  The database as the source uses it.  The tables are those of \<open>app/models/\<close>, as lists of rows in
  insertion order; a statement that the source issues is accepted, or refused by the declared
  schema (column types, foreign keys, the row-level policy of \<open>app/rls.py\<close>), or refused for a
  reason of the outside world, which the environment decides.  A session
  (\<open>app/database.py\<close>) sees its own uncommitted work, and carries the tenant context, the state of
  its transaction and the one object it tracks for changes, the job's \<open>SyncLog\<close>.
\<close>

section \<open>Rows (app/models/*.py)\<close>

text \<open>A \<open>uuid\<close> is opaque; a time in a \<open>timestamptz\<close> column is its instant in microseconds.\<close>

type_synonym uuid = nat
type_synonym instant = int

record tenant =
  tn_id :: uuid
  tn_name :: string
  tn_industry_type :: "string option"
  tn_erp_type :: "string option"
  tn_subscription_plan :: string
  tn_subscription_status :: string
  tn_trial_start_date :: "pydate option"
  tn_trial_end_date :: "pydate option"
  tn_subscription_start_date :: "pydate option"
  tn_next_billing_date :: "pydate option"
  tn_config :: "(string \<times> json) list option"
  tn_is_active :: bool
  tn_created_at :: instant
  tn_updated_at :: instant

record user =
  u_id :: uuid
  u_tenant :: uuid
  u_email :: string
  u_role :: UserRole
  u_hashed_password :: string
  u_is_active :: bool
  u_last_login :: "instant option"
  u_created_at :: instant
  u_updated_at :: instant

record product =
  p_id :: uuid
  p_tenant :: uuid
  p_sku_code :: string
  p_name :: string
  p_category :: "string option"
  p_unit_of_measure :: string
  p_unit_cost_paise :: int
  p_selling_price_paise :: int
  p_industry_attributes :: "(string \<times> json) list"
  p_created_at :: instant
  p_updated_at :: instant

record location =
  l_id :: uuid
  l_tenant :: uuid
  l_name :: string
  l_type :: LocationType
  l_city :: "string option"
  l_state :: "string option"
  l_is_active :: bool
  l_created_at :: instant
  l_updated_at :: instant

record batch =
  b_id :: uuid
  b_tenant :: uuid
  b_product_id :: uuid
  b_batch_no :: string
  b_manufactured_date :: "pydate option"
  b_expiry_date :: "pydate option"
  b_quantity :: int
  b_location_id :: "uuid option"
  b_created_at :: instant
  b_updated_at :: instant

record txn =
  t_id :: uuid
  t_tenant :: uuid
  t_product_id :: uuid
  t_location_id :: uuid
  t_transaction_type :: TransactionType
  t_quantity :: int
  t_unit_cost_paise :: int
  t_reference_no :: "string option"
  t_transaction_date :: instant
  t_created_at :: instant

record sync_log =
  sl_id :: uuid
  sl_tenant :: uuid
  sl_connector_type :: SyncConnectorType
  sl_original_filename :: "string option"
  sl_stored_path :: "string option"
  sl_status :: SyncStatus
  sl_total_records :: int
  sl_records_processed :: int
  sl_records_failed :: int
  sl_errors :: "json list option"
  sl_data_quality_score :: "pyfloat option"
  sl_started_at :: "instant option"
  sl_completed_at :: "instant option"
  sl_created_at :: instant

record db =
  tb_tenants :: "tenant list"
  tb_users :: "user list"
  tb_products :: "product list"
  tb_locations :: "location list"
  tb_batches :: "batch list"
  tb_transactions :: "txn list"
  tb_sync_logs :: "sync_log list"

text \<open>
  The instant of a datetime in a \<open>timestamptz\<close> column.  The driver sends a naive one as a \<open>timestamp\<close>, which the
  server takes in the time zone of the session; nothing sets that, and it is UTC in the database of
  \<open>docker-compose.yml\<close>.
\<close>

definition days_before_month :: "nat \<Rightarrow> nat \<Rightarrow> nat" where
  "days_before_month y m = sum_list (map (days_in_month y) [1..<m])"

definition toordinal :: "pydate \<Rightarrow> nat" where
  "toordinal d = (let y = d_year d - 1 in
     365 * y + y div 4 - y div 100 + y div 400 + days_before_month (d_year d) (d_month d) + d_day d)"

fun instant_of :: "pydatetime \<Rightarrow> instant" where
  "instant_of (Datetime d h mi s us tz) =
     int ((((toordinal d * 24 + h) * 60 + mi) * 60 + s) * 1000000 + us) - (case tz of None \<Rightarrow> 0 | Some off \<Rightarrow> off)"

section \<open>Statements and what the schema says of them\<close>

datatype statement =
    SelectProduct uuid string
  | SelectLocation uuid string
  | SelectTransaction uuid uuid uuid TransactionType int int "string option" pydatetime
  | UpsertProduct product
  | UpsertBatch batch
  | InsertLocation location
  | InsertTransaction txn
  | SelectSyncLog uuid
  | InsertSyncLog sync_log
  | UpdateSyncLog sync_log
  | SetTenant uuid
  | ResetTenant
  | CommitWork
  | SelectTenant uuid
  | SelectUserByEmail string
  | SelectUserById uuid
  | InsertUser user
  | UpdateUser user
  | CountProducts
  | PageProducts int int
  | SelectOne

definition int8 :: "int \<Rightarrow> bool" where
  "int8 i \<longleftrightarrow> - (2 ^ 63) \<le> i \<and> i < 2 ^ 63"

definition int4 :: "int \<Rightarrow> bool" where
  "int4 i \<longleftrightarrow> - (2 ^ 31) \<le> i \<and> i < 2 ^ 31"

text \<open>PostgreSQL has no text with U+0000.  A text of at most n characters fits a column.\<close>

definition text_ok :: "string \<Rightarrow> bool" where
  "text_ok s \<longleftrightarrow> char_of (0::nat) \<notin> set s"

definition varchar :: "nat \<Rightarrow> string \<Rightarrow> bool" where
  "varchar n s \<longleftrightarrow> length s \<le> n \<and> text_ok s"

definition at_most :: "nat \<Rightarrow> string option \<Rightarrow> bool" where
  "at_most n x = (case x of None \<Rightarrow> True | Some s \<Rightarrow> length s \<le> n)"

definition varchar_null :: "nat \<Rightarrow> string option \<Rightarrow> bool" where
  "varchar_null n x = (case x of None \<Rightarrow> True | Some s \<Rightarrow> varchar n s)"

definition text_null :: "string option \<Rightarrow> bool" where
  "text_null x = (case x of None \<Rightarrow> True | Some s \<Rightarrow> text_ok s)"

text \<open>
  The driver is psycopg 3 (\<open>pyproject.toml\<close>, the URLs of \<open>docker-compose.yml\<close>).  It refuses a text with U+0000
  with a \<open>DataError\<close> before anything is sent, so that the transaction lives on.
\<close>

fun encodable :: "statement \<Rightarrow> bool" where
  "encodable (SelectProduct _ sku) \<longleftrightarrow> text_ok sku"
| "encodable (SelectLocation _ name) \<longleftrightarrow> text_ok name"
| "encodable (SelectTransaction _ _ _ _ _ _ ref _) \<longleftrightarrow> text_null ref"
| "encodable (UpsertProduct p) \<longleftrightarrow>
     text_ok (p_sku_code p) \<and> text_ok (p_name p) \<and> text_null (p_category p) \<and> text_ok (p_unit_of_measure p)"
| "encodable (UpsertBatch b) \<longleftrightarrow> text_ok (b_batch_no b)"
| "encodable (InsertLocation l) \<longleftrightarrow> text_ok (l_name l) \<and> text_null (l_city l) \<and> text_null (l_state l)"
| "encodable (InsertTransaction t) \<longleftrightarrow> text_null (t_reference_no t)"
| "encodable (InsertSyncLog l) \<longleftrightarrow> text_null (sl_original_filename l) \<and> text_null (sl_stored_path l)"
| "encodable (SelectUserByEmail email) \<longleftrightarrow> text_ok email"
| "encodable (InsertUser u) \<longleftrightarrow> text_ok (u_email u) \<and> text_ok (u_hashed_password u)"
| "encodable _ \<longleftrightarrow> True"

text \<open>
  What the column types say of a parameter, which the server judges, a refusal aborting the transaction: a text
  longer than its \<open>VARCHAR\<close> in a row that is written; an integer beyond \<open>BIGINT\<close> or \<open>INTEGER\<close>, which the
  driver sends as a numeric under the cast to the type of its column.
\<close>

fun row_types_ok :: "statement \<Rightarrow> bool" where
  "row_types_ok (SelectTransaction _ _ _ _ quantity cost _ _) \<longleftrightarrow> int8 quantity \<and> int8 cost"
| "row_types_ok (UpsertProduct p) \<longleftrightarrow>
     length (p_sku_code p) \<le> 100 \<and> length (p_name p) \<le> 255 \<and> at_most 100 (p_category p) \<and>
     length (p_unit_of_measure p) \<le> 50 \<and> int8 (p_unit_cost_paise p) \<and> int8 (p_selling_price_paise p)"
| "row_types_ok (UpsertBatch b) \<longleftrightarrow> length (b_batch_no b) \<le> 100 \<and> int8 (b_quantity b)"
| "row_types_ok (InsertLocation l) \<longleftrightarrow>
     length (l_name l) \<le> 255 \<and> at_most 100 (l_city l) \<and> at_most 100 (l_state l)"
| "row_types_ok (InsertTransaction t) \<longleftrightarrow>
     at_most 100 (t_reference_no t) \<and> int8 (t_quantity t) \<and> int8 (t_unit_cost_paise t)"
| "row_types_ok (InsertSyncLog l) \<longleftrightarrow>
     at_most 255 (sl_original_filename l) \<and> at_most 500 (sl_stored_path l) \<and>
     int4 (sl_total_records l) \<and> int4 (sl_records_processed l) \<and> int4 (sl_records_failed l)"
| "row_types_ok (UpdateSyncLog l) \<longleftrightarrow>
     int4 (sl_total_records l) \<and> int4 (sl_records_processed l) \<and> int4 (sl_records_failed l)"
| "row_types_ok (PageProducts skip limit) \<longleftrightarrow> int8 skip \<and> int8 limit"
| "row_types_ok _ \<longleftrightarrow> True"

text \<open>The foreign keys of the models, and the unique index of the users' emails.\<close>

definition tenant_exists :: "db \<Rightarrow> uuid \<Rightarrow> bool" where
  "tenant_exists d t \<longleftrightarrow> t \<in> set (map tn_id (tb_tenants d))"

definition product_exists :: "db \<Rightarrow> uuid \<Rightarrow> bool" where
  "product_exists d i \<longleftrightarrow> i \<in> set (map p_id (tb_products d))"

definition location_exists :: "db \<Rightarrow> uuid \<Rightarrow> bool" where
  "location_exists d i \<longleftrightarrow> i \<in> set (map l_id (tb_locations d))"

fun references_ok :: "db \<Rightarrow> statement \<Rightarrow> bool" where
  "references_ok d (UpsertProduct p) \<longleftrightarrow> tenant_exists d (p_tenant p)"
| "references_ok d (UpsertBatch b) \<longleftrightarrow> tenant_exists d (b_tenant b) \<and> product_exists d (b_product_id b)
     \<and> (case b_location_id b of None \<Rightarrow> True | Some i \<Rightarrow> location_exists d i)"
| "references_ok d (InsertLocation l) \<longleftrightarrow> tenant_exists d (l_tenant l)"
| "references_ok d (InsertTransaction t) \<longleftrightarrow> tenant_exists d (t_tenant t) \<and>
     product_exists d (t_product_id t) \<and> location_exists d (t_location_id t)"
| "references_ok d (InsertSyncLog l) \<longleftrightarrow> tenant_exists d (sl_tenant l)"
| "references_ok d (InsertUser u) \<longleftrightarrow>
     tenant_exists d (u_tenant u) \<and> u_email u \<notin> set (map u_email (tb_users d))"
| "references_ok d _ \<longleftrightarrow> True"

text \<open>
  The tenant context.  The runtime role sees and writes the rows whose \<open>tenant_id\<close> is the
  context (none without one); the administrative role is not subject to the policies.
\<close>

datatype rls_context = AdminRole | RuntimeRole "uuid option"

fun rls_visible :: "rls_context \<Rightarrow> uuid \<Rightarrow> bool" where
  "rls_visible AdminRole t \<longleftrightarrow> True"
| "rls_visible (RuntimeRole c) t \<longleftrightarrow> c = Some t"

fun policy_ok :: "rls_context \<Rightarrow> statement \<Rightarrow> bool" where
  "policy_ok c (UpsertProduct p) \<longleftrightarrow> rls_visible c (p_tenant p)"
| "policy_ok c (UpsertBatch b) \<longleftrightarrow> rls_visible c (b_tenant b)"
| "policy_ok c (InsertLocation l) \<longleftrightarrow> rls_visible c (l_tenant l)"
| "policy_ok c (InsertTransaction t) \<longleftrightarrow> rls_visible c (t_tenant t)"
| "policy_ok c (InsertSyncLog l) \<longleftrightarrow> rls_visible c (sl_tenant l)"
| "policy_ok c (UpdateSyncLog l) \<longleftrightarrow> rls_visible c (sl_tenant l)"
| "policy_ok c (InsertUser u) \<longleftrightarrow> rls_visible c (u_tenant u)"
| "policy_ok c (UpdateUser u) \<longleftrightarrow> rls_visible c (u_tenant u)"
| "policy_ok c _ \<longleftrightarrow> True"

section \<open>The tracked SyncLog\<close>

text \<open>
  The \<open>errors\<close> list is a mutable object, so it is a reference into a heap of lists.  The session
  remembers, from the first assignment to \<open>errors\<close> after a flush, the object that was there before
  (\<open>tk_old_errors\<close>), and at a flush writes the column only if the two objects differ in value; a
  list changed in place and assigned to itself does not.  \<open>tk_saved\<close> is the row as last written or
  loaded; the \<open>sl_errors\<close> field of \<open>tk_row\<close> is not used, \<open>tk_errors\<close> stands for it.
\<close>

record tracked =
  tk_row :: sync_log
  tk_saved :: sync_log
  tk_heap :: "json list list"
  tk_errors :: "nat option"
  tk_old_errors :: "nat option option"
  tk_expired :: bool

definition errors_value :: "tracked \<Rightarrow> nat option \<Rightarrow> json list option" where
  "errors_value t r = map_option (\<lambda>i. tk_heap t ! i) r"

definition track :: "sync_log \<Rightarrow> tracked" where
  "track l = (let plain = l\<lparr>sl_errors := None\<rparr> in
     \<lparr>tk_row = plain, tk_saved = plain,
      tk_heap = (case sl_errors l of None \<Rightarrow> [] | Some es \<Rightarrow> [es]),
      tk_errors = (case sl_errors l of None \<Rightarrow> None | Some _ \<Rightarrow> Some 0),
      tk_old_errors = None, tk_expired = False\<rparr>)"

definition errors_changed :: "tracked \<Rightarrow> bool" where
  "errors_changed t = (case tk_old_errors t of None \<Rightarrow> False
     | Some old \<Rightarrow> errors_value t old \<noteq> errors_value t (tk_errors t))"

definition needs_update :: "tracked \<Rightarrow> bool" where
  "needs_update t \<longleftrightarrow> \<not> tk_expired t \<and> (tk_row t \<noteq> tk_saved t \<or> errors_changed t)"

text \<open>The UPDATE of a flush: every column but \<open>errors\<close>, and \<open>errors\<close> if it changed.\<close>

definition write_row :: "tracked \<Rightarrow> sync_log \<Rightarrow> sync_log" where
  "write_row t l = (tk_row t)\<lparr>sl_errors :=
     (if errors_changed t then errors_value t (tk_errors t) else sl_errors l)\<rparr>"

definition mark_saved :: "tracked \<Rightarrow> tracked" where
  "mark_saved t = t\<lparr>tk_saved := tk_row t, tk_old_errors := None\<rparr>"

section \<open>Sessions\<close>

text \<open>
  \<open>TxAborted\<close>: the server refused a statement of the transaction and refuses all that follow.
  \<open>TxInactive\<close>: a flush failed, the session has rolled back and wants a \<open>rollback()\<close> call.
\<close>

datatype tx_state = TxActive | TxAborted | TxInactive

record session =
  se_db :: db
  se_committed :: db
  se_state :: tx_state
  se_context :: rls_context
  se_next_id :: uuid
  se_count :: nat
  se_tx :: nat
  se_log :: "tracked option"

text \<open>
  The outside world: whether the n-th statement is answered (a lost connection, a lock timeout, a
  full disk), and the time at the start of the n-th transaction, which is \<open>now()\<close> in SQL.
\<close>

record env =
  en_answers :: "nat \<Rightarrow> statement \<Rightarrow> bool"
  en_clock :: "nat \<Rightarrow> instant"

datatype answer = NotSent | Refused | Accepted

definition answer_of :: "env \<Rightarrow> 'z session_scheme \<Rightarrow> statement \<Rightarrow> answer" where
  "answer_of env s st =
     (if \<not> encodable st then NotSent
      else if row_types_ok st \<and> policy_ok (se_context s) st \<and> references_ok (se_db s) st
        \<and> en_answers env (se_count s) st then Accepted
      else Refused)"

definition sql_now :: "env \<Rightarrow> 'z session_scheme \<Rightarrow> instant" where
  "sql_now env s = en_clock env (se_tx s)"

definition tick :: "'z session_scheme \<Rightarrow> 'z session_scheme" where
  "tick s = s\<lparr>se_count := Suc (se_count s)\<rparr>"

text \<open>A statement sent outside a flush: a refusal aborts the server's transaction.\<close>

definition send ::
  "env \<Rightarrow> statement \<Rightarrow> ('z session_scheme \<Rightarrow> (exn + 'a) \<times> 'z session_scheme)
     \<Rightarrow> 'z session_scheme \<Rightarrow> (exn + 'a) \<times> 'z session_scheme" where
  "send env st effect s = (case se_state s of
     TxInactive \<Rightarrow> (Inl PendingRollbackError, s)
   | TxAborted \<Rightarrow> (Inl DatabaseError, s)
   | TxActive \<Rightarrow> (case answer_of env s st of
       NotSent \<Rightarrow> (Inl DatabaseError, tick s)
     | Refused \<Rightarrow> (Inl DatabaseError, (tick s)\<lparr>se_state := TxAborted\<rparr>)
     | Accepted \<Rightarrow> effect (tick s)))"

definition expire :: "tracked option \<Rightarrow> tracked option" where
  "expire t = map_option (\<lambda>k. k\<lparr>tk_expired := True\<rparr>) t"

text \<open>What a failed flush leaves.\<close>

definition flush_failed :: "'z session_scheme \<Rightarrow> 'z session_scheme" where
  "flush_failed s = s\<lparr>se_db := se_committed s, se_state := TxInactive, se_log := expire (se_log s)\<rparr>"

definition in_flush :: "(exn + 'a) \<times> 'z session_scheme \<Rightarrow> (exn + 'a) \<times> 'z session_scheme" where
  "in_flush r = (case r of (Inl e, s) \<Rightarrow> (Inl e, flush_failed s) | (Inr v, s) \<Rightarrow> (Inr v, s))"

definition log_by_id :: "uuid \<Rightarrow> sync_log \<Rightarrow> bool" where
  "log_by_id i l \<longleftrightarrow> sl_id l = i"

definition update_log_row :: "rls_context \<Rightarrow> tracked \<Rightarrow> db \<Rightarrow> db" where
  "update_log_row c t d = d\<lparr>tb_sync_logs :=
     map (\<lambda>l. if sl_id l = sl_id (tk_row t) \<and> rls_visible c (sl_tenant l) then write_row t l else l)
       (tb_sync_logs d)\<rparr>"

text \<open>
  \<open>flush()\<close> with nothing new added: it writes the tracked row if it changed (no statement of the
  source deletes a job, so the row is there).
\<close>

definition flush_log :: "env \<Rightarrow> 'z session_scheme \<Rightarrow> (exn + unit) \<times> 'z session_scheme" where
  "flush_log env s = (case se_log s of
     None \<Rightarrow> (Inr (), s)
   | Some t \<Rightarrow>
     if needs_update t then
       in_flush (send env (UpdateSyncLog (tk_row t))
         (\<lambda>s. (Inr (), s\<lparr>se_db := update_log_row (se_context s) t (se_db s), se_log := Some (mark_saved t)\<rparr>)) s)
     else (Inr (), s))"

text \<open>\<open>execute\<close> flushes first; \<open>add\<close> and \<open>flush\<close> send the insertion within the flush.\<close>

definition execute ::
  "env \<Rightarrow> statement \<Rightarrow> ('z session_scheme \<Rightarrow> (exn + 'a) \<times> 'z session_scheme)
     \<Rightarrow> 'z session_scheme \<Rightarrow> (exn + 'a) \<times> 'z session_scheme" where
  "execute env st effect = sbind (flush_log env) (\<lambda>_. send env st effect)"

definition add_and_flush ::
  "env \<Rightarrow> statement \<Rightarrow> ('z session_scheme \<Rightarrow> (exn + 'a) \<times> 'z session_scheme)
     \<Rightarrow> 'z session_scheme \<Rightarrow> (exn + 'a) \<times> 'z session_scheme" where
  "add_and_flush env st effect = sbind (flush_log env) (\<lambda>_ s. in_flush (send env st effect s))"

text \<open>
  COMMIT of a transaction that the server has aborted rolls it back without an error.  A refused
  COMMIT leaves nothing of the transaction.
\<close>

definition commit :: "env \<Rightarrow> 'z session_scheme \<Rightarrow> (exn + unit) \<times> 'z session_scheme" where
  "commit env = sbind (flush_log env) (\<lambda>_ s.
     if se_state s = TxAborted
     then (Inr (), s\<lparr>se_db := se_committed s, se_state := TxActive, se_tx := Suc (se_tx s)\<rparr>)
     else in_flush (send env CommitWork
       (\<lambda>s. (Inr (), s\<lparr>se_committed := se_db s, se_tx := Suc (se_tx s)\<rparr>)) s))"

definition rollback :: "'z session_scheme \<Rightarrow> 'z session_scheme" where
  "rollback s = s\<lparr>se_db := se_committed s, se_state := TxActive, se_tx := Suc (se_tx s),
     se_log := expire (se_log s)\<rparr>"

text \<open>\<open>scalar_one_or_none()\<close>.\<close>

definition one_or_none :: "'r list \<Rightarrow> exn + 'r option" where
  "one_or_none rows = (case rows of [] \<Rightarrow> Inr None | [r] \<Rightarrow> Inr (Some r) | _ \<Rightarrow> Inl MultipleResultsFound)"

text \<open>A \<open>SELECT\<close>: the rows of a table that the policy shows and that match.\<close>

definition select ::
  "env \<Rightarrow> statement \<Rightarrow> (db \<Rightarrow> 'r list) \<Rightarrow> ('r \<Rightarrow> uuid) \<Rightarrow> ('r \<Rightarrow> bool)
     \<Rightarrow> 'z session_scheme \<Rightarrow> (exn + 'r option) \<times> 'z session_scheme" where
  "select env st table tenant_of matches = execute env st (\<lambda>s.
     (one_or_none (filter (\<lambda>r. rls_visible (se_context s) (tenant_of r) \<and> matches r) (table (se_db s))), s))"

text \<open>
  \<open>set_tenant_context\<close> and \<open>reset_tenant_context\<close> of \<open>app/database.py\<close>; the setting is the
  session's, not the transaction's.
\<close>

definition set_tenant_context :: "env \<Rightarrow> uuid \<Rightarrow> 'z session_scheme \<Rightarrow> (exn + unit) \<times> 'z session_scheme" where
  "set_tenant_context env tenant_id = execute env (SetTenant tenant_id)
     (\<lambda>s. (Inr (), s\<lparr>se_context := RuntimeRole (Some tenant_id)\<rparr>))"

definition reset_tenant_context :: "env \<Rightarrow> 'z session_scheme \<Rightarrow> (exn + unit) \<times> 'z session_scheme" where
  "reset_tenant_context env = execute env ResetTenant
     (\<lambda>s. (Inr (), s\<lparr>se_context := RuntimeRole None\<rparr>))"

text \<open>\<open>db.get(SyncLog, id)\<close> when the session has no such object yet, and \<open>db.refresh\<close>.\<close>

definition get_sync_log :: "env \<Rightarrow> uuid \<Rightarrow> 'z session_scheme \<Rightarrow> (exn + bool) \<times> 'z session_scheme" where
  "get_sync_log env i = sbind
     (select env (SelectSyncLog i) tb_sync_logs sl_tenant (log_by_id i))
     (\<lambda>r s. case r of None \<Rightarrow> (Inr False, s) | Some l \<Rightarrow> (Inr True, s\<lparr>se_log := Some (track l)\<rparr>))"

definition refresh_sync_log :: "env \<Rightarrow> 'z session_scheme \<Rightarrow> (exn + unit) \<times> 'z session_scheme" where
  "refresh_sync_log env s = (case se_log s of
     None \<Rightarrow> (Inl InvalidRequestError, s)
   | Some t \<Rightarrow> sbind
       (select env (SelectSyncLog (sl_id (tk_row t))) tb_sync_logs sl_tenant (log_by_id (sl_id (tk_row t))))
       (\<lambda>r s. case r of None \<Rightarrow> (Inl InvalidRequestError, s)
         | Some l \<Rightarrow> (Inr (), s\<lparr>se_log := Some (track l)\<rparr>)) s)"

text \<open>
  Reading or writing an attribute of the tracked row; once expired it has to be loaded, which a
  session that is not active refuses.
\<close>

definition with_log :: "(tracked \<Rightarrow> tracked) \<Rightarrow> 'z session_scheme \<Rightarrow> (exn + unit) \<times> 'z session_scheme" where
  "with_log f s = (case se_log s of
     None \<Rightarrow> (Inl InvalidRequestError, s)
   | Some t \<Rightarrow> if tk_expired t then (Inl PendingRollbackError, s)
     else (Inr (), s\<lparr>se_log := Some (f t)\<rparr>))"

definition set_row :: "(sync_log \<Rightarrow> sync_log) \<Rightarrow> tracked \<Rightarrow> tracked" where
  "set_row f t = t\<lparr>tk_row := f (tk_row t)\<rparr>"

text \<open>\<open>errors = sync_log.errors or []; errors.append(x); sync_log.errors = errors\<close>.\<close>

definition append_error :: "json \<Rightarrow> tracked \<Rightarrow> tracked" where
  "append_error x t =
     (let (r, h) = (case tk_errors t of
            Some i \<Rightarrow> if tk_heap t ! i = [] then (length (tk_heap t), tk_heap t @ [[]]) else (i, tk_heap t)
          | None \<Rightarrow> (length (tk_heap t), tk_heap t @ [[]]))
      in t\<lparr>tk_heap := h[r := h ! r @ [x]], tk_errors := Some r,
           tk_old_errors := (case tk_old_errors t of None \<Rightarrow> Some (tk_errors t) | Some old \<Rightarrow> Some old)\<rparr>)"

section \<open>What every statement keeps\<close>

lemma text_fits: "varchar n s \<longleftrightarrow> length s \<le> n \<and> text_ok s" "varchar_null n x \<longleftrightarrow> at_most n x \<and> text_null x"
  by (auto simp: varchar_def varchar_null_def text_null_def at_most_def split: option.splits)

lemma text_null_simps [simp]:
  "text_null None" "text_null (Some s) = text_ok s" "at_most n None" "at_most n (Some s) \<longleftrightarrow> length s \<le> n"
  by (simp_all add: text_null_def at_most_def)

lemma tick_sel [simp]:
  "se_db (tick s) = se_db s" "se_committed (tick s) = se_committed s" "se_state (tick s) = se_state s"
  "se_context (tick s) = se_context s" "se_next_id (tick s) = se_next_id s" "se_tx (tick s) = se_tx s"
  "se_log (tick s) = se_log s" "se_count (tick s) = Suc (se_count s)"
  by (simp_all add: tick_def)

lemma update_log_row_sel [simp]:
  "tb_tenants (update_log_row c t d) = tb_tenants d" "tb_users (update_log_row c t d) = tb_users d"
  "tb_products (update_log_row c t d) = tb_products d" "tb_locations (update_log_row c t d) = tb_locations d"
  "tb_batches (update_log_row c t d) = tb_batches d" "tb_transactions (update_log_row c t d) = tb_transactions d"
  by (simp_all add: update_log_row_def)

text \<open>
  The interface of the session: whatever these four changes of a session keep, every statement
  keeps, if its own effect does.
\<close>

locale session_invariant =
  fixes I :: "'z session_scheme \<Rightarrow> bool"
  assumes inv_tick: "I s \<Longrightarrow> I (tick s)"
    and inv_aborted: "I s \<Longrightarrow> se_state s = TxActive \<Longrightarrow> I (s\<lparr>se_state := TxAborted\<rparr>)"
    and inv_flush_failed: "I s \<Longrightarrow> I (flush_failed s)"
    and inv_saved: "I s \<Longrightarrow> se_log s = Some t
      \<Longrightarrow> I (s\<lparr>se_db := update_log_row (se_context s) t (se_db s), se_log := Some (mark_saved t)\<rparr>)"
begin

lemma inv_send:
  assumes "I s"
    and "I (tick s) \<Longrightarrow> se_state s = TxActive \<Longrightarrow> answer_of env s st = Accepted
      \<Longrightarrow> I (snd (effect (tick s)))"
  shows "I (snd (send env st effect s))"
  using assms inv_tick [of s] inv_aborted [of "tick s"]
  by (auto simp: send_def split: tx_state.splits answer.splits)

lemma inv_in_flush: "I (snd r) \<Longrightarrow> I (snd (in_flush r))"
  by (auto simp: in_flush_def split: prod.splits sum.splits intro: inv_flush_failed)

lemma inv_flush_log: "I s \<Longrightarrow> I (snd (flush_log env s))"
  using inv_saved [of "tick s"]
  by (auto simp: flush_log_def split: option.splits intro!: inv_in_flush inv_send)

lemma inv_execute:
  assumes "I s"
    and "\<And>s. I (tick s) \<Longrightarrow> se_state s = TxActive \<Longrightarrow> answer_of env s st = Accepted
      \<Longrightarrow> I (snd (effect (tick s)))"
  shows "I (snd (execute env st effect s))"
  unfolding execute_def
  by (rule sbind_keeps_inv [where P = I], rule inv_flush_log, rule assms(1), erule inv_send, erule assms(2))

lemma inv_add_and_flush:
  assumes "I s"
    and "\<And>s. I (tick s) \<Longrightarrow> se_state s = TxActive \<Longrightarrow> answer_of env s st = Accepted
      \<Longrightarrow> I (snd (effect (tick s)))"
  shows "I (snd (add_and_flush env st effect s))"
  unfolding add_and_flush_def
  by (rule sbind_keeps_inv [where P = I], rule inv_flush_log, rule assms(1), rule inv_in_flush,
      erule inv_send, erule assms(2))

lemma inv_select: "I s \<Longrightarrow> I (snd (select env st table tenant_of matches s))"
  unfolding select_def by (rule inv_execute) simp_all

end

text \<open>An invariant that does not look at the tracked row either.\<close>

locale logged_invariant = session_invariant I for I :: "'z session_scheme \<Rightarrow> bool" +
  assumes inv_log: "I s \<Longrightarrow> I (s\<lparr>se_log := l\<rparr>)"
begin

lemma inv_with_log: "I s \<Longrightarrow> I (snd (with_log f s))"
  by (auto simp: with_log_def intro: inv_log split: option.splits)

end

text \<open>A flush and a query change neither the context, nor the transaction, nor the supply of ids.\<close>

interpretation session_constants:
  logged_invariant "\<lambda>s. se_context s = c \<and> se_tx s = n \<and> se_next_id s = i \<and> se_committed s = d
    \<and> session.more s = m" for c n i d m
  by unfold_locales (simp_all add: tick_def flush_failed_def)

lemma flush_log_const [simp]:
  "se_context (snd (flush_log env s)) = se_context s" "se_tx (snd (flush_log env s)) = se_tx s"
  "se_next_id (snd (flush_log env s)) = se_next_id s" "se_committed (snd (flush_log env s)) = se_committed s"
  "session.more (snd (flush_log env s)) = session.more s"
  using session_constants.inv_flush_log [of s "se_context s" "se_tx s" "se_next_id s" "se_committed s"
      "session.more s" env]
  by simp_all

lemma select_const [simp]:
  "se_context (snd (select env st tb f P s)) = se_context s" "se_tx (snd (select env st tb f P s)) = se_tx s"
  "se_next_id (snd (select env st tb f P s)) = se_next_id s"
  "se_committed (snd (select env st tb f P s)) = se_committed s"
  "session.more (snd (select env st tb f P s)) = session.more s"
  using session_constants.inv_select [of s "se_context s" "se_tx s" "se_next_id s" "se_committed s"
      "session.more s" env st tb f P]
  by simp_all

text \<open>What a query returns is in its table, and the query ran in an active transaction.\<close>

lemma one_or_none_Some: "one_or_none rows = Inr (Some r) \<longleftrightarrow> rows = [r]"
  by (auto simp: one_or_none_def split: list.splits)

lemma one_or_none_None: "one_or_none rows = Inr None \<longleftrightarrow> rows = []"
  by (auto simp: one_or_none_def split: list.splits)

lemma send_Inr:
  "send env st effect s = (Inr v, t) \<Longrightarrow> se_state s = TxActive \<and> answer_of env s st = Accepted \<and>
     effect (tick s) = (Inr v, t)"
  by (auto simp: send_def split: tx_state.splits answer.splits)

lemma execute_Inr:
  "execute env st effect s = (Inr v, t) \<Longrightarrow>
     \<exists>u. flush_log env s = (Inr (), u) \<and> se_state u = TxActive \<and> answer_of env u st = Accepted \<and>
         effect (tick u) = (Inr v, t)"
  by (auto simp: execute_def sbind_def split: prod.splits sum.splits dest!: send_Inr)

lemma select_Inr:
  "select env st table tenant_of matches s = (Inr (Some r), t) \<Longrightarrow>
     se_state t = TxActive \<and> r \<in> set (table (se_db t)) \<and> matches r \<and> rls_visible (se_context t) (tenant_of r)"
  unfolding select_def
  by (drule execute_Inr) (auto simp: one_or_none_Some filter_eq_Cons_iff)

end
