(* ===== verification/Persist.thy ===== *)
theory Persist
  imports Store Normalizer
begin

text \<open>
  The half of \<open>DataNormalizer\<close> (\<open>app/integrations/normalizer.py\<close>) that writes to the database:
  the upserts, the insertion of transactions, and the resolution of SKU codes and location names
  to rows.  A worker is the session together with the normalizer's tenant and its two caches, in
  which the id of a row stands for the cached object.
\<close>

record worker = session +
  nz_tenant :: uuid
  nz_product_cache :: "(string, uuid) pydict"
  nz_location_cache :: "(string, uuid) pydict"

type_synonym 'a act = "worker \<Rightarrow> (exn + 'a) \<times> worker"

definition new_normalizer :: "uuid \<Rightarrow> worker \<Rightarrow> worker" where
  "new_normalizer tenant_id w =
     w\<lparr>nz_tenant := tenant_id, nz_product_cache := [], nz_location_cache := []\<rparr>"

section \<open>INSERT ... ON CONFLICT DO UPDATE\<close>

definition upsert :: "('r \<Rightarrow> 'k) \<Rightarrow> ('r \<Rightarrow> 'r) \<Rightarrow> 'r \<Rightarrow> 'r list \<Rightarrow> 'r list" where
  "upsert key update new rows =
     (if key new \<in> key ` set rows
      then map (\<lambda>r. if key r = key new then update r else r) rows
      else rows @ [new])"

text \<open>The constraints \<open>uq_tenant_sku\<close> and \<open>uq_tenant_batch_product\<close>.\<close>

definition product_key :: "product \<Rightarrow> uuid \<times> string" where
  "product_key p = (p_tenant p, p_sku_code p)"

definition batch_key :: "batch \<Rightarrow> uuid \<times> string \<times> uuid" where
  "batch_key b = (b_tenant b, b_batch_no b, b_product_id b)"

section \<open>Products\<close>

definition product_of :: "uuid \<Rightarrow> instant \<Rightarrow> uuid \<Rightarrow> NormalizedProduct \<Rightarrow> product" where
  "product_of tenant_id now new_id np =
     \<lparr>p_id = new_id, p_tenant = tenant_id, p_sku_code = np_sku_code np, p_name = np_name np,
      p_category = np_category np, p_unit_of_measure = np_unit_of_measure np,
      p_unit_cost_paise = np_unit_cost_paise np,
      p_selling_price_paise = np_selling_price_paise np,
      p_industry_attributes = np_industry_attributes np,
      p_created_at = now, p_updated_at = now\<rparr>"

definition set_product :: "instant \<Rightarrow> NormalizedProduct \<Rightarrow> product \<Rightarrow> product" where
  "set_product now np p = p\<lparr>p_name := np_name np, p_category := np_category np,
     p_unit_of_measure := np_unit_of_measure np, p_unit_cost_paise := np_unit_cost_paise np,
     p_selling_price_paise := np_selling_price_paise np,
     p_industry_attributes := np_industry_attributes np, p_updated_at := now\<rparr>"

definition put_product :: "env \<Rightarrow> NormalizedProduct \<Rightarrow> worker \<Rightarrow> worker" where
  "put_product env np w = w\<lparr>
     se_db := (se_db w)\<lparr>tb_products := upsert product_key (set_product (sql_now env w) np)
       (product_of (nz_tenant w) (sql_now env w) (se_next_id w) np) (tb_products (se_db w))\<rparr>,
     se_next_id := Suc (se_next_id w)\<rparr>"

text \<open>The id that \<open>RETURNING\<close> gives.\<close>

definition id_of_key :: "('r \<Rightarrow> 'k) \<Rightarrow> ('r \<Rightarrow> uuid) \<Rightarrow> 'k \<Rightarrow> 'r list \<Rightarrow> uuid" where
  "id_of_key key ident k rows = (case find (\<lambda>r. key r = k) rows of Some r \<Rightarrow> ident r | None \<Rightarrow> 0)"

definition cache_product :: "string \<Rightarrow> uuid \<Rightarrow> worker \<Rightarrow> worker" where
  "cache_product sku i w = w\<lparr>nz_product_cache := dict_set sku i (nz_product_cache w)\<rparr>"

definition returned_product :: "NormalizedProduct \<Rightarrow> worker \<Rightarrow> uuid" where
  "returned_product np w =
     id_of_key product_key p_id (nz_tenant w, np_sku_code np) (tb_products (se_db w))"

definition upsert_product :: "env \<Rightarrow> NormalizedProduct \<Rightarrow> uuid act" where
  "upsert_product env np w =
     sbind (execute env (UpsertProduct (product_of (nz_tenant w) (sql_now env w) (se_next_id w) np))
       (\<lambda>w. (Inr (returned_product np (put_product env np w)), put_product env np w)))
     (\<lambda>i. sbind (flush_log env) (\<lambda>_ w. (Inr i, cache_product (np_sku_code np) i w))) w"

section \<open>Resolution\<close>

definition product_not_found :: "string \<Rightarrow> exn" where
  "product_not_found sku =
     NormalizationError (''Product with sku_code '' @ py_repr sku @ '' not found'')"

definition resolve_product :: "env \<Rightarrow> string \<Rightarrow> uuid act" where
  "resolve_product env sku_code w = (case map_of (nz_product_cache w) sku_code of
     Some i \<Rightarrow> (Inr i, w)
   | None \<Rightarrow> sbind
       (select env (SelectProduct (nz_tenant w) sku_code) tb_products p_tenant
         (\<lambda>p. p_tenant p = nz_tenant w \<and> p_sku_code p = sku_code))
       (\<lambda>r w. case r of None \<Rightarrow> (Inl (product_not_found sku_code), w)
          | Some p \<Rightarrow> (Inr (p_id p), cache_product sku_code (p_id p) w)) w)"

definition new_location :: "uuid \<Rightarrow> instant \<Rightarrow> uuid \<Rightarrow> string \<Rightarrow> location" where
  "new_location tenant_id now new_id name =
     \<lparr>l_id = new_id, l_tenant = tenant_id, l_name = name, l_type = WAREHOUSE, l_city = None,
      l_state = None, l_is_active = True, l_created_at = now, l_updated_at = now\<rparr>"

definition put_location :: "env \<Rightarrow> string \<Rightarrow> worker \<Rightarrow> worker" where
  "put_location env name w = w\<lparr>
     se_db := (se_db w)\<lparr>tb_locations := tb_locations (se_db w)
       @ [new_location (nz_tenant w) (sql_now env w) (se_next_id w) name]\<rparr>,
     se_next_id := Suc (se_next_id w)\<rparr>"

definition cache_location :: "string \<Rightarrow> uuid \<Rightarrow> worker \<Rightarrow> worker" where
  "cache_location name i w = w\<lparr>nz_location_cache := dict_set name i (nz_location_cache w)\<rparr>"

definition create_location :: "env \<Rightarrow> string \<Rightarrow> uuid act" where
  "create_location env name w =
     add_and_flush env (InsertLocation (new_location (nz_tenant w) (sql_now env w) (se_next_id w) name))
       (\<lambda>w. (Inr (se_next_id w), put_location env name w)) w"

definition resolve_location :: "env \<Rightarrow> string \<Rightarrow> uuid act" where
  "resolve_location env name w = (case map_of (nz_location_cache w) name of
     Some i \<Rightarrow> (Inr i, w)
   | None \<Rightarrow> sbind
       (select env (SelectLocation (nz_tenant w) name) tb_locations l_tenant
         (\<lambda>l. l_tenant l = nz_tenant w \<and> l_name l = name))
       (\<lambda>r. sbind (\<lambda>w. case r of None \<Rightarrow> create_location env name w | Some l \<Rightarrow> (Inr (l_id l), w))
          (\<lambda>i w. (Inr i, cache_location name i w))) w)"

section \<open>Transactions\<close>

definition transaction_of ::
  "uuid \<Rightarrow> instant \<Rightarrow> uuid \<Rightarrow> uuid \<Rightarrow> uuid \<Rightarrow> NormalizedTransaction \<Rightarrow> instant \<Rightarrow> txn" where
  "transaction_of tenant_id now new_id product_id location_id nt at_instant =
     \<lparr>t_id = new_id, t_tenant = tenant_id, t_product_id = product_id, t_location_id = location_id,
      t_transaction_type = nt_transaction_type nt, t_quantity = nt_quantity nt,
      t_unit_cost_paise = nt_unit_cost_paise nt, t_reference_no = nt_reference_no nt,
      t_transaction_date = at_instant, t_created_at = now\<rparr>"

definition put_transaction :: "txn \<Rightarrow> worker \<Rightarrow> worker" where
  "put_transaction t w = w\<lparr>
     se_db := (se_db w)\<lparr>tb_transactions := tb_transactions (se_db w) @ [t]\<rparr>,
     se_next_id := Suc (se_next_id w)\<rparr>"

definition insert_transaction :: "env \<Rightarrow> txn \<Rightarrow> uuid act" where
  "insert_transaction env t =
     add_and_flush env (InsertTransaction t) (\<lambda>w. (Inr (t_id t), put_transaction t w))"

text \<open>The columns that make a transaction a repetition; a NULL reference matches a NULL one.\<close>

definition same_transaction :: "uuid \<Rightarrow> uuid \<Rightarrow> uuid \<Rightarrow> NormalizedTransaction \<Rightarrow> txn \<Rightarrow> bool" where
  "same_transaction tenant_id product_id location_id nt t \<longleftrightarrow>
     t_tenant t = tenant_id \<and> t_product_id t = product_id \<and> t_location_id t = location_id \<and>
     t_transaction_type t = nt_transaction_type nt \<and> t_quantity t = nt_quantity nt \<and>
     t_unit_cost_paise t = nt_unit_cost_paise nt \<and> t_reference_no t = nt_reference_no nt \<and>
     t_transaction_date t = instant_of (nt_transaction_date nt)"

definition find_transaction ::
  "env \<Rightarrow> uuid \<Rightarrow> uuid \<Rightarrow> NormalizedTransaction \<Rightarrow> txn option act" where
  "find_transaction env product_id location_id nt w =
     select env (SelectTransaction (nz_tenant w) product_id location_id (nt_transaction_type nt)
         (nt_quantity nt) (nt_unit_cost_paise nt) (nt_reference_no nt) (nt_transaction_date nt))
       tb_transactions t_tenant (same_transaction (nz_tenant w) product_id location_id nt) w"

definition add_transaction :: "env \<Rightarrow> uuid \<Rightarrow> uuid \<Rightarrow> NormalizedTransaction \<Rightarrow> uuid act" where
  "add_transaction env product_id location_id nt w =
     insert_transaction env (transaction_of (nz_tenant w) (sql_now env w) (se_next_id w) product_id location_id nt
       (instant_of (nt_transaction_date nt))) w"

definition create_transaction :: "env \<Rightarrow> NormalizedTransaction \<Rightarrow> uuid act" where
  "create_transaction env nt =
     sbind (resolve_product env (nt_sku_code nt)) (\<lambda>product_id.
     sbind (resolve_location env (nt_location_name nt)) (\<lambda>location_id.
     sbind (find_transaction env product_id location_id nt) (\<lambda>existing w.
       case existing of Some t \<Rightarrow> (Inr (t_id t), w)
       | None \<Rightarrow> add_transaction env product_id location_id nt w)))"

text \<open>\<open>now\<close> is what \<open>datetime.now(UTC)\<close> returns.\<close>

definition upsert_inventory ::
  "env \<Rightarrow> instant \<Rightarrow> NormalizedInventoryRecord \<Rightarrow> uuid \<Rightarrow> uuid \<Rightarrow> unit act" where
  "upsert_inventory env now rec product_id location_id w =
     sbind (insert_transaction env
       \<lparr>t_id = se_next_id w, t_tenant = nz_tenant w, t_product_id = product_id,
        t_location_id = location_id, t_transaction_type = IN, t_quantity = ni_quantity rec,
        t_unit_cost_paise = ni_unit_cost_paise rec, t_reference_no = None,
        t_transaction_date = now, t_created_at = sql_now env w\<rparr>)
     (\<lambda>_ w. (Inr (), w)) w"

section \<open>Batches\<close>

definition batch_of ::
  "uuid \<Rightarrow> instant \<Rightarrow> uuid \<Rightarrow> uuid \<Rightarrow> uuid option \<Rightarrow> NormalizedBatch \<Rightarrow> batch" where
  "batch_of tenant_id now new_id product_id location_id nb =
     \<lparr>b_id = new_id, b_tenant = tenant_id, b_product_id = product_id, b_batch_no = nb_batch_no nb,
      b_manufactured_date = nb_manufactured_date nb, b_expiry_date = nb_expiry_date nb,
      b_quantity = nb_quantity nb, b_location_id = location_id, b_created_at = now, b_updated_at = now\<rparr>"

definition set_batch :: "instant \<Rightarrow> uuid option \<Rightarrow> NormalizedBatch \<Rightarrow> batch \<Rightarrow> batch" where
  "set_batch now location_id nb b = b\<lparr>b_manufactured_date := nb_manufactured_date nb,
     b_expiry_date := nb_expiry_date nb, b_quantity := nb_quantity nb,
     b_location_id := location_id, b_updated_at := now\<rparr>"

definition put_batch ::
  "env \<Rightarrow> uuid \<Rightarrow> uuid option \<Rightarrow> NormalizedBatch \<Rightarrow> worker \<Rightarrow> worker" where
  "put_batch env product_id location_id nb w = w\<lparr>
     se_db := (se_db w)\<lparr>tb_batches := upsert batch_key (set_batch (sql_now env w) location_id nb)
       (batch_of (nz_tenant w) (sql_now env w) (se_next_id w) product_id location_id nb)
       (tb_batches (se_db w))\<rparr>,
     se_next_id := Suc (se_next_id w)\<rparr>"

definition write_batch ::
  "env \<Rightarrow> uuid \<Rightarrow> uuid option \<Rightarrow> NormalizedBatch \<Rightarrow> uuid act" where
  "write_batch env product_id location_id nb w =
     execute env
       (UpsertBatch (batch_of (nz_tenant w) (sql_now env w) (se_next_id w) product_id location_id nb))
       (\<lambda>w. let w = put_batch env product_id location_id nb w
            in (Inr (id_of_key batch_key b_id (nz_tenant w, nb_batch_no nb, product_id)
                  (tb_batches (se_db w))), w)) w"

text \<open>An empty location name is no location.\<close>

definition batch_location :: "env \<Rightarrow> string option \<Rightarrow> uuid option act" where
  "batch_location env name w = (case name of
     None \<Rightarrow> (Inr None, w)
   | Some n \<Rightarrow> if n = [] then (Inr None, w)
       else sbind (resolve_location env n) (\<lambda>i w. (Inr (Some i), w)) w)"

definition upsert_batch :: "env \<Rightarrow> NormalizedBatch \<Rightarrow> uuid act" where
  "upsert_batch env nb =
     sbind (resolve_product env (nb_sku_code nb)) (\<lambda>product_id.
     sbind (batch_location env (nb_location_name nb)) (\<lambda>location_id.
     sbind (write_batch env product_id location_id nb) (\<lambda>i.
     sbind (flush_log env) (\<lambda>_ w. (Inr i, w)))))"

section \<open>Tables with a unique key\<close>

text \<open>
  The interface of \<open>INSERT ... ON CONFLICT DO UPDATE\<close>: the update of the conflicting row changes
  neither the columns of the constraint nor the id.
\<close>

locale keyed_table =
  fixes key :: "'r \<Rightarrow> 'k" and ident :: "'r \<Rightarrow> uuid" and update :: "'r \<Rightarrow> 'r"
  assumes key_update: "key (update r) = key r"
    and ident_update: "ident (update r) = ident r"
begin

lemma map_updated:
  assumes "\<And>r. f (update r) = f r"
  shows "map f (map (\<lambda>r. if key r = k then update r else r) rows) = map f rows"
  using assms by (induction rows) auto

lemma upsert_keys_distinct:
  "distinct (map key rows) \<Longrightarrow> distinct (map key (upsert key update new rows))"
  by (auto simp: upsert_def map_updated key_update simp del: map_map)

lemma upsert_idents_distinct:
  assumes "distinct (map ident rows)" and "ident new \<notin> ident ` set rows"
  shows "distinct (map ident (upsert key update new rows))"
  using assms by (auto simp: upsert_def map_updated ident_update simp del: map_map)

lemma upsert_row:
  "r \<in> set (upsert key update new rows) \<Longrightarrow>
     r = new \<or> r \<in> set rows \<or> (\<exists>r' \<in> set rows. key r' = key new \<and> r = update r')"
  by (auto simp: upsert_def split: if_splits)

lemma upsert_keeps_row:
  "r \<in> set rows \<Longrightarrow> \<exists>r' \<in> set (upsert key update new rows). ident r' = ident r \<and> key r' = key r"
  by (rule bexI [of _ "if key new \<in> key ` set rows \<and> key r = key new then update r else r"])
    (auto simp: upsert_def ident_update key_update)

lemma upsert_idents:
  "ident ` set (upsert key update new rows) \<subseteq> insert (ident new) (ident ` set rows)"
  "ident ` set rows \<subseteq> ident ` set (upsert key update new rows)"
proof -
  show "ident ` set (upsert key update new rows) \<subseteq> insert (ident new) (ident ` set rows)"
    by (auto simp: upsert_def ident_update)
  show "ident ` set rows \<subseteq> ident ` set (upsert key update new rows)"
    using upsert_keeps_row by (metis image_subsetI image_eqI)
qed

text \<open>Looking the key up afterwards finds the updated or the new row; other keys keep theirs.\<close>

lemma find_updated:
  "find (\<lambda>r. key r = k) (map (\<lambda>r. if key r = k' then update r else r) rows) =
     map_option (\<lambda>r. if key r = k' then update r else r) (find (\<lambda>r. key r = k) rows)"
  by (induction rows) (auto simp: key_update)

lemma find_append: "find P (xs @ ys) = (case find P xs of None \<Rightarrow> find P ys | Some r \<Rightarrow> Some r)"
  by (induction xs) auto

lemma find_key: "find (\<lambda>r. key r = k) rows = Some r \<Longrightarrow> r \<in> set rows \<and> key r = k"
  by (induction rows) (auto split: if_splits)

lemma find_key_None: "find (\<lambda>r. key r = k) rows = None \<longleftrightarrow> k \<notin> key ` set rows"
  by (induction rows) auto

lemma find_upsert:
  "find (\<lambda>r. key r = k) (upsert key update new rows) =
     (if k = key new then Some (case find (\<lambda>r. key r = k) rows of None \<Rightarrow> new | Some r \<Rightarrow> update r)
      else find (\<lambda>r. key r = k) rows)"
proof (cases "key new \<in> key ` set rows")
  case True
  then obtain r where r: "find (\<lambda>r. key r = key new) rows = Some r"
    using find_key_None [of "key new" rows] by (cases "find (\<lambda>r. key r = key new) rows") auto
  then have "key r = key new" using find_key by blast
  moreover have "key r' = k" if "find (\<lambda>r. key r = k) rows = Some r'" for r'
    using that find_key by blast
  ultimately show ?thesis using True r
    by (cases "find (\<lambda>r. key r = k) rows") (auto simp: upsert_def find_updated)
next
  case False
  then have "find (\<lambda>r. key r = key new) rows = None" by (simp add: find_key_None)
  with False show ?thesis by (auto simp: upsert_def find_append split: option.splits)
qed

text \<open>Rows of other keys are not touched.\<close>

lemma filter_upsert:
  assumes "\<not> P (key new)"
  shows "filter (\<lambda>r. P (key r)) (upsert key update new rows) = filter (\<lambda>r. P (key r)) rows"
proof -
  have "filter (\<lambda>r. P (key r)) (map (\<lambda>r. if key r = key new then update r else r) rows)
      = filter (\<lambda>r. P (key r)) rows"
    using assms by (induction rows) (auto simp: key_update)
  then show ?thesis using assms by (simp add: upsert_def)
qed

lemma length_upsert:
  "length (upsert key update new rows) = length rows + (if key new \<in> key ` set rows then 0 else 1)"
  by (simp add: upsert_def)

lemma find_ident_of_key:
  "id_of_key key ident (key new) (upsert key update new rows) =
     (case find (\<lambda>r. key r = key new) rows of None \<Rightarrow> ident new | Some r \<Rightarrow> ident r)"
  by (auto simp: id_of_key_def find_upsert ident_update split: option.splits)

lemma id_of_key_row:
  "\<exists>r \<in> set (upsert key update new rows). ident r = id_of_key key ident (key new) (upsert key update new rows)
     \<and> key r = key new"
proof -
  obtain r where "find (\<lambda>r. key r = key new) (upsert key update new rows) = Some r"
    by (simp add: find_upsert)
  moreover from this have "r \<in> set (upsert key update new rows)" "key r = key new"
    using find_key by blast+
  ultimately show ?thesis by (auto simp: id_of_key_def)
qed

end

text \<open>An update that overwrites: doing it again, or to the row it inserts, changes nothing.\<close>

locale overwriting_table = keyed_table key ident update
  for key :: "'r \<Rightarrow> 'k" and ident :: "'r \<Rightarrow> uuid" and update :: "'r \<Rightarrow> 'r" +
  fixes fresh :: "uuid \<Rightarrow> 'r"
  assumes update_twice: "update (update r) = update r"
    and update_fresh: "update (fresh i) = fresh i"
    and key_fresh: "key (fresh i) = key (fresh j)"
begin

lemma upsert_twice:
  "upsert key update (fresh j) (upsert key update (fresh i) rows) = upsert key update (fresh i) rows"
proof (cases "key (fresh i) \<in> key ` set rows")
  case True
  let ?f = "\<lambda>r. if key r = key (fresh i) then update r else r"
  have "set (map key (map ?f rows)) = set (map key rows)"
    by (simp only: map_updated [where f = key, OF key_update])
  then have "key ` set (map ?f rows) = key ` set rows" by (simp only: set_map)
  moreover have "map ?f (map ?f rows) = map ?f rows"
    by (simp add: key_update update_twice)
  ultimately show ?thesis using True key_fresh [of j i]
    by (simp only: upsert_def if_True simp_thms)
next
  case False
  then have "map (\<lambda>r. if key r = key (fresh i) then update r else r) rows = rows"
    by (intro map_idI if_not_P) (metis image_eqI)
  with False show ?thesis
    using key_fresh [of j i] by (simp add: upsert_def update_fresh)
qed

end

interpretation products: overwriting_table product_key p_id "set_product now np"
    "\<lambda>i. product_of tenant_id now i np" for now tenant_id np
  by unfold_locales (simp_all add: product_key_def set_product_def product_of_def)

interpretation batches: overwriting_table batch_key b_id "set_batch now loc nb"
    "\<lambda>i. batch_of tenant_id now i pid loc nb" for now loc tenant_id pid nb
  by unfold_locales (simp_all add: batch_key_def set_batch_def batch_of_def)

lemma key_of_new [simp]:
  "product_key (product_of t now i np) = (t, np_sku_code np)"
  "batch_key (batch_of t now i pid loc nb) = (t, nb_batch_no nb, pid)"
  "p_id (product_of t now i np) = i" "b_id (batch_of t now i pid loc nb) = i"
  by (simp_all add: product_key_def product_of_def batch_key_def batch_of_def)

end
