(* ===== verification/Integrity.thy ===== *)
theory Integrity
  imports Persist
begin

text \<open>
  What the persisting half of the normalizer keeps.  An invariant of the worker is proved of the
  single changes the operations make (a row put into a table, a cache entry, what a statement does
  to the session) and follows for every operation, through the interface \<open>worker_invariant\<close>.
  It is used for the integrity of the tables, for the isolation of the other tenants, and for
  what is committed.
\<close>

section \<open>The interface\<close>

text \<open>
  Between resolving a name and using the id, the invariant goes on with what the resolution
  found out: the rows owned under the names of A and B.
\<close>

definition owning ::
  "(worker \<Rightarrow> bool) \<Rightarrow> (worker \<Rightarrow> string \<Rightarrow> uuid \<Rightarrow> bool) \<Rightarrow> (worker \<Rightarrow> string \<Rightarrow> uuid \<Rightarrow> bool)
     \<Rightarrow> (string \<times> uuid) set \<Rightarrow> (string \<times> uuid) set \<Rightarrow> uuid \<Rightarrow> worker \<Rightarrow> bool" where
  "owning I OP OL A B T w \<longleftrightarrow>
     I w \<and> (\<forall>(s, i) \<in> A. OP w s i) \<and> (\<forall>(n, j) \<in> B. OL w n j) \<and> nz_tenant w = T"

locale worker_invariant =
  fixes I :: "worker \<Rightarrow> bool"
    and OP OL :: "worker \<Rightarrow> string \<Rightarrow> uuid \<Rightarrow> bool"
  assumes frame: "session_invariant (owning I OP OL A B T)"
    and found_product: "I w \<Longrightarrow> p \<in> set (tb_products (se_db w)) \<Longrightarrow> p_tenant p = nz_tenant w
      \<Longrightarrow> OP w (p_sku_code p) (p_id p)"
    and found_location: "I w \<Longrightarrow> l \<in> set (tb_locations (se_db w)) \<Longrightarrow> l_tenant l = nz_tenant w
      \<Longrightarrow> OL w (l_name l) (l_id l)"
    and cached_product: "I w \<Longrightarrow> map_of (nz_product_cache w) s = Some i \<Longrightarrow> OP w s i"
    and cached_location: "I w \<Longrightarrow> map_of (nz_location_cache w) n = Some i \<Longrightarrow> OL w n i"
    and cache_product: "owning I OP OL A B T w \<Longrightarrow> (s, i) \<in> A
      \<Longrightarrow> owning I OP OL A B T (cache_product s i w)"
    and cache_location: "owning I OP OL A B T w \<Longrightarrow> (n, i) \<in> B
      \<Longrightarrow> owning I OP OL A B T (cache_location n i w)"
    and put_product: "owning I OP OL A B T w \<Longrightarrow> se_state w = TxActive
      \<Longrightarrow> owning I OP OL (insert (np_sku_code np, id_of_key product_key p_id (T, np_sku_code np)
            (tb_products (se_db (put_product env np w)))) A) B T (put_product env np w)"
    and put_location: "owning I OP OL A B T w \<Longrightarrow> se_state w = TxActive
      \<Longrightarrow> owning I OP OL A (insert (name, se_next_id w) B) T (put_location env name w)"
    and put_transaction: "owning I OP OL A B T w \<Longrightarrow> se_state w = TxActive
      \<Longrightarrow> (s, t_product_id t) \<in> A \<Longrightarrow> (n, t_location_id t) \<in> B
      \<Longrightarrow> t_tenant t = T \<Longrightarrow> t_id t = se_next_id w \<Longrightarrow> owning I OP OL A B T (put_transaction t w)"
    and put_batch: "owning I OP OL A B T w \<Longrightarrow> se_state w = TxActive \<Longrightarrow> (s, pid) \<in> A
      \<Longrightarrow> (\<And>j. lid = Some j \<Longrightarrow> \<exists>n. (n, j) \<in> B)
      \<Longrightarrow> owning I OP OL A B T (put_batch env pid lid nb w)"
begin

abbreviation K where "K \<equiv> owning I OP OL"

lemma K_own: "K A B T w \<Longrightarrow> OP w s i \<Longrightarrow> K (insert (s, i) A) B T w"
  "K A B T w \<Longrightarrow> OL w n j \<Longrightarrow> K A (insert (n, j) B) T w"
  by (auto simp: owning_def)

lemma K_drop: "K (insert x A) B T w \<Longrightarrow> K A B T w" "K A (insert y B) T w \<Longrightarrow> K A B T w"
  by (auto simp: owning_def)

lemma K_tenant: "K A B T w \<Longrightarrow> nz_tenant w = T"
  by (simp add: owning_def)

lemmas K_send = session_invariant.inv_send [OF frame]
lemmas K_flush = session_invariant.inv_flush_log [OF frame]
lemmas K_execute = session_invariant.inv_execute [OF frame]
lemmas K_add = session_invariant.inv_add_and_flush [OF frame]
lemmas K_in_flush = session_invariant.inv_in_flush [OF frame]
lemmas K_select = session_invariant.inv_select [OF frame]
lemmas K_tick = session_invariant.inv_tick [OF frame]

text \<open>\<open>keeps\<close>: the operation keeps K whatever it returns, and owns what it returns.\<close>

lemma resolve_product_keeps:
  assumes K: "K A B T w" and run: "resolve_product env s w = (r, w')"
  shows "K A B T w' \<and> (\<forall>i. r = Inr i \<longrightarrow> K (insert (s, i) A) B T w')"
proof (cases "map_of (nz_product_cache w) s")
  case (Some i)
  with K run show ?thesis
    using cached_product [of w s i] by (auto simp: resolve_product_def owning_def)
next
  case None
  let ?q = "select env (SelectProduct (nz_tenant w) s) tb_products p_tenant
      (\<lambda>p. p_tenant p = nz_tenant w \<and> p_sku_code p = s)"
  have Kq: "K A B T (snd (?q w))" by (rule K_select) (rule K)
  from run [unfolded resolve_product_def None option.case] show ?thesis
  proof (elim sbindE)
    fix e assume "?q w = (Inl e, w')" "r = Inl e"
    with Kq show ?thesis by simp
  next
    fix v u assume q: "?q w = (Inr v, u)"
      and rest: "(case v of None \<Rightarrow> (Inl (product_not_found s), u)
        | Some p \<Rightarrow> (Inr (p_id p), Persist.cache_product s (p_id p) u)) = (r, w')"
    have Ku: "K A B T u" using Kq q by simp
    show ?thesis
    proof (cases v)
      case None
      with rest Ku show ?thesis by auto
    next
      case (Some p)
      have "p \<in> set (tb_products (se_db u))" "p_tenant p = nz_tenant w" "p_sku_code p = s"
        using select_Inr [OF q [unfolded Some]] by simp_all
      then have "OP u s (p_id p)"
        using found_product [of u p] Ku K_tenant [OF K] by (auto simp: owning_def)
      then have "K (insert (s, p_id p) A) B T (Persist.cache_product s (p_id p) u)"
        by (intro cache_product K_own Ku) simp_all
      with rest Some show ?thesis by (auto dest: K_drop)
    qed
  qed
qed

lemma create_location_keeps:
  assumes K: "K A B T w" and run: "create_location env n w = (r, w')"
  shows "K A B T w' \<and> (\<forall>i. r = Inr i \<longrightarrow> K A (insert (n, i) B) T w')"
proof -
  let ?eff = "\<lambda>w. (Inr (se_next_id w), put_location env n w)"
  let ?st = "InsertLocation (new_location (nz_tenant w) (sql_now env w) (se_next_id w) n)"
  have "K A B T (snd (add_and_flush env ?st ?eff w))"
    by (rule K_add [OF K], simp only: snd_conv, rule K_drop(2), rule put_location) simp_all
  moreover have "K A (insert (n, i) B) T w'" if i: "r = Inr i" for i
  proof -
    from run i obtain u where u: "flush_log env w = (Inr (), u)" and "se_state u = TxActive"
      and "?eff (tick u) = (Inr i, w')"
      by (auto simp: create_location_def add_and_flush_def in_flush_def elim!: sbindE
          split: prod.splits sum.splits dest!: send_Inr)
    moreover have "K A B T (tick u)" using K_tick K_flush [OF K, of env] u by simp
    ultimately show ?thesis using put_location [of A B T "tick u" n env] by auto
  qed
  ultimately show ?thesis using run by (simp add: create_location_def)
qed

lemma resolve_location_keeps:
  assumes K: "K A B T w" and run: "resolve_location env n w = (r, w')"
  shows "K A B T w' \<and> (\<forall>i. r = Inr i \<longrightarrow> K A (insert (n, i) B) T w')"
proof (cases "map_of (nz_location_cache w) n")
  case (Some i)
  with K run show ?thesis
    using cached_location [of w n i] by (auto simp: resolve_location_def owning_def)
next
  case None
  let ?q = "select env (SelectLocation (nz_tenant w) n) tb_locations l_tenant
      (\<lambda>l. l_tenant l = nz_tenant w \<and> l_name l = n)"
  have Kq: "K A B T (snd (?q w))" by (rule K_select) (rule K)
  from run [unfolded resolve_location_def None option.case] show ?thesis
  proof (elim sbindE)
    fix e assume "?q w = (Inl e, w')" "r = Inl e"
    with Kq show ?thesis by simp
  next
    fix v u e
    assume q: "?q w = (Inr v, u)" and "r = Inl e"
      and "(case v of None \<Rightarrow> create_location env n u | Some l \<Rightarrow> (Inr (l_id l), u)) = (Inl e, w')"
    then show ?thesis using Kq create_location_keeps [of A B T u env n r w'] by (cases v) auto
  next
    fix v u i x
    assume q: "?q w = (Inr v, u)"
      and c: "(case v of None \<Rightarrow> create_location env n u | Some l \<Rightarrow> (Inr (l_id l), u)) = (Inr i, x)"
      and rest: "(Inr i, Persist.cache_location n i x) = (r, w')"
    have Ku: "K A B T u" using Kq q by simp
    have "K A (insert (n, i) B) T x"
    proof (cases v)
      case None
      with c Ku show ?thesis using create_location_keeps [of A B T u env n "Inr i" x] by auto
    next
      case (Some l)
      have "l \<in> set (tb_locations (se_db u))" "l_tenant l = nz_tenant w" "l_name l = n"
        using select_Inr [OF q [unfolded Some]] by simp_all
      then have "OL u n (l_id l)"
        using found_location [of u l] Ku K_tenant [OF K] by (auto simp: owning_def)
      with c Some Ku show ?thesis by (auto intro: K_own)
    qed
    then have "K A (insert (n, i) B) T (Persist.cache_location n i x)"
      by (rule cache_location) simp
    with rest show ?thesis by (auto dest: K_drop)
  qed
qed

lemma put_product_keeps:
  assumes "K A B T w" "se_state w = TxActive"
  shows "K (insert (np_sku_code np, returned_product np (Persist.put_product env np w)) A) B T
    (Persist.put_product env np w)"
proof -
  have "nz_tenant (Persist.put_product env np w) = T"
    by (rule K_tenant) (rule put_product [OF assms])
  then show ?thesis
    using put_product [OF assms, of np env] by (simp only: returned_product_def)
qed

lemma upsert_product_keeps:
  assumes K: "K A B T w"
  shows "K A B T (snd (upsert_product env np w))"
proof -
  let ?st = "UpsertProduct (product_of (nz_tenant w) (sql_now env w) (se_next_id w) np)"
  let ?eff = "\<lambda>w. (Inr (returned_product np (Persist.put_product env np w)), Persist.put_product env np w)"
  obtain r x where ex: "execute env ?st ?eff w = (r, x)" by fastforce
  have "K A B T (snd (execute env ?st ?eff w))"
    by (rule K_execute [OF K], simp only: snd_conv, rule K_drop(1), rule put_product_keeps) simp_all
  then have Kx: "K A B T x" using ex by simp
  show ?thesis
  proof (cases r)
    case (Inl e)
    with ex Kx show ?thesis by (simp add: upsert_product_def sbind_def)
  next
    case (Inr i)
    obtain u where u: "flush_log env w = (Inr (), u)" "se_state u = TxActive" "?eff (tick u) = (Inr i, x)"
      using execute_Inr [OF ex [unfolded Inr]] by blast
    have "K A B T (tick u)" using K_tick K_flush [OF K, of env] u by simp
    then have "K (insert (np_sku_code np, i) A) B T x"
      using put_product_keeps [of A B T "tick u" np env] u by auto
    then have Kf: "K (insert (np_sku_code np, i) A) B T (snd (flush_log env x))" by (rule K_flush)
    obtain f y where fl: "flush_log env x = (f, y)" by fastforce
    have Ky: "K (insert (np_sku_code np, i) A) B T y" using Kf fl by simp
    then have "K (insert (np_sku_code np, i) A) B T (Persist.cache_product (np_sku_code np) i y)"
      by (rule cache_product) simp
    with Ky have "K A B T y" "K A B T (Persist.cache_product (np_sku_code np) i y)"
      by (auto intro: K_drop)
    with ex Inr fl show ?thesis
      by (cases f) (simp_all add: upsert_product_def sbind_def)
  qed
qed

lemma insert_transaction_keeps:
  assumes K: "K A B T w" and "(s, t_product_id t) \<in> A" "(n, t_location_id t) \<in> B"
    and "t_tenant t = T" "t_id t = se_next_id w"
  shows "K A B T (snd (insert_transaction env t w))"
proof -
  obtain f u where fl: "flush_log env w = (f, u)" by fastforce
  have Ku: "K A B T u" using K_flush [OF K, of env] fl by simp
  have id: "se_next_id u = t_id t" using flush_log_const(3) [of env w] fl assms(5) by simp
  let ?eff = "\<lambda>w. (Inr (t_id t), Persist.put_transaction t w)"
  have "K A B T (snd (in_flush (send env (InsertTransaction t) ?eff u)))"
    by (intro K_in_flush K_send Ku, simp only: snd_conv, rule put_transaction [OF _ _ assms(2-4)])
      (simp_all add: id)
  with Ku fl show ?thesis
    by (cases f) (simp_all add: insert_transaction_def add_and_flush_def sbind_def)
qed

lemma upsert_inventory_keeps:
  assumes "K A B T w" "(s, pid) \<in> A" "(n, lid) \<in> B"
  shows "K A B T (snd (upsert_inventory env now rec pid lid w))"
proof -
  let ?t = "\<lparr>t_id = se_next_id w, t_tenant = nz_tenant w, t_product_id = pid, t_location_id = lid,
    t_transaction_type = IN, t_quantity = ni_quantity rec, t_unit_cost_paise = ni_unit_cost_paise rec,
    t_reference_no = None, t_transaction_date = now, t_created_at = sql_now env w\<rparr>"
  have "K A B T (snd (insert_transaction env ?t w))"
    by (rule insert_transaction_keeps [where s = s and n = n]) (use assms K_tenant in auto)
  then show ?thesis
    unfolding upsert_inventory_def by (rule sbind_keeps_inv [where P = "K A B T"]) simp
qed

lemma find_transaction_keeps:
  "K A B T w \<Longrightarrow> K A B T (snd (find_transaction env pid lid nt w))"
  unfolding find_transaction_def by (rule K_select)

lemma add_transaction_keeps:
  assumes "K A B T w" "(s, pid) \<in> A" "(n, lid) \<in> B"
  shows "K A B T (snd (add_transaction env pid lid nt w))"
  using assms K_tenant [OF assms(1)]
  by (auto simp: add_transaction_def transaction_of_def split: option.splits
      intro!: insert_transaction_keeps)

lemma create_transaction_keeps:
  assumes K: "K A B T w"
  shows "K A B T (snd (create_transaction env nt w))"
proof -
  obtain r w' where run: "create_transaction env nt w = (r, w')" by fastforce
  then have "K A B T w'"
    unfolding create_transaction_def
  proof (elim sbindE)
    fix e assume "resolve_product env (nt_sku_code nt) w = (Inl e, w')"
    then show ?thesis using resolve_product_keeps [OF K] by blast
  next
    fix pid u e assume p: "resolve_product env (nt_sku_code nt) w = (Inr pid, u)"
      and "resolve_location env (nt_location_name nt) u = (Inl e, w')"
    then show ?thesis using resolve_product_keeps [OF K p] resolve_location_keeps by blast
  next
    fix pid u lid v e
    assume p: "resolve_product env (nt_sku_code nt) w = (Inr pid, u)"
      and l: "resolve_location env (nt_location_name nt) u = (Inr lid, v)"
      and f: "find_transaction env pid lid nt v = (Inl e, w')"
    have "K A B T v" using resolve_product_keeps [OF K p] resolve_location_keeps [OF _ l] by blast
    then show ?thesis using find_transaction_keeps [of A B T v env pid lid nt] f by simp
  next
    fix pid u lid v ex x
    assume p: "resolve_product env (nt_sku_code nt) w = (Inr pid, u)"
      and l: "resolve_location env (nt_location_name nt) u = (Inr lid, v)"
      and f: "find_transaction env pid lid nt v = (Inr ex, x)"
      and rest: "(case ex of None \<Rightarrow> add_transaction env pid lid nt x | Some t \<Rightarrow> (Inr (t_id t), x)) = (r, w')"
    let ?A = "insert (nt_sku_code nt, pid) A" and ?B = "insert (nt_location_name nt, lid) B"
    have "K ?A ?B T v" using resolve_product_keeps [OF K p] resolve_location_keeps [OF _ l] by blast
    then have Kx: "K ?A ?B T x" using find_transaction_keeps [of ?A ?B T v env pid lid nt] f by simp
    have "K ?A ?B T w'"
      using rest Kx add_transaction_keeps [OF Kx, of "nt_sku_code nt" pid "nt_location_name nt" lid env nt]
      by (cases ex) auto
    then show ?thesis by (blast dest: K_drop)
  qed
  with run show ?thesis by simp
qed

lemma batch_location_keeps:
  assumes K: "K A B T w" and run: "batch_location env name w = (r, w')"
  shows "K A B T w' \<and> (\<forall>l. r = Inr l \<longrightarrow> (\<exists>B'. K A (B' \<union> B) T w' \<and> (\<forall>j. l = Some j \<longrightarrow> (\<exists>n. (n, j) \<in> B'))))"
proof (cases "name = None \<or> name = Some []")
  case True
  with run K show ?thesis by (auto simp: batch_location_def intro!: exI [of _ "{}"])
next
  case False
  then obtain n where "name = Some n" "n \<noteq> []" by auto
  with run have "sbind (resolve_location env n) (\<lambda>i w. (Inr (Some i), w)) w = (r, w')"
    by (simp add: batch_location_def)
  then show ?thesis
  proof (cases rule: sbindE)
    case (raise e)
    then show ?thesis using resolve_location_keeps [OF K] by blast
  next
    case (return i u)
    then have "K A B T w' \<and> K A ({(n, i)} \<union> B) T w'" "r = Inr (Some i)"
      using resolve_location_keeps [OF K return(1)] by auto
    then show ?thesis by blast
  qed
qed

lemma write_batch_keeps:
  assumes K: "K A B T w" and "(s, pid) \<in> A" and "\<And>j. lid = Some j \<Longrightarrow> \<exists>n. (n, j) \<in> B"
  shows "K A B T (snd (write_batch env pid lid nb w))"
  unfolding write_batch_def
  by (rule K_execute [OF K]) (auto simp: Let_def intro!: put_batch assms(2,3))

lemma upsert_batch_keeps:
  assumes K: "K A B T w"
  shows "K A B T (snd (upsert_batch env nb w))"
proof -
  have tail: "K A B T (snd (flush_log env x))"
    if p: "resolve_product env (nb_sku_code nb) w = (Inr pid, u)"
      and l: "batch_location env (nb_location_name nb) u = (Inr lid, v)"
      and wb: "write_batch env pid lid nb v = (Inr i, x)" for pid u lid v i x
  proof -
    let ?A = "insert (nb_sku_code nb, pid) A"
    from resolve_product_keeps [OF K p] batch_location_keeps [OF _ l, of ?A B T] obtain B' where
      B: "K ?A (B' \<union> B) T v" "\<forall>j. lid = Some j \<longrightarrow> (\<exists>n. (n, j) \<in> B')" by blast
    have "K ?A (B' \<union> B) T (snd (write_batch env pid lid nb v))"
      by (rule write_batch_keeps [OF B(1), where s = "nb_sku_code nb"]) (use B(2) in auto)
    with wb have "K ?A (B' \<union> B) T (snd (flush_log env x))" by (intro K_flush) simp
    then show ?thesis by (auto simp: owning_def)
  qed
  obtain r w' where run: "upsert_batch env nb w = (r, w')" by fastforce
  then have "K A B T w'"
    unfolding upsert_batch_def
  proof (elim sbindE)
    fix e assume "resolve_product env (nb_sku_code nb) w = (Inl e, w')"
    then show ?thesis using resolve_product_keeps [OF K] by blast
  next
    fix pid u e assume p: "resolve_product env (nb_sku_code nb) w = (Inr pid, u)"
      and "batch_location env (nb_location_name nb) u = (Inl e, w')"
    then show ?thesis using resolve_product_keeps [OF K p] batch_location_keeps by blast
  next
    fix pid u lid v e
    assume p: "resolve_product env (nb_sku_code nb) w = (Inr pid, u)"
      and l: "batch_location env (nb_location_name nb) u = (Inr lid, v)"
      and wb: "write_batch env pid lid nb v = (Inl e, w')"
    let ?A = "insert (nb_sku_code nb, pid) A"
    from resolve_product_keeps [OF K p] batch_location_keeps [OF _ l, of ?A B T] obtain B' where
      B: "K ?A (B' \<union> B) T v" "\<forall>j. lid = Some j \<longrightarrow> (\<exists>n. (n, j) \<in> B')" by blast
    have "K ?A (B' \<union> B) T (snd (write_batch env pid lid nb v))"
      by (rule write_batch_keeps [OF B(1), where s = "nb_sku_code nb"]) (use B(2) in auto)
    with wb show ?thesis by (auto simp: owning_def)
  next
    fix pid u lid v i x e
    assume "resolve_product env (nb_sku_code nb) w = (Inr pid, u)"
      "batch_location env (nb_location_name nb) u = (Inr lid, v)"
      "write_batch env pid lid nb v = (Inr i, x)" "flush_log env x = (Inl e, w')"
    then show ?thesis using tail by fastforce
  next
    fix pid u lid v i x y and f :: unit
    assume "resolve_product env (nb_sku_code nb) w = (Inr pid, u)"
      "batch_location env (nb_location_name nb) u = (Inr lid, v)"
      "write_batch env pid lid nb v = (Inr i, x)" "flush_log env x = (Inr f, y)" "(Inr i, y) = (r, w')"
    then show ?thesis using tail by fastforce
  qed
  with run show ?thesis by simp
qed

end

section \<open>Integrity of the tables\<close>

text \<open>
  Unique ids and constraint keys, ids below the supply of new ones, and references that stay
  within the tenant (more than the foreign keys ask for).
\<close>

definition has_product :: "db \<Rightarrow> uuid \<Rightarrow> uuid \<Rightarrow> bool" where
  "has_product d tenant_id i \<longleftrightarrow> (\<exists>p \<in> set (tb_products d). p_id p = i \<and> p_tenant p = tenant_id)"

definition has_location :: "db \<Rightarrow> uuid \<Rightarrow> uuid \<Rightarrow> bool" where
  "has_location d tenant_id i \<longleftrightarrow> (\<exists>l \<in> set (tb_locations d). l_id l = i \<and> l_tenant l = tenant_id)"

definition wf_products :: "nat \<Rightarrow> product list \<Rightarrow> bool" where
  "wf_products n ps \<longleftrightarrow> distinct (map product_key ps) \<and> distinct (map p_id ps) \<and> (\<forall>p \<in> set ps. p_id p < n)"

definition wf_locations :: "nat \<Rightarrow> location list \<Rightarrow> bool" where
  "wf_locations n ls \<longleftrightarrow> distinct (map l_id ls) \<and> (\<forall>l \<in> set ls. l_id l < n)"

definition wf_batch :: "db \<Rightarrow> batch \<Rightarrow> bool" where
  "wf_batch d b \<longleftrightarrow> has_product d (b_tenant b) (b_product_id b) \<and>
     (\<forall>i. b_location_id b = Some i \<longrightarrow> has_location d (b_tenant b) i)"

definition wf_batches :: "nat \<Rightarrow> batch list \<Rightarrow> bool" where
  "wf_batches n bs \<longleftrightarrow> distinct (map batch_key bs) \<and> distinct (map b_id bs) \<and> (\<forall>b \<in> set bs. b_id b < n)"

definition wf_transaction :: "db \<Rightarrow> txn \<Rightarrow> bool" where
  "wf_transaction d t \<longleftrightarrow> has_product d (t_tenant t) (t_product_id t) \<and>
     has_location d (t_tenant t) (t_location_id t)"

definition wf_transactions :: "nat \<Rightarrow> txn list \<Rightarrow> bool" where
  "wf_transactions n ts \<longleftrightarrow> distinct (map t_id ts) \<and> (\<forall>t \<in> set ts. t_id t < n)"

definition wf_db :: "nat \<Rightarrow> db \<Rightarrow> bool" where
  "wf_db n d \<longleftrightarrow> wf_products n (tb_products d) \<and> wf_locations n (tb_locations d) \<and>
     wf_batches n (tb_batches d) \<and> wf_transactions n (tb_transactions d) \<and>
     (\<forall>b \<in> set (tb_batches d). wf_batch d b) \<and> (\<forall>t \<in> set (tb_transactions d). wf_transaction d t)"

definition owns_product :: "worker \<Rightarrow> string \<Rightarrow> uuid \<Rightarrow> bool" where
  "owns_product w s i \<longleftrightarrow> se_state w \<noteq> TxInactive \<longrightarrow>
     (\<exists>p \<in> set (tb_products (se_db w)). p_id p = i \<and> p_tenant p = nz_tenant w \<and> p_sku_code p = s)"

definition owns_location :: "worker \<Rightarrow> string \<Rightarrow> uuid \<Rightarrow> bool" where
  "owns_location w n i \<longleftrightarrow> se_state w \<noteq> TxInactive \<longrightarrow>
     (\<exists>l \<in> set (tb_locations (se_db w)). l_id l = i \<and> l_tenant l = nz_tenant w \<and> l_name l = n)"

text \<open>The caches of the normalizer are right as long as its transaction lives.\<close>

definition integrity :: "worker \<Rightarrow> bool" where
  "integrity w \<longleftrightarrow> wf_db (se_next_id w) (se_db w) \<and> wf_db (se_next_id w) (se_committed w) \<and>
     (\<forall>s i. map_of (nz_product_cache w) s = Some i \<longrightarrow> owns_product w s i) \<and>
     (\<forall>n i. map_of (nz_location_cache w) n = Some i \<longrightarrow> owns_location w n i)"

lemma wf_mono:
  "wf_products n ps \<Longrightarrow> n \<le> m \<Longrightarrow> wf_products m ps"
  "wf_locations n ls \<Longrightarrow> n \<le> m \<Longrightarrow> wf_locations m ls"
  "wf_batches n bs \<Longrightarrow> n \<le> m \<Longrightarrow> wf_batches m bs"
  "wf_transactions n ts \<Longrightarrow> n \<le> m \<Longrightarrow> wf_transactions m ts"
  "wf_db n d \<Longrightarrow> n \<le> m \<Longrightarrow> wf_db m d"
  unfolding wf_products_def wf_locations_def wf_batches_def wf_transactions_def wf_db_def
  by (fastforce intro: order_less_le_trans)+

lemma wf_update_log [simp]: "wf_db n (update_log_row c t d) = wf_db n d"
  by (simp add: wf_db_def wf_batch_def wf_transaction_def has_product_def has_location_def)

lemma wf_put_products:
  assumes "wf_products n ps"
  shows "wf_products (Suc n) (upsert product_key (set_product now np) (product_of T now n np) ps)"
proof -
  let ?ps = "upsert product_key (set_product now np) (product_of T now n np) ps"
  have "n \<notin> p_id ` set ps" using assms by (auto simp: wf_products_def)
  then have "distinct (map product_key ?ps)" "distinct (map p_id ?ps)"
    using assms by (auto simp: wf_products_def intro!: products.upsert_keys_distinct products.upsert_idents_distinct)
  moreover have "p_id ` set ?ps \<subseteq> insert n (p_id ` set ps)"
    using products.upsert_idents(1) [of now np "product_of T now n np" ps] by simp
  then have "\<forall>p \<in> set ?ps. p_id p < Suc n"
    using assms by (fastforce simp: wf_products_def)
  ultimately show ?thesis by (simp add: wf_products_def)
qed

lemma wf_put_batches:
  assumes "wf_batches n bs"
  shows "wf_batches (Suc n) (upsert batch_key (set_batch now lid nb) (batch_of T now n pid lid nb) bs)"
proof -
  let ?bs = "upsert batch_key (set_batch now lid nb) (batch_of T now n pid lid nb) bs"
  have "n \<notin> b_id ` set bs" using assms by (auto simp: wf_batches_def)
  then have "distinct (map batch_key ?bs)" "distinct (map b_id ?bs)"
    using assms by (auto simp: wf_batches_def intro!: batches.upsert_keys_distinct batches.upsert_idents_distinct)
  moreover have "b_id ` set ?bs \<subseteq> insert n (b_id ` set bs)"
    using batches.upsert_idents(1) [of now lid nb "batch_of T now n pid lid nb" bs] by simp
  then have "\<forall>b \<in> set ?bs. b_id b < Suc n"
    using assms by (fastforce simp: wf_batches_def)
  ultimately show ?thesis by (simp add: wf_batches_def)
qed

text \<open>An upsert keeps every row of the table in its place, with its id, tenant and name.\<close>

lemma kept_products:
  assumes "p \<in> set ps"
  shows "\<exists>q \<in> set (upsert product_key (set_product now np) new ps).
    p_id q = p_id p \<and> p_tenant q = p_tenant p \<and> p_sku_code q = p_sku_code p"
  using products.upsert_keeps_row [OF assms, of now np new] by (auto simp: product_key_def)

lemma has_product_kept:
  "has_product d T i \<Longrightarrow> tb_products d' = upsert product_key (set_product now np) new (tb_products d)
     \<Longrightarrow> has_product d' T i"
  using kept_products unfolding has_product_def by metis

lemma wf_db_put_product:
  assumes "wf_db n d"
  shows "wf_db (Suc n) (d\<lparr>tb_products :=
    upsert product_key (set_product now np) (product_of T now n np) (tb_products d)\<rparr>)" (is "wf_db _ ?d")
proof -
  have hp: "has_product d T i \<Longrightarrow> has_product ?d T i" for T i by (erule has_product_kept) simp
  have hl: "has_location ?d T i = has_location d T i" for T i by (simp add: has_location_def)
  have "wf_products (Suc n) (tb_products ?d)" using assms wf_put_products by (simp add: wf_db_def)
  moreover have "wf_locations (Suc n) (tb_locations ?d)" "wf_batches (Suc n) (tb_batches ?d)"
      "wf_transactions (Suc n) (tb_transactions ?d)"
    using assms wf_mono [where n = n and m = "Suc n"] by (simp_all add: wf_db_def)
  moreover have "\<forall>b \<in> set (tb_batches ?d). wf_batch ?d b" "\<forall>t \<in> set (tb_transactions ?d). wf_transaction ?d t"
    using assms hp by (auto simp: wf_db_def wf_batch_def wf_transaction_def hl)
  ultimately show ?thesis unfolding wf_db_def by blast
qed

lemma wf_db_put_batch:
  assumes "wf_db n d" and "has_product d T pid" and "\<And>j. lid = Some j \<Longrightarrow> has_location d T j"
  shows "wf_db (Suc n) (d\<lparr>tb_batches :=
    upsert batch_key (set_batch now lid nb) (batch_of T now n pid lid nb) (tb_batches d)\<rparr>)" (is "wf_db _ ?d")
proof -
  have refs: "has_product ?d U i = has_product d U i" "has_location ?d U i = has_location d U i" for U i
    by (simp_all add: has_product_def has_location_def)
  have "wf_batches (Suc n) (tb_batches ?d)" using assms wf_put_batches by (simp add: wf_db_def)
  moreover have "wf_locations (Suc n) (tb_locations ?d)" "wf_products (Suc n) (tb_products ?d)"
      "wf_transactions (Suc n) (tb_transactions ?d)"
    using assms wf_mono [where n = n and m = "Suc n"] by (simp_all add: wf_db_def)
  moreover have "\<forall>t \<in> set (tb_transactions ?d). wf_transaction ?d t"
    using assms(1) by (auto simp: wf_db_def wf_transaction_def refs)
  moreover have "wf_batch ?d b" if b: "b \<in> set (tb_batches ?d)" for b
  proof -
    have old: "wf_batch d b'" if "b' \<in> set (tb_batches d)" for b'
      using assms(1) that by (simp add: wf_db_def)
    consider "b = batch_of T now n pid lid nb" | "b \<in> set (tb_batches d)"
      | b' where "b' \<in> set (tb_batches d)" "batch_key b' = (T, nb_batch_no nb, pid)" "b = set_batch now lid nb b'"
      using b batches.upsert_row [of b now lid nb "batch_of T now n pid lid nb" "tb_batches d"] by auto
    then have "wf_batch d b"
      by cases (use old assms(2,3) in \<open>auto simp: wf_batch_def batch_of_def set_batch_def batch_key_def\<close>)
    then show ?thesis unfolding wf_batch_def refs by blast
  qed
  ultimately show ?thesis unfolding wf_db_def by blast
qed

lemma wf_db_put_location:
  assumes "wf_db n d"
  shows "wf_db (Suc n) (d\<lparr>tb_locations := tb_locations d @ [new_location T now n name]\<rparr>)" (is "wf_db _ ?d")
proof -
  have hp: "has_product ?d U i = has_product d U i" for U i by (simp add: has_product_def)
  have hl: "has_location d U i \<Longrightarrow> has_location ?d U i" for U i by (auto simp: has_location_def)
  have "wf_locations n (tb_locations d)" using assms by (simp add: wf_db_def)
  then have "wf_locations (Suc n) (tb_locations ?d)"
    by (auto simp: wf_locations_def new_location_def less_Suc_eq)
  moreover have "wf_products (Suc n) (tb_products ?d)" "wf_batches (Suc n) (tb_batches ?d)"
      "wf_transactions (Suc n) (tb_transactions ?d)"
    using assms wf_mono [where n = n and m = "Suc n"] by (simp_all add: wf_db_def)
  moreover have "\<forall>b \<in> set (tb_batches ?d). wf_batch ?d b" "\<forall>t \<in> set (tb_transactions ?d). wf_transaction ?d t"
    using assms hl by (auto simp: wf_db_def wf_batch_def wf_transaction_def hp)
  ultimately show ?thesis unfolding wf_db_def by blast
qed

lemma wf_db_put_transaction:
  assumes "wf_db n d" and "wf_transaction d t" and "t_id t = n"
  shows "wf_db (Suc n) (d\<lparr>tb_transactions := tb_transactions d @ [t]\<rparr>)" (is "wf_db _ ?d")
proof -
  have refs: "has_product ?d U i = has_product d U i" "has_location ?d U i = has_location d U i" for U i
    by (simp_all add: has_product_def has_location_def)
  have "wf_transactions n (tb_transactions d)" using assms by (simp add: wf_db_def)
  then have "wf_transactions (Suc n) (tb_transactions ?d)"
    using assms(3) by (auto simp: wf_transactions_def less_Suc_eq)
  moreover have "wf_locations (Suc n) (tb_locations ?d)" "wf_products (Suc n) (tb_products ?d)"
      "wf_batches (Suc n) (tb_batches ?d)"
    using assms wf_mono [where n = n and m = "Suc n"] by (simp_all add: wf_db_def)
  moreover have "\<forall>b \<in> set (tb_batches ?d). wf_batch ?d b" "\<forall>t \<in> set (tb_transactions ?d). wf_transaction ?d t"
    using assms by (auto simp: wf_db_def wf_batch_def wf_transaction_def refs)
  ultimately show ?thesis unfolding wf_db_def by blast
qed

lemma integrity_frame: "logged_invariant (owning integrity owns_product owns_location A B T)"
proof
  fix s :: worker and t l
  assume i: "owning integrity owns_product owns_location A B T s"
  show "owning integrity owns_product owns_location A B T (tick s)"
    "owning integrity owns_product owns_location A B T
       (s\<lparr>se_db := update_log_row (se_context s) t (se_db s), se_log := Some (mark_saved t)\<rparr>)"
    "owning integrity owns_product owns_location A B T (s\<lparr>se_log := l\<rparr>)"
    "owning integrity owns_product owns_location A B T (flush_failed s)"
    using i by (auto simp: owning_def integrity_def owns_product_def owns_location_def tick_def flush_failed_def)
  show "owning integrity owns_product owns_location A B T (s\<lparr>se_state := TxAborted\<rparr>)"
    if "se_state s = TxActive"
    using i that by (auto simp: owning_def integrity_def owns_product_def owns_location_def)
qed

lemma put_sel [simp]:
  "nz_tenant (put_product env np w) = nz_tenant w" "se_state (put_product env np w) = se_state w"
  "se_committed (put_product env np w) = se_committed w"
  "se_next_id (put_product env np w) = Suc (se_next_id w)"
  "nz_tenant (put_location env n w) = nz_tenant w" "se_state (put_location env n w) = se_state w"
  "se_committed (put_location env n w) = se_committed w"
  "se_next_id (put_location env n w) = Suc (se_next_id w)"
  "nz_tenant (put_transaction t w) = nz_tenant w" "se_state (put_transaction t w) = se_state w"
  "se_committed (put_transaction t w) = se_committed w"
  "se_next_id (put_transaction t w) = Suc (se_next_id w)"
  "nz_tenant (put_batch env pid lid nb w) = nz_tenant w" "se_state (put_batch env pid lid nb w) = se_state w"
  "se_committed (put_batch env pid lid nb w) = se_committed w"
  "se_next_id (put_batch env pid lid nb w) = Suc (se_next_id w)"
  by (simp_all add: put_product_def put_location_def put_transaction_def put_batch_def)

lemma put_caches [simp]:
  "nz_product_cache (put_product env np w) = nz_product_cache w"
  "nz_location_cache (put_product env np w) = nz_location_cache w"
  "nz_product_cache (put_location env n w) = nz_product_cache w"
  "nz_location_cache (put_location env n w) = nz_location_cache w"
  "nz_product_cache (put_transaction t w) = nz_product_cache w"
  "nz_location_cache (put_transaction t w) = nz_location_cache w"
  "nz_product_cache (put_batch env pid lid nb w) = nz_product_cache w"
  "nz_location_cache (put_batch env pid lid nb w) = nz_location_cache w"
  by (simp_all add: put_product_def put_location_def put_transaction_def put_batch_def)

lemma owns_put:
  "owns_product w s i \<Longrightarrow> owns_product (put_product env np w) s i"
  "owns_location w s i \<Longrightarrow> owns_location (put_product env np w) s i"
  "owns_product w s i \<Longrightarrow> owns_product (put_location env n w) s i"
  "owns_location w s i \<Longrightarrow> owns_location (put_location env n w) s i"
  "owns_product w s i \<Longrightarrow> owns_product (put_transaction t w) s i"
  "owns_location w s i \<Longrightarrow> owns_location (put_transaction t w) s i"
  "owns_product w s i \<Longrightarrow> owns_product (put_batch env pid lid nb w) s i"
  "owns_location w s i \<Longrightarrow> owns_location (put_batch env pid lid nb w) s i"
proof -
  show "owns_product (put_product env np w) s i" if "owns_product w s i"
    using that kept_products [of _ "tb_products (se_db w)" "sql_now env w" np
        "product_of (nz_tenant w) (sql_now env w) (se_next_id w) np"]
    unfolding owns_product_def put_sel by (force simp: put_product_def)
qed (auto simp: owns_product_def owns_location_def put_product_def put_location_def put_transaction_def
    put_batch_def)

lemma owns_returned_product: "owns_product (put_product env np w) (np_sku_code np)
  (id_of_key product_key p_id (nz_tenant w, np_sku_code np) (tb_products (se_db (put_product env np w))))"
  using products.id_of_key_row [of "sql_now env w" np
      "product_of (nz_tenant w) (sql_now env w) (se_next_id w) np" "tb_products (se_db w)"]
  by (auto simp: owns_product_def put_product_def product_key_def product_of_def)

lemma owns_has_product: "owns_product w s i \<Longrightarrow> se_state w = TxActive \<Longrightarrow> has_product (se_db w) (nz_tenant w) i"
  by (auto simp: owns_product_def has_product_def)

lemma owns_has_location: "owns_location w s i \<Longrightarrow> se_state w = TxActive \<Longrightarrow> has_location (se_db w) (nz_tenant w) i"
  by (auto simp: owns_location_def has_location_def)

text \<open>A change that gives a well-formed table set and keeps what is owned keeps integrity.\<close>

lemma owning_integrity_put:
  assumes "owning integrity owns_product owns_location A B T w"
    and "wf_db (se_next_id w') (se_db w')"
    and "se_next_id w' = Suc (se_next_id w)" "se_committed w' = se_committed w"
    and "nz_tenant w' = nz_tenant w" "nz_product_cache w' = nz_product_cache w"
      "nz_location_cache w' = nz_location_cache w"
    and "\<And>s i. owns_product w s i \<Longrightarrow> owns_product w' s i"
    and "\<And>s i. owns_location w s i \<Longrightarrow> owns_location w' s i"
  shows "owning integrity owns_product owns_location A B T w'"
  using assms wf_mono(5) [of "se_next_id w" "se_committed w" "Suc (se_next_id w)"]
  by (auto simp: owning_def integrity_def)

interpretation integrity: worker_invariant integrity owns_product owns_location
proof (rule worker_invariant.intro)
  fix A B T w s i p l n env np name t pid lid nb
  let ?K = "owning integrity owns_product owns_location"
  show "session_invariant (?K A B T)" by (rule logged_invariant.axioms [OF integrity_frame])
  show "owns_product w (p_sku_code p) (p_id p)"
    if "p \<in> set (tb_products (se_db w))" "p_tenant p = nz_tenant w"
    using that by (auto simp: owns_product_def)
  show "owns_location w (l_name l) (l_id l)"
    if "l \<in> set (tb_locations (se_db w))" "l_tenant l = nz_tenant w"
    using that by (auto simp: owns_location_def)
  show "owns_product w s i" if "integrity w" "map_of (nz_product_cache w) s = Some i"
    using that by (simp add: integrity_def)
  show "owns_location w n i" if "integrity w" "map_of (nz_location_cache w) n = Some i"
    using that by (simp add: integrity_def)
  show "?K A B T (cache_product s i w)" if "?K A B T w" "(s, i) \<in> A"
    using that by (auto simp: owning_def integrity_def cache_product_def owns_product_def owns_location_def)
  show "?K A B T (cache_location n i w)" if "?K A B T w" "(n, i) \<in> B"
    using that by (auto simp: owning_def integrity_def cache_location_def owns_product_def owns_location_def)
  show "?K (insert (np_sku_code np, id_of_key product_key p_id (T, np_sku_code np)
      (tb_products (se_db (put_product env np w)))) A) B T (put_product env np w)"
    if K: "?K A B T w" and "se_state w = TxActive"
  proof -
    have "wf_db (se_next_id w) (se_db w)" using K by (simp add: owning_def integrity_def)
    then have "wf_db (Suc (se_next_id w)) (se_db (put_product env np w))"
      using wf_db_put_product by (simp add: put_product_def)
    then have "?K A B T (put_product env np w)"
      by (intro owning_integrity_put [OF K]) (simp_all add: owns_put)
    moreover have "nz_tenant w = T" using K by (simp add: owning_def)
    ultimately show ?thesis using owns_returned_product [of env np w] by (auto simp: owning_def)
  qed
  show "?K A (insert (name, se_next_id w) B) T (put_location env name w)"
    if K: "?K A B T w" and "se_state w = TxActive"
  proof -
    have "wf_db (se_next_id w) (se_db w)" using K by (simp add: owning_def integrity_def)
    then have "wf_db (Suc (se_next_id w)) (se_db (put_location env name w))"
      using wf_db_put_location by (simp add: put_location_def)
    then have "?K A B T (put_location env name w)"
      by (intro owning_integrity_put [OF K]) (simp_all add: owns_put)
    moreover have "owns_location (put_location env name w) name (se_next_id w)"
      by (simp add: owns_location_def put_location_def new_location_def)
    ultimately show ?thesis by (auto simp: owning_def)
  qed
  show "?K A B T (put_transaction t w)"
    if K: "?K A B T w" and active: "se_state w = TxActive" and "(s, t_product_id t) \<in> A"
      "(n, t_location_id t) \<in> B" "t_tenant t = T" and id: "t_id t = se_next_id w"
  proof -
    have "owns_product w s (t_product_id t)" "owns_location w n (t_location_id t)" "nz_tenant w = t_tenant t"
      using that by (auto simp: owning_def)
    then have "wf_transaction (se_db w) t"
      using owns_has_product [OF _ active] owns_has_location [OF _ active] by (fastforce simp: wf_transaction_def)
    moreover have "wf_db (se_next_id w) (se_db w)" using K by (simp add: owning_def integrity_def)
    ultimately have "wf_db (Suc (se_next_id w)) (se_db (put_transaction t w))"
      using wf_db_put_transaction id by (simp add: put_transaction_def)
    then show ?thesis by (intro owning_integrity_put [OF K]) (simp_all add: owns_put)
  qed
  show "?K A B T (put_batch env pid lid nb w)"
    if K: "?K A B T w" and active: "se_state w = TxActive" and "(s, pid) \<in> A"
      and lid: "\<And>j. lid = Some j \<Longrightarrow> \<exists>n. (n, j) \<in> B"
  proof -
    have "owns_product w s pid" using that by (auto simp: owning_def)
    then have "has_product (se_db w) (nz_tenant w) pid" by (rule owns_has_product) (rule active)
    moreover have "has_location (se_db w) (nz_tenant w) j" if "lid = Some j" for j
    proof -
      obtain n where "(n, j) \<in> B" using lid \<open>lid = Some j\<close> by blast
      then have "owns_location w n j" using K by (auto simp: owning_def)
      then show ?thesis by (rule owns_has_location) (rule active)
    qed
    moreover have "wf_db (se_next_id w) (se_db w)" using K by (simp add: owning_def integrity_def)
    ultimately have "wf_db (Suc (se_next_id w)) (se_db (put_batch env pid lid nb w))"
      unfolding put_batch_def by (simp add: wf_db_put_batch)
    then show ?thesis by (intro owning_integrity_put [OF K]) (simp_all add: owns_put)
  qed
qed

section \<open>The rows of the other tenants\<close>

definition others ::
  "uuid \<Rightarrow> db \<Rightarrow> product list \<times> location list \<times> batch list \<times> txn list \<times> user list \<times> tenant list" where
  "others T d =
     (filter (\<lambda>p. p_tenant p \<noteq> T) (tb_products d), filter (\<lambda>l. l_tenant l \<noteq> T) (tb_locations d),
      filter (\<lambda>b. b_tenant b \<noteq> T) (tb_batches d), filter (\<lambda>t. t_tenant t \<noteq> T) (tb_transactions d),
      tb_users d, tb_tenants d)"

definition isolated :: "uuid \<Rightarrow> db \<Rightarrow> worker \<Rightarrow> bool" where
  "isolated T d w \<longleftrightarrow> nz_tenant w = T \<and> others T (se_db w) = others T d \<and>
     others T (se_committed w) = others T d"

lemma others_update_log [simp]: "others T (update_log_row c t d) = others T d"
  by (simp add: others_def)

lemma isolated_put_product: "isolated T d w \<Longrightarrow> isolated T d (put_product env np w)"
proof -
  assume i: "isolated T d w"
  have "filter (\<lambda>p. p_tenant p \<noteq> T) (upsert product_key (set_product now np) (product_of T now n np) ps) =
      filter (\<lambda>p. p_tenant p \<noteq> T) ps" for now n ps
    using products.filter_upsert [of "\<lambda>k. fst k \<noteq> T" "product_of T now n np" now np ps]
    by (simp add: product_key_def product_of_def)
  with i show ?thesis by (simp add: isolated_def others_def put_product_def)
qed

lemma isolated_put_batch: "isolated T d w \<Longrightarrow> isolated T d (put_batch env pid lid nb w)"
proof -
  assume i: "isolated T d w"
  have "filter (\<lambda>b. b_tenant b \<noteq> T) (upsert batch_key (set_batch now lid nb) (batch_of T now n pid lid nb) bs) =
      filter (\<lambda>b. b_tenant b \<noteq> T) bs" for now n bs
    using batches.filter_upsert [of "\<lambda>k. fst k \<noteq> T" "batch_of T now n pid lid nb" now lid nb bs]
    by (simp add: batch_key_def batch_of_def)
  with i show ?thesis by (simp add: isolated_def others_def put_batch_def)
qed

lemma isolated_put_rows:
  "isolated T d w \<Longrightarrow> isolated T d (put_location env n w)"
  "isolated T d w \<Longrightarrow> t_tenant t = T \<Longrightarrow> isolated T d (put_transaction t w)"
  by (simp_all add: isolated_def others_def put_location_def put_transaction_def new_location_def)

lemma others_put_transaction: "t_tenant t = T \<Longrightarrow> others T (se_db (put_transaction t w)) = others T (se_db w)"
  by (simp add: others_def put_transaction_def)

interpretation isolation: worker_invariant "isolated T d" "\<lambda>_ _ _. True" "\<lambda>_ _ _. True" for T d
proof (rule worker_invariant.intro)
  fix A B and S :: uuid
  show "session_invariant (owning (isolated T d) (\<lambda>_ _ _. True) (\<lambda>_ _ _. True) A B S)"
    by unfold_locales (auto simp: owning_def isolated_def tick_def flush_failed_def)
qed (auto simp: owning_def isolated_put_rows isolated_put_product isolated_put_batch,
    auto simp: isolated_def cache_product_def cache_location_def others_put_transaction)

section \<open>What is committed\<close>

definition uncommitted :: "db \<Rightarrow> rls_context \<Rightarrow> worker \<Rightarrow> bool" where
  "uncommitted d c w \<longleftrightarrow> se_committed w = d \<and> se_context w = c"

interpretation uncommitted: worker_invariant "uncommitted d c" "\<lambda>_ _ _. True" "\<lambda>_ _ _. True" for d c
proof (rule worker_invariant.intro)
  fix A B and S :: uuid
  show "session_invariant (owning (uncommitted d c) (\<lambda>_ _ _. True) (\<lambda>_ _ _. True) A B S)"
    by unfold_locales (auto simp: owning_def uncommitted_def tick_def flush_failed_def)
qed (auto simp: owning_def uncommitted_def put_product_def put_location_def put_transaction_def
    put_batch_def cache_product_def cache_location_def)

end
