(* ===== verification/Sync.thy ===== *)
theory Sync
  imports Connector Integrity
begin

text \<open>
  \<open>app/services/sync.py\<close> and \<open>app/integrations/file_storage.py\<close>: the service that takes an upload
  through the connector and the normalizer into the database, row by row, and keeps the account of
  it in the job's \<open>SyncLog\<close>.
\<close>

section \<open>Files (app/integrations/file_storage.py)\<close>

text \<open>The files of the disk by their path, and what pandas makes of a file's bytes.\<close>

type_synonym bytes = "nat list"
type_synonym files = "string \<rightharpoonup> bytes"

record pandas =
  parse_csv :: "bytes \<Rightarrow> string \<Rightarrow> exn + frame"
  parse_excel :: "bytes \<Rightarrow> sheet \<Rightarrow> exn + frame"

definition readers_of :: "pandas \<Rightarrow> files \<Rightarrow> readers" where
  "readers_of pd fs =
     \<lparr>read_csv = (\<lambda>p d. case fs p of None \<Rightarrow> Inl ReadError | Some b \<Rightarrow> parse_csv pd b d),
      read_excel = (\<lambda>p s. case fs p of None \<Rightarrow> Inl ReadError | Some b \<Rightarrow> parse_excel pd b s)\<rparr>"

text \<open>\<open>uuid4().hex\<close>, \<open>str(Path(base) / name)\<close>.\<close>

fun hex_digits :: "nat \<Rightarrow> nat \<Rightarrow> string" where
  "hex_digits 0 n = []"
| "hex_digits (Suc k) n = hex_digits k (n div 16) @ [hex_char (n mod 16)]"

definition uuid_hex :: "uuid \<Rightarrow> string" where
  "uuid_hex i = hex_digits 32 i"

definition path_join :: "string \<Rightarrow> string \<Rightarrow> string" where
  "path_join base name =
     (let parts = filter (\<lambda>s. s \<noteq> [] \<and> s \<noteq> ''.'') (split_on (CHR ''/'') base @ split_on (CHR ''/'') name);
          root = (if take 1 base = ''/'' then ''/'' else [])
      in case parts of [] \<Rightarrow> if root = [] then ''.'' else root
         | s # rest \<Rightarrow> root @ s @ concat (map (\<lambda>t. CHR ''/'' # t) rest))"

text \<open>\<open>disk path\<close>: the operating system lets the file be written; if not, no file is left.\<close>

definition storage_save ::
  "(string \<Rightarrow> bool) \<Rightarrow> string \<Rightarrow> uuid \<Rightarrow> string \<Rightarrow> bytes \<Rightarrow> files \<Rightarrow> (exn + string) \<times> files" where
  "storage_save disk base_dir i filename content fs =
     (let path = path_join base_dir (uuid_hex i @ ''_'' @ filename)
      in if disk path then (Inr path, fs(path \<mapsto> content)) else (Inl OSError, fs))"

definition storage_read :: "string \<Rightarrow> files \<Rightarrow> exn + bytes" where
  "storage_read path fs = (case fs path of None \<Rightarrow> Inl ReadError | Some b \<Rightarrow> Inr b)"

definition storage_delete :: "string \<Rightarrow> files \<Rightarrow> files" where
  "storage_delete path fs = fs(path := None)"

text \<open>The protocol, over whatever holds the files, and its implementation on the disk; \<open>i\<close> is the
  \<open>uuid4\<close> of a call of \<open>save\<close>.\<close>

record 'f FileStorage =
  file_save :: "uuid \<Rightarrow> string \<Rightarrow> bytes \<Rightarrow> 'f \<Rightarrow> (exn + string) \<times> 'f"
  file_read :: "string \<Rightarrow> 'f \<Rightarrow> exn + bytes"
  file_delete :: "string \<Rightarrow> 'f \<Rightarrow> 'f"

definition LocalFileStorage :: "(string \<Rightarrow> bool) \<Rightarrow> string \<Rightarrow> files FileStorage" where
  "LocalFileStorage disk base_dir =
     \<lparr>file_save = storage_save disk base_dir, file_read = storage_read, file_delete = storage_delete\<rparr>"

text \<open>
  What callers may expect of a storage: a file that was saved is read back, no other is touched, and a
  deleted one is gone.
\<close>

locale storage_protocol =
  fixes st :: "'f FileStorage"
  assumes save_read: "file_save st i name content fs = (Inr path, fs') \<Longrightarrow> file_read st path fs' = Inr content"
    and save_other: "file_save st i name content fs = (Inr path, fs') \<Longrightarrow> q \<noteq> path \<Longrightarrow>
      file_read st q fs' = file_read st q fs"
    and save_failed: "file_save st i name content fs = (Inl e, fs') \<Longrightarrow> fs' = fs"
    and delete_read: "isl (file_read st path (file_delete st path fs))"
    and delete_other: "q \<noteq> path \<Longrightarrow> file_read st q (file_delete st path fs) = file_read st q fs"
begin

text \<open>A saved file outlives the deletion of any others.\<close>

lemma outlives:
  assumes "file_save st i name content fs = (Inr path, fs')" and "path \<notin> set qs"
  shows "file_read st path (fold (file_delete st) qs fs') = Inr content"
proof -
  have "file_read st path (fold (file_delete st) qs gs) = file_read st path gs" for gs
    using assms(2) by (induction qs arbitrary: gs) (auto simp: delete_other)
  with save_read [OF assms(1)] show ?thesis by simp
qed

end

interpretation local_disk: storage_protocol "LocalFileStorage disk base_dir" for disk base_dir
  by unfold_locales
    (auto simp: LocalFileStorage_def storage_save_def storage_read_def storage_delete_def Let_def split: if_splits)

section \<open>The account of a row\<close>

definition bump_total :: "unit act" where
  "bump_total = with_log (set_row (\<lambda>l. l\<lparr>sl_total_records := sl_total_records l + 1\<rparr>))"

definition bump_processed :: "unit act" where
  "bump_processed = with_log (set_row (\<lambda>l. l\<lparr>sl_records_processed := sl_records_processed l + 1\<rparr>))"

definition bump_failed :: "unit act" where
  "bump_failed = with_log (set_row (\<lambda>l. l\<lparr>sl_records_failed := sl_records_failed l + 1\<rparr>))"

definition row_error :: "string \<Rightarrow> string \<Rightarrow> exn \<Rightarrow> json" where
  "row_error entity sku e =
     JObj [(''entity'', JStr entity), (''sku_code'', JStr sku), (''error'', JStr (exn_text e))]"

definition append_row_error :: "string \<Rightarrow> string \<Rightarrow> exn \<Rightarrow> unit act" where
  "append_row_error entity sku e = sbind bump_failed (\<lambda>_. with_log (append_error (row_error entity sku e)))"

text \<open>\<open>try: m; except NormalizationError: ...; except Exception: ...\<close>.\<close>

definition or_else :: "unit act \<Rightarrow> (exn \<Rightarrow> unit act) \<Rightarrow> unit act" where
  "or_else m handler w = (case m w of (Inl e, w') \<Rightarrow> handler e w' | (Inr v, w') \<Rightarrow> (Inr v, w'))"

definition row_handler :: "string \<Rightarrow> string \<Rightarrow> exn \<Rightarrow> unit act" where
  "row_handler entity sku e = (case e of
     NormalizationError _ \<Rightarrow> append_row_error entity sku e
   | _ \<Rightarrow> bump_failed)"

definition account_row :: "string \<Rightarrow> string \<Rightarrow> exn + 'v \<Rightarrow> ('v \<Rightarrow> uuid act) \<Rightarrow> unit act" where
  "account_row entity sku validated persist =
     sbind bump_total (\<lambda>_. or_else
       (sbind (slift validated) (\<lambda>v. sbind (persist v) (\<lambda>_. bump_processed)))
       (row_handler entity sku))"

section \<open>The rows of a job\<close>

definition product_row :: "NormalizedProduct \<Rightarrow> row" where
  "product_row np =
     [(''sku_code'', VStr (np_sku_code np)), (''name'', VStr (np_name np)),
      (''category'', (case np_category np of None \<Rightarrow> VNone | Some c \<Rightarrow> VStr c)),
      (''unit_of_measure'', VStr (np_unit_of_measure np)),
      (''unit_cost_paise'', VInt (np_unit_cost_paise np)),
      (''selling_price_paise'', VInt (np_selling_price_paise np)),
      (''industry_attributes'', VDict (np_industry_attributes np))]"

definition transaction_row :: "NormalizedTransaction \<Rightarrow> row" where
  "transaction_row nt =
     [(''sku_code'', VStr (nt_sku_code nt)), (''location_name'', VStr (nt_location_name nt)),
      (''transaction_type'', VTxn (nt_transaction_type nt)), (''quantity'', VInt (nt_quantity nt)),
      (''unit_cost_paise'', VInt (nt_unit_cost_paise nt)),
      (''reference_no'', (case nt_reference_no nt of None \<Rightarrow> VNone | Some s \<Rightarrow> VStr s)),
      (''transaction_date'', VDatetime (nt_transaction_date nt))]"

definition batch_row :: "NormalizedBatch \<Rightarrow> row" where
  "batch_row nb =
     [(''sku_code'', VStr (nb_sku_code nb)), (''batch_no'', VStr (nb_batch_no nb)),
      (''manufactured_date'', (case nb_manufactured_date nb of None \<Rightarrow> VNone | Some d \<Rightarrow> VDate d)),
      (''expiry_date'', (case nb_expiry_date nb of None \<Rightarrow> VNone | Some d \<Rightarrow> VDate d)),
      (''quantity'', VInt (nb_quantity nb)),
      (''location_name'', (case nb_location_name nb of None \<Rightarrow> VNone | Some s \<Rightarrow> VStr s))]"

definition process_product :: "env \<Rightarrow> NormalizedProduct \<Rightarrow> unit act" where
  "process_product env np = account_row ''product'' (np_sku_code np)
     (normalize_product (product_row np) []) (upsert_product env)"

definition process_transaction :: "env \<Rightarrow> NormalizedTransaction \<Rightarrow> unit act" where
  "process_transaction env nt = account_row ''transaction'' (nt_sku_code nt)
     (normalize_transaction (transaction_row nt) []) (create_transaction env)"

definition process_batch :: "env \<Rightarrow> NormalizedBatch \<Rightarrow> unit act" where
  "process_batch env nb = account_row ''batch'' (nb_sku_code nb)
     (normalize_batch (batch_row nb) []) (upsert_batch env)"

text \<open>\<open>async for\<close>: an exception of the generator, or of the body, ends the loop.\<close>

fun for_each :: "'r stream \<Rightarrow> ('r \<Rightarrow> unit act) \<Rightarrow> unit act" where
  "for_each [] f w = (Inr (), w)"
| "for_each (Inl e # rs) f w = (Inl e, w)"
| "for_each (Inr r # rs) f w = sbind (f r) (\<lambda>_. for_each rs f) w"

definition process_products :: "env \<Rightarrow> NormalizedProduct stream \<Rightarrow> unit act" where
  "process_products env rows = for_each rows (process_product env)"

definition process_transactions :: "env \<Rightarrow> NormalizedTransaction stream \<Rightarrow> unit act" where
  "process_transactions env rows = for_each rows (process_transaction env)"

definition process_batches :: "env \<Rightarrow> NormalizedBatch stream \<Rightarrow> unit act" where
  "process_batches env rows = for_each rows (process_batch env)"

section \<open>The score\<close>

definition calculate_quality :: "int \<Rightarrow> int \<Rightarrow> pyfloat" where
  "calculate_quality processed failed =
     (let total = processed + failed in
      if total = 0 then Fin 0 0
      else py_max0 (py_round1 (fl_int_minus 100 (fl_scale 50 (fl_round failed total)))))"

section \<open>A job\<close>

record tenant_config =
  tc_csv_mappings :: "(string, (string, string) pydict) pydict option"
  tc_entity_type :: "string option"

text \<open>What a run of the worker is given besides the database: pandas, and the times it reads.\<close>

record run =
  run_pandas :: pandas
  run_clock :: "nat \<Rightarrow> pydatetime"
  run_started :: instant
  run_completed :: instant

definition job_row :: "'z session_scheme \<Rightarrow> sync_log option" where
  "job_row w = map_option (\<lambda>t. (tk_row t)\<lparr>sl_errors := errors_value t (tk_errors t)\<rparr>) (se_log w)"

definition connector_for :: "tenant_config \<Rightarrow> sync_log \<Rightarrow> exn + CSVConnector" where
  "connector_for tenant_config l =
     rbind (factory_get registry (connector_value (sl_connector_type l))) (\<lambda>cls. case cls of
       CSVConnectorClass \<Rightarrow> Inr (csv_init
         \<lparr>cfg_file_path = get_or (sl_stored_path l) [],
          cfg_mappings = Some (get_or (tc_csv_mappings tenant_config) []),
          cfg_delimiter = None, cfg_sheet_name = None,
          cfg_entity_type = Some (get_or (tc_entity_type tenant_config) ''products'')\<rparr>))"

text \<open>Any connector will do for the loops; the one of a run is the registry's.\<close>

definition process_connector :: "env \<Rightarrow> string \<Rightarrow> 'x BaseERPConnector \<Rightarrow> unit act" where
  "process_connector env entity_type connector =
     (if entity_type = ''transactions'' then process_transactions env (erp_fetch_transactions connector)
      else if entity_type = ''batches'' then process_batches env (erp_fetch_batches connector)
      else process_products env (erp_fetch_products connector))"

definition process_entities ::
  "env \<Rightarrow> run \<Rightarrow> readers \<Rightarrow> tenant_config \<Rightarrow> CSVConnector \<Rightarrow> unit act" where
  "process_entities env rn rd tenant_config connector =
     process_connector env (get_or (tc_entity_type tenant_config) ''products'')
       (csv_as_erp rd (run_clock rn) connector)"

lemma process_entities_rows:
  "process_entities env rn rd tc c =
     (let entity_type = get_or (tc_entity_type tc) ''products'' in
      if entity_type = ''transactions''
        then process_transactions env (fetch_transactions rd (run_clock rn) c)
      else if entity_type = ''batches'' then process_batches env (fetch_batches rd c)
      else process_products env (fetch_products rd c))"
  by (simp add: process_entities_def process_connector_def csv_as_erp_def Let_def)

definition mark_completed :: "instant \<Rightarrow> sync_log \<Rightarrow> sync_log" where
  "mark_completed now l = l\<lparr>sl_data_quality_score :=
       Some (calculate_quality (sl_records_processed l) (sl_records_failed l)),
     sl_status := COMPLETED, sl_completed_at := Some now\<rparr>"

text \<open>The body of the \<open>try\<close>.\<close>

definition sync_body ::
  "env \<Rightarrow> run \<Rightarrow> readers \<Rightarrow> uuid \<Rightarrow> tenant_config \<Rightarrow> sync_log \<Rightarrow> unit act" where
  "sync_body env rn rd tenant_id tenant_config l =
     sbind (slift (connector_for tenant_config l)) (\<lambda>connector.
     sbind (\<lambda>w. (Inr (), new_normalizer tenant_id w)) (\<lambda>_.
     sbind (process_entities env rn rd tenant_config connector) (\<lambda>_.
     sbind (with_log (set_row (mark_completed (run_completed rn)))) (\<lambda>_.
     commit env))))"

text \<open>(The dash of the message is an em dash in the source.)\<close>

definition fatal_error :: json where
  "fatal_error = JObj [(''fatal'', JStr ''Sync failed - see worker logs for details'')]"

definition mark_failed :: "instant \<Rightarrow> tracked \<Rightarrow> tracked" where
  "mark_failed now t = set_row (\<lambda>l. l\<lparr>sl_completed_at := Some now\<rparr>)
     (append_error fatal_error (set_row (\<lambda>l. l\<lparr>sl_status := FAILED\<rparr>) t))"

text \<open>\<open>except Exception\<close>: the failure is recorded and the exception raised again.\<close>

definition sync_failed :: "env \<Rightarrow> run \<Rightarrow> exn \<Rightarrow> unit act" where
  "sync_failed env rn e =
     sbind (\<lambda>w. (Inr (), rollback w)) (\<lambda>_.
     sbind (refresh_sync_log env) (\<lambda>_.
     sbind (with_log (mark_failed (run_completed rn))) (\<lambda>_.
     sbind (commit env) (\<lambda>_ w. (Inl e, w)))))"

definition mark_running :: "instant \<Rightarrow> sync_log \<Rightarrow> sync_log" where
  "mark_running now l = l\<lparr>sl_status := RUNNING, sl_started_at := Some now\<rparr>"

text \<open>A new session of the runtime role: nothing pending, nothing tracked.\<close>

definition open_session :: "'z session_scheme \<Rightarrow> 'z session_scheme" where
  "open_session w = w\<lparr>se_db := se_committed w, se_state := TxActive, se_tx := Suc (se_tx w),
     se_log := None, se_context := RuntimeRole None\<rparr>"

definition delete_stored :: "sync_log option \<Rightarrow> files \<Rightarrow> files" where
  "delete_stored l fs = (case l of None \<Rightarrow> fs
   | Some r \<Rightarrow> (case sl_stored_path r of None \<Rightarrow> fs
      | Some p \<Rightarrow> if p = [] then fs else storage_delete p fs))"

text \<open>
  The job is looked up and marked running; not finding it ends the run without an error.
\<close>

definition begin_sync :: "env \<Rightarrow> run \<Rightarrow> uuid \<Rightarrow> uuid \<Rightarrow> bool act" where
  "begin_sync env rn sync_log_id tenant_id =
     sbind (\<lambda>w. (Inr (), open_session w)) (\<lambda>_.
     sbind (set_tenant_context env tenant_id) (\<lambda>_.
     sbind (get_sync_log env sync_log_id) (\<lambda>found.
     if \<not> found then sreturn False
     else sbind (with_log (set_row (mark_running (run_started rn)))) (\<lambda>_.
          sbind (commit env) (\<lambda>_. sreturn True)))))"

definition process_sync ::
  "env \<Rightarrow> run \<Rightarrow> uuid \<Rightarrow> uuid \<Rightarrow> tenant_config \<Rightarrow> worker \<times> files \<Rightarrow> (exn + unit) \<times> worker \<times> files" where
  "process_sync env rn sync_log_id tenant_id tenant_config = (\<lambda>(w, fs).
     case begin_sync env rn sync_log_id tenant_id w of
       (Inl e, w) \<Rightarrow> (Inl e, w, fs)
     | (Inr False, w) \<Rightarrow> (Inr (), w, fs)
     | (Inr True, w) \<Rightarrow>
       (case job_row w of None \<Rightarrow> (Inl InvalidRequestError, w, fs)
        | Some l \<Rightarrow>
          (case sync_body env rn (readers_of (run_pandas rn) fs) tenant_id tenant_config l w of
             (Inr _, w) \<Rightarrow> (Inr (), w, delete_stored (job_row w) fs)
           | (Inl e, w) \<Rightarrow> (case sync_failed env rn e w of (r, w) \<Rightarrow> (r, w, fs)))))"

definition delete_upload ::
  "env \<Rightarrow> uuid \<Rightarrow> uuid \<Rightarrow> worker \<times> files \<Rightarrow> (exn + unit) \<times> worker \<times> files" where
  "delete_upload env sync_log_id tenant_id = (\<lambda>(w, fs).
     case sbind (set_tenant_context env tenant_id) (\<lambda>_. get_sync_log env sync_log_id) (open_session w) of
       (Inl e, w) \<Rightarrow> (Inl e, w, fs)
     | (Inr False, w) \<Rightarrow> (Inr (), w, fs)
     | (Inr True, w) \<Rightarrow> (Inr (), w, delete_stored (job_row w) fs))"

section \<open>Starting a job\<close>

definition new_sync_log ::
  "uuid \<Rightarrow> uuid \<Rightarrow> SyncConnectorType \<Rightarrow> string \<Rightarrow> string \<Rightarrow> instant \<Rightarrow> sync_log" where
  "new_sync_log i tenant_id connector filename stored_path now =
     \<lparr>sl_id = i, sl_tenant = tenant_id, sl_connector_type = connector,
      sl_original_filename = Some filename, sl_stored_path = Some stored_path, sl_status = PENDING,
      sl_total_records = 0, sl_records_processed = 0, sl_records_failed = 0, sl_errors = Some [],
      sl_data_quality_score = None, sl_started_at = None, sl_completed_at = None, sl_created_at = now\<rparr>"

definition put_sync_log :: "sync_log \<Rightarrow> 'z session_scheme \<Rightarrow> 'z session_scheme" where
  "put_sync_log l w = w\<lparr>se_db := (se_db w)\<lparr>tb_sync_logs := tb_sync_logs (se_db w) @ [l]\<rparr>,
     se_next_id := Suc (se_next_id w), se_log := Some (track l)\<rparr>"

text \<open>The file is written before the job is inserted, under an id of its own.\<close>

definition add_job ::
  "env \<Rightarrow> sync_log \<Rightarrow> 'z session_scheme \<Rightarrow> (exn + sync_log) \<times> 'z session_scheme" where
  "add_job env l =
     sbind (add_and_flush env (InsertSyncLog l) (\<lambda>w. (Inr (), put_sync_log l w))) (\<lambda>_.
     sbind (commit env) (\<lambda>_.
     sbind (refresh_sync_log env) (\<lambda>_ w.
       (case job_row w of None \<Rightarrow> Inl InvalidRequestError | Some l \<Rightarrow> Inr l, w))))"

text \<open>\<open>SyncService.__init__\<close>: the storage it is given, or the one on the disk.\<close>

definition storage_of :: "(string \<Rightarrow> bool) \<Rightarrow> string \<Rightarrow> files FileStorage option \<Rightarrow> files FileStorage" where
  "storage_of disk upload_dir file_storage =
     (case file_storage of None \<Rightarrow> LocalFileStorage disk upload_dir | Some st \<Rightarrow> st)"

definition start_sync_in ::
  "env \<Rightarrow> 'f FileStorage \<Rightarrow> uuid \<Rightarrow> string \<Rightarrow> bytes \<Rightarrow> string
     \<Rightarrow> 'z session_scheme \<times> 'f \<Rightarrow> (exn + sync_log) \<times> 'z session_scheme \<times> 'f" where
  "start_sync_in env st tenant_id filename content connector_type = (\<lambda>(w, fs).
     let w' = w\<lparr>se_next_id := Suc (se_next_id w)\<rparr>
     in case file_save st (se_next_id w) filename content fs of
          (Inl e, fs) \<Rightarrow> (Inl e, w', fs)
        | (Inr stored_path, fs) \<Rightarrow>
          (case connector_of connector_type of
             None \<Rightarrow> (Inl (ValueError connector_type), w', fs)
           | Some c \<Rightarrow>
             (case add_job env (new_sync_log (se_next_id w') tenant_id c filename stored_path (sql_now env w')) w' of
                (r, w) \<Rightarrow> (r, w, fs))))"

text \<open>The routes give it none.\<close>

definition start_sync ::
  "env \<Rightarrow> (string \<Rightarrow> bool) \<Rightarrow> string \<Rightarrow> uuid \<Rightarrow> string \<Rightarrow> bytes \<Rightarrow> string
     \<Rightarrow> 'z session_scheme \<times> files \<Rightarrow> (exn + sync_log) \<times> 'z session_scheme \<times> files" where
  "start_sync env disk upload_dir = start_sync_in env (storage_of disk upload_dir None)"

lemma start_sync_disk:
  "start_sync env disk base_dir tenant_id filename content connector_type = (\<lambda>(w, fs).
     let w' = w\<lparr>se_next_id := Suc (se_next_id w)\<rparr>
     in case storage_save disk base_dir (se_next_id w) filename content fs of
          (Inl e, fs) \<Rightarrow> (Inl e, w', fs)
        | (Inr stored_path, fs) \<Rightarrow>
          (case connector_of connector_type of
             None \<Rightarrow> (Inl (ValueError connector_type), w', fs)
           | Some c \<Rightarrow>
             (case add_job env (new_sync_log (se_next_id w') tenant_id c filename stored_path (sql_now env w')) w' of
                (r, w) \<Rightarrow> (r, w, fs))))"
  by (simp add: start_sync_def start_sync_in_def storage_of_def LocalFileStorage_def)

end
