(* ===== verification/SyncFacts.thy ===== *)
theory SyncFacts
  imports Sync
begin

text \<open>
  What a sync job keeps: the invariants of the normalizer, lifted to the loops over the rows and
  to the whole job with its commits and its rollback.
\<close>

section \<open>The job's row\<close>

text \<open>The columns that a run never changes, and the changes of a tracked row that leave them.\<close>

definition row_ident :: "sync_log \<Rightarrow> uuid \<times> uuid \<times> string option" where
  "row_ident l = (sl_id l, sl_tenant l, sl_stored_path l)"

definition same_row :: "tracked option \<Rightarrow> tracked option \<Rightarrow> bool" where
  "same_row t u \<longleftrightarrow> map_option (\<lambda>k. row_ident (tk_row k)) u = map_option (\<lambda>k. row_ident (tk_row k)) t"

definition keeps_ident :: "(tracked \<Rightarrow> tracked) \<Rightarrow> bool" where
  "keeps_ident f \<longleftrightarrow> (\<forall>t. row_ident (tk_row (f t)) = row_ident (tk_row t))"

lemma keeps_ident_set_row: "(\<And>l. row_ident (f l) = row_ident l) \<Longrightarrow> keeps_ident (set_row f)"
  by (simp add: keeps_ident_def set_row_def)

lemma keeps_ident_steps:
  "keeps_ident (set_row (\<lambda>l. l\<lparr>sl_total_records := sl_total_records l + 1\<rparr>))"
  "keeps_ident (set_row (\<lambda>l. l\<lparr>sl_records_processed := sl_records_processed l + 1\<rparr>))"
  "keeps_ident (set_row (\<lambda>l. l\<lparr>sl_records_failed := sl_records_failed l + 1\<rparr>))"
  "keeps_ident (set_row (mark_running n))" "keeps_ident (set_row (mark_completed n))"
  "keeps_ident (append_error x)" "keeps_ident (mark_failed n)"
proof -
  show e: "keeps_ident (append_error x)" for x by (simp add: keeps_ident_def append_error_def Let_def split_beta)
  show "keeps_ident (mark_failed n)"
    using e by (simp add: keeps_ident_def mark_failed_def set_row_def row_ident_def)
qed (auto intro!: keeps_ident_set_row simp: row_ident_def mark_running_def mark_completed_def)

section \<open>From an operation to the rows of a job\<close>

locale row_invariant = worker_invariant I OP OL
  for I :: "worker \<Rightarrow> bool" and OP OL :: "worker \<Rightarrow> string \<Rightarrow> uuid \<Rightarrow> bool" +
  assumes any_log: "owning I OP OL A B T w \<Longrightarrow> same_row (se_log w) l \<Longrightarrow> owning I OP OL A B T (w\<lparr>se_log := l\<rparr>)"
begin

lemma with_log_keeps: "K A B T w \<Longrightarrow> keeps_ident f \<Longrightarrow> K A B T (snd (with_log f w))"
  by (auto simp: with_log_def same_row_def keeps_ident_def split: option.splits intro!: any_log)

lemma row_handler_keeps: "K A B T w \<Longrightarrow> K A B T (snd (row_handler entity sku e w))"
  unfolding row_handler_def append_row_error_def bump_failed_def
  by (cases e) (auto intro!: sbind_keeps_inv [where P = "K A B T"] with_log_keeps keeps_ident_steps)

lemma account_row_keeps:
  assumes "K A B T w" and "\<And>v w. K A B T w \<Longrightarrow> K A B T (snd (persist v w))"
  shows "K A B T (snd (account_row entity sku validated persist w))"
  unfolding account_row_def bump_total_def
proof (rule sbind_keeps_inv [where P = "K A B T"])
  show "K A B T (snd (with_log (set_row (\<lambda>l. l\<lparr>sl_total_records := sl_total_records l + 1\<rparr>)) w))"
    by (rule with_log_keeps) (rule assms(1), rule keeps_ident_steps)
  fix v u
  let ?m = "sbind (slift validated) (\<lambda>v. sbind (persist v) (\<lambda>_. bump_processed))"
  fix x assume K: "K A B T (snd (with_log (set_row (\<lambda>l. l\<lparr>sl_total_records := sl_total_records l + 1\<rparr>)) w))"
    (is "K A B T ?w")
  have "K A B T (snd (?m ?w))"
    unfolding bump_processed_def
    by (intro sbind_keeps_inv [where P = "K A B T"] with_log_keeps assms(2) keeps_ident_steps) (simp_all add: K)
  then show "K A B T (snd (or_else ?m (row_handler entity sku) ?w))"
    by (auto simp: or_else_def row_handler_keeps split: prod.splits sum.splits)
qed

lemma for_each_keeps:
  assumes "K A B T w" and "\<And>r w. K A B T w \<Longrightarrow> K A B T (snd (f r w))"
  shows "K A B T (snd (for_each rows f w))"
  using assms(1)
proof (induction rows arbitrary: w)
  case (Cons r rows)
  then show ?case
    by (cases r) (auto intro!: sbind_keeps_inv [where P = "K A B T"] assms(2))
qed simp

lemma process_entities_keeps:
  assumes "K A B T w"
  shows "K A B T (snd (process_entities env rn rd tc c w))"
  using assms
  by (auto simp: process_entities_rows Let_def process_products_def process_transactions_def
      process_batches_def process_product_def process_transaction_def process_batch_def
      intro!: for_each_keeps account_row_keeps upsert_product_keeps create_transaction_keeps
        upsert_batch_keeps)

end

section \<open>From the rows to the job\<close>

text \<open>
  What commits, roll-backs and new sessions keep as well, for jobs of the tenant \<open>S\<close>: a session sees no
  other tenant, and tracks a row that it found.
\<close>

locale session_job =
  fixes J :: "worker \<Rightarrow> bool" and S :: uuid
  assumes J_session: "session_invariant J"
    and J_row: "J w \<Longrightarrow> same_row (se_log w) l \<Longrightarrow> J (w\<lparr>se_log := l\<rparr>)"
    and J_forget: "J w \<Longrightarrow> J (w\<lparr>se_log := None\<rparr>)"
    and J_found: "J w \<Longrightarrow> r \<in> set (tb_sync_logs (se_db w)) \<Longrightarrow> rls_visible (se_context w) (sl_tenant r)
      \<Longrightarrow> J (w\<lparr>se_log := Some (track r)\<rparr>)"
    and J_context: "J w \<Longrightarrow> c \<in> {RuntimeRole None, RuntimeRole (Some S)} \<Longrightarrow> J (w\<lparr>se_context := c\<rparr>)"
    and J_commit: "J w \<Longrightarrow> J (w\<lparr>se_committed := se_db w, se_tx := n\<rparr>)"
    and J_restart: "J w \<Longrightarrow> J (w\<lparr>se_db := se_committed w, se_state := TxActive, se_tx := n\<rparr>)"
begin

lemma J_with_log: "J w \<Longrightarrow> keeps_ident f \<Longrightarrow> J (snd (with_log f w))"
  by (auto simp: with_log_def same_row_def keeps_ident_def split: option.splits intro!: J_row)

lemmas J_flush = session_invariant.inv_flush_log [OF J_session]
lemmas J_send = session_invariant.inv_send [OF J_session]
lemmas J_execute = session_invariant.inv_execute [OF J_session]
lemmas J_in_flush = session_invariant.inv_in_flush [OF J_session]
lemmas J_select = session_invariant.inv_select [OF J_session]
lemmas J_sbind = sbind_keeps_inv [where P = J]

lemma J_commit': "J w \<Longrightarrow> d = se_db w \<Longrightarrow> J (w\<lparr>se_committed := d, se_tx := n\<rparr>)"
  by (simp add: J_commit)

lemma J_restart': "J w \<Longrightarrow> d = se_committed w \<Longrightarrow> J (w\<lparr>se_db := d, se_state := TxActive, se_tx := n\<rparr>)"
  by (simp add: J_restart)

lemma commit_keeps: "J w \<Longrightarrow> J (snd (commit env w))"
  unfolding commit_def
  by (rule J_sbind, erule J_flush)
    (auto intro!: J_in_flush J_send J_commit' intro: J_restart')

lemma J_selected:
  assumes "fst (select env st tb_sync_logs sl_tenant f w) = Inr (Some r)" "J (snd (select env st tb_sync_logs sl_tenant f w))"
  shows "J ((snd (select env st tb_sync_logs sl_tenant f w))\<lparr>se_log := Some (track r)\<rparr>)"
proof -
  obtain t where t: "select env st tb_sync_logs sl_tenant f w = (Inr (Some r), t)"
    using assms(1) by (metis prod.collapse)
  with assms(2) select_Inr [OF t] show ?thesis by (auto intro: J_found)
qed

lemma get_sync_log_keeps: "J w \<Longrightarrow> J (snd (get_sync_log env i w))"
  unfolding get_sync_log_def
  by (rule J_sbind, erule J_select) (auto split: option.splits intro: J_selected)

lemma refresh_keeps: "J w \<Longrightarrow> J (snd (refresh_sync_log env w))"
  by (auto simp: refresh_sync_log_def split: option.splits intro!: J_sbind J_select intro: J_selected)

lemma rollback_keeps: "J w \<Longrightarrow> J (rollback w)"
  using J_row [OF J_restart [of w "Suc (se_tx w)"], of "expire (se_log w)"]
  by (simp add: rollback_def same_row_def expire_def option.map_comp o_def)

lemma open_keeps: "J w \<Longrightarrow> J (open_session w)"
  using J_context [OF J_forget [OF J_restart [of w "Suc (se_tx w)"]], of "RuntimeRole None"]
  by (simp add: open_session_def)

lemma set_context_keeps: "J w \<Longrightarrow> J (snd (set_tenant_context env S w))"
  unfolding set_tenant_context_def by (rule J_execute) (auto intro: J_context)

lemma begin_sync_keeps: "J (open_session w) \<Longrightarrow> J (snd (begin_sync env rn i S w))"
  unfolding begin_sync_def
  by (intro J_sbind) (auto intro: set_context_keeps get_sync_log_keeps intro!: J_sbind
      commit_keeps J_with_log keeps_ident_steps)

lemma sync_failed_keeps: "J (rollback w) \<Longrightarrow> J (snd (sync_failed env rn e w))"
  unfolding sync_failed_def
  by (intro J_sbind) (auto intro: refresh_keeps J_with_log commit_keeps keeps_ident_steps)

lemma delete_upload_keeps: "J w \<Longrightarrow> J (fst (snd (delete_upload env i S (w, fs))))"
proof -
  assume "J w"
  then have "J (snd (sbind (set_tenant_context env S) (\<lambda>_. get_sync_log env i) (open_session w)))"
    by (intro J_sbind set_context_keeps get_sync_log_keeps open_keeps)
  then show ?thesis
    by (auto simp: delete_upload_def split: prod.splits sum.splits bool.splits)
qed

end

text \<open>
  \<open>J\<close> is kept by the whole job of tenant \<open>T\<close>, \<open>I\<close> by its rows: the caches of a normalizer end
  with the transaction they were filled in.
\<close>

locale job_invariant = row_invariant I OP OL + session_job J T
  for I :: "worker \<Rightarrow> bool" and OP OL :: "worker \<Rightarrow> string \<Rightarrow> uuid \<Rightarrow> bool"
    and J :: "worker \<Rightarrow> bool" and T :: uuid +
  assumes I_J: "I w \<Longrightarrow> J w"
    and J_I: "J w \<Longrightarrow> I (new_normalizer T w)"
begin

lemma rows_keep:
  assumes "J w"
  shows "J (snd (process_entities env rn rd tc c (new_normalizer T w)))"
proof -
  have "K {} {} T (new_normalizer T w)"
    using J_I [OF assms] by (simp add: owning_def new_normalizer_def)
  then have "K {} {} T (snd (process_entities env rn rd tc c (new_normalizer T w)))"
    by (rule process_entities_keeps)
  then show ?thesis by (simp add: owning_def I_J)
qed

lemma sync_body_keeps:
  assumes "J w"
  shows "J (snd (sync_body env rn rd T tc l w))"
proof -
  have tail: "J (snd (sbind (process_entities env rn rd tc c) (\<lambda>_.
      sbind (with_log (set_row (mark_completed (run_completed rn)))) (\<lambda>_. commit env)) (new_normalizer T w)))" for c
    by (rule J_sbind, rule rows_keep [OF assms]) (auto intro!: J_sbind J_with_log commit_keeps keeps_ident_steps)
  show ?thesis
    unfolding sync_body_def using assms tail
    by (cases "connector_for tc l") (simp_all add: sbind_def)
qed

lemma process_sync_keeps:
  assumes "J (open_session w)"
  shows "J (fst (snd (process_sync env rn i T tc (w, fs))))"
  using begin_sync_keeps [OF assms, of env rn i]
    sync_body_keeps [of "snd (begin_sync env rn i T w)" env rn "readers_of (run_pandas rn) fs" tc]
  by (auto simp: process_sync_def split: prod.splits sum.splits option.splits bool.splits)
    (metis snd_conv sync_failed_keeps rollback_keeps)+

end

section \<open>Integrity and isolation of a job\<close>

definition stored :: "worker \<Rightarrow> bool" where
  "stored w \<longleftrightarrow> wf_db (se_next_id w) (se_db w) \<and> wf_db (se_next_id w) (se_committed w)"

interpretation integrity: job_invariant integrity owns_product owns_location stored T for T
proof (unfold job_invariant_def row_invariant_def session_job_def job_invariant_axioms_def
    row_invariant_axioms_def, intro conjI allI impI)
  show "worker_invariant integrity owns_product owns_location" by (rule integrity.worker_invariant_axioms)
  show "session_invariant stored"
    by unfold_locales (simp_all add: stored_def tick_def flush_failed_def)
  show "owning integrity owns_product owns_location A B S (w\<lparr>se_log := l\<rparr>)"
    if "owning integrity owns_product owns_location A B S w" "same_row (se_log w) l" for A B S w l
    by (rule logged_invariant.inv_log [OF integrity_frame]) (rule that)
qed (simp_all add: stored_def integrity_def new_normalizer_def)

definition all_isolated :: "uuid \<Rightarrow> db \<Rightarrow> worker \<Rightarrow> bool" where
  "all_isolated T d w \<longleftrightarrow> others T (se_db w) = others T d \<and> others T (se_committed w) = others T d"

interpretation isolation: job_invariant "isolated T d" "\<lambda>_ _ _. True" "\<lambda>_ _ _. True" "all_isolated T d" T
  for T d
proof (unfold job_invariant_def row_invariant_def session_job_def job_invariant_axioms_def
    row_invariant_axioms_def, intro conjI allI impI)
  show "worker_invariant (isolated T d) (\<lambda>_ _ _. True) (\<lambda>_ _ _. True)"
    by (rule isolation.worker_invariant_axioms)
  show "session_invariant (all_isolated T d)"
    by unfold_locales (simp_all add: all_isolated_def tick_def flush_failed_def)
qed (simp_all add: all_isolated_def isolated_def new_normalizer_def owning_def)

section \<open>Atomicity\<close>

definition inventory :: "db \<Rightarrow> product list \<times> location list \<times> batch list \<times> txn list" where
  "inventory d = (tb_products d, tb_locations d, tb_batches d, tb_transactions d)"

lemma inventory_update_log [simp]: "inventory (update_log_row c t d) = inventory d"
  by (simp add: inventory_def)

definition unchanged_from ::
  "product list \<times> location list \<times> batch list \<times> txn list \<Rightarrow> worker \<Rightarrow> bool" where
  "unchanged_from x w \<longleftrightarrow> inventory (se_db w) = x \<and> inventory (se_committed w) = x"

interpretation unchanged: session_job "unchanged_from x" T for x T
proof (unfold session_job_def, intro conjI allI impI)
  show "session_invariant (unchanged_from x)"
    by unfold_locales (auto simp: unchanged_from_def tick_def flush_failed_def)
qed (simp_all add: unchanged_from_def)

interpretation uncommitted: row_invariant "uncommitted d c" "\<lambda>_ _ _. True" "\<lambda>_ _ _. True" for d c
proof (unfold row_invariant_def row_invariant_axioms_def, intro conjI allI impI)
  show "worker_invariant (uncommitted d c) (\<lambda>_ _ _. True) (\<lambda>_ _ _. True)"
    by (rule uncommitted.worker_invariant_axioms)
qed (simp add: owning_def uncommitted_def)

lemma with_log_committed [simp]: "se_committed (snd (with_log f w)) = se_committed w"
  by (auto simp: with_log_def split: option.splits)

lemma commit_raises: "commit env w = (Inl e, w') \<Longrightarrow> se_committed w' = se_committed w"
proof -
  assume c: "commit env w = (Inl e, w')"
  obtain r u where fl: "flush_log env w = (r, u)" by fastforce
  have cu: "se_committed u = se_committed w" using flush_log_const(4) [of env w] fl by simp
  show ?thesis
  proof (cases r)
    case (Inl e')
    with c fl cu show ?thesis by (simp add: commit_def sbind_def)
  next
    case (Inr v)
    with c fl cu show ?thesis
      by (auto simp: commit_def sbind_def in_flush_def send_def flush_failed_def
          split: if_splits prod.splits sum.splits tx_state.splits answer.splits)
  qed
qed

lemma process_entities_committed:
  "se_committed (snd (process_entities env rn rd tc c (new_normalizer T w))) = se_committed w"
proof -
  let ?w = "new_normalizer T w"
  have "owning (uncommitted (se_committed w) (se_context w)) (\<lambda>_ _ _. True) (\<lambda>_ _ _. True) {} {} T ?w"
    by (simp add: owning_def uncommitted_def new_normalizer_def)
  then show ?thesis
    using uncommitted.process_entities_keeps [of "se_committed w" "se_context w" "{}" "{}" T ?w env rn rd tc c]
    by (simp add: owning_def uncommitted_def)
qed

lemma sync_body_raises:
  assumes "sync_body env rn rd T tc l w = (Inl e, w')"
  shows "se_committed w' = se_committed w"
  using assms unfolding sync_body_def
proof (elim sbindE)
  fix v u x y z
  assume c: "slift (connector_for tc l) w = (Inr v, u)" "(Inr (), new_normalizer T u) = (Inr x, y)"
    and p: "process_entities env rn rd tc v y = (Inl z, w')"
  then show ?thesis using process_entities_committed [of env rn rd tc v T u] by auto
next
  fix v u x y a b q
  assume c: "slift (connector_for tc l) w = (Inr v, u)" "(Inr (), new_normalizer T u) = (Inr x, y)"
    and p: "process_entities env rn rd tc v y = (Inr a, b)"
    and m: "with_log (set_row (mark_completed (run_completed rn))) b = (Inl q, w')"
  then show ?thesis
    using process_entities_committed [of env rn rd tc v T u]
      with_log_committed [of "set_row (mark_completed (run_completed rn))" b] by auto
next
  fix v u x y a b q z
  assume c: "slift (connector_for tc l) w = (Inr v, u)" "(Inr (), new_normalizer T u) = (Inr x, y)"
    and p: "process_entities env rn rd tc v y = (Inr a, b)"
    and m: "with_log (set_row (mark_completed (run_completed rn))) b = (Inr q, z)"
    and "commit env z = (Inl e, w')"
  then show ?thesis
    using process_entities_committed [of env rn rd tc v T u] commit_raises [of env z e w']
      with_log_committed [of "set_row (mark_completed (run_completed rn))" b] by auto
qed auto

lemma begin_sync_inventory:
  "unchanged_from (inventory (se_committed w)) (snd (begin_sync env rn i t w))"
  by (rule unchanged.begin_sync_keeps) (simp add: unchanged_from_def open_session_def)

lemma sync_failed_inventory:
  "unchanged_from (inventory (se_committed w)) (snd (sync_failed env rn e w))"
  by (rule unchanged.sync_failed_keeps) (simp add: unchanged_from_def rollback_def)

lemma failed_sync_inventory:
  assumes "process_sync env rn i T tc (w, fs) = (Inl e, w', fs')"
  shows "inventory (se_committed w') = inventory (se_committed w) \<and> fs' = fs"
proof -
  obtain r u where b: "begin_sync env rn i T w = (r, u)" by fastforce
  have iu: "inventory (se_committed u) = inventory (se_committed w)"
    using begin_sync_inventory [of w env rn i T] b by (simp add: unchanged_from_def)
  show ?thesis
  proof (cases "\<exists>l. r = Inr True \<and> job_row u = Some l")
    case False
    with assms b iu show ?thesis
      by (auto simp: process_sync_def split: sum.splits bool.splits option.splits)
  next
    case True
    then obtain l where l: "r = Inr True" "job_row u = Some l" by blast
    obtain q v where s: "sync_body env rn (readers_of (run_pandas rn) fs) T tc l u = (q, v)" by fastforce
    with assms b l obtain e' where q: "q = Inl e'" and w': "w' = snd (sync_failed env rn e' v)" "fs' = fs"
      by (cases q) (auto simp: process_sync_def split: prod.splits)
    have "se_committed v = se_committed u" using sync_body_raises s q by blast
    then show ?thesis
      using sync_failed_inventory [of v env rn e'] iu w' by (simp add: unchanged_from_def)
  qed
qed

section \<open>The account of a completed job\<close>

text \<open>
  The tracked row is \<open>r\<close>; while it can be read, what was last written of it is what the table
  holds, with the status \<open>RUNNING\<close>.
\<close>

definition in_account :: "sync_log \<Rightarrow> worker \<Rightarrow> bool" where
  "in_account r w \<longleftrightarrow> (\<exists>t. se_log w = Some t \<and> tk_row t = r \<and>
     (tk_expired t \<longrightarrow> se_state w = TxInactive) \<and>
     (sl_status r = RUNNING \<longrightarrow> sl_status (tk_saved t) = RUNNING) \<and>
     sl_id (tk_saved t) = sl_id r \<and> sl_errors r = None \<and> 
     (\<not> tk_expired t \<longrightarrow> (\<forall>l \<in> set (tb_sync_logs (se_db w)).
        sl_id l = sl_id r \<and> rls_visible (se_context w) (sl_tenant l) \<longrightarrow> l\<lparr>sl_errors := None\<rparr> = tk_saved t)))"

lemma written_row: "sl_errors (tk_row t) = None \<Longrightarrow> (write_row t l)\<lparr>sl_errors := None\<rparr> = tk_row t"
  by (simp add: write_row_def)

lemma put_logs [simp]:
  "se_log (put_product env np w) = se_log w" "se_log (put_location env n w) = se_log w"
  "se_log (put_transaction t w) = se_log w" "se_log (put_batch env pid lid nb w) = se_log w"
  "se_context (put_product env np w) = se_context w" "se_context (put_location env n w) = se_context w"
  "se_context (put_transaction t w) = se_context w" "se_context (put_batch env pid lid nb w) = se_context w"
  "tb_sync_logs (se_db (put_product env np w)) = tb_sync_logs (se_db w)"
  "tb_sync_logs (se_db (put_location env n w)) = tb_sync_logs (se_db w)"
  "tb_sync_logs (se_db (put_transaction t w)) = tb_sync_logs (se_db w)"
  "tb_sync_logs (se_db (put_batch env pid lid nb w)) = tb_sync_logs (se_db w)"
  by (simp_all add: put_product_def put_location_def put_transaction_def put_batch_def)

lemma in_account_put:
  "in_account r (put_product env np w) = in_account r w" "in_account r (put_location env n w) = in_account r w"
  "in_account r (put_transaction t w) = in_account r w" "in_account r (put_batch env pid lid nb w) = in_account r w"
  by (simp_all add: in_account_def)

lemma in_account_saved:
  assumes "in_account r s" and "se_log s = Some t"
  shows "in_account r (s\<lparr>se_db := update_log_row (se_context s) t (se_db s), se_log := Some (mark_saved t)\<rparr>)"
proof -
  have t: "tk_row t = r" "tk_expired t \<longrightarrow> se_state s = TxInactive" "sl_errors r = None"
    using assms by (auto simp: in_account_def)
  have id: "sl_id (write_row t l) = sl_id r" for l using t by (simp add: write_row_def)
  have "l\<lparr>sl_errors := None\<rparr> = r"
    if "l \<in> set (tb_sync_logs (update_log_row (se_context s) t (se_db s)))" "sl_id l = sl_id r"
      "rls_visible (se_context s) (sl_tenant l)" for l
    using that t written_row [of t] by (auto simp: update_log_row_def split: if_splits)
  with t show ?thesis by (auto simp: in_account_def mark_saved_def)
qed

interpretation account: worker_invariant "in_account r" "\<lambda>_ _ _. True" "\<lambda>_ _ _. True" for r
proof (rule worker_invariant.intro)
  fix A B and S :: uuid
  show "session_invariant (owning (in_account r) (\<lambda>_ _ _. True) (\<lambda>_ _ _. True) A B S)"
  proof
    fix s t
    assume i: "owning (in_account r) (\<lambda>_ _ _. True) (\<lambda>_ _ _. True) A B S s"
    show "owning (in_account r) (\<lambda>_ _ _. True) (\<lambda>_ _ _. True) A B S (tick s)"
      using i by (simp add: owning_def in_account_def) (simp add: tick_def)
    show "owning (in_account r) (\<lambda>_ _ _. True) (\<lambda>_ _ _. True) A B S (flush_failed s)"
      using i by (auto simp: owning_def in_account_def flush_failed_def expire_def)
    show "owning (in_account r) (\<lambda>_ _ _. True) (\<lambda>_ _ _. True) A B S (s\<lparr>se_state := TxAborted\<rparr>)"
      if "se_state s = TxActive"
      using i that by (auto simp: owning_def in_account_def)
    show "owning (in_account r) (\<lambda>_ _ _. True) (\<lambda>_ _ _. True) A B S
        (s\<lparr>se_db := update_log_row (se_context s) t (se_db s), se_log := Some (mark_saved t)\<rparr>)"
      if "se_log s = Some t"
      using i in_account_saved [OF _ that] by (simp add: owning_def)
  qed
qed (auto simp: owning_def in_account_put, auto simp: in_account_def cache_product_def cache_location_def)

lemma persist_account:
  assumes "in_account r w"
  shows "in_account r (snd (upsert_product env np w))" "in_account r (snd (create_transaction env nt w))"
    "in_account r (snd (upsert_batch env nb w))"
proof -
  have "owning (in_account r) (\<lambda>_ _ _. True) (\<lambda>_ _ _. True) {} {} (nz_tenant w) w"
    using assms by (simp add: owning_def)
  then show "in_account r (snd (upsert_product env np w))" "in_account r (snd (create_transaction env nt w))"
    "in_account r (snd (upsert_batch env nb w))"
    using account.upsert_product_keeps [of r "{}" "{}" "nz_tenant w" w env np]
      account.create_transaction_keeps [of r "{}" "{}" "nz_tenant w" w env nt]
      account.upsert_batch_keeps [of r "{}" "{}" "nz_tenant w" w env nb]
    by (simp_all add: owning_def)
qed

lemma with_log_returns:
  "with_log f w = (Inr v, w') \<longleftrightarrow>
     (\<exists>t. se_log w = Some t \<and> \<not> tk_expired t \<and> w' = w\<lparr>se_log := Some (f t)\<rparr>)"
  by (auto simp: with_log_def split: option.splits)

definition tally :: "nat \<Rightarrow> nat \<Rightarrow> sync_log \<Rightarrow> sync_log" where
  "tally p f r = r\<lparr>sl_total_records := sl_total_records r + int (p + f),
     sl_records_processed := sl_records_processed r + int p,
     sl_records_failed := sl_records_failed r + int f\<rparr>"

lemma tally_sel [simp]:
  "sl_id (tally p f r) = sl_id r" "sl_status (tally p f r) = sl_status r" "sl_errors (tally p f r) = sl_errors r"
  "sl_stored_path (tally p f r) = sl_stored_path r" "tally 0 0 r = r" "sl_tenant (tally p f r) = sl_tenant r"
  by (simp_all add: tally_def)

lemma tally_tally: "tally p f (tally p' f' r) = tally (p' + p) (f' + f) r"
  by (simp add: tally_def)

lemma in_account_row:
  assumes "in_account r w" and "with_log (set_row g) w = (Inr v, w')"
    and "sl_id (g r) = sl_id r" "sl_errors (g r) = sl_errors r" "sl_status (g r) = sl_status r"
  shows "in_account (g r) w'"
  using assms by (auto simp: with_log_returns in_account_def set_row_def)

lemma append_error_sel [simp]:
  "tk_row (append_error x t) = tk_row t" "tk_saved (append_error x t) = tk_saved t"
  "tk_expired (append_error x t) = tk_expired t"
  by (simp_all add: append_error_def Let_def split: option.splits)

lemma in_account_error:
  "in_account r w \<Longrightarrow> with_log (append_error x) w = (Inr v, w') \<Longrightarrow> in_account r w'"
  by (auto simp: with_log_returns in_account_def)

lemma row_handler_account:
  assumes "in_account r w" and "row_handler entity sku e w = (Inr v, w')"
  shows "in_account (r\<lparr>sl_records_failed := sl_records_failed r + 1\<rparr>) w'"
proof -
  have b: "in_account (r\<lparr>sl_records_failed := sl_records_failed r + 1\<rparr>) u" if "bump_failed w = (Inr x, u)" for x u
    using in_account_row [OF assms(1) that [unfolded bump_failed_def]] by simp
  consider "bump_failed w = (Inr v, w')"
    | j where "sbind bump_failed (\<lambda>_. with_log (append_error j)) w = (Inr v, w')"
    using assms(2) by (cases e) (auto simp: row_handler_def append_row_error_def)
  then show ?thesis
  proof cases
    case 1
    then show ?thesis by (rule b)
  next
    case (2 j)
    then show ?thesis by (rule sbindE) (use b in_account_error in auto)
  qed
qed

lemma account_row_tally:
  assumes a: "in_account r w" and run: "account_row entity sku validated persist w = (Inr v, w')"
    and p: "\<And>r v w. in_account r w \<Longrightarrow> in_account r (snd (persist v w))"
  shows "in_account (tally 1 0 r) w' \<or> in_account (tally 0 1 r) w'"
proof -
  let ?r = "r\<lparr>sl_total_records := sl_total_records r + 1\<rparr>"
  let ?m = "sbind (slift validated) (\<lambda>v. sbind (persist v) (\<lambda>_. bump_processed))"
  from run obtain x u where t: "bump_total w = (Inr x, u)" and o: "or_else ?m (row_handler entity sku) u = (Inr v, w')"
    unfolding account_row_def by (auto elim: sbindE)
  have u: "in_account ?r u" using in_account_row [OF a t [unfolded bump_total_def]] by simp
  obtain q y where m: "?m u = (q, y)" by fastforce
  have ok: "in_account (tally 1 0 r) y" if "q = Inr z" for z
  proof -
    from m that obtain b c d where "persist b u = (Inr c, d)" "bump_processed d = (Inr z, y)"
      by (auto elim!: sbindE)
    then have "in_account (?r\<lparr>sl_records_processed := sl_records_processed ?r + 1\<rparr>) y"
      using in_account_row [of ?r d "\<lambda>l. l\<lparr>sl_records_processed := sl_records_processed l + 1\<rparr>"]
        p [OF u, of b] by (simp add: bump_processed_def)
    then show ?thesis by (simp add: tally_def)
  qed
  have bad: "in_account ?r y" if "q = Inl e" for e
  proof -
    show ?thesis
    proof (cases validated)
      case (Inl x)
      with m u show ?thesis by (simp add: sbind_def)
    next
      case (Inr b)
      with m that have "sbind (persist b) (\<lambda>_. bump_processed) u = (Inl e, y)" by (simp add: sbind_def)
      then show ?thesis
      proof (rule sbindE)
        fix e' assume "persist b u = (Inl e', y)"
        then show ?thesis using p [OF u, of b] by simp
      next
        fix c d assume d: "persist b u = (Inr c, d)" "bump_processed d = (Inl e, y)"
        then have "y = d" by (auto simp: bump_processed_def with_log_def split: option.splits if_splits)
        with d show ?thesis using p [OF u, of b] by simp
      qed
    qed
  qed
  show ?thesis
  proof (cases q)
    case (Inl e)
    with o m have "row_handler entity sku e y = (Inr v, w')" by (simp add: or_else_def)
    then have "in_account (tally 0 1 r) w'"
      using row_handler_account [OF bad [OF Inl]] by (simp add: tally_def)
    then show ?thesis ..
  next
    case (Inr z)
    with o m ok show ?thesis by (simp add: or_else_def)
  qed
qed

lemma for_each_tally:
  assumes "in_account r w" and "for_each rows f w = (Inr v, w')"
    and "\<And>r x w w'. in_account r w \<Longrightarrow> f x w = (Inr (), w')
      \<Longrightarrow> in_account (tally 1 0 r) w' \<or> in_account (tally 0 1 r) w'"
  shows "\<exists>p k. p + k = length rows \<and> in_account (tally p k r) w'"
  using assms(1,2)
proof (induction rows arbitrary: r w)
  case Nil
  then show ?case by (intro exI [of _ 0]) simp
next
  case (Cons x rows)
  then obtain y u where x: "x = Inr y" and y: "f y w = (Inr (), u)" and rest: "for_each rows f u = (Inr v, w')"
    by (cases x) (auto elim: sbindE)
  have "\<exists>a b. a + b = 1 \<and> in_account (tally a b r) u"
    using assms(3) [OF Cons.prems(1)] y by (metis add_0 add.right_neutral old.unit.exhaust)
  then obtain a b where ab: "a + b = 1" "in_account (tally a b r) u" by blast
  from Cons.IH [OF ab(2) rest] obtain p k where "p + k = length rows" "in_account (tally p k (tally a b r)) w'"
    by blast
  then show ?case using ab(1) by (intro exI [of _ "a + p"] exI [of _ "b + k"]) (simp add: tally_tally)
qed

lemma process_row_tally:
  assumes "in_account r w"
  shows "process_product env x w = (Inr (), w') \<Longrightarrow> in_account (tally 1 0 r) w' \<or> in_account (tally 0 1 r) w'"
    "process_transaction env y w = (Inr (), w') \<Longrightarrow> in_account (tally 1 0 r) w' \<or> in_account (tally 0 1 r) w'"
    "process_batch env z w = (Inr (), w') \<Longrightarrow> in_account (tally 1 0 r) w' \<or> in_account (tally 0 1 r) w'"
  unfolding process_product_def process_transaction_def process_batch_def
  by (erule account_row_tally [OF assms], erule persist_account)+

lemma process_entities_tally:
  assumes "in_account r w" and "process_entities env rn rd tc c w = (Inr v, w')"
  shows "\<exists>p k. in_account (tally p k r) w'"
proof -
  consider "for_each (fetch_transactions rd (run_clock rn) c) (process_transaction env) w = (Inr v, w')"
    | "for_each (fetch_batches rd c) (process_batch env) w = (Inr v, w')"
    | "for_each (fetch_products rd c) (process_product env) w = (Inr v, w')"
    using assms(2)
    by (auto simp: process_entities_rows Let_def process_products_def process_transactions_def
        process_batches_def split: if_splits)
  then show ?thesis
  proof cases
    case 1
    from for_each_tally [OF assms(1) this] process_row_tally(2) show ?thesis by blast
  next
    case 2
    from for_each_tally [OF assms(1) this] process_row_tally(3) show ?thesis by blast
  next
    case 3
    from for_each_tally [OF assms(1) this] process_row_tally(1) show ?thesis by blast
  qed
qed

text \<open>
  A row with changes to write, and a row just written: the table holds it (but for \<open>errors\<close>).
\<close>

definition table_holds :: "sync_log \<Rightarrow> sync_log \<Rightarrow> worker \<Rightarrow> bool" where
  "table_holds r x w \<longleftrightarrow> (\<forall>l \<in> set (tb_sync_logs (se_db w)).
     sl_id l = sl_id r \<and> rls_visible (se_context w) (sl_tenant l) \<longrightarrow> l\<lparr>sl_errors := None\<rparr> = x)"

definition pending :: "sync_log \<Rightarrow> worker \<Rightarrow> bool" where
  "pending r w \<longleftrightarrow> (\<exists>t. se_log w = Some t \<and> tk_row t = r \<and> \<not> tk_expired t \<and>
     (needs_update t \<or> se_state w = TxActive) \<and> sl_id (tk_saved t) = sl_id r \<and> sl_errors r = None \<and>
     table_holds r (tk_saved t) w)"

definition held :: "sync_log \<Rightarrow> worker \<Rightarrow> bool" where
  "held r w \<longleftrightarrow> (\<exists>t. se_log w = Some t \<and> tk_row t = r \<and> tk_saved t = r \<and> \<not> tk_expired t \<and>
     sl_errors r = None \<and> se_state w = TxActive \<and> table_holds r r w)"

lemma held_in_account: "held r w \<Longrightarrow> in_account r w"
  by (auto simp: held_def in_account_def table_holds_def)

lemma flush_holds:
  assumes p: "pending r w" and f: "flush_log env w = (Inr v, u)"
  shows "held r u"
proof -
  obtain t where t: "se_log w = Some t" "tk_row t = r" "\<not> tk_expired t" "needs_update t \<or> se_state w = TxActive"
    "sl_id (tk_saved t) = sl_id r" "sl_errors r = None" "table_holds r (tk_saved t) w"
    using p by (auto simp: pending_def)
  show ?thesis
  proof (cases "needs_update t")
    case True
    with f t(1) have "send env (UpdateSyncLog (tk_row t)) (\<lambda>s. (Inr (), s\<lparr>se_db :=
        update_log_row (se_context s) t (se_db s), se_log := Some (mark_saved t)\<rparr>)) w = (Inr v, u)"
      by (auto simp: flush_log_def in_flush_def split: prod.splits sum.splits)
    from send_Inr [OF this] have u: "se_state w = TxActive"
      "u = (tick w)\<lparr>se_db := update_log_row (se_context w) t (se_db w), se_log := Some (mark_saved t)\<rparr>"
      by auto
    have "l\<lparr>sl_errors := None\<rparr> = r"
      if "l \<in> set (tb_sync_logs (update_log_row (se_context w) t (se_db w)))" "sl_id l = sl_id r"
        "rls_visible (se_context w) (sl_tenant l)" for l
      using that t written_row [of t] by (auto simp: update_log_row_def split: if_splits)
    with u t show ?thesis by (auto simp: held_def table_holds_def mark_saved_def)
  next
    case False
    with f t(1) have "u = w" by (simp add: flush_log_def)
    moreover have "tk_saved t = r" using False t(2,3) by (simp add: needs_update_def)
    ultimately show ?thesis
      unfolding held_def using False t by (intro exI [of _ t]) simp
  qed
qed

lemma commit_holds:
  assumes "pending r w" and c: "commit env w = (Inr v, u)"
  shows "held r u \<and> se_committed u = se_db u \<and> se_context u = se_context w"
proof -
  from c obtain x y where fl: "flush_log env w = (Inr x, y)"
    and rest: "(if se_state y = TxAborted
      then (Inr (), y\<lparr>se_db := se_committed y, se_state := TxActive, se_tx := Suc (se_tx y)\<rparr>)
      else in_flush (send env CommitWork
        (\<lambda>s. (Inr (), s\<lparr>se_committed := se_db s, se_tx := Suc (se_tx s)\<rparr>)) y)) = (Inr v, u)"
    unfolding commit_def by (rule sbindE) auto
  have y: "held r y" "se_context y = se_context w"
    using flush_holds [OF assms(1) fl] flush_log_const(1) [of env w] fl by simp_all
  then have "se_state y = TxActive" by (auto simp: held_def)
  with rest have "send env CommitWork
      (\<lambda>s. (Inr (), s\<lparr>se_committed := se_db s, se_tx := Suc (se_tx s)\<rparr>)) y = (Inr v, u)"
    by (auto simp: in_flush_def split: prod.splits sum.splits)
  from send_Inr [OF this] have "u = (tick y)\<lparr>se_committed := se_db y, se_tx := Suc (se_tx y)\<rparr>" by auto
  with y show ?thesis by (auto simp: held_def table_holds_def)
qed

text \<open>What \<open>begin_sync\<close> returns with, when it finds the job.\<close>

definition running :: "instant \<Rightarrow> sync_log \<Rightarrow> sync_log" where
  "running now l = (mark_running now l)\<lparr>sl_errors := None\<rparr>"

lemma select_one:
  assumes "select env st table tenant_of matches s = (Inr (Some r), u)"
  shows "se_state u = TxActive \<and>
    filter (\<lambda>r. rls_visible (se_context u) (tenant_of r) \<and> matches r) (table (se_db u)) = [r]"
  using assms unfolding select_def by (auto simp: one_or_none_Some dest!: execute_Inr)

lemma flush_nothing: "se_log w = None \<Longrightarrow> flush_log env w = (Inr (), w)"
  by (simp add: flush_log_def)

lemma begin_sync_returns:
  assumes b: "begin_sync env rn i T w = (Inr True, u)"
  shows "\<exists>l \<in> set (tb_sync_logs (se_committed w)). sl_id l = i \<and> sl_tenant l = T \<and>
    held (running (run_started rn) l) u \<and> se_committed u = se_db u \<and> se_context u = RuntimeRole (Some T)"
proof -
  from b obtain v x y where s: "set_tenant_context env T (open_session w) = (Inr v, x)"
    and g: "get_sync_log env i x = (Inr True, y)"
    and rest: "sbind (with_log (set_row (mark_running (run_started rn))))
      (\<lambda>_. sbind (commit env) (\<lambda>_. sreturn True)) y = (Inr True, u)"
    unfolding begin_sync_def by (auto elim!: sbindE split: if_splits)
  have x: "x = (tick (open_session w))\<lparr>se_context := RuntimeRole (Some T)\<rparr>" "se_log x = None"
    using s flush_nothing [of "open_session w" env]
    by (auto simp: set_tenant_context_def open_session_def dest!: execute_Inr)
  from g obtain l z where q: "select env (SelectSyncLog i) tb_sync_logs sl_tenant (log_by_id i) x = (Inr (Some l), z)"
    and y: "y = z\<lparr>se_log := Some (track l)\<rparr>"
    unfolding get_sync_log_def by (auto elim!: sbindE split: option.splits)
  have z: "se_db z = se_db x" "se_context z = RuntimeRole (Some T)" "se_state z = TxActive"
    using q x flush_nothing [OF x(2), of env] unfolding select_def by (auto dest!: execute_Inr)
  have only: "filter (\<lambda>r. rls_visible (se_context z) (sl_tenant r) \<and> log_by_id i r) (tb_sync_logs (se_db z)) = [l]"
    using select_one [OF q] by simp
  then have lz: "l \<in> set (tb_sync_logs (se_db z))" "sl_id l = i" "sl_tenant l = T"
    using z(2) by (auto simp: filter_eq_Cons_iff log_by_id_def)
  have "k = l" if "k \<in> set (tb_sync_logs (se_db z))" "sl_id k = i" "rls_visible (se_context z) (sl_tenant k)" for k
  proof -
    have "k \<in> set (filter (\<lambda>r. rls_visible (se_context z) (sl_tenant r) \<and> log_by_id i r) (tb_sync_logs (se_db z)))"
      using that by (simp add: log_by_id_def)
    with only show ?thesis by simp
  qed
  then have t: "table_holds l (l\<lparr>sl_errors := None\<rparr>) z"
    unfolding table_holds_def lz(2) by blast
  have l: "l \<in> set (tb_sync_logs (se_committed w))" "sl_id l = i" "sl_tenant l = T"
    using lz z(1) x(1) by (simp_all add: open_session_def)
  from rest obtain a c d e where m: "with_log (set_row (mark_running (run_started rn))) y = (Inr a, c)"
    and cm: "commit env c = (Inr d, e)" and e: "u = e"
    by (auto elim!: sbindE)
  have "c = y\<lparr>se_log := Some (set_row (mark_running (run_started rn)) (track l))\<rparr>"
    using m y by (auto simp: with_log_returns)
  then have "pending (running (run_started rn) l) c"
    using t y z by (auto simp: pending_def track_def Let_def set_row_def running_def mark_running_def table_holds_def)
  from commit_holds [OF this cm] have "held (running (run_started rn) l) u" "se_committed u = se_db u"
      "se_context u = se_context c" using e by simp_all
  moreover have "se_context c = RuntimeRole (Some T)" using \<open>c = _\<close> y z by simp
  ultimately show ?thesis using l by auto
qed

lemma sync_body_returns:
  assumes h: "held r w" and run: "sync_body env rn rd T tc l w = (Inr v, w')" and "sl_status r = RUNNING"
  shows "\<exists>p k. held (mark_completed (run_completed rn) (tally p k r)) w' \<and> se_committed w' = se_db w'"
proof -
  from run obtain c a b d e where pe: "process_entities env rn rd tc c (new_normalizer T w) = (Inr a, b)"
    and m: "with_log (set_row (mark_completed (run_completed rn))) b = (Inr d, e)"
    and cm: "commit env e = (Inr v, w')"
    unfolding sync_body_def by (auto elim!: sbindE)
  have "in_account r (new_normalizer T w)"
    using held_in_account [OF h] by (simp add: in_account_def new_normalizer_def)
  from process_entities_tally [OF this pe] obtain p k where b: "in_account (tally p k r) b" by blast
  let ?r = "mark_completed (run_completed rn) (tally p k r)"
  from m obtain t where t: "se_log b = Some t" "\<not> tk_expired t"
      "e = b\<lparr>se_log := Some (set_row (mark_completed (run_completed rn)) t)\<rparr>"
    by (auto simp: with_log_returns)
  with b have row: "tk_row t = tally p k r" "sl_status (tk_saved t) = RUNNING"
      "sl_id (tk_saved t) = sl_id r" "sl_errors r = None" "table_holds r (tk_saved t) b"
    using assms(3) by (auto simp: in_account_def table_holds_def)
  have "sl_status ?r = COMPLETED" by (simp add: mark_completed_def)
  with row(2) have "sl_status ?r \<noteq> sl_status (tk_saved t)" by simp
  then have "?r \<noteq> tk_saved t" by metis
  then have "pending ?r e"
    using t row unfolding pending_def
    by (auto simp: set_row_def needs_update_def table_holds_def mark_completed_def)
  from commit_holds [OF this cm] show ?thesis by blast
qed

lemma commit_context: "commit env w = (Inr v, u) \<Longrightarrow> se_context u = se_context w"
proof -
  assume "commit env w = (Inr v, u)"
  then obtain x y where fl: "flush_log env w = (Inr x, y)"
    and rest: "(if se_state y = TxAborted
      then (Inr (), y\<lparr>se_db := se_committed y, se_state := TxActive, se_tx := Suc (se_tx y)\<rparr>)
      else in_flush (send env CommitWork
        (\<lambda>s. (Inr (), s\<lparr>se_committed := se_db s, se_tx := Suc (se_tx s)\<rparr>)) y)) = (Inr v, u)"
    unfolding commit_def by (rule sbindE) auto
  have "se_context u = se_context y"
    using rest by (auto simp: in_flush_def split: if_splits prod.splits sum.splits dest!: send_Inr)
  then show ?thesis using flush_log_const(1) [of env w] fl by simp
qed

lemma sync_body_context:
  "sync_body env rn rd T tc l w = (Inr v, w') \<Longrightarrow> se_context w' = se_context w"
proof -
  assume run: "sync_body env rn rd T tc l w = (Inr v, w')"
  from run obtain c a b d e where pe: "process_entities env rn rd tc c (new_normalizer T w) = (Inr a, b)"
    and m: "with_log (set_row (mark_completed (run_completed rn))) b = (Inr d, e)"
    and cm: "commit env e = (Inr v, w')"
    unfolding sync_body_def by (auto elim!: sbindE)
  have "owning (uncommitted (se_committed w) (se_context w)) (\<lambda>_ _ _. True) (\<lambda>_ _ _. True) {} {} T
      (new_normalizer T w)"
    by (simp add: owning_def uncommitted_def new_normalizer_def)
  from uncommitted.process_entities_keeps [OF this, of env rn rd tc c]
  have "se_context b = se_context w" using pe by (simp add: owning_def uncommitted_def)
  moreover have "se_context e = se_context b" using m by (auto simp: with_log_returns)
  moreover have "se_context w' = se_context e" by (rule commit_context [OF cm])
  ultimately show ?thesis by simp
qed

lemma begin_sync_not_found:
  assumes "begin_sync env rn i T w = (Inr False, u)"
  shows "se_committed u = se_committed w \<and>
    (\<forall>l \<in> set (tb_sync_logs (se_committed w)). \<not> (sl_id l = i \<and> sl_tenant l = T))"
proof -
  from assms obtain v x where s: "set_tenant_context env T (open_session w) = (Inr v, x)"
    and g: "get_sync_log env i x = (Inr False, u)"
    unfolding begin_sync_def by (auto elim!: sbindE split: if_splits)
  have x: "x = (tick (open_session w))\<lparr>se_context := RuntimeRole (Some T)\<rparr>" "se_log x = None"
    using s flush_nothing [of "open_session w" env]
    by (auto simp: set_tenant_context_def open_session_def dest!: execute_Inr)
  from g have q: "select env (SelectSyncLog i) tb_sync_logs sl_tenant (log_by_id i) x = (Inr None, u)"
    unfolding get_sync_log_def by (auto elim!: sbindE split: option.splits)
  have "se_committed u = se_committed w"
    using q select_const(4) [of env "SelectSyncLog i" tb_sync_logs sl_tenant "log_by_id i" x] x(1)
    by (simp add: open_session_def)
  moreover have "filter (\<lambda>r. rls_visible (RuntimeRole (Some T)) (sl_tenant r) \<and> log_by_id i r)
      (tb_sync_logs (se_committed w)) = []"
    using q x flush_nothing [OF x(2), of env] unfolding select_def
    by (auto simp: one_or_none_None open_session_def dest!: execute_Inr)
  ultimately show ?thesis by (auto simp: filter_empty_conv log_by_id_def)
qed

lemma process_sync_returns:
  assumes run: "process_sync env rn i T tc (w, fs) = (Inr (), w', fs')"
    and job: "l' \<in> set (tb_sync_logs (se_committed w'))" "sl_id l' = i" "sl_tenant l' = T"
  shows "\<exists>l \<in> set (tb_sync_logs (se_committed w)). \<exists>p k. sl_id l = i \<and> sl_tenant l = T \<and>
    l'\<lparr>sl_errors := None\<rparr> = mark_completed (run_completed rn) (tally p k (running (run_started rn) l)) \<and>
    map_option (\<lambda>r. r\<lparr>sl_errors := None\<rparr>) (job_row w') = Some (l'\<lparr>sl_errors := None\<rparr>) \<and>
    fs' = delete_stored (Some l) fs"
proof -
  obtain r u where b: "begin_sync env rn i T w = (r, u)" by fastforce
  have "r \<noteq> Inr False" using begin_sync_not_found [of env rn i T w u] b run job
    by (auto simp: process_sync_def)
  then have r: "r = Inr True" using run b by (cases r) (auto simp: process_sync_def)
  from begin_sync_returns [OF b [unfolded r]] obtain l where
    l: "l \<in> set (tb_sync_logs (se_committed w))" "sl_id l = i" "sl_tenant l = T"
    and u: "held (running (run_started rn) l) u" "se_context u = RuntimeRole (Some T)" by blast
  then obtain jr where jr: "job_row u = Some jr" by (auto simp: job_row_def held_def)
  let ?rd = "readers_of (run_pandas rn) fs"
  obtain q v where s: "sync_body env rn ?rd T tc jr u = (q, v)" by fastforce
  have "q = Inr ()" "w' = v" "fs' = delete_stored (job_row v) fs"
  proof -
    have "q = Inr ()"
    proof (cases q)
      case (Inl e)
      have "fst (sync_failed env rn e v) \<noteq> Inr ()"
        unfolding sync_failed_def by (auto simp: sbind_def split: prod.splits sum.splits)
      with run b r jr s Inl show ?thesis by (auto simp: process_sync_def split: prod.splits)
    qed simp
    with run b r jr s show "q = Inr ()" "w' = v" "fs' = delete_stored (job_row v) fs"
      by (auto simp: process_sync_def)
  qed
  then obtain p k where
    v: "held (mark_completed (run_completed rn) (tally p k (running (run_started rn) l))) w'" (is "held ?r w'")
      "se_committed w' = se_db w'"
    using sync_body_returns [OF u(1), of env rn ?rd T tc jr "()" v] s
    by (auto simp: running_def mark_running_def)
  have c: "se_context w' = RuntimeRole (Some T)"
  proof -
    have "se_context w' = se_context u"
      using s \<open>q = Inr ()\<close> \<open>w' = v\<close> sync_body_context [of env rn ?rd T tc jr u "()" v] by simp
    with u(2) show ?thesis by simp
  qed
  have id: "sl_id ?r = i" "sl_stored_path ?r = sl_stored_path l"
    using l by (simp_all add: mark_completed_def running_def mark_running_def)
  then have "l'\<lparr>sl_errors := None\<rparr> = ?r"
    using v c job by (auto simp: held_def table_holds_def)
  moreover have "map_option (\<lambda>r. r\<lparr>sl_errors := None\<rparr>) (job_row w') = Some ?r"
    using v(1) by (auto simp: held_def job_row_def)
  moreover have "delete_stored (job_row v) fs = delete_stored (Some l) fs"
    using v(1) id(2) \<open>w' = v\<close> by (auto simp: held_def job_row_def delete_stored_def)
  ultimately show ?thesis using l \<open>fs' = _\<close> by auto
qed

end
