(* ===== verification/Effects.thy ===== *)
theory Effects
  imports SyncFacts
begin

text \<open>
  What the persisting operations of the normalizer do to the tables when they return: upserts put
  the record under its key and touch nothing else, a transaction is stored once.
\<close>

section \<open>Statements that return\<close>

lemma tick_worker [simp]:
  "nz_tenant (tick w) = nz_tenant w" "nz_product_cache (tick w) = nz_product_cache w"
  "nz_location_cache (tick w) = nz_location_cache w" "sql_now env (tick w) = sql_now env w"
  by (simp_all add: tick_def sql_now_def)

lemma worker_more:
  assumes "session.more u = session.more (w :: worker)"
  shows "nz_tenant u = nz_tenant w" "nz_product_cache u = nz_product_cache w"
    "nz_location_cache u = nz_location_cache w"
  using assms by (cases u; cases w; simp)+

text \<open>The worker \<open>u\<close> has the tables, the transaction and the caches of \<open>w\<close>.\<close>

definition same_work :: "worker \<Rightarrow> worker \<Rightarrow> bool" where
  "same_work u w \<longleftrightarrow> inventory (se_db u) = inventory (se_db w) \<and> se_context u = se_context w \<and>
     se_tx u = se_tx w \<and> se_next_id u = se_next_id w \<and> session.more u = session.more w"

lemma same_work_sel:
  assumes "same_work u w"
  shows "tb_products (se_db u) = tb_products (se_db w)" "tb_locations (se_db u) = tb_locations (se_db w)"
    "tb_batches (se_db u) = tb_batches (se_db w)" "tb_transactions (se_db u) = tb_transactions (se_db w)"
    "se_context u = se_context w" "se_next_id u = se_next_id w" "nz_tenant u = nz_tenant w"
    "nz_product_cache u = nz_product_cache w" "nz_location_cache u = nz_location_cache w"
    "sql_now env u = sql_now env w"
  using assms worker_more [of u w] by (auto simp: same_work_def inventory_def sql_now_def)

lemma same_work_refl [simp]: "same_work w w"
  by (simp add: same_work_def)

lemma same_work_trans: "same_work u v \<Longrightarrow> same_work v w \<Longrightarrow> same_work u w"
  by (simp add: same_work_def)

lemma same_work_tick [simp]: "same_work (tick u) w = same_work u w" "same_work u (tick w) = same_work u w"
  by (simp_all add: same_work_def) (simp_all add: tick_def)

lemma flush_same:
  assumes "flush_log env w = (Inr v, u)"
  shows "same_work u w"
proof -
  have "inventory (se_db u) = inventory (se_db w)"
    using assms
    by (auto simp: flush_log_def in_flush_def split: option.splits if_splits prod.splits sum.splits
        dest!: send_Inr)
  then show ?thesis
    using flush_log_const [of env w] assms by (simp add: same_work_def)
qed

lemma execute_same:
  assumes "execute env st eff w = (Inr v, x)"
  obtains u where "same_work u w" "se_state u = TxActive" "answer_of env u st = Accepted"
    "eff (tick u) = (Inr v, x)"
  using execute_Inr [OF assms] flush_same by blast

lemma add_and_flush_same:
  assumes "add_and_flush env st eff w = (Inr v, x)"
  obtains u where "same_work u w" "se_state u = TxActive" "answer_of env u st = Accepted"
    "eff (tick u) = (Inr v, x)"
proof -
  from assms obtain a u where u: "flush_log env w = (Inr a, u)" and s: "in_flush (send env st eff u) = (Inr v, x)"
    unfolding add_and_flush_def by (auto elim: sbindE)
  from s have "send env st eff u = (Inr v, x)"
    by (auto simp: in_flush_def split: prod.splits sum.splits)
  from send_Inr [OF this] flush_same [OF u] that show ?thesis by blast
qed

lemma select_same:
  assumes "select env st table tenant_of matches w = (Inr r, x)"
  shows "same_work x w" "se_state x = TxActive"
    "one_or_none (filter (\<lambda>r. rls_visible (se_context x) (tenant_of r) \<and> matches r) (table (se_db x))) = Inr r"
proof -
  from assms obtain u where u: "same_work u w" "se_state u = TxActive"
    and e: "(one_or_none (filter (\<lambda>r. rls_visible (se_context (tick u)) (tenant_of r) \<and> matches r)
        (table (se_db (tick u)))), tick u) = (Inr r, x)"
    unfolding select_def by (rule execute_same) blast
  then have x: "x = tick u" by simp
  show "same_work x w" "se_state x = TxActive" using u x by simp_all
  show "one_or_none (filter (\<lambda>r. rls_visible (se_context x) (tenant_of r) \<and> matches r) (table (se_db x))) = Inr r"
    using e by auto
qed

section \<open>Products\<close>

definition products_after :: "env \<Rightarrow> NormalizedProduct \<Rightarrow> worker \<Rightarrow> product list" where
  "products_after env np w = upsert product_key (set_product (sql_now env w) np)
     (product_of (nz_tenant w) (sql_now env w) (se_next_id w) np) (tb_products (se_db w))"

lemma upsert_product_effect:
  assumes "upsert_product env np w = (Inr i, w')"
  shows "tb_products (se_db w') = products_after env np w"
    "i = id_of_key product_key p_id (nz_tenant w, np_sku_code np) (products_after env np w)"
    "tb_locations (se_db w') = tb_locations (se_db w)" "tb_batches (se_db w') = tb_batches (se_db w)"
    "tb_transactions (se_db w') = tb_transactions (se_db w)"
    "nz_tenant w' = nz_tenant w" "map_of (nz_product_cache w') (np_sku_code np) = Some i"
    "se_tx w' = se_tx w"
proof -
  from assms obtain v x where
    e: "execute env (UpsertProduct (product_of (nz_tenant w) (sql_now env w) (se_next_id w) np))
       (\<lambda>w. (Inr (returned_product np (put_product env np w)), put_product env np w)) w = (Inr v, x)"
    and f: "sbind (flush_log env) (\<lambda>_ w. (Inr v, cache_product (np_sku_code np) v w)) x = (Inr i, w')"
    unfolding upsert_product_def by (auto elim: sbindE)
  from e obtain u where u: "same_work u w"
    "v = returned_product np (put_product env np (tick u))" "x = put_product env np (tick u)"
    by (rule execute_same) auto
  from f obtain a y where y: "flush_log env x = (Inr a, y)" "i = v" "w' = cache_product (np_sku_code np) v y"
    by (auto elim: sbindE)
  have "tb_products (se_db x) = products_after env np w" "nz_tenant x = nz_tenant w"
    "tb_locations (se_db x) = tb_locations (se_db w)" "tb_batches (se_db x) = tb_batches (se_db w)"
    "tb_transactions (se_db x) = tb_transactions (se_db w)" "se_tx x = se_tx w"
    using u same_work_sel [OF u(1)] same_work_sel(10) [OF u(1), of env] u(1)
    by (simp_all add: put_product_def products_after_def sql_now_def same_work_def)
  with y u same_work_sel [OF flush_same [OF y(1)]] flush_same [OF y(1)]
  show "tb_products (se_db w') = products_after env np w"
    "i = id_of_key product_key p_id (nz_tenant w, np_sku_code np) (products_after env np w)"
    "tb_locations (se_db w') = tb_locations (se_db w)" "tb_batches (se_db w') = tb_batches (se_db w)"
    "tb_transactions (se_db w') = tb_transactions (se_db w)" "nz_tenant w' = nz_tenant w"
    "map_of (nz_product_cache w') (np_sku_code np) = Some i" "se_tx w' = se_tx w"
    by (simp_all add: cache_product_def returned_product_def same_work_def)
qed

text \<open>What a product row says, but for its id and times.\<close>

definition product_content :: "product \<Rightarrow> NormalizedProduct" where
  "product_content p = \<lparr>np_sku_code = p_sku_code p, np_name = p_name p, np_category = p_category p,
     np_unit_of_measure = p_unit_of_measure p, np_unit_cost_paise = p_unit_cost_paise p,
     np_selling_price_paise = p_selling_price_paise p,
     np_industry_attributes = p_industry_attributes p\<rparr>"

text \<open>The catalogue of a tenant: the content under each SKU.\<close>

definition catalogue :: "uuid \<Rightarrow> product list \<Rightarrow> string \<rightharpoonup> NormalizedProduct" where
  "catalogue T ps sku = map_option product_content (find (\<lambda>p. product_key p = (T, sku)) ps)"

lemma content_of_put:
  "product_content (product_of T now i np) = np"
  "product_key p = (T, np_sku_code np) \<Longrightarrow> product_content (set_product now np p) = np"
  by (simp_all add: product_content_def product_of_def set_product_def product_key_def)

lemma catalogue_upsert:
  "catalogue T (upsert product_key (set_product now np) (product_of T now i np) ps) =
     (catalogue T ps)(np_sku_code np \<mapsto> np)"
proof
  fix sku
  show "catalogue T (upsert product_key (set_product now np) (product_of T now i np) ps) sku =
      ((catalogue T ps)(np_sku_code np \<mapsto> np)) sku"
    using products.find_key [of "(T, sku)" ps]
    by (auto simp: catalogue_def products.find_upsert content_of_put split: option.splits)
qed

lemma catalogue_upsert_other:
  "S \<noteq> T \<Longrightarrow> catalogue S (upsert product_key (set_product now np) (product_of T now i np) ps) = catalogue S ps"
  by (rule ext) (simp add: catalogue_def products.find_upsert)

section \<open>Transactions\<close>

lemma resolve_product_effect:
  assumes "resolve_product env s w = (Inr i, u)"
  shows "map_of (nz_product_cache u) s = Some i" "inventory (se_db u) = inventory (se_db w)"
    "nz_tenant u = nz_tenant w" "nz_location_cache u = nz_location_cache w" "se_context u = se_context w"
proof -
  have "map_of (nz_product_cache u) s = Some i \<and> inventory (se_db u) = inventory (se_db w) \<and>
    nz_tenant u = nz_tenant w \<and> nz_location_cache u = nz_location_cache w \<and> se_context u = se_context w"
  proof (cases "map_of (nz_product_cache w) s")
    case (Some j)
    with assms show ?thesis by (simp add: resolve_product_def)
  next
    case None
    from assms [unfolded resolve_product_def None option.case] obtain r v where
      q: "select env (SelectProduct (nz_tenant w) s) tb_products p_tenant
        (\<lambda>p. p_tenant p = nz_tenant w \<and> p_sku_code p = s) w = (Inr r, v)"
      and c: "(case r of None \<Rightarrow> (Inl (product_not_found s), v)
        | Some p \<Rightarrow> (Inr (p_id p), cache_product s (p_id p) v)) = (Inr i, u)"
      by (auto elim: sbindE)
    have v: "same_work v w" using select_same(1) [OF q] .
    then have "inventory (se_db v) = inventory (se_db w)" by (simp add: same_work_def)
    with c show ?thesis
      by (cases r) (auto simp: cache_product_def same_work_sel [OF v])
  qed
  then show "map_of (nz_product_cache u) s = Some i" "inventory (se_db u) = inventory (se_db w)"
    "nz_tenant u = nz_tenant w" "nz_location_cache u = nz_location_cache w" "se_context u = se_context w"
    by simp_all
qed

lemma create_location_effect:
  assumes "create_location env n w = (Inr i, u)"
  shows "tb_transactions (se_db u) = tb_transactions (se_db w)" "nz_tenant u = nz_tenant w"
    "nz_product_cache u = nz_product_cache w" "se_context u = se_context w"
proof -
  from assms obtain v where "same_work v w" "u = put_location env n (tick v)"
    unfolding create_location_def by (rule add_and_flush_same) simp
  then show "tb_transactions (se_db u) = tb_transactions (se_db w)" "nz_tenant u = nz_tenant w"
    "nz_product_cache u = nz_product_cache w" "se_context u = se_context w"
    using same_work_sel [of v w] by (simp_all add: put_location_def)
qed

lemma resolve_location_effect:
  assumes "resolve_location env n w = (Inr i, u)"
  shows "map_of (nz_location_cache u) n = Some i \<and> tb_transactions (se_db u) = tb_transactions (se_db w) \<and>
    nz_tenant u = nz_tenant w \<and> nz_product_cache u = nz_product_cache w \<and> se_context u = se_context w"
proof (cases "map_of (nz_location_cache w) n")
  case (Some j)
  with assms show ?thesis by (simp add: resolve_location_def)
next
  case None
  from assms [unfolded resolve_location_def None option.case] obtain r v x where
    q: "select env (SelectLocation (nz_tenant w) n) tb_locations l_tenant
        (\<lambda>l. l_tenant l = nz_tenant w \<and> l_name l = n) w = (Inr r, v)"
    and c: "(case r of None \<Rightarrow> create_location env n v | Some l \<Rightarrow> (Inr (l_id l), v)) = (Inr i, x)"
    and u: "u = cache_location n i x"
    by (auto elim!: sbindE)
  have v: "same_work v w" using select_same(1) [OF q] .
  have "tb_transactions (se_db x) = tb_transactions (se_db v) \<and> nz_tenant x = nz_tenant v \<and>
      nz_product_cache x = nz_product_cache v \<and> se_context x = se_context v"
    using c create_location_effect [of env n v i x] by (auto split: option.splits)
  with u show ?thesis
    using same_work_sel [OF v] by (simp add: cache_location_def)
qed

lemma find_transaction_effect:
  assumes "find_transaction env pid lid nt w = (Inr r, u)"
  shows "same_work u w"
    "one_or_none (filter (\<lambda>t. rls_visible (se_context w) (t_tenant t) \<and>
       same_transaction (nz_tenant w) pid lid nt t) (tb_transactions (se_db w))) = Inr r"
proof -
  show u: "same_work u w"
    using assms unfolding find_transaction_def by (rule select_same)
  show "one_or_none (filter (\<lambda>t. rls_visible (se_context w) (t_tenant t) \<and>
      same_transaction (nz_tenant w) pid lid nt t) (tb_transactions (se_db w))) = Inr r"
    using select_same(3) [OF assms [unfolded find_transaction_def]] same_work_sel [OF u] by simp
qed

lemma add_transaction_effect:
  assumes "add_transaction env pid lid nt w = (Inr i, u)"
  shows "\<exists>t. tb_transactions (se_db u) = tb_transactions (se_db w) @ [t] \<and> t_id t = i \<and>
    same_transaction (nz_tenant w) pid lid nt t \<and> rls_visible (se_context w) (t_tenant t)"
    "nz_tenant u = nz_tenant w" "nz_product_cache u = nz_product_cache w"
    "nz_location_cache u = nz_location_cache w" "se_context u = se_context w"
proof -
  define t where "t = transaction_of (nz_tenant w) (sql_now env w) (se_next_id w) pid lid nt (instant_of (nt_transaction_date nt))"
  have "add_and_flush env (InsertTransaction t) (\<lambda>w. (Inr (t_id t), put_transaction t w)) w = (Inr i, u)"
    using assms by (simp add: add_transaction_def t_def insert_transaction_def)
  then obtain v where v: "same_work v w" "answer_of env v (InsertTransaction t) = Accepted"
    "t_id t = i" "u = put_transaction t (tick v)"
    by (rule add_and_flush_same) simp
  have "rls_visible (se_context v) (t_tenant t)"
    using v(2) by (simp add: answer_of_def split: if_splits)
  moreover have "same_transaction (nz_tenant w) pid lid nt t"
    by (simp add: t_def same_transaction_def transaction_of_def)
  ultimately show "\<exists>t. tb_transactions (se_db u) = tb_transactions (se_db w) @ [t] \<and> t_id t = i \<and>
      same_transaction (nz_tenant w) pid lid nt t \<and> rls_visible (se_context w) (t_tenant t)"
    using v same_work_sel [OF v(1)] by (auto simp: put_transaction_def)
  show "nz_tenant u = nz_tenant w" "nz_product_cache u = nz_product_cache w"
    "nz_location_cache u = nz_location_cache w" "se_context u = se_context w"
    using v(4) same_work_sel [OF v(1)] by (simp_all add: put_transaction_def)
qed

lemma create_transaction_returns:
  assumes "create_transaction env nt w = (Inr i, w')"
  shows "\<exists>pid lid. map_of (nz_product_cache w') (nt_sku_code nt) = Some pid \<and>
    map_of (nz_location_cache w') (nt_location_name nt) = Some lid \<and> nz_tenant w' = nz_tenant w \<and>
    (\<exists>t. t_id t = i \<and> filter (\<lambda>t. rls_visible (se_context w') (t_tenant t) \<and>
      same_transaction (nz_tenant w') pid lid nt t) (tb_transactions (se_db w')) = [t]) \<and>
    (tb_transactions (se_db w') = tb_transactions (se_db w) \<or>
     (\<exists>t. tb_transactions (se_db w') = tb_transactions (se_db w) @ [t] \<and>
        same_transaction (nz_tenant w) pid lid nt t))"
proof -
  from assms obtain pid u lid v ex x where
    p: "resolve_product env (nt_sku_code nt) w = (Inr pid, u)"
    and l: "resolve_location env (nt_location_name nt) u = (Inr lid, v)"
    and f: "find_transaction env pid lid nt v = (Inr ex, x)"
    and rest: "(case ex of None \<Rightarrow> add_transaction env pid lid nt x | Some t \<Rightarrow> (Inr (t_id t), x)) = (Inr i, w')"
    unfolding create_transaction_def by (auto elim!: sbindE)
  note P = resolve_product_effect [OF p] and L = resolve_location_effect [OF l]
  note F = find_transaction_effect [OF f] and X = same_work_sel [OF find_transaction_effect(1) [OF f]]
  have tx: "tb_transactions (se_db x) = tb_transactions (se_db w)"
    using P(2) L X by (simp add: inventory_def)
  have cx: "map_of (nz_product_cache x) (nt_sku_code nt) = Some pid"
    "map_of (nz_location_cache x) (nt_location_name nt) = Some lid" "nz_tenant x = nz_tenant w"
    using P L X by simp_all
  let ?m = "\<lambda>t. rls_visible (se_context x) (t_tenant t) \<and> same_transaction (nz_tenant x) pid lid nt t"
  have one: "one_or_none (filter ?m (tb_transactions (se_db x))) = Inr ex" using F X by simp
  show ?thesis
  proof (cases ex)
    case (Some t)
    with rest one cx tx show ?thesis by (auto simp: one_or_none_Some)
  next
    case None
    with rest have "add_transaction env pid lid nt x = (Inr i, w')" by simp
    note A = add_transaction_effect [OF this]
    from A(1) obtain t where t: "tb_transactions (se_db w') = tb_transactions (se_db x) @ [t]" "t_id t = i" "?m t"
      by blast
    have "filter ?m (tb_transactions (se_db x)) = []" using one None by (simp add: one_or_none_None)
    then have "filter ?m (tb_transactions (se_db w')) = [t]" using t by simp
    with A(2-5) t cx tx show ?thesis by auto
  qed
qed

lemma create_transaction_again:
  assumes "map_of (nz_product_cache w) (nt_sku_code nt) = Some pid"
    and "map_of (nz_location_cache w) (nt_location_name nt) = Some lid"
    and "filter (\<lambda>t. rls_visible (se_context w) (t_tenant t) \<and>
      same_transaction (nz_tenant w) pid lid nt t) (tb_transactions (se_db w)) = [t]"
    and "create_transaction env nt w = (Inr j, w')"
  shows "j = t_id t \<and> tb_transactions (se_db w') = tb_transactions (se_db w)"
proof -
  have "resolve_product env (nt_sku_code nt) w = (Inr pid, w)"
    "resolve_location env (nt_location_name nt) w = (Inr lid, w)"
    using assms(1,2) by (simp_all add: resolve_product_def resolve_location_def)
  with assms(4) obtain ex x where f: "find_transaction env pid lid nt w = (Inr ex, x)"
    and rest: "(case ex of None \<Rightarrow> add_transaction env pid lid nt x | Some t \<Rightarrow> (Inr (t_id t), x)) = (Inr j, w')"
    unfolding create_transaction_def by (auto elim!: sbindE)
  have "ex = Some t"
    using find_transaction_effect(2) [OF f] assms(3) by (simp add: one_or_none_def)
  with rest show ?thesis using same_work_sel(4) [OF find_transaction_effect(1) [OF f]] by simp
qed

end
