(* ===== verification/Progress.thy ===== *)
theory Progress
  imports Effects
begin

text \<open>
  When the database answers: a product job runs to its end whatever its rows hold, counts exactly
  the rows that normalize and those that do not, and what it does to the tenant's catalogue is the
  import of its rows in order, the last row of a SKU winning.
\<close>

section \<open>A session that can write\<close>

definition answering :: "env \<Rightarrow> bool" where
  "answering env \<longleftrightarrow> (\<forall>n st. en_answers env n st)"

definition room :: "nat \<Rightarrow> sync_log \<Rightarrow> bool" where
  "room m l \<longleftrightarrow> 0 \<le> sl_total_records l \<and> 0 \<le> sl_records_processed l \<and> 0 \<le> sl_records_failed l \<and>
     sl_total_records l + int m < 2 ^ 31 \<and> sl_records_processed l + int m < 2 ^ 31 \<and>
     sl_records_failed l + int m < 2 ^ 31"

definition writable :: "uuid \<Rightarrow> worker \<Rightarrow> bool" where
  "writable T w \<longleftrightarrow> se_state w = TxActive \<and> se_context w = RuntimeRole (Some T) \<and> tenant_exists (se_db w) T"

text \<open>The session tracks the row \<open>r\<close>, which is the tenant's and has room for m more rows.\<close>

definition tracking :: "uuid \<Rightarrow> nat \<Rightarrow> sync_log \<Rightarrow> worker \<Rightarrow> bool" where
  "tracking T m r w \<longleftrightarrow> writable T w \<and> sl_tenant r = T \<and> room m r \<and>
     (\<exists>t. se_log w = Some t \<and> tk_row t = r \<and> \<not> tk_expired t)"

lemma room_int4: "room m l \<Longrightarrow> int4 (sl_total_records l) \<and> int4 (sl_records_processed l) \<and> int4 (sl_records_failed l)"
  by (auto simp: room_def int4_def)

lemma room_Suc: "room (Suc m) l \<Longrightarrow> room m l"
  by (auto simp: room_def)

lemma tenant_exists_update_log [simp]: "tenant_exists (update_log_row c t d) T = tenant_exists d T"
  by (simp add: tenant_exists_def)

lemma answer_accepted:
  "answering env \<Longrightarrow> encodable st \<Longrightarrow> row_types_ok st \<Longrightarrow> policy_ok (se_context w) st
     \<Longrightarrow> references_ok (se_db w) st \<Longrightarrow> answer_of env w st = Accepted"
  by (simp add: answer_of_def answering_def)

lemma flush_runs:
  assumes "answering env" and "tracking T m r w"
  shows "\<exists>u. flush_log env w = (Inr (), u) \<and> tracking T m r u \<and>
    inventory (se_db u) = inventory (se_db w) \<and> session.more u = session.more w"
proof -
  obtain t where t: "se_log w = Some t" "tk_row t = r" "\<not> tk_expired t"
    and r: "sl_tenant r = T" "room m r" and w: "writable T w"
    using assms(2) by (auto simp: tracking_def)
  show ?thesis
  proof (cases "needs_update t")
    case False
    with t assms(2) show ?thesis by (simp add: flush_log_def)
  next
    case True
    let ?u = "(tick w)\<lparr>se_db := update_log_row (se_context w) t (se_db w), se_log := Some (mark_saved t)\<rparr>"
    have "answer_of env w (UpdateSyncLog (tk_row t)) = Accepted"
      using assms(1) w r room_int4 t(2) by (intro answer_accepted) (auto simp: writable_def)
    then have "flush_log env w = (Inr (), ?u)"
      using True t(1) w by (simp add: flush_log_def send_def writable_def in_flush_def)
    moreover have "tracking T m r ?u"
      using t r w by (simp add: tracking_def writable_def mark_saved_def)
    ultimately show ?thesis by (simp add: tick_def)
  qed
qed

lemma execute_runs:
  assumes "answering env" and "tracking T m r w"
    and "encodable st" "row_types_ok st" "policy_ok (RuntimeRole (Some T)) st"
    and "\<And>d. inventory d = inventory (se_db w) \<Longrightarrow> tenant_exists d T \<Longrightarrow> references_ok d st"
  shows "\<exists>u. execute env st eff w = eff (tick u) \<and> tracking T m r (tick u) \<and>
    inventory (se_db u) = inventory (se_db w) \<and> session.more u = session.more w"
proof -
  from flush_runs [OF assms(1,2)] obtain u where u: "flush_log env w = (Inr (), u)" "tracking T m r u"
    "inventory (se_db u) = inventory (se_db w)" "session.more u = session.more w" by blast
  then have a: "se_state u = TxActive" "answer_of env u st = Accepted"
    using assms by (auto simp: tracking_def writable_def intro!: answer_accepted)
  have "execute env st eff w = eff (tick u)"
    using u(1) a by (simp add: execute_def sbind_def send_def)
  moreover have "tracking T m r (tick u)" using u(2) by (simp add: tracking_def writable_def)
  ultimately show ?thesis using u by blast
qed

section \<open>One product\<close>

definition product_fits :: "NormalizedProduct \<Rightarrow> bool" where
  "product_fits np \<longleftrightarrow> varchar 100 (np_sku_code np) \<and> varchar 255 (np_name np) \<and>
     varchar_null 100 (np_category np) \<and> varchar 50 (np_unit_of_measure np) \<and>
     int8 (np_unit_cost_paise np) \<and> int8 (np_selling_price_paise np)"

lemma tenant_exists_put_product [simp]:
  "tenant_exists (se_db (put_product env np w)) T = tenant_exists (se_db w) T"
  by (simp add: put_product_def tenant_exists_def)

lemma upsert_product_runs:
  assumes a: "answering env" and t: "tracking T m r w" and fits: "product_fits np" and "nz_tenant w = T"
  shows "\<exists>i u. upsert_product env np w = (Inr i, u) \<and> tracking T m r u \<and> nz_tenant u = T \<and>
    catalogue T (tb_products (se_db u)) = (catalogue T (tb_products (se_db w)))(np_sku_code np \<mapsto> np)"
proof -
  let ?st = "UpsertProduct (product_of (nz_tenant w) (sql_now env w) (se_next_id w) np)"
  let ?eff = "\<lambda>w. (Inr (returned_product np (put_product env np w)), put_product env np w)"
  have "\<exists>u. execute env ?st ?eff w = ?eff (tick u) \<and> tracking T m r (tick u) \<and>
      inventory (se_db u) = inventory (se_db w) \<and> session.more u = session.more w"
    using fits \<open>nz_tenant w = T\<close>
    by (intro execute_runs [OF a t]) (simp_all add: product_of_def product_fits_def text_fits)
  then obtain u where u0: "execute env ?st ?eff w = ?eff (tick u) \<and> tracking T m r (tick u) \<and>
      inventory (se_db u) = inventory (se_db w) \<and> session.more u = session.more w" by (rule exE)
  note u = u0 [THEN conjunct1] u0 [THEN conjunct2, THEN conjunct1]
  have uT: "nz_tenant u = T" using u0 \<open>nz_tenant w = T\<close> worker_more(1) [of u w] by simp
  let ?v = "put_product env np (tick u)"
  have "tracking T m r ?v" using u(2) by (simp add: tracking_def writable_def)
  from flush_runs [OF a this] obtain x where x: "flush_log env ?v = (Inr (), x)" "tracking T m r x"
      "nz_tenant x = nz_tenant ?v" using worker_more(1) by blast
  then have "upsert_product env np w =
      (Inr (returned_product np ?v), cache_product (np_sku_code np) (returned_product np ?v) x)"
    using u(1) by (simp add: upsert_product_def sbind_def)
  moreover have "tracking T m r (cache_product (np_sku_code np) (returned_product np ?v) x)"
    using x(2) by (simp add: tracking_def writable_def cache_product_def)
  moreover have "nz_tenant (cache_product (np_sku_code np) (returned_product np ?v) x) = T"
    using x(3) uT by (simp add: cache_product_def tick_def)
  moreover have "catalogue T (tb_products (se_db y)) = (catalogue T (tb_products (se_db w)))(np_sku_code np \<mapsto> np)"
    if "upsert_product env np w = (Inr i, y)" for i y
    using upsert_product_effect(1) [OF that] \<open>nz_tenant w = T\<close> by (simp add: products_after_def catalogue_upsert)
  ultimately show ?thesis by blast
qed

lemma with_log_runs:
  assumes "tracking T m r w" and "sl_tenant (g r) = sl_tenant r" "room k (g r)"
  shows "\<exists>u. with_log (set_row g) w = (Inr (), u) \<and> tracking T k (g r) u \<and> nz_tenant u = nz_tenant w \<and>
    se_db u = se_db w"
  using assms by (auto simp: tracking_def writable_def with_log_def set_row_def)

lemma append_error_runs:
  assumes "tracking T m r w"
  shows "\<exists>u. with_log (append_error x) w = (Inr (), u) \<and> tracking T m r u \<and> nz_tenant u = nz_tenant w \<and>
    se_db u = se_db w"
  using assms by (auto simp: tracking_def writable_def with_log_def)

definition normalizes :: "NormalizedProduct \<Rightarrow> bool" where
  "normalizes np \<longleftrightarrow> (case normalize_product (product_row np) [] of Inl _ \<Rightarrow> False | Inr _ \<Rightarrow> True)"

text \<open>What importing a row does to a catalogue.\<close>

definition import_product :: "(string \<rightharpoonup> NormalizedProduct) \<Rightarrow> NormalizedProduct \<Rightarrow> (string \<rightharpoonup> NormalizedProduct)" where
  "import_product cat np = (case normalize_product (product_row np) [] of
     Inl _ \<Rightarrow> cat | Inr v \<Rightarrow> cat(np_sku_code v \<mapsto> v))"

lemma process_product_runs:
  assumes a: "answering env" and t: "tracking T (Suc m) r w" and T: "nz_tenant w = T"
    and fits: "\<And>v. normalize_product (product_row np) [] = Inr v \<Longrightarrow> product_fits v"
  shows "\<exists>u. process_product env np w = (Inr (), u) \<and> nz_tenant u = T \<and>
    tracking T m (if normalizes np then tally 1 0 r else tally 0 1 r) u \<and>
    catalogue T (tb_products (se_db u)) = import_product (catalogue T (tb_products (se_db w))) np"
proof -
  let ?r = "r\<lparr>sl_total_records := sl_total_records r + 1\<rparr>"
  have room: "room m ?r" "room m (tally 1 0 r)" "room m (tally 0 1 r)"
    using t by (auto simp: tracking_def room_def tally_def)
  obtain u where u: "bump_total w = (Inr (), u)" "tracking T m ?r u" "nz_tenant u = T" "se_db u = se_db w"
    using with_log_runs [OF t, of "\<lambda>l. l\<lparr>sl_total_records := sl_total_records l + 1\<rparr>" m] room T
    by (auto simp: bump_total_def)
  have fail: "\<exists>x. bump_failed u = (Inr (), x) \<and> tracking T m (tally 0 1 r) x \<and> nz_tenant x = T \<and> se_db x = se_db w"
    using with_log_runs [OF u(2), of "\<lambda>l. l\<lparr>sl_records_failed := sl_records_failed l + 1\<rparr>" m] room u(3,4)
    by (auto simp: bump_failed_def tally_def)
  show ?thesis
  proof (cases "normalize_product (product_row np) []")
    case (Inl e)
    from fail obtain x where x: "bump_failed u = (Inr (), x)" "tracking T m (tally 0 1 r) x" "nz_tenant x = T"
      "se_db x = se_db w"
      by blast
    obtain y where y: "with_log (append_error (row_error ''product'' (np_sku_code np) e)) x = (Inr (), y)"
      "tracking T m (tally 0 1 r) y" "nz_tenant y = T" "se_db y = se_db w"
      using append_error_runs [OF x(2)] x(3,4) by metis
    have "\<exists>z. row_handler ''product'' (np_sku_code np) e u = (Inr (), z) \<and> tracking T m (tally 0 1 r) z \<and>
        nz_tenant z = T \<and> se_db z = se_db w"
      using x y by (cases e) (auto simp: row_handler_def append_row_error_def sbind_def)
    then show ?thesis
      using u(1) Inl
      by (auto simp: process_product_def account_row_def sbind_def or_else_def normalizes_def import_product_def)
  next
    case (Inr v)
    from upsert_product_runs [OF a u(2) fits [OF Inr] u(3)] obtain i x where
      x: "upsert_product env v u = (Inr i, x)" "tracking T m ?r x" "nz_tenant x = T"
        "catalogue T (tb_products (se_db x)) = (catalogue T (tb_products (se_db u)))(np_sku_code v \<mapsto> v)" by blast
    obtain y where "bump_processed x = (Inr (), y)" "tracking T m (tally 1 0 r) y" "nz_tenant y = T" "se_db y = se_db x"
      using with_log_runs [OF x(2), of "\<lambda>l. l\<lparr>sl_records_processed := sl_records_processed l + 1\<rparr>" m] room x(3)
      by (auto simp: bump_processed_def tally_def)
    then show ?thesis
      using u(1,4) x(1,4) Inr
      by (auto simp: process_product_def account_row_def sbind_def or_else_def normalizes_def import_product_def)
  qed
qed

section \<open>The job\<close>

definition counted :: "NormalizedProduct list \<Rightarrow> sync_log \<Rightarrow> sync_log" where
  "counted nps = tally (length (filter normalizes nps)) (length (filter (\<lambda>np. \<not> normalizes np) nps))"

definition import_products ::
  "NormalizedProduct list \<Rightarrow> (string \<rightharpoonup> NormalizedProduct) \<Rightarrow> (string \<rightharpoonup> NormalizedProduct)" where
  "import_products nps cat = foldl import_product cat nps"

lemma process_products_runs:
  assumes a: "answering env"
    and fits: "\<And>np v. np \<in> set nps \<Longrightarrow> normalize_product (product_row np) [] = Inr v \<Longrightarrow> product_fits v"
    and "tracking T (length nps + m) r w" "nz_tenant w = T"
  shows "\<exists>u. process_products env (map Inr nps) w = (Inr (), u) \<and> tracking T m (counted nps r) u \<and>
    catalogue T (tb_products (se_db u)) = import_products nps (catalogue T (tb_products (se_db w)))"
  using assms(2-)
proof (induction nps arbitrary: r w)
  case Nil
  then show ?case by (simp add: process_products_def counted_def import_products_def)
next
  case (Cons np nps)
  let ?r = "if normalizes np then tally 1 0 r else tally 0 1 r"
  have "tracking T (Suc (length nps + m)) r w" using Cons.prems by simp
  then obtain u where u: "process_product env np w = (Inr (), u)" "nz_tenant u = T"
    "tracking T (length nps + m) ?r u"
    "catalogue T (tb_products (se_db u)) = import_product (catalogue T (tb_products (se_db w))) np"
    using process_product_runs [OF a, of T "length nps + m" r w np] Cons.prems by fastforce
  obtain v where v: "process_products env (map Inr nps) u = (Inr (), v)" "tracking T m (counted nps ?r) v"
    "catalogue T (tb_products (se_db v)) = import_products nps (catalogue T (tb_products (se_db u)))"
    using Cons.IH [OF _ u(3,2)] Cons.prems(1) by fastforce
  have "counted nps ?r = counted (np # nps) r"
    by (simp add: counted_def tally_tally)
  with u(1,4) v show ?case by (simp add: process_products_def sbind_def import_products_def)
qed

lemma commit_runs:
  assumes a: "answering env" and t: "tracking T m r w"
  shows "\<exists>u. commit env w = (Inr (), u) \<and> tracking T m r u \<and> inventory (se_committed u) = inventory (se_db w)"
proof -
  from flush_runs [OF a t] obtain u where u: "flush_log env w = (Inr (), u)" "tracking T m r u"
    "inventory (se_db u) = inventory (se_db w)" by blast
  have "se_state u = TxActive" "answer_of env u CommitWork = Accepted"
    using u(2) a by (auto simp: tracking_def writable_def intro!: answer_accepted)
  then show ?thesis
    using u by (auto simp: commit_def sbind_def in_flush_def send_def tracking_def writable_def)
qed

lemma begin_sync_runs:
  assumes a: "answering env" and tenant: "tenant_exists (se_committed w) T"
    and job: "filter (\<lambda>l. sl_id l = i \<and> sl_tenant l = T) (tb_sync_logs (se_committed w)) = [l]"
    and room: "room m l"
  shows "\<exists>u. begin_sync env rn i T w = (Inr True, u) \<and> tracking T m (running (run_started rn) l) u"
proof -
  let ?o = "open_session w"
  let ?x = "(tick ?o)\<lparr>se_context := RuntimeRole (Some T)\<rparr>"
  have ctx: "set_tenant_context env T ?o = (Inr (), ?x)"
    using a by (simp add: set_tenant_context_def execute_def sbind_def flush_log_def open_session_def
        send_def answer_of_def answering_def tick_def)
  let ?y = "(tick ?x)\<lparr>se_log := Some (track l)\<rparr>"
  have rows: "filter (\<lambda>r. Some T = Some (sl_tenant r) \<and> log_by_id i r) (tb_sync_logs (se_committed w)) = [l]"
    using job by (simp add: log_by_id_def conj_commute eq_commute [of T])
  have get: "get_sync_log env i ?x = (Inr True, ?y)"
    using a rows by (simp add: get_sync_log_def select_def execute_def sbind_def flush_log_def open_session_def
        send_def answer_of_def answering_def tick_def one_or_none_def)
  have T: "sl_tenant l = T" using job by (auto simp: filter_eq_Cons_iff)
  let ?c = "?y\<lparr>se_log := Some (set_row (mark_running (run_started rn)) (track l))\<rparr>"
  have m: "with_log (set_row (mark_running (run_started rn))) ?y = (Inr (), ?c)"
    by (simp add: with_log_def track_def Let_def)
  have "tracking T m (running (run_started rn) l) ?c"
    using T room tenant
    by (simp add: tracking_def writable_def set_row_def track_def Let_def running_def mark_running_def
        open_session_def room_def tick_def)
  from commit_runs [OF a this] obtain u where "commit env ?c = (Inr (), u)"
    "tracking T m (running (run_started rn) l) u" by blast
  then show ?thesis using ctx get m by (auto simp: begin_sync_def sbind_def)
qed

text \<open>A job completes if the loop over its rows returns; \<open>loop\<close> is given the session the loop starts from.\<close>

lemma job_runs:
  assumes a: "answering env" and tenant: "tenant_exists (se_committed w) T"
    and job: "filter (\<lambda>l. sl_id l = i \<and> sl_tenant l = T) (tb_sync_logs (se_committed w)) = [l]"
    and room: "room m l" and conn: "connector_for tc l = Inr c"
    and loop: "\<And>u. tracking T m (running (run_started rn) l) u \<Longrightarrow> u = new_normalizer T u
      \<Longrightarrow> inventory (se_db u) = inventory (se_committed w) \<Longrightarrow>
      \<exists>v p k. process_entities env rn (readers_of (run_pandas rn) fs) tc c u = (Inr (), v) \<and>
        tracking T 0 (tally p k (running (run_started rn) l)) v \<and> Q p k (inventory (se_db v))"
  obtains w' fs' p k where "process_sync env rn i T tc (w, fs) = (Inr (), w', fs')"
    "map_option (\<lambda>r. r\<lparr>sl_errors := None\<rparr>) (job_row w') =
      Some (mark_completed (run_completed rn) (tally p k (running (run_started rn) l)))"
    "Q p k (inventory (se_committed w'))"
proof -
  from begin_sync_runs [OF a tenant job room] obtain u where u: "begin_sync env rn i T w = (Inr True, u)"
    "tracking T m (running (run_started rn) l) u" by auto
  then obtain t where t: "se_log u = Some t" "tk_row t = running (run_started rn) l" by (auto simp: tracking_def)
  define j where "j = (tk_row t)\<lparr>sl_errors := errors_value t (tk_errors t)\<rparr>"
  have j: "job_row u = Some j" using t by (simp add: job_row_def j_def)
  have jl: "sl_connector_type j = sl_connector_type l" "sl_stored_path j = sl_stored_path l"
    by (simp_all add: j_def t(2) running_def mark_running_def)
  have cj: "connector_for tc j = Inr c"
    using conn unfolding connector_for_def jl .
  let ?rd = "readers_of (run_pandas rn) fs" and ?n = "new_normalizer T u"
  have "se_committed u = se_db u" using begin_sync_returns [OF u(1)] by blast
  then have "inventory (se_db ?n) = inventory (se_committed w)"
    using begin_sync_inventory [of w env rn i T] u(1) by (simp add: unchanged_from_def new_normalizer_def)
  moreover have "tracking T m (running (run_started rn) l) ?n"
    using u(2) by (simp add: tracking_def writable_def new_normalizer_def)
  moreover have "?n = new_normalizer T ?n" by (simp add: new_normalizer_def)
  ultimately obtain v p k where v: "process_entities env rn ?rd tc c ?n = (Inr (), v)"
      "tracking T 0 (tally p k (running (run_started rn) l)) v" "Q p k (inventory (se_db v))"
    using loop [of ?n] by blast
  let ?r = "mark_completed (run_completed rn) (tally p k (running (run_started rn) l))"
  have "room 0 ?r" using v(2) by (simp add: tracking_def room_def mark_completed_def)
  then obtain x where x: "with_log (set_row (mark_completed (run_completed rn))) v = (Inr (), x)" "tracking T 0 ?r x"
      "se_db x = se_db v"
    using with_log_runs [OF v(2), of "mark_completed (run_completed rn)" 0] by (auto simp: mark_completed_def)
  from commit_runs [OF a x(2)] obtain y where y: "commit env x = (Inr (), y)" "tracking T 0 ?r y"
    "inventory (se_committed y) = inventory (se_db x)" by blast
  have "sync_body env rn ?rd T tc j u = (Inr (), y)"
    using cj v(1) x(1) y(1) by (simp add: sync_body_def sbind_def)
  then have "process_sync env rn i T tc (w, fs) = (Inr (), y, delete_stored (job_row y) fs)"
    using u(1) j by (simp add: process_sync_def)
  moreover have "map_option (\<lambda>r. r\<lparr>sl_errors := None\<rparr>) (job_row y) = Some ?r"
    using y(2) by (auto simp: tracking_def job_row_def mark_completed_def tally_def running_def)
  ultimately show ?thesis using that v(3) x(3) y(3) by simp
qed

lemma products_job_runs:
  assumes a: "answering env" and tenant: "tenant_exists (se_committed w) T"
    and job: "filter (\<lambda>l. sl_id l = i \<and> sl_tenant l = T) (tb_sync_logs (se_committed w)) = [l]"
    and room: "room (length nps) l"
    and conn: "connector_for tc l = Inr c"
    and type: "get_or (tc_entity_type tc) ''products'' = ''products''"
    and rows: "fetch_products (readers_of (run_pandas rn) fs) c = map Inr nps"
    and fits: "\<And>np v. np \<in> set nps \<Longrightarrow> normalize_product (product_row np) [] = Inr v \<Longrightarrow> product_fits v"
  shows "\<exists>w' fs'. process_sync env rn i T tc (w, fs) = (Inr (), w', fs') \<and>
    map_option (\<lambda>r. r\<lparr>sl_errors := None\<rparr>) (job_row w') =
      Some (mark_completed (run_completed rn) (counted nps (running (run_started rn) l))) \<and>
    catalogue T (tb_products (se_committed w')) = import_products nps (catalogue T (tb_products (se_committed w)))"
proof -
  let ?p = "length (filter normalizes nps)" and ?k = "length (filter (\<lambda>np. \<not> normalizes np) nps)"
  let ?Q = "\<lambda>p k inv. p = ?p \<and> k = ?k \<and>
    catalogue T (fst inv) = import_products nps (catalogue T (tb_products (se_committed w)))"
  have "\<exists>v p k. process_entities env rn (readers_of (run_pandas rn) fs) tc c u = (Inr (), v) \<and>
      tracking T 0 (tally p k (running (run_started rn) l)) v \<and> ?Q p k (inventory (se_db v))"
    if u: "tracking T (length nps) (running (run_started rn) l) u" "u = new_normalizer T u"
      "inventory (se_db u) = inventory (se_committed w)" for u
  proof -
    have "nz_tenant u = T" using arg_cong [OF u(2), of nz_tenant] by (simp add: new_normalizer_def)
    with u(1) fits obtain v where "process_products env (map Inr nps) u = (Inr (), v)"
        "tracking T 0 (counted nps (running (run_started rn) l)) v"
        "catalogue T (tb_products (se_db v)) = import_products nps (catalogue T (tb_products (se_db u)))"
      using process_products_runs [OF a, of nps T 0 "running (run_started rn) l" u] by auto
    then show ?thesis
      using rows type u(3) by (auto simp: process_entities_rows counted_def inventory_def)
  qed
  from job_runs [where Q = ?Q, OF a tenant job room conn this] obtain w' fs' p k where
    "process_sync env rn i T tc (w, fs) = (Inr (), w', fs')"
    "map_option (\<lambda>r. r\<lparr>sl_errors := None\<rparr>) (job_row w') =
      Some (mark_completed (run_completed rn) (tally p k (running (run_started rn) l)))"
    "?Q p k (inventory (se_committed w'))" .
  then show ?thesis by (simp add: counted_def inventory_def)
qed

text \<open>Importing the same rows again changes nothing: every SKU already holds its last row.\<close>

lemma import_products_last:
  "import_products nps cat sku =
     (case find (\<lambda>v. np_sku_code v = sku) (rev (concat (map (\<lambda>np. case normalize_product (product_row np) [] of
        Inl _ \<Rightarrow> [] | Inr v \<Rightarrow> [v]) nps))) of
      None \<Rightarrow> cat sku | Some v \<Rightarrow> Some v)"
proof (induction nps rule: rev_induct)
  case Nil
  then show ?case by (simp add: import_products_def)
next
  case (snoc np nps)
  then show ?case
    by (auto simp: import_products_def import_product_def split: sum.splits)
qed

lemma import_products_twice: "import_products nps (import_products nps cat) = import_products nps cat"
  by (rule ext) (simp add: import_products_last split: option.splits)

end
