(* ===== verification/Score.thy ===== *)
theory Score
  imports Sync
begin

text \<open>
  The data quality score of \<open>SyncService._calculate_quality\<close>: how far the floating point
  computation is from \<open>100 - 50 * failed / total\<close>, and the range of the result.
\<close>

lemma powi_small: "2 powi (- 1022) \<le> (1 / 2 ^ 64 :: real)"
proof -
  have "(2::real) powi (- 1022) \<le> 2 powi (- 64)" by (simp only: powi_le)
  also have "(2::real) powi (- 64) = 1 / 2 ^ 64" by (simp add: power_int_def power_divide)
  finally show ?thesis .
qed

lemma fl_round_ratio:
  assumes "0 < d" and "1 / 2 ^ 64 \<le> (of_int n / of_int d :: real)"
    and "(of_int n / of_int d :: real) \<le> 2 ^ 60"
  obtains m e where "fl_round n d = Fin m e"
    and "\<bar>fval (Fin m e) - of_int n / of_int d\<bar> \<le> (of_int n / of_int d :: real) / 2 ^ 53"
proof -
  have pos: "0 < (of_int n / of_int d :: real)"
    using assms(2) by (rule less_le_trans [rotated]) simp
  then have n: "n \<noteq> 0" by auto
  have a: "\<bar>of_int n :: real\<bar> / of_int d = of_int n / of_int d"
    using pos assms(1) by (auto simp: zero_less_divide_iff)
  have "2 powi (- 1022) \<le> \<bar>of_int n :: real\<bar> / of_int d"
    using assms(2) powi_small unfolding a by linarith
  moreover have "\<bar>of_int n :: real\<bar> / of_int d \<le> 2 ^ 1000"
    using assms(3) unfolding a by simp
  ultimately show ?thesis
    using fl_round_error [OF assms(1) n] that unfolding a by metis
qed

lemma round1_exact:
  "fl_round 500 10 = Fin 7036874417766400 (- 47)" "fl_round 1000 10 = Fin 7036874417766400 (- 46)"
  by (simp_all add: fl_round_def fl_exponent_def bits.simps rdiv_def Let_def)

lemma round1_range:
  assumes "500 \<le> k" "k \<le> 1000"
  obtains m e where "fl_round k 10 = Fin m e" "50 \<le> fval (Fin m e)" "fval (Fin m e) \<le> 100"
    "\<bar>fval (Fin m e) - of_int k / 10\<bar> \<le> 1 / 1000"
proof (cases "k = 500 \<or> k = 1000")
  case True
  then show ?thesis using that round1_exact by (auto simp: power_int_def power_divide)
next
  case False
  then have "501 \<le> k" "k \<le> 999" using assms by auto
  then have b: "(501 :: real) \<le> of_int k" "(of_int k :: real) \<le> 999" by simp_all
  obtain m e where r: "fl_round k 10 = Fin m e"
    and x: "\<bar>fval (Fin m e) - of_int k / 10\<bar> \<le> (of_int k / 10 :: real) / 2 ^ 53"
    using fl_round_ratio [of 10 k] b by auto
  have "(of_int k / 10 :: real) / 2 ^ 53 \<le> 1 / 1000" using b by simp
  with x have e: "\<bar>fval (Fin m e) - of_int k / 10\<bar> \<le> 1 / 1000" by linarith
  have "50 \<le> fval (Fin m e)" "fval (Fin m e) \<le> 100"
    using e b by (simp_all only: abs_le_iff) linarith+
  with r e show ?thesis using that by blast
qed

text \<open>The base before rounding to one decimal, for a job with failures.\<close>

lemma base_near:
  assumes t: "0 < t" "t \<le> 2 ^ 31" and f: "0 < f" "f \<le> t"
  obtains m e where "fl_int_minus 100 (fl_scale 50 (fl_round f t)) = Fin m e"
    and "\<bar>fval (Fin m e) - (100 - 50 * (of_int f / of_int t))\<bar> \<le> 1 / 2 ^ 40"
proof -
  define R where "R = (of_int f / of_int t :: real)"
  have ft: "1 \<le> (of_int f :: real)" "(of_int f :: real) \<le> of_int t" "0 < (of_int t :: real)"
    using f t by simp_all
  have "(of_int t :: real) \<le> of_int (2 ^ 31)" using t(2) by (simp only: of_int_le_iff)
  then have t31: "(of_int t :: real) \<le> 2 ^ 31" by simp
  have R1: "R \<le> 1" using ft by (simp add: R_def)
  have "1 / 2 ^ 31 \<le> 1 / (of_int t :: real)" using t31 ft(3) by (intro divide_left_mono) auto
  also have "\<dots> \<le> R" using ft unfolding R_def by (intro divide_right_mono) auto
  finally have R0: "1 / 2 ^ 31 \<le> R" .
  have "1 / 2 ^ 64 \<le> R" using R0 by simp
  moreover have "R \<le> 2 ^ 60" using R1 by simp
  ultimately obtain m1 e1 where r: "fl_round f t = Fin m1 e1" and x: "\<bar>fval (Fin m1 e1) - R\<bar> \<le> R / 2 ^ 53"
    using fl_round_ratio [of t f] t(1) unfolding R_def by metis
  define X where "X = fval (Fin m1 e1)"
  have X: "X \<le> 1 + 1 / 2 ^ 53" "R / 2 \<le> X" "\<bar>X - R\<bar> \<le> 1 / 2 ^ 53"
    using x R0 R1 unfolding X_def [symmetric] abs_le_iff by simp_all
  have "1 / 2 ^ 64 \<le> 50 * X" "50 * X \<le> 2 ^ 60" using X R0 by simp_all
  then obtain m2 e2 where s: "fl_round (50 * m1 * 2 ^ nat e1) (2 ^ nat (- e1)) = Fin m2 e2"
    and y: "\<bar>fval (Fin m2 e2) - 50 * X\<bar> \<le> 50 * X / 2 ^ 53"
    using fl_round_ratio [of "2 ^ nat (- e1)" "50 * m1 * 2 ^ nat e1"]
    unfolding fl_scale_quotient X_def by auto
  define Y where "Y = fval (Fin m2 e2)"
  have Y: "\<bar>Y - 50 * R\<bar> \<le> 1 / 2 ^ 45"
    using y X unfolding Y_def [symmetric] abs_le_iff by simp
  have Y2: "Y \<le> 51" "0 \<le> Y" using Y R0 R1 unfolding abs_le_iff by simp_all
  have "1 / 2 ^ 64 \<le> 100 - Y" "100 - Y \<le> 2 ^ 60" using Y2 by simp_all
  then obtain m e where b: "fl_round (100 * 2 ^ nat (- e2) - m2 * 2 ^ nat e2) (2 ^ nat (- e2)) = Fin m e"
    and z: "\<bar>fval (Fin m e) - (100 - Y)\<bar> \<le> (100 - Y) / 2 ^ 53"
    using fl_round_ratio [of "2 ^ nat (- e2)" "100 * 2 ^ nat (- e2) - m2 * 2 ^ nat e2"]
    unfolding fl_minus_quotient Y_def by auto
  have "\<bar>fval (Fin m e) - (100 - 50 * R)\<bar> \<le> 1 / 2 ^ 40"
    using z Y Y2 unfolding abs_le_iff by simp
  then show ?thesis
    using that [of m e] r s b by (simp add: R_def)
qed

text \<open>
  Property C38.  The score of a job with rows is \<open>100 - 50 * failed / total\<close> rounded to one decimal, in the
  floating point arithmetic of the code and for any number of rows the integer columns can count: it is the
  double nearest to a decimal \<open>k / 10\<close>, which is at most half a tenth from the exact value (but for
  \<open>1 / 2 ^ 40\<close>, the error of the computation before the rounding), and so never below 50 nor above 100.
\<close>

theorem quality_score:
  assumes "0 \<le> processed" "0 \<le> failed" "0 < processed + failed" "processed + failed < 2 ^ 31"
  shows "\<exists>k m e. calculate_quality processed failed = fl_round k 10 \<and> fl_round k 10 = Fin m e \<and>
    \<bar>of_int k / 10 - (100 - 50 * (of_int failed / of_int (processed + failed)))\<bar> \<le> (1 / 20 + 1 / 2 ^ 40 :: real) \<and>
    50 \<le> fval (Fin m e) \<and> fval (Fin m e) \<le> 100"
proof -
  define t where "t = processed + failed"
  define Q where "Q = (100 - 50 * (of_int failed / of_int t) :: real)"
  have "\<exists>m e. fl_int_minus 100 (fl_scale 50 (fl_round failed t)) = Fin m e \<and> \<bar>fval (Fin m e) - Q\<bar> \<le> 1 / 2 ^ 40"
  proof (cases "failed = 0")
    case True
    then show ?thesis
      by (simp add: Q_def fl_round_def fl_exponent_def bits.simps rdiv_def Let_def power_int_def power_divide)
  next
    case False
    then have "0 < t" "t \<le> 2 ^ 31" "0 < failed" "failed \<le> t" using assms by (simp_all add: t_def)
    then show ?thesis using base_near [of t failed] unfolding Q_def by metis
  qed
  then obtain m e where b: "fl_int_minus 100 (fl_scale 50 (fl_round failed t)) = Fin m e"
    and x: "\<bar>fval (Fin m e) - Q\<bar> \<le> 1 / 2 ^ 40" by blast
  have "(0 :: real) \<le> of_int failed / of_int t" "(of_int failed / of_int t :: real) \<le> 1"
    using assms by (simp_all add: t_def)
  then have Q: "50 \<le> Q" "Q \<le> 100" unfolding Q_def by linarith+
  let ?N = "10 * m * 2 ^ nat e" and ?D = "2 ^ nat (- e) :: int"
  define k where "k = rdiv ?N ?D"
  have quot: "(of_int ?N / of_int ?D :: real) = 10 * fval (Fin m e)"
    using fl_scale_quotient [of 10 m e] by simp
  have k: "\<bar>of_int k - 10 * fval (Fin m e)\<bar> \<le> 1 / 2"
    using rdiv_half [of ?D ?N] unfolding quot k_def by simp
  have "(499 :: real) < of_int k" "(of_int k :: real) < 1001"
    using k x Q unfolding abs_le_iff by simp_all
  then have "500 \<le> k" "k \<le> 1000" by simp_all
  then obtain m' e' where r: "fl_round k 10 = Fin m' e'" "50 \<le> fval (Fin m' e')" "fval (Fin m' e') \<le> 100"
    and y: "\<bar>fval (Fin m' e') - of_int k / 10\<bar> \<le> 1 / 1000"
    by (rule round1_range)
  have "0 < m'"
  proof (rule ccontr)
    assume "\<not> 0 < m'"
    then have "fval (Fin m' e') \<le> 0" by (simp add: mult_nonpos_nonneg)
    with r(2) show False by linarith
  qed
  then have "calculate_quality processed failed = fl_round k 10"
    using assms(3) b r(1) by (simp add: calculate_quality_def Let_def t_def [symmetric] k_def)
  moreover have "\<bar>of_int k / 10 - Q\<bar> \<le> 1 / 20 + 1 / 2 ^ 40"
    using x k unfolding abs_le_iff by simp
  ultimately show ?thesis
    using r unfolding Q_def t_def by (intro exI [of _ k] exI [of _ m'] exI [of _ e'] conjI)
qed

text \<open>One row of three failed: 83.3.\<close>

theorem quality_score_witness:
  "\<exists>m e. calculate_quality 2 1 = fl_round 833 10 \<and> fl_round 833 10 = Fin m e \<and> 50 \<le> fval (Fin m e) \<and> fval (Fin m e) \<le> 100"
proof -
  obtain k m e where k: "calculate_quality 2 1 = fl_round k 10" "fl_round k 10 = Fin m e"
    "\<bar>of_int k / 10 - (100 - 50 * (of_int 1 / of_int (2 + 1)))\<bar> \<le> (1 / 20 + 1 / 2 ^ 40 :: real)"
    "50 \<le> fval (Fin m e)" "fval (Fin m e) \<le> 100"
    using quality_score [of 2 1] by auto
  have "(832 :: real) < of_int k" "(of_int k :: real) < 834" using k(3) unfolding abs_le_iff by simp_all
  then have "k = 833" by simp
  with k show ?thesis by auto
qed

end
