(* ===== verification/Pipeline.thy ===== *)
theory Pipeline
  imports Sync
begin

text \<open>
  The connector followed by the normalizer.  A record that the CSV connector built is validated
  once more, as a row of its own fields: what the second pass accepts and changes.
\<close>

definition no_blank :: "string option \<Rightarrow> string option" where
  "no_blank x = (if x = Some [] then None else x)"

lemma opt_text_of:
  "opt_text (case x of None \<Rightarrow> VNone | Some s \<Rightarrow> VStr s) = (case no_blank x of None \<Rightarrow> None | Some s \<Rightarrow> Some (strip s))"
  by (simp add: opt_text_def no_blank_def split: option.splits)

lemma stripped_opt: "(\<And>s. x = Some s \<Longrightarrow> strip s = s) \<Longrightarrow>
  (case no_blank x of None \<Rightarrow> None | Some s \<Rightarrow> Some (strip s)) = no_blank x"
  by (auto simp: no_blank_def split: option.splits)

lemma opt_text_strip: "opt_text v = Some s \<Longrightarrow> strip s = s"
  by (auto simp: opt_text_def split: if_splits)

text \<open>What the connector's records look like.\<close>

lemma map_to_product_record:
  assumes "map_to_product r m = Inr np"
  shows "strip (np_sku_code np) = np_sku_code np" "strip (np_name np) = np_name np"
    "strip (np_unit_of_measure np) = np_unit_of_measure np"
    "\<And>s. np_category np = Some s \<Longrightarrow> strip s = s" "np_industry_attributes np = []"
  using assms by (auto simp: map_to_product_def Let_def res_simps dest: opt_text_strip)

lemma map_to_transaction_record:
  assumes "map_to_transaction now r m = Inr nt"
  shows "strip (nt_sku_code nt) = nt_sku_code nt" "strip (nt_location_name nt) = nt_location_name nt"
    "\<And>s. nt_reference_no nt = Some s \<Longrightarrow> strip s = s"
  using assms by (auto simp: map_to_transaction_def Let_def res_simps dest: opt_text_strip)

lemma map_to_batch_record:
  assumes "map_to_batch r m = Inr nb"
  shows "strip (nb_sku_code nb) = nb_sku_code nb" "strip (nb_batch_no nb) = nb_batch_no nb"
    "\<And>s. nb_location_name nb = Some s \<Longrightarrow> strip s = s"
  using assms by (auto simp: map_to_batch_def Let_def res_simps dest: opt_text_strip)

text \<open>
  Property C35.  The second pass is the identity on what the connector built, up to blanks: a product
  with a SKU and a name normalizes to itself, an empty unit of measure becoming \<open>pcs\<close> and an
  empty category none; without a SKU or a name it is refused as missing that field, and for no
  other reason.
\<close>

theorem product_revalidated:
  assumes "map_to_product r m = Inr np"
  shows "normalize_product (product_row np) [] =
    (if np_sku_code np = [] then Inl (missing ''sku_code'')
     else if np_name np = [] then Inl (missing ''name'')
     else Inr (np\<lparr>np_category := no_blank (np_category np), np_unit_of_measure :=
       (if np_unit_of_measure np = [] then ''pcs'' else np_unit_of_measure np)\<rparr>))"
proof -
  have pcs: "strip ''pcs'' = ''pcs''" by (simp add: strip_def is_space_def)
  note rec = map_to_product_record [OF assms]
  have cat: "opt_text (case np_category np of None \<Rightarrow> VNone | Some s \<Rightarrow> VStr s) = no_blank (np_category np)"
    using rec(4) by (simp add: opt_text_of stripped_opt)
  show ?thesis
    by (simp add: normalize_product_def product_row_def Let_def cat rec pcs attributes_of_def)
qed

theorem product_revalidated_witness:
  "normalize_product (product_row \<lparr>np_sku_code = ''S'', np_name = [], np_category = None,
      np_unit_of_measure = ''pcs'', np_unit_cost_paise = 0, np_selling_price_paise = 0,
      np_industry_attributes = []\<rparr>) [] = Inl (missing ''name'')"
proof -
  have "strip ''pcs'' = ''pcs''" "strip ''S'' = ''S''" by (simp_all add: strip_def is_space_def)
  moreover have "csv_to_paise (VInt 0) = Inr 0"
    by (simp add: py_float_of_int_def fl_round_def paise_of_float_def rdiv_def)
  ultimately have "map_to_product [(''s'', VStr ''S'')] [(''sku_code'', ''s'')] =
      Inr \<lparr>np_sku_code = ''S'', np_name = [], np_category = None,
      np_unit_of_measure = ''pcs'', np_unit_cost_paise = 0, np_selling_price_paise = 0,
      np_industry_attributes = []\<rparr>"
    by (simp add: map_to_product_def csv_apply_mapping_def dict_setdefault_def Let_def opt_text_def
        del: csv_to_paise.simps)
  from product_revalidated [OF this] show ?thesis by simp
qed

text \<open>
  Property C36.  The same for transactions and batches: with a SKU and a location (a SKU and a batch
  number) they normalize to themselves, a blank reference or location becoming none, whatever the
  type, quantity, cost and dates; otherwise the missing field is the error.
\<close>

theorem movements_revalidated:
  assumes "map_to_transaction now r m = Inr nt" and "map_to_batch r' m' = Inr nb"
  shows "normalize_transaction (transaction_row nt) [] =
      (if nt_sku_code nt = [] then Inl (missing ''sku_code'')
       else if nt_location_name nt = [] then Inl (missing ''location_name'')
       else Inr (nt\<lparr>nt_reference_no := no_blank (nt_reference_no nt)\<rparr>)) \<and>
    normalize_batch (batch_row nb) [] =
      (if nb_sku_code nb = [] then Inl (missing ''sku_code'')
       else if nb_batch_no nb = [] then Inl (missing ''batch_no'')
       else Inr (nb\<lparr>nb_location_name := no_blank (nb_location_name nb)\<rparr>))" (is "?txn \<and> ?batch")
proof -
  note t = map_to_transaction_record [OF assms(1)] and b = map_to_batch_record [OF assms(2)]
  have ref: "opt_text (case nt_reference_no nt of None \<Rightarrow> VNone | Some s \<Rightarrow> VStr s) = no_blank (nt_reference_no nt)"
    using t(3) by (simp add: opt_text_of stripped_opt)
  have txn: ?txn
    by (simp add: normalize_transaction_def transaction_row_def Let_def ref t)
  have loc: "opt_text (case nb_location_name nb of None \<Rightarrow> VNone | Some s \<Rightarrow> VStr s) = no_blank (nb_location_name nb)"
    using b(3) by (simp add: opt_text_of stripped_opt)
  have dates: "parse_optional_date (case x of None \<Rightarrow> VNone | Some d \<Rightarrow> VDate d) =
      Inr (case x of None \<Rightarrow> VNone | Some d \<Rightarrow> VDate d)"
    "date_field (case x of None \<Rightarrow> VNone | Some d \<Rightarrow> VDate d) = Inr x" for x
    by (simp_all add: parse_optional_date_def split: option.splits)
  have batch: ?batch
    by (simp add: normalize_batch_def batch_row_def Let_def loc b dates)
  show ?thesis using txn batch ..
qed

theorem movements_revalidated_witness:
  "normalize_transaction (transaction_row \<lparr>nt_sku_code = ''S'', nt_location_name = ''S'',
      nt_transaction_type = IN, nt_quantity = 0, nt_unit_cost_paise = 0, nt_reference_no = Some [],
      nt_transaction_date = Datetime (Date 2024 1 1) 0 0 0 0 (Some 0)\<rparr>) [] =
    Inr \<lparr>nt_sku_code = ''S'', nt_location_name = ''S'', nt_transaction_type = IN, nt_quantity = 0,
      nt_unit_cost_paise = 0, nt_reference_no = None,
      nt_transaction_date = Datetime (Date 2024 1 1) 0 0 0 0 (Some 0)\<rparr>"
proof -
  let ?now = "Datetime (Date 2024 1 1) 0 0 0 0 (Some 0)"
  let ?r = "[(''s'', VStr ''S''), (''r'', VStr '' '')]"
  let ?m = "[(''sku_code'', ''s''), (''location_name'', ''s''), (''reference_no'', ''r'')]"
  have z: "csv_to_paise (VInt 0) = Inr 0" "csv_to_int (VInt 0) = Inr 0"
    by (simp_all add: py_float_of_int_def fl_round_def paise_of_float_def rdiv_def)
  have s: "strip ''S'' = ''S''" "strip '' '' = []" by (simp_all add: strip_def is_space_def)
  have "csv_apply_mapping ?r ?m =
      [(''sku_code'', VStr ''S''), (''location_name'', VStr ''S''), (''reference_no'', VStr '' '')]"
    by (simp add: csv_apply_mapping_def)
  moreover have "csv_to_transaction_type (VTxn IN) = IN"
    by (simp add: csv_to_transaction_type_def txn_of_def enum_of_value_def enum_TransactionType_def lower_def lower_char_def Let_def
        strip_def is_space_def)
  ultimately have t: "map_to_transaction ?now ?r ?m = Inr \<lparr>nt_sku_code = ''S'', nt_location_name = ''S'',
      nt_transaction_type = IN, nt_quantity = 0, nt_unit_cost_paise = 0, nt_reference_no = Some [],
      nt_transaction_date = ?now\<rparr>"
    by (simp add: map_to_transaction_def Let_def opt_text_def z s del: csv_to_paise.simps csv_to_int.simps)
  have b: "map_to_batch [] [] = Inr \<lparr>nb_sku_code = [], nb_batch_no = [], nb_manufactured_date = None,
      nb_expiry_date = None, nb_quantity = 0, nb_location_name = None\<rparr>"
    by (simp add: map_to_batch_def csv_apply_mapping_def opt_text_def z del: csv_to_int.simps)
  from movements_revalidated [OF t b] show ?thesis by (simp add: no_blank_def)
qed

end
