(* ===== verification/SyncProps.thy ===== *)
theory SyncProps
  imports Progress Score Pipeline
begin

text \<open>
  The properties of a sync job, and an example on which their hypotheses hold: a tenant with one
  pending upload of one product.
\<close>

section \<open>An example\<close>

definition example_log :: sync_log where
  "example_log = new_sync_log 2 1 CSV ''p'' ''u'' 0"

definition example_tenant :: tenant where
  "example_tenant = \<lparr>tn_id = 1, tn_name = ''T'', tn_industry_type = None, tn_erp_type = None,
     tn_subscription_plan = ''trial'', tn_subscription_status = ''trial'', tn_trial_start_date = None,
     tn_trial_end_date = None, tn_subscription_start_date = None, tn_next_billing_date = None,
     tn_config = None, tn_is_active = True, tn_created_at = 0, tn_updated_at = 0\<rparr>"

definition example_db :: db where
  "example_db = \<lparr>tb_tenants = [example_tenant],
     tb_users = [], tb_products = [], tb_locations = [], tb_batches = [], tb_transactions = [],
     tb_sync_logs = [example_log]\<rparr>"

definition example_worker :: worker where
  "example_worker = \<lparr>se_db = example_db, se_committed = example_db, se_state = TxActive,
     se_context = RuntimeRole None, se_next_id = 3, se_count = 0, se_tx = 0, se_log = None,
     nz_tenant = 0, nz_product_cache = [], nz_location_cache = []\<rparr>"

definition example_env :: env where
  "example_env = \<lparr>en_answers = \<lambda>_ _. True, en_clock = int\<rparr>"

definition example_frame :: frame where
  "example_frame = [[(''SKU Code'', Cell ''S1''), (''Product Name'', Cell ''A''), (''Category'', Missing)]]"

definition example_run :: run where
  "example_run = \<lparr>run_pandas = \<lparr>parse_csv = \<lambda>_ _. Inr example_frame, parse_excel = \<lambda>_ _. Inr example_frame\<rparr>,
     run_clock = \<lambda>_. Datetime (Date 2024 1 1) 0 0 0 0 (Some 0), run_started = 5, run_completed = 6\<rparr>"

definition example_files :: files where
  "example_files = [''u'' \<mapsto> [1]]"

definition example_config :: tenant_config where
  "example_config = \<lparr>tc_csv_mappings = None, tc_entity_type = None\<rparr>"

definition example_product :: NormalizedProduct where
  "example_product = \<lparr>np_sku_code = ''S1'', np_name = ''A'', np_category = None,
     np_unit_of_measure = ''pcs'', np_unit_cost_paise = 0, np_selling_price_paise = 0,
     np_industry_attributes = []\<rparr>"

definition example_connector :: CSVConnector where
  "example_connector = csv_init \<lparr>cfg_file_path = ''u'', cfg_mappings = Some [], cfg_delimiter = None,
     cfg_sheet_name = None, cfg_entity_type = Some ''products''\<rparr>"

lemma example_conn: "connector_for example_config example_log = Inr example_connector"
  by (simp add: connector_for_def example_config_def example_log_def new_sync_log_def factory_get_def
      registry_def factory_register_def get_or_def example_connector_def)

lemma strip_plain: "strip ''S1'' = ''S1''" "strip ''A'' = ''A''" "strip ''pcs'' = ''pcs''"
  by (simp_all add: strip_def is_space_def)

lemma paise_of_zero: "csv_to_paise (VInt 0) = Inr 0"
  by (simp add: py_float_of_int_def fl_round_def paise_of_float_def rdiv_def)

lemma example_mapped:
  "csv_apply_mapping [(''SKU Code'', VStr ''S1''), (''Product Name'', VStr ''A'')] DEFAULT_PRODUCT_MAPPING =
     [(''sku_code'', VStr ''S1''), (''name'', VStr ''A'')]"
  by (simp add: csv_apply_mapping_def DEFAULT_PRODUCT_MAPPING_def)

lemma example_record:
  "map_to_product [(''SKU Code'', VStr ''S1''), (''Product Name'', VStr ''A'')] DEFAULT_PRODUCT_MAPPING =
     Inr example_product"
  by (simp add: map_to_product_def example_mapped dict_setdefault_def Let_def paise_of_zero strip_plain
      opt_text_def example_product_def del: csv_to_paise.simps)

lemma example_rows:
  "fetch_products (readers_of (run_pandas example_run) example_files) example_connector = map Inr [example_product]"
proof -
  have "read_dataframe (readers_of (run_pandas example_run) example_files) example_connector
      (cc_sheet_name example_connector) = Inr example_frame"
    by (simp add: read_dataframe_def path_suffix_def path_name_def name_suffix_def lower_def readers_of_def
        example_files_def example_run_def example_connector_def csv_init_def get_or_def)
  moreover have "dropna [(''SKU Code'', Cell ''S1''), (''Product Name'', Cell ''A''), (''Category'', Missing)] =
      [(''SKU Code'', VStr ''S1''), (''Product Name'', VStr ''A'')]"
    by (simp add: dropna_def)
  ultimately show ?thesis
    by (simp add: fetch_products_def rows_of_def example_frame_def example_record example_connector_def
        csv_init_def get_or_def dict_get_or_def)
qed

lemma example_normalized: "normalize_product (product_row example_product) [] = Inr example_product"
  by (simp add: normalize_product_def product_row_def example_product_def strip_plain attributes_of_def
      opt_text_def)

lemma example_ready:
  "answering example_env" "tenant_exists (se_committed example_worker) 1"
  "filter (\<lambda>l. sl_id l = 2 \<and> sl_tenant l = 1) (tb_sync_logs (se_committed example_worker)) = [example_log]"
  "room (length [example_product]) example_log"
  "get_or (tc_entity_type example_config) ''products'' = ''products''"
  "np \<in> set [example_product] \<Longrightarrow> normalize_product (product_row np) [] = Inr v \<Longrightarrow> product_fits v"
  by (auto simp: answering_def example_env_def tenant_exists_def example_worker_def example_db_def example_tenant_def
      example_log_def new_sync_log_def room_def example_config_def get_or_def example_normalized)
    (simp add: product_fits_def example_product_def varchar_def varchar_null_def text_ok_def int8_def
      char_of_def)

lemma example_runs:
  "\<exists>w' fs'. process_sync example_env example_run 2 1 example_config (example_worker, example_files) = (Inr (), w', fs')"
  using products_job_runs [OF example_ready(1-4) example_conn example_ready(5) example_rows] example_ready(6)
  by blast

section \<open>Properties\<close>

text \<open>
  Property C1.  No row can fail a product job: when the database answers and the normalized rows fit
  its columns, \<open>process_sync\<close> returns, whatever the rows hold; the job is \<open>COMPLETED\<close> and counts as
  processed exactly the rows that normalize and as failed exactly the others; and the tenant's
  catalogue is its old catalogue with the rows imported in order, the last row of a SKU winning.
\<close>

theorem product_job_completes:
  assumes "answering env" and "tenant_exists (se_committed w) T"
    and "filter (\<lambda>l. sl_id l = i \<and> sl_tenant l = T) (tb_sync_logs (se_committed w)) = [l]"
    and "room (length nps) l"
    and "connector_for tc l = Inr c"
    and "get_or (tc_entity_type tc) ''products'' = ''products''"
    and "fetch_products (readers_of (run_pandas rn) fs) c = map Inr nps"
    and "\<forall>np \<in> set nps. \<forall>v. normalize_product (product_row np) [] = Inr v \<longrightarrow> product_fits v"
  shows "\<exists>w' fs'. process_sync env rn i T tc (w, fs) = (Inr (), w', fs') \<and>
    catalogue T (tb_products (se_committed w')) = import_products nps (catalogue T (tb_products (se_committed w))) \<and>
    (\<forall>l' \<in> set (tb_sync_logs (se_committed w')). sl_id l' = i \<and> sl_tenant l' = T \<longrightarrow>
       sl_status l' = COMPLETED \<and>
       sl_records_processed l' = sl_records_processed l + int (length (filter normalizes nps)) \<and>
       sl_records_failed l' = sl_records_failed l + int (length (filter (\<lambda>np. \<not> normalizes np) nps)))"
proof -
  from products_job_runs [OF assms(1-7)] assms(8) obtain w' fs' where
    run: "process_sync env rn i T tc (w, fs) = (Inr (), w', fs')"
    and row: "map_option (\<lambda>r. r\<lparr>sl_errors := None\<rparr>) (job_row w') =
      Some (mark_completed (run_completed rn) (counted nps (running (run_started rn) l)))"
    and cat: "catalogue T (tb_products (se_committed w')) =
      import_products nps (catalogue T (tb_products (se_committed w)))" by blast
  have "l'\<lparr>sl_errors := None\<rparr> = mark_completed (run_completed rn) (counted nps (running (run_started rn) l))"
    if "l' \<in> set (tb_sync_logs (se_committed w'))" "sl_id l' = i" "sl_tenant l' = T" for l'
    using process_sync_returns [OF run that] row by auto
  note eq = this
  have "sl_status l' = COMPLETED \<and>
      sl_records_processed l' = sl_records_processed l + int (length (filter normalizes nps)) \<and>
      sl_records_failed l' = sl_records_failed l + int (length (filter (\<lambda>np. \<not> normalizes np) nps))"
    if "l' \<in> set (tb_sync_logs (se_committed w'))" "sl_id l' = i" "sl_tenant l' = T" for l'
    using arg_cong [OF eq [OF that], of sl_status] arg_cong [OF eq [OF that], of sl_records_processed]
      arg_cong [OF eq [OF that], of sl_records_failed]
    by (simp add: mark_completed_def counted_def tally_def running_def mark_running_def)
  with run cat show ?thesis by blast
qed

theorem product_job_completes_witness:
  "\<exists>w' fs'. process_sync example_env example_run 2 1 example_config (example_worker, example_files) =
      (Inr (), w', fs') \<and>
    catalogue 1 (tb_products (se_committed w')) =
      import_products [example_product] (catalogue 1 (tb_products (se_committed example_worker)))"
  using product_job_completes [OF example_ready(1-4) example_conn example_ready(5) example_rows] example_ready(6)
  by blast

text \<open>
  Property C4.  A job that completed has accounted for every row: the total is what was processed and
  what failed (as much more than before the run), the score is computed from the two counts, and
  the uploaded file, and no other, is deleted.
\<close>

theorem completed_job_accounts:
  assumes "process_sync env rn i T tc (w, fs) = (Inr (), w', fs')"
    and "l' \<in> set (tb_sync_logs (se_committed w'))" "sl_id l' = i" "sl_tenant l' = T"
  shows "\<exists>l \<in> set (tb_sync_logs (se_committed w)). sl_id l = i \<and> sl_tenant l = T \<and>
    sl_status l' = COMPLETED \<and>
    sl_total_records l' - sl_total_records l =
      (sl_records_processed l' - sl_records_processed l) + (sl_records_failed l' - sl_records_failed l) \<and>
    sl_data_quality_score l' = Some (calculate_quality (sl_records_processed l') (sl_records_failed l')) \<and>
    fs' = (case sl_stored_path l of None \<Rightarrow> fs | Some p \<Rightarrow> if p = [] then fs else fs(p := None))"
proof -
  from process_sync_returns [OF assms] obtain l p k where l: "l \<in> set (tb_sync_logs (se_committed w))"
    "sl_id l = i" "sl_tenant l = T" "fs' = delete_stored (Some l) fs"
    and eq: "l'\<lparr>sl_errors := None\<rparr> =
      mark_completed (run_completed rn) (tally p k (running (run_started rn) l))" by blast
  show ?thesis
    using l arg_cong [OF eq, of sl_status] arg_cong [OF eq, of sl_records_processed]
      arg_cong [OF eq, of sl_records_failed] arg_cong [OF eq, of sl_total_records]
      arg_cong [OF eq, of sl_data_quality_score]
    by (intro bexI [of _ l])
      (simp_all add: mark_completed_def tally_def running_def mark_running_def delete_stored_def
        storage_delete_def split: option.splits)
qed

theorem completed_job_accounts_witness:
  "\<exists>w' fs'. process_sync example_env example_run 2 1 example_config (example_worker, example_files) =
      (Inr (), w', fs') \<and>
    (\<forall>l' \<in> set (tb_sync_logs (se_committed w')). sl_id l' = 2 \<and> sl_tenant l' = 1 \<longrightarrow> sl_status l' = COMPLETED)"
  using example_runs completed_job_accounts by blast

text \<open>
  Property C5.  A failed run leaves nothing behind but its account: when \<open>process_sync\<close> raises, the
  committed products, locations, batches and transactions are exactly those from before, and so
  are the files on disk, so that the retry starts from the same upload.
\<close>

theorem failed_sync_changes_nothing:
  assumes "process_sync env rn i T tc (w, fs) = (Inl e, w', fs')"
  shows "inventory (se_committed w') = inventory (se_committed w) \<and> fs' = fs"
  using failed_sync_inventory [OF assms] .

lemma example_refused:
  "\<exists>w' fs'. process_sync (example_env\<lparr>en_answers := \<lambda>n st. st \<noteq> CommitWork\<rparr>) example_run 2 1 example_config
     (example_worker, example_files) = (Inl DatabaseError, w', fs')"
  by (simp add: process_sync_def begin_sync_def sbind_def set_tenant_context_def get_sync_log_def select_def
      execute_def flush_log_def open_session_def send_def answer_of_def one_or_none_def with_log_def
      example_env_def example_worker_def example_db_def example_log_def new_sync_log_def tick_def
      log_by_id_def track_def Let_def set_row_def mark_running_def commit_def needs_update_def in_flush_def
      int4_def mark_saved_def update_log_row_def write_row_def errors_changed_def)

theorem failed_sync_changes_nothing_witness:
  "\<exists>w' fs'. process_sync (example_env\<lparr>en_answers := \<lambda>n st. st \<noteq> CommitWork\<rparr>) example_run 2 1 example_config
     (example_worker, example_files) = (Inl DatabaseError, w', fs') \<and>
     inventory (se_committed w') = inventory example_db \<and> fs' = example_files"
  using example_refused failed_sync_changes_nothing
  by (fastforce simp: example_worker_def)

text \<open>
  Every job keeps the integrity of the tables: ids and the keys of the unique constraints
  stay distinct, and every batch and transaction refers to a product and a location of its own
  tenant, whatever the upload holds, whichever statements the database refuses, and wherever the
  run fails.
\<close>

theorem sync_keeps_integrity:
  assumes "stored w"
  shows "stored (fst (snd (process_sync env rn i T tc (w, fs))))"
  by (rule integrity.process_sync_keeps) (use assms in \<open>simp add: stored_def open_session_def\<close>)

theorem sync_keeps_integrity_witness:
  "stored (fst (snd (process_sync example_env example_run 2 1 example_config (example_worker, example_files))))"
  by (rule sync_keeps_integrity)
    (simp add: stored_def example_worker_def example_db_def wf_db_def wf_products_def wf_locations_def
      wf_batches_def wf_transactions_def)

text \<open>
  A job of one tenant never touches the others: their committed products, locations,
  batches and transactions, and all users and tenants, are the same after \<open>process_sync\<close>.
\<close>

theorem sync_isolates_tenants:
  "others T (se_committed (fst (snd (process_sync env rn i T tc (w, fs))))) = others T (se_committed w)"
  using isolation.process_sync_keeps [of T "se_committed w" w env rn i tc fs]
  by (simp add: all_isolated_def open_session_def)

section \<open>What fails a job\<close>

lemma for_each_raises: "Inl e \<in> set rows \<Longrightarrow> fst (for_each rows f w) \<noteq> Inr ()"
proof (induction rows arbitrary: w)
  case (Cons r rows)
  show ?case
  proof (cases r)
    case (Inr x)
    with Cons.prems have "Inl e \<in> set rows" by simp
    with Cons.IH Inr show ?thesis by (auto simp: sbind_def split: prod.splits sum.splits)
  qed simp
qed simp

text \<open>What \<open>process_sync\<close> did if it returned and the job is in the table.\<close>

lemma process_sync_body:
  assumes run: "process_sync env rn i T tc (w, fs) = (Inr (), w', fs')"
    and job: "filter (\<lambda>l. sl_id l = i \<and> sl_tenant l = T) (tb_sync_logs (se_committed w)) = [l]"
  obtains u j where "held (running (run_started rn) l) u" "connector_for tc j = connector_for tc l"
    "sync_body env rn (readers_of (run_pandas rn) fs) T tc j u = (Inr (), w')"
    "se_context u = RuntimeRole (Some T)" "inventory (se_db u) = inventory (se_committed w)"
proof -
  obtain r u where b: "begin_sync env rn i T w = (r, u)" by fastforce
  have l: "l \<in> set (tb_sync_logs (se_committed w))" "sl_id l = i" "sl_tenant l = T"
    using job by (auto simp: filter_eq_Cons_iff)
  have only: "k = l" if "k \<in> set (tb_sync_logs (se_committed w))" "sl_id k = i" "sl_tenant k = T" for k
  proof -
    have "k \<in> set (filter (\<lambda>l. sl_id l = i \<and> sl_tenant l = T) (tb_sync_logs (se_committed w)))"
      using that by simp
    then show ?thesis unfolding job by simp
  qed
  have "r \<noteq> Inr False" using begin_sync_not_found [of env rn i T w u] b l by auto
  then have r: "r = Inr True" using run b by (cases r) (auto simp: process_sync_def)
  from begin_sync_returns [OF b [unfolded r]] obtain k where
    k: "k \<in> set (tb_sync_logs (se_committed w))" "sl_id k = i" "sl_tenant k = T"
    and u: "held (running (run_started rn) k) u" "se_context u = RuntimeRole (Some T)"
    and same: "se_committed u = se_db u" by blast
  have inv: "inventory (se_db u) = inventory (se_committed w)"
    using begin_sync_inventory [of w env rn i T] b same by (simp add: unchanged_from_def)
  have kl: "k = l" by (rule only) (rule k)+
  from u obtain t where t: "se_log u = Some t" "tk_row t = running (run_started rn) k" by (auto simp: held_def)
  define j where "j = (tk_row t)\<lparr>sl_errors := errors_value t (tk_errors t)\<rparr>"
  have jr: "job_row u = Some j" using t by (simp add: job_row_def j_def)
  have jl: "sl_connector_type j = sl_connector_type l" "sl_stored_path j = sl_stored_path l"
    by (simp_all add: j_def t(2) running_def mark_running_def kl)
  have conn: "connector_for tc j = connector_for tc l" unfolding connector_for_def jl ..
  let ?rd = "readers_of (run_pandas rn) fs"
  obtain q v where s: "sync_body env rn ?rd T tc j u = (q, v)" by fastforce
  have "q = Inr ()"
  proof (cases q)
    case (Inl e)
    have "fst (sync_failed env rn e v) \<noteq> Inr ()"
      unfolding sync_failed_def by (auto simp: sbind_def split: prod.splits sum.splits)
    with run b r jr s Inl show ?thesis by (auto simp: process_sync_def split: prod.splits)
  qed simp
  with run b r jr s have "w' = v" by (simp add: process_sync_def)
  with s \<open>q = Inr ()\<close> u kl conn inv that show ?thesis by blast
qed

text \<open>
  Property C29.  One cell can fail a whole job: if building the record of any row raises (which only
  a number too large for an integer does, such as \<open>inf\<close> or \<open>1e400\<close>), \<open>process_sync\<close> does not complete
  the job, however many good rows there are.
\<close>

theorem unreadable_row_fails_job:
  assumes "filter (\<lambda>l. sl_id l = i \<and> sl_tenant l = T) (tb_sync_logs (se_committed w)) = [l]"
    and "connector_for tc l = Inr c"
    and "get_or (tc_entity_type tc) ''products'' = ''products''"
    and "Inl e \<in> set (fetch_products (readers_of (run_pandas rn) fs) c)"
  shows "fst (process_sync env rn i T tc (w, fs)) \<noteq> Inr ()"
proof
  assume "fst (process_sync env rn i T tc (w, fs)) = Inr ()"
  then obtain w' fs' where run: "process_sync env rn i T tc (w, fs) = (Inr (), w', fs')"
    by (metis prod.collapse)
  from process_sync_body [OF run assms(1)] obtain u j where
    "connector_for tc j = connector_for tc l"
    "sync_body env rn (readers_of (run_pandas rn) fs) T tc j u = (Inr (), w')" .
  then obtain x y where "process_products env (fetch_products (readers_of (run_pandas rn) fs) c) x = (Inr (), y)"
    using assms(2,3) unfolding sync_body_def by (auto simp: process_entities_rows elim!: sbindE)
  with for_each_raises [OF assms(4), of "process_product env" x] show False
    by (simp add: process_products_def)
qed

definition infinite_run :: run where
  "infinite_run = example_run\<lparr>run_pandas := \<lparr>parse_csv = \<lambda>_ _. Inr [[(''Unit Cost'', Cell ''inf'')]],
     parse_excel = \<lambda>_ _. Inr [[(''Unit Cost'', Cell ''inf'')]]\<rparr>\<rparr>"

lemma infinite_cost: "map_to_product [(''Unit Cost'', VStr ''inf'')] DEFAULT_PRODUCT_MAPPING =
  Inl (OverflowError ''cannot convert float infinity to integer'')"
proof -
  have "csv_apply_mapping [(''Unit Cost'', VStr ''inf'')] DEFAULT_PRODUCT_MAPPING = [(''unit_cost_paise'', VStr ''inf'')]"
    by (simp add: csv_apply_mapping_def DEFAULT_PRODUCT_MAPPING_def)
  moreover have "csv_to_paise (VStr ''inf'') = Inl (OverflowError ''cannot convert float infinity to integer'')"
    by (simp add: csv_number_def drop_commas_def strip_def is_space_def parse_float_def sign_part_def
        lower_def lower_char_def paise_of_float_def or_on_value_error_def)
  ultimately show ?thesis
    by (simp add: map_to_product_def Let_def dict_setdefault_def del: csv_to_paise.simps)
qed

lemma infinite_rows:
  "fetch_products (readers_of (run_pandas infinite_run) example_files) example_connector =
     [Inl (OverflowError ''cannot convert float infinity to integer'')]"
proof -
  have "read_dataframe (readers_of (run_pandas infinite_run) example_files) example_connector
      (cc_sheet_name example_connector) = Inr [[(''Unit Cost'', Cell ''inf'')]]"
    by (simp add: read_dataframe_def path_suffix_def path_name_def name_suffix_def lower_def readers_of_def
        example_files_def infinite_run_def example_connector_def csv_init_def get_or_def)
  then show ?thesis
    by (simp add: fetch_products_def rows_of_def dropna_def infinite_cost example_connector_def
        csv_init_def get_or_def dict_get_or_def)
qed

theorem unreadable_row_fails_job_witness:
  "fst (process_sync example_env infinite_run 2 1 example_config (example_worker, example_files)) \<noteq> Inr ()"
  by (rule unreadable_row_fails_job [OF example_ready(3) example_conn example_ready(5)])
    (simp add: infinite_rows)

text \<open>A transaction that the server aborted stays so until the job rolls it back.\<close>

definition dead :: "worker \<Rightarrow> bool" where
  "dead w \<longleftrightarrow> se_state w \<noteq> TxActive"

interpretation dead: row_invariant dead "\<lambda>_ _ _. True" "\<lambda>_ _ _. True"
proof (unfold row_invariant_def row_invariant_axioms_def, intro conjI allI impI)
  show "worker_invariant dead (\<lambda>_ _ _. True) (\<lambda>_ _ _. True)"
  proof (rule worker_invariant.intro)
    fix A B and S :: uuid
    show "session_invariant (owning dead (\<lambda>_ _ _. True) (\<lambda>_ _ _. True) A B S)"
      by unfold_locales (auto simp: owning_def dead_def tick_def flush_failed_def)
  qed (auto simp: owning_def dead_def put_product_def put_location_def put_transaction_def put_batch_def
      cache_product_def cache_location_def)
qed (simp add: owning_def dead_def)

lemma upsert_refused:
  assumes "encodable (UpsertProduct (product_of T 0 0 np))" "\<not> row_types_ok (UpsertProduct (product_of T 0 0 np))"
  shows "dead (snd (upsert_product env np w))"
proof -
  let ?p = "product_of (nz_tenant w) (sql_now env w) (se_next_id w) np"
  have e: "encodable (UpsertProduct ?p)" "\<not> row_types_ok (UpsertProduct ?p)"
    using assms by (simp_all add: product_of_def)
  obtain r u where fl: "flush_log env w = (r, u)" by fastforce
  show ?thesis
  proof (cases r)
    case (Inl x)
    with fl have "se_state u = TxInactive"
      by (auto simp: flush_log_def in_flush_def flush_failed_def split: option.splits if_splits prod.splits sum.splits)
    with fl Inl show ?thesis
      by (simp add: upsert_product_def execute_def sbind_def dead_def)
  next
    case (Inr x)
    have a: "answer_of env u (UpsertProduct ?p) = Refused"
      by (simp only: answer_of_def e simp_thms if_False)
    then have "\<exists>x v. send env (UpsertProduct ?p) eff u = (Inl x, v) \<and> dead v"
      for eff :: "worker \<Rightarrow> (exn + uuid) \<times> worker"
      by (cases "se_state u") (simp_all add: send_def dead_def)
    then have "\<exists>x v. execute env (UpsertProduct ?p) eff w = (Inl x, v) \<and> dead v"
      for eff :: "worker \<Rightarrow> (exn + uuid) \<times> worker"
      using fl Inr by (simp add: execute_def sbind_def)
    from this [of "\<lambda>w. (Inr (returned_product np (put_product env np w)), put_product env np w)"]
    show ?thesis by (auto simp: upsert_product_def sbind_def)
  qed
qed

lemma dead_row:
  assumes "normalize_product (product_row np) [] = Inr v"
    and "encodable (UpsertProduct (product_of T 0 0 v))" "\<not> row_types_ok (UpsertProduct (product_of T 0 0 v))"
    and "process_product env np w = (Inr (), u)"
  shows "dead u"
proof -
  from assms(4) obtain x y where t: "bump_total w = (Inr x, y)" and
    o: "or_else (sbind (slift (normalize_product (product_row np) [])) (\<lambda>v. sbind (upsert_product env v) (\<lambda>_. bump_processed)))
      (row_handler ''product'' (np_sku_code np)) y = (Inr (), u)"
    unfolding process_product_def account_row_def by (auto elim: sbindE)
  obtain q z where z: "upsert_product env v y = (q, z)" by fastforce
  then have K: "owning dead (\<lambda>_ _ _. True) (\<lambda>_ _ _. True) {} {} (nz_tenant z) z"
    using upsert_refused [OF assms(2,3), of env y] by (simp add: owning_def)
  have "dead (snd (bump_processed z))" "\<And>e. dead (snd (row_handler ''product'' (np_sku_code np) e z))"
    using dead.with_log_keeps [OF K keeps_ident_steps(2)] dead.row_handler_keeps [OF K] by (simp_all add: owning_def bump_processed_def)
  moreover have "\<And>e. dead (snd (row_handler ''product'' (np_sku_code np) e (snd (bump_processed z))))"
  proof -
    fix e
    have "owning dead (\<lambda>_ _ _. True) (\<lambda>_ _ _. True) {} {} (nz_tenant z) (snd (bump_processed z))"
      unfolding bump_processed_def by (rule dead.with_log_keeps) (rule K, rule keeps_ident_steps)
    from dead.row_handler_keeps [OF this]
    show "dead (snd (row_handler ''product'' (np_sku_code np) e (snd (bump_processed z))))"
      by (simp add: owning_def)
  qed
  ultimately show ?thesis
    using o z assms(1)
    by (auto simp: or_else_def sbind_def split: prod.splits sum.splits) (metis snd_conv)+
qed

lemma dead_stays:
  assumes "process_products env rows w = (Inr (), u)" "dead w"
  shows "dead u"
proof -
  have "owning dead (\<lambda>_ _ _. True) (\<lambda>_ _ _. True) {} {} (nz_tenant w) w" using assms(2) by (simp add: owning_def)
  then have "owning dead (\<lambda>_ _ _. True) (\<lambda>_ _ _. True) {} {} (nz_tenant w) (snd (process_products env rows w))"
    unfolding process_products_def
    by (rule dead.for_each_keeps) (auto simp: process_product_def intro!: dead.account_row_keeps dead.upsert_product_keeps)
  with assms(1) show ?thesis by (simp add: owning_def)
qed

lemma dead_rows:
  assumes "np \<in> set nps" and "normalize_product (product_row np) [] = Inr v"
    and "encodable (UpsertProduct (product_of T 0 0 v))" "\<not> row_types_ok (UpsertProduct (product_of T 0 0 v))"
    and "process_products env (map Inr nps) w = (Inr (), u)"
  shows "dead u"
  using assms(1,5)
proof (induction nps arbitrary: w)
  case (Cons n nps)
  from Cons.prems(2) obtain x where n: "process_product env n w = (Inr (), x)"
    and rest: "process_products env (map Inr nps) x = (Inr (), u)"
    by (auto simp: process_products_def elim: sbindE)
  show ?case
  proof (cases "n = np")
    case True
    then have "dead x" using dead_row [OF assms(2-4)] n by blast
    with dead_stays rest show ?thesis by blast
  next
    case False
    then have "np \<in> set nps" using Cons.prems(1) by simp
    then show ?thesis using Cons.IH rest by blast
  qed
qed simp

text \<open>A body that completed has committed the tables that the rows left, in a live transaction.\<close>

lemma body_commits:
  assumes h: "held r u" and "sl_status r = RUNNING" and body: "sync_body env rn rd T tc j u = (Inr (), w')"
  obtains c b where "connector_for tc j = Inr c" "process_entities env rn rd tc c (new_normalizer T u) = (Inr (), b)"
    "\<not> dead b" "inventory (se_committed w') = inventory (se_db b)"
proof -
  from body obtain c b d e where conn: "connector_for tc j = Inr c"
    and pe: "process_entities env rn rd tc c (new_normalizer T u) = (Inr (), b)"
    and m: "with_log (set_row (mark_completed (run_completed rn))) b = (Inr d, e)"
    and cm: "commit env e = (Inr (), w')"
    unfolding sync_body_def by (auto elim!: sbindE)
  have "in_account r (new_normalizer T u)"
    using held_in_account [OF h] by (simp add: in_account_def new_normalizer_def)
  from process_entities_tally [OF this pe] obtain p k where "in_account (tally p k r) b" by blast
  then obtain t where t: "se_log b = Some t" "\<not> tk_expired t" "sl_status (tk_saved t) = RUNNING"
    "e = b\<lparr>se_log := Some (set_row (mark_completed (run_completed rn)) t)\<rparr>"
    using m assms(2) by (auto simp: with_log_returns in_account_def)
  have "sl_status (mark_completed (run_completed rn) (tk_row t)) \<noteq> sl_status (tk_saved t)"
    using t(3) by (simp add: mark_completed_def)
  then have needs: "needs_update (set_row (mark_completed (run_completed rn)) t)"
    using t(2) by (auto simp: needs_update_def set_row_def)
  from cm obtain x y where fl: "flush_log env e = (Inr x, y)"
    and rest: "(if se_state y = TxAborted
      then (Inr (), y\<lparr>se_db := se_committed y, se_state := TxActive, se_tx := Suc (se_tx y)\<rparr>)
      else in_flush (send env CommitWork
        (\<lambda>s. (Inr (), s\<lparr>se_committed := se_db s, se_tx := Suc (se_tx s)\<rparr>)) y)) = (Inr (), w')"
    unfolding commit_def by (rule sbindE) auto
  from fl needs t(4) have "send env (UpdateSyncLog (mark_completed (run_completed rn) (tk_row t)))
      (\<lambda>s. (Inr (), s\<lparr>se_db := update_log_row (se_context s) (set_row (mark_completed (run_completed rn)) t) (se_db s),
        se_log := Some (mark_saved (set_row (mark_completed (run_completed rn)) t))\<rparr>)) e = (Inr x, y)"
    by (auto simp: flush_log_def in_flush_def set_row_def split: prod.splits sum.splits)
  from send_Inr [OF this] have y: "se_state e = TxActive" "se_state y = TxActive"
    "inventory (se_db y) = inventory (se_db e)" by auto
  from y(2) rest have "send env CommitWork (\<lambda>s. (Inr (), s\<lparr>se_committed := se_db s, se_tx := Suc (se_tx s)\<rparr>)) y = (Inr (), w')"
    by (auto simp: in_flush_def split: prod.splits sum.splits)
  from send_Inr [OF this] have "se_committed w' = se_db y" by auto
  then show ?thesis
    using that [OF conn pe] t(4) y by (simp add: dead_def)
qed

text \<open>
  Property C30.  One row the database refuses fails the whole job: a row that the driver sends (its texts are
  free of U+0000) and whose normalized SKU, name, category or unit is too long for its column, or whose price
  is beyond \<open>BIGINT\<close>, aborts the transaction, and \<open>process_sync\<close> does not complete the job, although the row
  loop catches the error and goes on.
\<close>

theorem refused_row_fails_job:
  assumes "filter (\<lambda>l. sl_id l = i \<and> sl_tenant l = T) (tb_sync_logs (se_committed w)) = [l]"
    and "connector_for tc l = Inr c"
    and "get_or (tc_entity_type tc) ''products'' = ''products''"
    and "fetch_products (readers_of (run_pandas rn) fs) c = map Inr nps"
    and "np \<in> set nps" "normalize_product (product_row np) [] = Inr v"
    and "encodable (UpsertProduct (product_of T 0 0 v))" "\<not> row_types_ok (UpsertProduct (product_of T 0 0 v))"
  shows "fst (process_sync env rn i T tc (w, fs)) \<noteq> Inr ()"
proof
  assume "fst (process_sync env rn i T tc (w, fs)) = Inr ()"
  then obtain w' fs' where run: "process_sync env rn i T tc (w, fs) = (Inr (), w', fs')"
    by (metis prod.collapse)
  from process_sync_body [OF run assms(1)] obtain u j where h: "held (running (run_started rn) l) u"
    and conn: "connector_for tc j = connector_for tc l"
    and body: "sync_body env rn (readers_of (run_pandas rn) fs) T tc j u = (Inr (), w')" .
  have "sl_status (running (run_started rn) l) = RUNNING" by (simp add: running_def mark_running_def)
  from body_commits [OF h this body] obtain d b where d: "connector_for tc j = Inr d"
    and pe: "process_entities env rn (readers_of (run_pandas rn) fs) tc d (new_normalizer T u) = (Inr (), b)"
    and "\<not> dead b" .
  from d conn assms(2) have "d = c" by simp
  with pe assms(3,4) have "process_products env (map Inr nps) (new_normalizer T u) = (Inr (), b)"
    by (simp add: process_entities_rows)
  from dead_rows [OF assms(5-8) this] \<open>\<not> dead b\<close> show False by contradiction
qed

definition long_sku :: string where
  "long_sku = replicate 101 (CHR ''A'')"

definition long_run :: run where
  "long_run = example_run\<lparr>run_pandas :=
     \<lparr>parse_csv = \<lambda>_ _. Inr [[(''SKU Code'', Cell long_sku), (''Product Name'', Cell ''A'')]],
      parse_excel = \<lambda>_ _. Inr [[(''SKU Code'', Cell long_sku), (''Product Name'', Cell ''A'')]]\<rparr>\<rparr>"

lemma long_strip: "strip long_sku = long_sku" "long_sku \<noteq> []" "length long_sku = 101"
proof -
  show "strip long_sku = long_sku"
    by (rule strip_no_space) (simp add: long_sku_def is_space_def)
  show "length long_sku = 101" by (simp add: long_sku_def)
  then show "long_sku \<noteq> []" by auto
qed

lemma long_rows:
  "fetch_products (readers_of (run_pandas long_run) example_files) example_connector =
     map Inr [example_product\<lparr>np_sku_code := long_sku\<rparr>]"
proof -
  have "csv_apply_mapping [(''SKU Code'', VStr long_sku), (''Product Name'', VStr ''A'')] DEFAULT_PRODUCT_MAPPING =
      [(''sku_code'', VStr long_sku), (''name'', VStr ''A'')]"
    by (simp add: csv_apply_mapping_def DEFAULT_PRODUCT_MAPPING_def)
  then have "map_to_product [(''SKU Code'', VStr long_sku), (''Product Name'', VStr ''A'')] DEFAULT_PRODUCT_MAPPING =
      Inr (example_product\<lparr>np_sku_code := long_sku\<rparr>)"
    by (simp add: map_to_product_def dict_setdefault_def Let_def paise_of_zero strip_plain long_strip
        opt_text_def example_product_def del: csv_to_paise.simps)
  moreover have "read_dataframe (readers_of (run_pandas long_run) example_files) example_connector
      (cc_sheet_name example_connector) = Inr [[(''SKU Code'', Cell long_sku), (''Product Name'', Cell ''A'')]]"
    by (simp add: read_dataframe_def path_suffix_def path_name_def name_suffix_def lower_def readers_of_def
        example_files_def long_run_def example_connector_def csv_init_def get_or_def)
  ultimately show ?thesis
    by (simp add: fetch_products_def rows_of_def dropna_def example_connector_def
        csv_init_def get_or_def dict_get_or_def)
qed

theorem refused_row_fails_job_witness:
  "fst (process_sync example_env long_run 2 1 example_config (example_worker, example_files)) \<noteq> Inr ()"
proof (rule refused_row_fails_job [OF example_ready(3) example_conn example_ready(5) long_rows])
  let ?np = "example_product\<lparr>np_sku_code := long_sku\<rparr>"
  show "?np \<in> set [?np]" by simp
  show "normalize_product (product_row ?np) [] = Inr ?np"
    by (simp add: normalize_product_def product_row_def example_product_def strip_plain attributes_of_def
        opt_text_def long_strip)
  show "encodable (UpsertProduct (product_of 1 0 0 ?np))"
    by (simp add: product_of_def example_product_def text_ok_def char_of_def long_sku_def)
  show "\<not> row_types_ok (UpsertProduct (product_of 1 0 0 ?np))"
    by (simp add: product_of_def long_strip)
qed

end
