(* ===== verification/PersistProps.thy ===== *)
theory PersistProps
  imports SyncProps
begin

text \<open>
  Properties of single operations: what an upsert stores, that a transaction is stored once, that
  an unknown SKU is an error of its row and changes nothing, and which row errors reach the database.
\<close>

text \<open>
  A product upsert puts exactly the normalized product under its SKU in the tenant's
  catalogue, keeps the id of the product that had the SKU, and touches no other SKU, no other
  tenant and no other table.
\<close>

theorem upsert_stores_product:
  assumes "upsert_product env np w = (Inr i, w')"
  shows "catalogue (nz_tenant w) (tb_products (se_db w')) =
      (catalogue (nz_tenant w) (tb_products (se_db w)))(np_sku_code np \<mapsto> np) \<and>
    (\<forall>S. S = nz_tenant w \<or> catalogue S (tb_products (se_db w')) = catalogue S (tb_products (se_db w))) \<and>
    (\<forall>p. find (\<lambda>p. product_key p = (nz_tenant w, np_sku_code np)) (tb_products (se_db w)) \<noteq> Some p \<or> i = p_id p) \<and>
    tb_locations (se_db w') = tb_locations (se_db w) \<and> tb_batches (se_db w') = tb_batches (se_db w) \<and>
    tb_transactions (se_db w') = tb_transactions (se_db w)"
proof -
  note e = upsert_product_effect [OF assms]
  let ?new = "product_of (nz_tenant w) (sql_now env w) (se_next_id w) np"
  have "i = p_id p" if "find (\<lambda>p. product_key p = (nz_tenant w, np_sku_code np)) (tb_products (se_db w)) = Some p" for p
    using e(2) that products.find_ident_of_key [of ?new "sql_now env w" np "tb_products (se_db w)"]
    by (simp add: products_after_def)
  then show ?thesis
    using e catalogue_upsert catalogue_upsert_other by (auto simp: products_after_def)
qed

definition tracked_worker :: worker where
  "tracked_worker = example_worker\<lparr>se_context := RuntimeRole (Some 1), nz_tenant := 1\<rparr>"

theorem upsert_stores_product_witness:
  "\<exists>i w'. upsert_product example_env example_product tracked_worker = (Inr i, w') \<and>
     catalogue 1 (tb_products (se_db w')) = [''S1'' \<mapsto> example_product]"
proof -
  have "fst (upsert_product example_env example_product tracked_worker) = Inr 3"
    by (simp add: upsert_product_def execute_def sbind_def flush_log_def tracked_worker_def example_worker_def
        send_def answer_of_def example_env_def product_of_def example_product_def int8_def varchar_def
        varchar_null_def text_ok_def char_of_def tenant_exists_def example_db_def example_tenant_def
        tick_def put_product_def returned_product_def id_of_key_def upsert_def product_key_def)
  then obtain w' where "upsert_product example_env example_product tracked_worker = (Inr 3, w')"
    by (metis prod.collapse)
  with upsert_stores_product [OF this] show ?thesis
    by (auto simp: tracked_worker_def example_worker_def example_db_def catalogue_def example_product_def fun_eq_iff)
qed

text \<open>
  A transaction is stored once: creating it again, after it was created, returns the
  same row and inserts nothing, also when it has no reference number.
\<close>

lemma transaction_stored_once:
  assumes "create_transaction env nt w = (Inr i, u)" and "create_transaction env' nt u = (Inr j, v)"
  shows "j = i \<and> tb_transactions (se_db v) = tb_transactions (se_db u)"
proof -
  from create_transaction_returns [OF assms(1)] obtain pid lid t where
    "map_of (nz_product_cache u) (nt_sku_code nt) = Some pid"
    "map_of (nz_location_cache u) (nt_location_name nt) = Some lid" "t_id t = i"
    "filter (\<lambda>t. rls_visible (se_context u) (t_tenant t) \<and> same_transaction (nz_tenant u) pid lid nt t)
      (tb_transactions (se_db u)) = [t]" by blast
  from create_transaction_again [OF this(1,2,4) assms(2)] this(3) show ?thesis by simp
qed

definition example_movement :: NormalizedTransaction where
  "example_movement = \<lparr>nt_sku_code = ''S1'', nt_location_name = ''W'', nt_transaction_type = OUT,
     nt_quantity = 5, nt_unit_cost_paise = 100, nt_reference_no = None,
     nt_transaction_date = Datetime (Date 2 2 2) 0 0 0 0 (Some 0)\<rparr>"

definition stocked_worker :: worker where
  "stocked_worker = tracked_worker\<lparr>se_db := example_db\<lparr>tb_products :=
       [product_of 1 0 3 example_product], tb_locations := [new_location 1 0 4 ''W'']\<rparr>,
     se_next_id := 5, nz_product_cache := [(''S1'', 3)], nz_location_cache := [(''W'', 4)]\<rparr>"

lemma example_instant: "instant_of (Datetime (Date 2 2 2) 0 0 0 0 (Some 0)) = 34387200000000"
  by (simp add: toordinal_def days_before_month_def days_in_month_def Let_def upt_rec)

lemmas movement_evaluation =
  create_transaction_def resolve_product_def resolve_location_def find_transaction_def
  add_transaction_def insert_transaction_def add_and_flush_def select_def execute_def sbind_def flush_log_def
  stocked_worker_def tracked_worker_def example_worker_def example_db_def send_def answer_of_def
  example_env_def example_movement_def one_or_none_def product_of_def example_product_def
  new_location_def in_flush_def tick_def text_ok_def char_of_def int8_def tenant_exists_def product_exists_def
  location_exists_def example_tenant_def transaction_of_def varchar_null_def sql_now_def
  put_transaction_def same_transaction_def

lemma movement_created: "fst (create_transaction example_env example_movement stocked_worker) = Inr 5"
  by (simp add: movement_evaluation example_instant del: instant_of.simps)

lemma movement_found:
  "fst (create_transaction example_env example_movement
     (snd (create_transaction example_env example_movement stocked_worker))) = Inr 5"
  by (simp add: movement_evaluation example_instant del: instant_of.simps)

lemma transaction_stored_once_witness:
  "\<exists>u v. create_transaction example_env example_movement stocked_worker = (Inr 5, u) \<and>
     create_transaction example_env example_movement u = (Inr 5, v) \<and>
     tb_transactions (se_db v) = tb_transactions (se_db u)"
proof -
  from movement_created movement_found obtain u v
    where "create_transaction example_env example_movement stocked_worker = (Inr 5, u)"
    "create_transaction example_env example_movement u = (Inr 5, v)"
    by (metis prod.collapse)
  with transaction_stored_once show ?thesis by blast
qed

lemma flush_failed_state: "flush_log env w = (Inl e, u) \<Longrightarrow> se_state u = TxInactive"
  by (auto simp: flush_log_def in_flush_def flush_failed_def split: option.splits if_splits prod.splits sum.splits)

lemma resolve_unknown:
  assumes "map_of (nz_product_cache w) s = None"
    and "(nz_tenant w, s) \<notin> product_key ` set (tb_products (se_db w))"
    and "resolve_product env s w = (q, u)" and "se_state u = TxActive" and "text_ok s"
  shows "q = Inl (product_not_found s) \<and> same_work u w"
proof -
  obtain f v where v: "flush_log env w = (f, v)" by fastforce
  show ?thesis
  proof (cases f)
    case (Inl e)
    with assms v flush_failed_state [OF v [unfolded Inl]] show ?thesis
      by (simp add: resolve_product_def select_def execute_def sbind_def)
  next
    case (Inr a)
    then have S: "same_work v w" using flush_same v by simp
    then have "filter (\<lambda>p. rls_visible (se_context v) (p_tenant p) \<and> p_tenant p = nz_tenant w \<and> p_sku_code p = s)
        (tb_products (se_db v)) = []"
      using assms(2) same_work_sel(1) [OF S] by (auto simp: filter_empty_conv product_key_def image_iff)
    with assms v Inr S show ?thesis
      by (cases "se_state v"; cases "answer_of env v (SelectProduct (nz_tenant w) s)")
        (auto simp: resolve_product_def select_def execute_def sbind_def send_def one_or_none_def answer_of_def
          split: if_splits)
  qed
qed

text \<open>
  An unknown SKU (of a text that can be asked for) is an error of its own row: as long as the session stays usable, a
  transaction or a batch of a SKU the tenant has no product for raises the normalization error that
  names the SKU, and leaves the tables and the caches as they were.
\<close>

lemma unknown_sku_refused:
  assumes "map_of (nz_product_cache w) s = None"
    and "(nz_tenant w, s) \<notin> product_key ` set (tb_products (se_db w))"
    and "nt_sku_code nt = s" and "nb_sku_code nb = s"
    and "create_transaction env nt w = (r, u)" and "upsert_batch env nb w = (r', u')"
    and "se_state u = TxActive" and "se_state u' = TxActive" and "text_ok s"
  shows "r = Inl (product_not_found s) \<and> same_work u w \<and> r' = Inl (product_not_found s) \<and> same_work u' w"
proof -
  obtain q v where v: "resolve_product env s w = (q, v)" by fastforce
  have "se_state v = TxActive"
  proof (cases q)
    case (Inl e)
    with v assms(3,5,7) show ?thesis by (simp add: create_transaction_def sbind_def)
  next
    case (Inr i)
    with resolve_product_effect(2) v assms(1) show ?thesis
      by (auto simp: resolve_product_def dest!: select_same(2) elim!: sbindE split: option.splits)
        (simp add: cache_product_def)
  qed
  from resolve_unknown [OF assms(1,2) v this assms(9)] have "q = Inl (product_not_found s)" "same_work v w" by simp_all
  with v assms(3-6) show ?thesis
    by (auto simp: create_transaction_def upsert_batch_def sbind_def)
qed

definition example_batch :: NormalizedBatch where
  "example_batch = \<lparr>nb_sku_code = ''S2'', nb_batch_no = ''B'', nb_manufactured_date = None,
     nb_expiry_date = None, nb_quantity = 1, nb_location_name = None\<rparr>"

lemma unknown_sku_refused_witness:
  "fst (create_transaction example_env (example_movement\<lparr>nt_sku_code := ''S2''\<rparr>) stocked_worker) =
     Inl (product_not_found ''S2'')"
proof -
  let ?nt = "example_movement\<lparr>nt_sku_code := ''S2''\<rparr>"
  have k: "map_of (nz_product_cache stocked_worker) ''S2'' = None"
    "(nz_tenant stocked_worker, ''S2'') \<notin> product_key ` set (tb_products (se_db stocked_worker))"
    by (simp_all add: stocked_worker_def tracked_worker_def product_key_def product_of_def example_product_def)
  have s: "se_state (snd (create_transaction example_env ?nt stocked_worker)) = TxActive"
    "se_state (snd (upsert_batch example_env example_batch stocked_worker)) = TxActive"
    by (simp_all add: movement_evaluation upsert_batch_def example_batch_def)
  have "text_ok ''S2''" by (simp add: text_ok_def char_of_def)
  from unknown_sku_refused [OF k _ _ surjective_pairing surjective_pairing s this] show ?thesis
    by (simp add: example_batch_def)
qed

lemma flush_saves:
  assumes "se_log w = Some t" "needs_update t" "flush_log env w = (Inr a, u)"
  shows "se_log u = Some (mark_saved t)"
    "\<not> errors_changed t \<Longrightarrow> map sl_errors (tb_sync_logs (se_db u)) = map sl_errors (tb_sync_logs (se_db w))"
proof -
  have "u = (tick w)\<lparr>se_db := update_log_row (se_context w) t (se_db w), se_log := Some (mark_saved t)\<rparr>"
    using assms by (auto simp: flush_log_def in_flush_def split: prod.splits sum.splits dest!: send_Inr)
  then show "se_log u = Some (mark_saved t)"
    "\<not> errors_changed t \<Longrightarrow> map sl_errors (tb_sync_logs (se_db u)) = map sl_errors (tb_sync_logs (se_db w))"
    by (simp_all add: update_log_row_def write_row_def)
qed

text \<open>
  Property C31.  The errors of later rows are lost: once a flush has written a job with a row error, an
  error recorded afterwards is counted and in the list in memory, but the next flush, which writes
  the count, leaves the \<open>errors\<close> column as it was.  (The list is changed in place and assigned to
  itself, so the session sees no change.)
\<close>

theorem later_row_errors_lost:
  assumes "se_log w = Some t" and "needs_update t"
    and "tk_errors t = Some i" and "i < length (tk_heap t)" and "tk_heap t ! i \<noteq> []"
    and "flush_log env w = (Inr a, u)" and "append_row_error entity sku e u = (Inr b, v)"
    and "flush_log env v = (Inr c, x)"
  shows "map sl_errors (tb_sync_logs (se_db x)) = map sl_errors (tb_sync_logs (se_db u)) \<and>
    (\<exists>t'. se_log x = Some t' \<and> sl_records_failed (tk_saved t') = sl_records_failed (tk_row t) + 1 \<and>
       errors_value t' (tk_errors t') = Some (tk_heap t ! i @ [row_error entity sku e]))"
proof -
  let ?f = "set_row (\<lambda>l. l\<lparr>sl_records_failed := sl_records_failed l + 1\<rparr>)"
  let ?t = "append_error (row_error entity sku e) (?f (mark_saved t))"
  have u: "se_log u = Some (mark_saved t)" using flush_saves(1) [OF assms(1,2,6)] .
  with assms(7) have v: "se_log v = Some ?t" "se_db v = se_db u"
    by (auto simp: append_row_error_def bump_failed_def with_log_returns set_row_def elim!: sbindE)
  have E: "tk_errors ?t = Some i" "tk_old_errors ?t = Some (Some i)" "tk_row ?t \<noteq> tk_saved ?t"
    "\<not> tk_expired ?t" "tk_heap ?t ! i = tk_heap t ! i @ [row_error entity sku e]"
    "sl_records_failed (tk_row ?t) = sl_records_failed (tk_row t) + 1"
    using assms(2-5) by (auto simp: append_error_def set_row_def mark_saved_def needs_update_def Let_def
        dest: arg_cong [of _ _ sl_records_failed])
  then have "needs_update ?t" "\<not> errors_changed ?t"
    by (simp_all add: needs_update_def errors_changed_def)
  from flush_saves [OF v(1) this(1) assms(8)] this(2) v(2) E show ?thesis
    by (simp add: mark_saved_def errors_value_def)
qed

definition failing_log :: tracked where
  "failing_log = append_error JNull (set_row (\<lambda>l. l\<lparr>sl_records_failed := 1\<rparr>) (track example_log))"

definition failing_worker :: worker where
  "failing_worker = tracked_worker\<lparr>se_log := Some failing_log\<rparr>"

theorem later_row_errors_lost_witness:
  "\<exists>u v x. append_row_error ''product'' ''S'' MultipleResultsFound u = (Inr (), v) \<and>
     flush_log example_env v = (Inr (), x) \<and>
     map sl_errors (tb_sync_logs (se_db u)) = [Some [JNull]] \<and>
     map sl_errors (tb_sync_logs (se_db x)) = [Some [JNull]]"
proof -
  let ?u = "snd (flush_log example_env failing_worker)"
  let ?v = "snd (append_row_error ''product'' ''S'' MultipleResultsFound ?u)"
  note d = flush_log_def failing_worker_def failing_log_def tracked_worker_def example_worker_def
    example_db_def example_log_def new_sync_log_def track_def append_error_def set_row_def needs_update_def
    in_flush_def send_def answer_of_def example_env_def int4_def tick_def update_log_row_def write_row_def
    mark_saved_def errors_changed_def errors_value_def Let_def append_row_error_def bump_failed_def with_log_def sbind_def
  have h: "se_log failing_worker = Some failing_log" "needs_update failing_log" "tk_errors failing_log = Some 1"
    "1 < length (tk_heap failing_log)" "tk_heap failing_log ! 1 \<noteq> []"
    by (simp_all add: d)
  have r: "fst (flush_log example_env failing_worker) = Inr ()"
    "fst (append_row_error ''product'' ''S'' MultipleResultsFound ?u) = Inr ()"
    "fst (flush_log example_env ?v) = Inr ()"
    and u: "map sl_errors (tb_sync_logs (se_db ?u)) = [Some [JNull]]"
    by (simp_all add: d)
  have p: "flush_log example_env failing_worker = (Inr (), ?u)"
    "append_row_error ''product'' ''S'' MultipleResultsFound ?u = (Inr (), ?v)"
    "flush_log example_env ?v = (Inr (), snd (flush_log example_env ?v))"
    using r by (metis prod.collapse)+
  from later_row_errors_lost [OF h p] u p(2,3) show ?thesis by metis
qed

end
