(* ===== verification/Web.thy ===== *)
theory Web
  imports Sync
begin

text \<open>
  What the routes share: the settings of \<open>app/config.py\<close>, the errors a request ends in, and the
  text of a UUID, which is how ids travel in tokens, task messages and URLs.
\<close>

section \<open>Settings (app/config.py)\<close>

record settings =
  st_app_name :: string
  st_app_version :: string
  st_app_debug :: bool
  st_database_url :: string
  st_runtime_database_url :: string
  st_redis_url :: string
  st_jwt_secret_key :: string
  st_jwt_algorithm :: string
  st_access_minutes :: int
  st_refresh_days :: int
  st_cookie_secure :: bool
  st_upload_dir :: string
  st_max_upload_mb :: int
  st_sync_batch_size :: int
  st_celery_broker_url :: string
  st_celery_result_backend :: string

text \<open>The values of the fields that have one, given those that have none.\<close>

definition default_settings :: "string \<Rightarrow> string \<Rightarrow> string \<Rightarrow> string \<Rightarrow> settings" where
  "default_settings database_url runtime_database_url redis_url jwt_secret_key =
     \<lparr>st_app_name = ''Nexus Inventory Platform'', st_app_version = ''0.1.0'', st_app_debug = False,
      st_database_url = database_url, st_runtime_database_url = runtime_database_url,
      st_redis_url = redis_url, st_jwt_secret_key = jwt_secret_key, st_jwt_algorithm = ''HS256'',
      st_access_minutes = 30, st_refresh_days = 7, st_cookie_secure = True,
      st_upload_dir = ''./uploads'', st_max_upload_mb = 50, st_sync_batch_size = 100,
      st_celery_broker_url = [], st_celery_result_backend = []\<rparr>"

definition default_celery_broker :: "string option \<Rightarrow> string" where
  "default_celery_broker v = (case v of None \<Rightarrow> [] | Some s \<Rightarrow> s)"

definition default_celery_backend :: "string option \<Rightarrow> string" where
  "default_celery_backend v = (case v of None \<Rightarrow> [] | Some s \<Rightarrow> s)"

definition validate_jwt_secret_key :: "string \<Rightarrow> exn + string" where
  "validate_jwt_secret_key v =
     (if length v < 32 then Inl (ValueError ''JWT_SECRET_KEY must be at least 32 characters'') else Inr v)"

text \<open>\<open>app/celery_app.py\<close>: an empty URL stands for the one of Redis.\<close>

definition celery_broker_url :: "settings \<Rightarrow> string" where
  "celery_broker_url st = (if st_celery_broker_url st \<noteq> [] then st_celery_broker_url st else st_redis_url st)"

definition celery_result_backend :: "settings \<Rightarrow> string" where
  "celery_result_backend st =
     (if st_celery_result_backend st \<noteq> [] then st_celery_result_backend st else st_redis_url st)"

section \<open>How a request ends\<close>

text \<open>
  An \<open>HTTPException\<close> with its status, its detail and whether it carries the header
  \<open>WWW-Authenticate: Bearer\<close>; any other exception ends in a 500 of the framework.
\<close>

datatype http_error = HTTPException nat string bool | Unhandled exn

text \<open>A call of code that raises its own exceptions.\<close>

definition calling :: "('s \<Rightarrow> (exn + 'a) \<times> 's) \<Rightarrow> 's \<Rightarrow> (http_error + 'a) \<times> 's" where
  "calling m s = (case m s of (Inl e, t) \<Rightarrow> (Inl (Unhandled e), t) | (Inr v, t) \<Rightarrow> (Inr v, t))"

lemma calling_Inr: "calling m s = (Inr v, t) \<longleftrightarrow> m s = (Inr v, t)"
  by (auto simp: calling_def split: prod.splits sum.splits)

lemma calling_Inl: "calling m s = (Inl x, t) \<longleftrightarrow> (\<exists>e. m s = (Inl e, t) \<and> x = Unhandled e)"
  by (auto simp: calling_def split: prod.splits sum.splits)

section \<open>The text of a UUID\<close>

definition uuid_text :: "uuid \<Rightarrow> string" where
  "uuid_text i = (let h = hex_digits 32 i; dash = CHR ''-'' in
     take 8 h @ dash # take 4 (drop 8 h) @ dash # take 4 (drop 12 h) @ dash # take 4 (drop 16 h)
       @ dash # drop 20 h)"

text \<open>\<open>s.replace(pat, "")\<close> and \<open>s.strip(chars)\<close>.\<close>

function str_remove :: "string \<Rightarrow> string \<Rightarrow> string" where
  "str_remove pat [] = []"
| "str_remove pat (c # cs) =
     (if pat \<noteq> [] \<and> take (length pat) (c # cs) = pat then str_remove pat (drop (length pat) (c # cs))
      else c # str_remove pat cs)"
  by pat_completeness auto
termination
  by (relation "measure (\<lambda>(pat, s). length s)") (auto simp: neq_Nil_conv)

definition strip_chars :: "char set \<Rightarrow> string \<Rightarrow> string" where
  "strip_chars cs s = rev (dropWhile (\<lambda>c. c \<in> cs) (rev (dropWhile (\<lambda>c. c \<in> cs) s)))"

definition hex_value :: "char \<Rightarrow> nat option" where
  "hex_value c = (let n = of_char c in
     if 48 \<le> n \<and> n \<le> 57 then Some (n - 48)
     else if 97 \<le> n \<and> n \<le> 102 then Some (n - 87)
     else if 65 \<le> n \<and> n \<le> 70 then Some (n - 55) else None)"

text \<open>
  \<open>int(s, 16)\<close>: spaces around, a sign, \<open>0x\<close>, and single underscores between the digits (or after the
  prefix) are allowed.
\<close>

datatype hex_place = AtStart | AfterDigit | AfterPrefix

fun hex_run :: "hex_place \<Rightarrow> nat \<Rightarrow> string \<Rightarrow> nat option" where
  "hex_run p a [] = (if p = AfterDigit then Some a else None)"
| "hex_run p a (c # cs) =
     (if c = CHR ''_'' then (if p = AtStart then None else hex_run AtStart a cs)
      else case hex_value c of None \<Rightarrow> None | Some d \<Rightarrow> hex_run AfterDigit (16 * a + d) cs)"

definition hex_int :: "string \<Rightarrow> int option" where
  "hex_int s =
     (let t = strip s;
          neg = (take 1 t = ''-'');
          u = (if take 1 t = ''-'' \<or> take 1 t = ''+'' then drop 1 t else t);
          r = (if take 2 u = ''0x'' \<or> take 2 u = ''0X'' then hex_run AfterPrefix 0 (drop 2 u) else hex_run AtStart 0 u)
      in map_option (\<lambda>n. if neg then - int n else int n) r)"

definition uuid_of_text :: "string \<Rightarrow> uuid option" where
  "uuid_of_text s =
     (let h = filter (\<lambda>c. c \<noteq> CHR ''-'')
            (strip_chars {CHR ''{'', CHR ''}''} (str_remove ''uuid:'' (str_remove ''urn:'' s)))
      in if length h \<noteq> 32 then None
         else (case hex_int h of None \<Rightarrow> None
           | Some i \<Rightarrow> if 0 \<le> i \<and> i < 2 ^ 128 then Some (nat i) else None))"

lemma take_absent: "c \<in> set pat \<Longrightarrow> c \<notin> set s \<Longrightarrow> take k s \<noteq> pat"
  by (metis in_set_takeD)

lemma str_remove_absent: "c \<in> set pat \<Longrightarrow> c \<notin> set s \<Longrightarrow> str_remove pat s = s"
proof (induction pat s rule: str_remove.induct)
  case (2 pat x xs)
  have "take (length pat) (x # xs) \<noteq> pat"
    using 2 take_absent by metis
  with 2 show ?case by auto
qed simp

lemma hex_digits_length [simp]: "length (hex_digits k n) = k"
  by (induction k arbitrary: n) simp_all

lemma hex_value_char: "d < 16 \<Longrightarrow> hex_value (hex_char d) = Some d"
  by (auto simp: hex_value_def hex_char_def Let_def digit_char_def)

definition is_hex :: "char \<Rightarrow> bool" where
  "is_hex c \<longleftrightarrow> c \<in> set ''0123456789abcdef''"

lemma is_hex_char: "d < 16 \<Longrightarrow> is_hex (hex_char d)"
proof -
  assume "d < 16"
  then have "d \<in> set [0..<16]" by simp
  moreover have "\<forall>d \<in> set [0..<16]. is_hex (hex_char d)" by code_simp
  ultimately show ?thesis by blast
qed

lemma hex_digits_hex: "c \<in> set (hex_digits k n) \<Longrightarrow> is_hex c"
  by (induction k arbitrary: n) (auto simp: is_hex_char)

lemma hex_run_digits:
  "k = 0 \<and> p = AfterDigit \<or> 0 < k \<Longrightarrow>
     hex_run p a (hex_digits k n @ s) = hex_run AfterDigit (16 ^ k * a + n mod 16 ^ k) s"
proof (induction k arbitrary: n s p a)
  case (Suc k)
  let ?d = "n mod 16"
  have h: "hex_char ?d \<noteq> CHR ''_''" using is_hex_char [of ?d] by (auto simp: is_hex_def)
  have v: "hex_value (hex_char ?d) = Some ?d" by (simp add: hex_value_char)
  have e: "16 * (16 ^ k * a + n div 16 mod 16 ^ k) + ?d = 16 ^ Suc k * a + n mod 16 ^ Suc k"
    by (simp add: mod_mult2_eq algebra_simps)
  show ?case
  proof (cases "k = 0")
    case True
    then show ?thesis using h v by (simp add: algebra_simps)
  next
    case False
    then have "hex_run p a (hex_digits k (n div 16) @ (hex_char ?d # s)) =
        hex_run AfterDigit (16 ^ k * a + n div 16 mod 16 ^ k) (hex_char ?d # s)"
      by (intro Suc.IH) simp
    then show ?thesis
      by (simp only: hex_digits.simps append_assoc append_Cons append_Nil hex_run.simps h v e if_False option.case)
  qed
qed auto

lemma hex_run_all: "i < 2 ^ 128 \<Longrightarrow> hex_run AtStart 0 (hex_digits 32 i) = Some i"
proof -
  assume "i < 2 ^ 128"
  then have i: "i mod 16 ^ 32 = i" by simp
  have "hex_run AtStart 0 (hex_digits 32 i @ []) = hex_run AfterDigit (16 ^ 32 * 0 + i mod 16 ^ 32) []"
    by (rule hex_run_digits) simp
  then show ?thesis
    by (simp only: append_Nil2 mult_0_right add_0 i hex_run.simps if_True simp_thms)
qed

lemma hex_not_space: "is_hex c \<Longrightarrow> \<not> is_space c"
proof -
  have "\<forall>c \<in> set ''0123456789abcdef''. \<not> is_space c" by code_simp
  then show "is_hex c \<Longrightarrow> \<not> is_space c" unfolding is_hex_def by blast
qed

lemma uuid_text_chars: "set (uuid_text i) \<subseteq> insert (CHR ''-'') (set (hex_digits 32 i))"
  by (auto simp: uuid_text_def Let_def dest: in_set_takeD in_set_dropD)

lemma uuid_text_undashed: "filter (\<lambda>c. c \<noteq> CHR ''-'') (uuid_text i) = hex_digits 32 i"
proof -
  let ?h = "hex_digits 32 i"
  have k: "filter (\<lambda>c. c \<noteq> CHR ''-'') s = s" if "set s \<subseteq> set ?h" for s
    using that hex_digits_hex [of _ 32 i] by (intro filter_True) (auto simp: is_hex_def)
  have "filter (\<lambda>c. c \<noteq> CHR ''-'') (uuid_text i) =
      take 8 ?h @ take 4 (drop 8 ?h) @ take 4 (drop 12 ?h) @ take 4 (drop 16 ?h) @ drop 20 ?h"
    by (simp add: uuid_text_def Let_def k set_take_subset set_drop_subset subset_trans [OF set_take_subset])
  also have "\<dots> = ?h"
    using append_take_drop_id [of 8 ?h] append_take_drop_id [of 4 "drop 8 ?h"]
      append_take_drop_id [of 4 "drop 12 ?h"] append_take_drop_id [of 4 "drop 16 ?h"]
    by simp
  finally show ?thesis .
qed

lemma uuid_of_text_text [simp]: "i < 2 ^ 128 \<Longrightarrow> uuid_of_text (uuid_text i) = Some i"
proof -
  assume i: "i < 2 ^ 128"
  let ?h = "hex_digits 32 i"
  have c: "c \<in> set (uuid_text i) \<Longrightarrow> c = CHR ''-'' \<or> is_hex c" for c
    using uuid_text_chars hex_digits_hex by blast
  then have "CHR '':'' \<notin> set (uuid_text i)" by (auto simp: is_hex_def)
  then have r: "str_remove ''uuid:'' (str_remove ''urn:'' (uuid_text i)) = uuid_text i"
    using str_remove_absent [of "CHR '':''"] by simp
  have "dropWhile (\<lambda>c. c \<in> {CHR ''{'', CHR ''}''}) s = s" if "set s \<subseteq> set (uuid_text i)" for s
    using that c by (cases s) (auto simp: is_hex_def)
  then have s: "strip_chars {CHR ''{'', CHR ''}''} (uuid_text i) = uuid_text i"
    unfolding strip_chars_def by (metis rev_rev_ident set_rev subset_refl)
  have "\<forall>c \<in> set ?h. \<not> is_space c"
    using hex_digits_hex hex_not_space by blast
  then have t: "strip ?h = ?h" by (rule strip_no_space)
  have n: "CHR ''-'' \<notin> set ?h" "CHR ''+'' \<notin> set ?h" "CHR ''x'' \<notin> set ?h" "CHR ''X'' \<notin> set ?h"
    using hex_digits_hex [of _ 32 i] by (auto simp: is_hex_def)
  then have u: "take 1 ?h \<noteq> ''-''" "take 1 ?h \<noteq> ''+''" "take 2 ?h \<noteq> ''0x''" "take 2 ?h \<noteq> ''0X''"
    using take_absent [OF _ n(1)] take_absent [OF _ n(2)] take_absent [OF _ n(3)] take_absent [OF _ n(4)]
    by simp_all
  have "hex_run AtStart 0 ?h = Some i"
    using hex_run_all [OF i] .
  with t u have "hex_int ?h = Some (int i)"
    by (simp only: hex_int_def Let_def if_False simp_thms option.map)
  with r s i show ?thesis
    by (simp add: uuid_of_text_def uuid_text_undashed)
qed

lemma uuid_hex_inject: "i < 2 ^ 128 \<Longrightarrow> j < 2 ^ 128 \<Longrightarrow> uuid_hex i = uuid_hex j \<longleftrightarrow> i = j"
  using hex_run_all [of i] hex_run_all [of j] unfolding uuid_hex_def by (metis option.inject)

end
