(* ===== verification/Auth.thy ===== *)
theory Auth
  imports Web
begin

text \<open>
  Users and tokens: \<open>app/security.py\<close>, \<open>app/repositories/user.py\<close> and \<open>tenant.py\<close>,
  \<open>app/services/auth.py\<close>, \<open>app/dependencies/auth.py\<close>, \<open>app/schemas/auth.py\<close> and
  \<open>app/routes/auth.py\<close>.  PyJWT, pwdlib, email-validator and the Redis server are parameters.
\<close>

section \<open>The surroundings of a request\<close>

text \<open>
  A claim of a token is a text or a time.  \<open>wb_decode\<close> is \<open>jwt.decode\<close> with the token, the key, the
  algorithms, the required claims and the time; None is an \<open>InvalidTokenError\<close>.  \<open>wb_hash n\<close>
  hashes a password with the n-th salt.  \<open>wb_email\<close> is pydantic's \<open>EmailStr\<close>.  \<open>wb_redis n\<close>: the
  n-th Redis command is answered.
\<close>

datatype claim = ClaimText string | ClaimTime instant

type_synonym payload = "(string, json) pydict"

record web =
  wb_settings :: settings
  wb_env :: env
  wb_encode :: "(string, claim) pydict \<Rightarrow> string \<Rightarrow> string \<Rightarrow> string"
  wb_decode :: "string \<Rightarrow> string \<Rightarrow> string list \<Rightarrow> string list \<Rightarrow> instant \<Rightarrow> payload option"
  wb_hash :: "nat \<Rightarrow> string \<Rightarrow> string"
  wb_verify :: "string \<Rightarrow> string \<Rightarrow> bool"
  wb_email :: "string \<Rightarrow> string option"
  wb_redis :: "nat \<Rightarrow> bool"

text \<open>Redis holds a text and the time it expires at under a key.\<close>

type_synonym redis = "string \<rightharpoonup> string \<times> instant"

record server = session +
  sv_redis :: redis
  sv_calls :: nat

type_synonym 'a request = "server \<Rightarrow> (http_error + 'a) \<times> server"

definition raise_http :: "nat \<Rightarrow> string \<Rightarrow> bool \<Rightarrow> 'a request" where
  "raise_http status detail bearer s = (Inl (HTTPException status detail bearer), s)"

definition redis_call :: "web \<Rightarrow> (redis \<Rightarrow> 'a \<times> redis) \<Rightarrow> 'a request" where
  "redis_call web f s =
     (let s' = s\<lparr>sv_calls := Suc (sv_calls s)\<rparr> in
      if wb_redis web (sv_calls s)
      then (let (v, r) = f (sv_redis s) in (Inr v, s'\<lparr>sv_redis := r\<rparr>))
      else (Inl (Unhandled RedisError), s'))"

definition redis_set :: "string \<Rightarrow> string \<Rightarrow> instant \<Rightarrow> redis \<Rightarrow> unit \<times> redis" where
  "redis_set key v expires r = ((), r(key \<mapsto> (v, expires)))"

definition redis_getdel :: "string \<Rightarrow> instant \<Rightarrow> redis \<Rightarrow> string option \<times> redis" where
  "redis_getdel key now r =
     ((case r key of None \<Rightarrow> None | Some (v, expires) \<Rightarrow> if now < expires then Some v else None),
      r(key := None))"

definition redis_delete :: "string \<Rightarrow> redis \<Rightarrow> unit \<times> redis" where
  "redis_delete key r = ((), r(key := None))"

text \<open>The session of \<open>get_admin_db\<close>.\<close>

definition open_admin :: "'z session_scheme \<Rightarrow> 'z session_scheme" where
  "open_admin s = s\<lparr>se_db := se_committed s, se_state := TxActive, se_tx := Suc (se_tx s),
     se_log := None, se_context := AdminRole\<rparr>"

section \<open>Tokens (app/security.py)\<close>

definition seconds :: "int \<Rightarrow> instant" where
  "seconds n = n * 1000000"

definition create_access_token :: "web \<Rightarrow> instant \<Rightarrow> string \<Rightarrow> string \<Rightarrow> string \<Rightarrow> string" where
  "create_access_token web now subject tenant_id role =
     (let st = wb_settings web; expire = now + seconds (st_access_minutes st * 60) in
      wb_encode web
        [(''sub'', ClaimText subject), (''exp'', ClaimTime expire), (''type'', ClaimText ''access''),
         (''tenant_id'', ClaimText tenant_id), (''role'', ClaimText role)]
        (st_jwt_secret_key st) (st_jwt_algorithm st))"

text \<open>The token with its \<open>jti\<close>, for which the source draws a \<open>uuid4\<close>.\<close>

definition create_refresh_token ::
  "web \<Rightarrow> instant \<Rightarrow> string \<Rightarrow> string \<Rightarrow> string \<Rightarrow> uuid \<Rightarrow> string \<times> string" where
  "create_refresh_token web now subject tenant_id role i =
     (let st = wb_settings web; expire = now + seconds (st_refresh_days st * 86400); jti = uuid_hex i in
      (wb_encode web
        [(''sub'', ClaimText subject), (''exp'', ClaimTime expire), (''type'', ClaimText ''refresh''),
         (''jti'', ClaimText jti), (''tenant_id'', ClaimText tenant_id), (''role'', ClaimText role)]
        (st_jwt_secret_key st) (st_jwt_algorithm st), jti))"

text \<open>None is an \<open>InvalidTokenError\<close>.\<close>

definition decode_token :: "web \<Rightarrow> instant \<Rightarrow> string \<Rightarrow> string \<Rightarrow> payload option" where
  "decode_token web now token expected_type =
     (let st = wb_settings web;
          required = [''exp'', ''sub'', ''type''] @ (if expected_type = ''refresh'' then [''jti''] else [])
      in case wb_decode web token (st_jwt_secret_key st) [st_jwt_algorithm st] required now of
           None \<Rightarrow> None
         | Some payload \<Rightarrow> if map_of payload ''type'' = Some (JStr expected_type) then Some payload else None)"

definition hash_password :: "web \<Rightarrow> string \<Rightarrow> nat \<Rightarrow> string" where
  "hash_password web password salt = wb_hash web salt password"

definition verify_password :: "web \<Rightarrow> string \<Rightarrow> string \<Rightarrow> bool" where
  "verify_password web plain_password hashed_password = wb_verify web plain_password hashed_password"

section \<open>Repositories (app/repositories/)\<close>

definition get_user_by_email :: "env \<Rightarrow> string \<Rightarrow> 'z session_scheme \<Rightarrow> (exn + user option) \<times> 'z session_scheme" where
  "get_user_by_email env email =
     select env (SelectUserByEmail email) tb_users u_tenant (\<lambda>u. u_email u = email)"

definition get_user_by_id :: "env \<Rightarrow> uuid \<Rightarrow> 'z session_scheme \<Rightarrow> (exn + user option) \<times> 'z session_scheme" where
  "get_user_by_id env i = select env (SelectUserById i) tb_users u_tenant (\<lambda>u. u_id u = i)"

definition get_tenant_by_id :: "env \<Rightarrow> uuid \<Rightarrow> 'z session_scheme \<Rightarrow> (exn + tenant option) \<times> 'z session_scheme" where
  "get_tenant_by_id env i = select env (SelectTenant i) tb_tenants tn_id (\<lambda>t. tn_id t = i)"

text \<open>\<open>db.refresh(user)\<close>.\<close>

definition refresh_user :: "env \<Rightarrow> uuid \<Rightarrow> 'z session_scheme \<Rightarrow> (exn + user) \<times> 'z session_scheme" where
  "refresh_user env i = sbind (get_user_by_id env i)
     (\<lambda>r s. case r of None \<Rightarrow> (Inl InvalidRequestError, s) | Some u \<Rightarrow> (Inr u, s))"

definition new_user :: "uuid \<Rightarrow> instant \<Rightarrow> string \<Rightarrow> string \<Rightarrow> uuid \<Rightarrow> UserRole \<Rightarrow> user" where
  "new_user i now email hashed_password tenant_id role =
     \<lparr>u_id = i, u_tenant = tenant_id, u_email = email, u_role = role, u_hashed_password = hashed_password,
      u_is_active = True, u_last_login = None, u_created_at = now, u_updated_at = now\<rparr>"

definition put_user :: "user \<Rightarrow> 'z session_scheme \<Rightarrow> 'z session_scheme" where
  "put_user u s = s\<lparr>se_db := (se_db s)\<lparr>tb_users := tb_users (se_db s) @ [u]\<rparr>, se_next_id := Suc (se_next_id s)\<rparr>"

definition create_user ::
  "env \<Rightarrow> string \<Rightarrow> string \<Rightarrow> uuid \<Rightarrow> UserRole \<Rightarrow> 'z session_scheme \<Rightarrow> (exn + user) \<times> 'z session_scheme" where
  "create_user env email hashed_password tenant_id role s =
     (let u = new_user (se_next_id s) (sql_now env s) email hashed_password tenant_id role in
      sbind (add_and_flush env (InsertUser u) (\<lambda>s. (Inr (), put_user u s))) (\<lambda>_. refresh_user env (u_id u)) s)"

section \<open>The service (app/services/auth.py)\<close>

text \<open>\<open>clock\<close> gives the successive readings of the time within one request.\<close>

type_synonym clock = "nat \<Rightarrow> instant"

definition REFRESH_TOKEN_PREFIX :: string where
  "REFRESH_TOKEN_PREFIX = ''refresh_token:''"

record tokens =
  tp_access_token :: string
  tp_refresh_token :: string
  tp_token_type :: string
  tp_expires_in :: int

definition issue_tokens :: "web \<Rightarrow> clock \<Rightarrow> string \<Rightarrow> string \<Rightarrow> string \<Rightarrow> tokens request" where
  "issue_tokens web clock user_id tenant_id role s =
     (let st = wb_settings web;
          access_token = create_access_token web (clock 0) user_id tenant_id role;
          (refresh_token, jti) = create_refresh_token web (clock 1) user_id tenant_id role (se_next_id s);
          ttl = seconds (st_refresh_days st * 86400)
      in sbind (redis_call web (redis_set (REFRESH_TOKEN_PREFIX @ jti) user_id (clock 2 + ttl)))
           (\<lambda>_. sreturn \<lparr>tp_access_token = access_token, tp_refresh_token = refresh_token,
              tp_token_type = ''bearer'', tp_expires_in = st_access_minutes st * 60\<rparr>)
           (s\<lparr>se_next_id := Suc (se_next_id s)\<rparr>))"

definition create_viewer :: "web \<Rightarrow> string \<Rightarrow> string \<Rightarrow> uuid \<Rightarrow> user request" where
  "create_viewer web email password tenant_id =
     (let env = wb_env web; email = lower email in
      sbind (calling (get_tenant_by_id env tenant_id)) (\<lambda>tenant.
      case tenant of None \<Rightarrow> raise_http 404 ''Tenant not found'' False
      | Some t \<Rightarrow> if \<not> tn_is_active t then raise_http 404 ''Tenant not found'' False else
      sbind (calling (get_user_by_email env email)) (\<lambda>existing.
      if existing \<noteq> None then raise_http 409 ''Email already registered'' False else
      sbind (\<lambda>s. (Inr (hash_password web password (se_next_id s)), s\<lparr>se_next_id := Suc (se_next_id s)\<rparr>)) (\<lambda>hashed.
      sbind (calling (create_user env email hashed tenant_id VIEWER)) (\<lambda>user.
      sbind (calling (commit env)) (\<lambda>_.
      calling (refresh_user env (u_id user))))))))"

text \<open>\<open>user.last_login = now\<close>, written by the flush of the commit; \<open>onupdate\<close> sets \<open>updated_at\<close>.\<close>

definition set_last_login :: "instant \<Rightarrow> instant \<Rightarrow> user \<Rightarrow> user" where
  "set_last_login now sql u = u\<lparr>u_last_login := Some now, u_updated_at := sql\<rparr>"

definition touch_login :: "env \<Rightarrow> instant \<Rightarrow> user \<Rightarrow> 'z session_scheme \<Rightarrow> (exn + unit) \<times> 'z session_scheme" where
  "touch_login env now user s =
     (if u_last_login user = Some now then (Inr (), s)
      else in_flush (send env (UpdateUser (user\<lparr>u_last_login := Some now\<rparr>))
        (\<lambda>s. (Inr (), s\<lparr>se_db := (se_db s)\<lparr>tb_users :=
           map (\<lambda>u. if u_id u = u_id user then set_last_login now (sql_now env s) u else u) (tb_users (se_db s))\<rparr>\<rparr>)) s))"

definition bad_credentials :: "'a request" where
  "bad_credentials = raise_http 401 ''Incorrect username or password'' True"

definition authenticate :: "web \<Rightarrow> clock \<Rightarrow> string \<Rightarrow> string \<Rightarrow> tokens request" where
  "authenticate web clock username password =
     (let env = wb_env web; email = lower username in
      sbind (calling (get_user_by_email env email)) (\<lambda>user.
      case user of None \<Rightarrow> bad_credentials
      | Some u \<Rightarrow>
        if \<not> verify_password web password (u_hashed_password u) then bad_credentials
        else if \<not> u_is_active u then bad_credentials
        else sbind (calling (touch_login env (clock 0) u)) (\<lambda>_.
             sbind (calling (commit env)) (\<lambda>_.
             issue_tokens web (\<lambda>n. clock (Suc n)) (uuid_text (u_id u)) (uuid_text (u_tenant u)) (role_value (u_role u))))))"

text \<open>\<open>f"{v}"\<close> of a claim, and \<open>uuid.UUID(v)\<close>, which raises \<open>AttributeError\<close> for what is no text.\<close>

fun claim_text :: "json \<Rightarrow> string" where
  "claim_text (JStr s) = s"
| "claim_text j = json_repr j"

definition refresh_key :: "payload \<Rightarrow> string option" where
  "refresh_key payload = map_option (\<lambda>jti. REFRESH_TOKEN_PREFIX @ claim_text jti) (map_of payload ''jti'')"

fun claim_uuid :: "json \<Rightarrow> exn + uuid" where
  "claim_uuid (JStr s) = (case uuid_of_text s of None \<Rightarrow> Inl (ValueError s) | Some i \<Rightarrow> Inr i)"
| "claim_uuid _ = Inl AttributeError"

text \<open>The user named by \<open>sub\<close>; \<open>bad\<close> is what a \<open>ValueError\<close> turns into.\<close>

definition user_of_subject :: "web \<Rightarrow> json \<Rightarrow> user option request \<Rightarrow> user option request" where
  "user_of_subject web sub bad = (case claim_uuid sub of
     Inl (ValueError _) \<Rightarrow> bad
   | Inl e \<Rightarrow> (\<lambda>s. (Inl (Unhandled e), s))
   | Inr i \<Rightarrow> calling (get_user_by_id (wb_env web) i))"

definition refresh_tokens :: "web \<Rightarrow> clock \<Rightarrow> string \<Rightarrow> tokens request" where
  "refresh_tokens web clock token =
     (case decode_token web (clock 0) token ''refresh'' of
        None \<Rightarrow> raise_http 401 ''Invalid refresh token'' True
      | Some payload \<Rightarrow>
        (case refresh_key payload of None \<Rightarrow> (\<lambda>s. (Inl (Unhandled (KeyError ''jti'')), s))
         | Some key \<Rightarrow>
           sbind (redis_call web (redis_getdel key (clock 1))) (\<lambda>stored.
           if stored = None then raise_http 401 ''Refresh token revoked or expired'' True else
           (case map_of payload ''sub'' of None \<Rightarrow> (\<lambda>s. (Inl (Unhandled (KeyError ''sub'')), s))
            | Some sub \<Rightarrow>
              sbind (user_of_subject web sub (raise_http 401 ''Invalid refresh token'' True)) (\<lambda>user.
              case user of None \<Rightarrow> raise_http 401 ''User not found or inactive'' True
              | Some u \<Rightarrow>
                if \<not> u_is_active u then raise_http 401 ''User not found or inactive'' True
                else issue_tokens web (\<lambda>n. clock (n + 2)) (uuid_text (u_id u)) (uuid_text (u_tenant u))
                       (role_value (u_role u)))))))"

definition logout_token :: "web \<Rightarrow> clock \<Rightarrow> string \<Rightarrow> unit request" where
  "logout_token web clock token =
     (case decode_token web (clock 0) token ''refresh'' of
        None \<Rightarrow> raise_http 401 ''Invalid refresh token'' True
      | Some payload \<Rightarrow>
        (case refresh_key payload of None \<Rightarrow> (\<lambda>s. (Inl (Unhandled (KeyError ''jti'')), s))
         | Some key \<Rightarrow> redis_call web (redis_delete key)))"

definition credentials_exception :: "'a request" where
  "credentials_exception = raise_http 401 ''Could not validate credentials'' True"

definition get_current_user_from_token :: "web \<Rightarrow> clock \<Rightarrow> string \<Rightarrow> user request" where
  "get_current_user_from_token web clock token =
     (case decode_token web (clock 0) token ''access'' of
        None \<Rightarrow> credentials_exception
      | Some payload \<Rightarrow>
        (case map_of payload ''sub'' of
           None \<Rightarrow> credentials_exception
         | Some sub \<Rightarrow>
           if sub = JNull then credentials_exception
           else sbind (user_of_subject web sub credentials_exception) (\<lambda>user.
             case user of None \<Rightarrow> credentials_exception | Some u \<Rightarrow> sreturn u)))"

section \<open>Dependencies (app/dependencies/auth.py)\<close>

text \<open>The token of the \<open>Authorization\<close> header; \<open>OAuth2PasswordBearer\<close> refuses a request without one.\<close>

definition get_current_user :: "web \<Rightarrow> clock \<Rightarrow> string option \<Rightarrow> user request" where
  "get_current_user web clock token = (case token of
     None \<Rightarrow> raise_http 401 ''Not authenticated'' True
   | Some t \<Rightarrow> (\<lambda>s. get_current_user_from_token web clock t (open_admin s)))"

definition get_current_active_user :: "web \<Rightarrow> clock \<Rightarrow> string option \<Rightarrow> user request" where
  "get_current_active_user web clock token =
     sbind (get_current_user web clock token) (\<lambda>u.
       if \<not> u_is_active u then raise_http 400 ''Inactive user'' False else sreturn u)"

definition require_role :: "UserRole list \<Rightarrow> user \<Rightarrow> user request" where
  "require_role allowed_roles current_user =
     (if u_role current_user \<notin> set allowed_roles then raise_http 403 ''Insufficient permissions'' False
      else sreturn current_user)"

section \<open>Passwords (app/schemas/auth.py)\<close>

definition is_upper :: "char \<Rightarrow> bool" where
  "is_upper c \<longleftrightarrow> (65::nat) \<le> of_char c \<and> of_char c \<le> (90::nat)"

definition is_lower :: "char \<Rightarrow> bool" where
  "is_lower c \<longleftrightarrow> (97::nat) \<le> of_char c \<and> of_char c \<le> (122::nat)"

definition is_special :: "char \<Rightarrow> bool" where
  "is_special c \<longleftrightarrow> \<not> (is_upper c \<or> is_lower c \<or> is_digit c)"

definition password_faults :: "string \<Rightarrow> string list" where
  "password_faults v =
     (if list_ex is_upper v then [] else [''at least one uppercase letter'']) @
     (if list_ex is_lower v then [] else [''at least one lowercase letter'']) @
     (if list_ex is_digit v then [] else [''at least one digit'']) @
     (if list_ex is_special v then [] else [''at least one special character''])"

definition password_strength :: "string \<Rightarrow> exn + string" where
  "password_strength v =
     (if password_faults v \<noteq> [] then Inl (ValueError (''Password must contain '' @ commas (password_faults v)))
      else Inr v)"

text \<open>The validation of a \<open>CreateUserRequest\<close>: what it refuses is a 422.\<close>

definition create_user_request :: "web \<Rightarrow> string \<Rightarrow> string \<Rightarrow> (string \<times> string) option" where
  "create_user_request web email password =
     (case wb_email web email of None \<Rightarrow> None
      | Some e \<Rightarrow>
        if length password < 8 \<or> 128 < length password then None
        else (case password_strength password of Inl _ \<Rightarrow> None | Inr p \<Rightarrow> Some (e, p)))"

section \<open>Routes (app/routes/auth.py)\<close>

record cookie =
  ck_key :: string
  ck_value :: string
  ck_httponly :: bool
  ck_secure :: bool
  ck_samesite :: string
  ck_max_age :: int
  ck_path :: string

text \<open>\<open>UserResponse.model_validate(user)\<close> (\<open>app/schemas/user.py\<close>): the password hash stays behind.\<close>

record user_response =
  ur_id :: uuid
  ur_tenant_id :: uuid
  ur_email :: string
  ur_role :: UserRole
  ur_is_active :: bool
  ur_last_login :: "instant option"
  ur_created_at :: instant
  ur_updated_at :: instant

definition user_response_of :: "web \<Rightarrow> user \<Rightarrow> user_response request" where
  "user_response_of web u s = (case wb_email web (u_email u) of
     None \<Rightarrow> (Inl (Unhandled (ValidationError (u_email u))), s)
   | Some e \<Rightarrow> (Inr \<lparr>ur_id = u_id u, ur_tenant_id = u_tenant u, ur_email = e, ur_role = u_role u,
       ur_is_active = u_is_active u, ur_last_login = u_last_login u, ur_created_at = u_created_at u,
       ur_updated_at = u_updated_at u\<rparr>, s))"

record token_response =
  tr_access_token :: string
  tr_token_type :: string
  tr_expires_in :: int

definition REFRESH_COOKIE :: string where
  "REFRESH_COOKIE = ''refresh_token''"

definition set_refresh_cookie :: "settings \<Rightarrow> string \<Rightarrow> cookie" where
  "set_refresh_cookie st refresh_token =
     \<lparr>ck_key = REFRESH_COOKIE, ck_value = refresh_token, ck_httponly = True, ck_secure = st_cookie_secure st,
      ck_samesite = ''lax'', ck_max_age = st_refresh_days st * 86400, ck_path = ''/api/v1/auth''\<rparr>"

definition clear_refresh_cookie :: "settings \<Rightarrow> cookie" where
  "clear_refresh_cookie st =
     \<lparr>ck_key = REFRESH_COOKIE, ck_value = [], ck_httponly = True, ck_secure = st_cookie_secure st,
      ck_samesite = ''lax'', ck_max_age = 0, ck_path = ''/api/v1/auth''\<rparr>"

definition token_response_of :: "web \<Rightarrow> tokens \<Rightarrow> (token_response \<times> cookie) request" where
  "token_response_of web tk = sreturn
     (\<lparr>tr_access_token = tp_access_token tk, tr_token_type = tp_token_type tk, tr_expires_in = tp_expires_in tk\<rparr>,
      set_refresh_cookie (wb_settings web) (tp_refresh_token tk))"

definition create_tenant_user :: "web \<Rightarrow> clock \<Rightarrow> string option \<Rightarrow> string \<Rightarrow> string \<Rightarrow> user_response request" where
  "create_tenant_user web clock token email password =
     sbind (get_current_active_user web clock token) (\<lambda>current_user.
     sbind (require_role [OWNER, ADMIN] current_user) (\<lambda>_.
     case create_user_request web email password of
       None \<Rightarrow> raise_http 422 ''Unprocessable Entity'' False
     | Some (e, p) \<Rightarrow> sbind (create_viewer web e p (u_tenant current_user)) (user_response_of web)))"

definition login :: "web \<Rightarrow> clock \<Rightarrow> string \<Rightarrow> string \<Rightarrow> (token_response \<times> cookie) request" where
  "login web clock username password s =
     sbind (authenticate web clock username password) (token_response_of web) (open_admin s)"

definition refresh :: "web \<Rightarrow> clock \<Rightarrow> string option \<Rightarrow> (token_response \<times> cookie) request" where
  "refresh web clock refresh_token = (case refresh_token of
     None \<Rightarrow> raise_http 401 ''Refresh token missing'' False
   | Some t \<Rightarrow> if t = [] then raise_http 401 ''Refresh token missing'' False
       else (\<lambda>s. sbind (refresh_tokens web clock t) (token_response_of web) (open_admin s)))"

definition logout :: "web \<Rightarrow> clock \<Rightarrow> string option \<Rightarrow> cookie request" where
  "logout web clock refresh_token = (case refresh_token of
     None \<Rightarrow> raise_http 401 ''Refresh token missing'' False
   | Some t \<Rightarrow> if t = [] then raise_http 401 ''Refresh token missing'' False
       else sbind (logout_token web clock t) (\<lambda>_. sreturn (clear_refresh_cookie (wb_settings web))))"

definition get_me :: "web \<Rightarrow> clock \<Rightarrow> string option \<Rightarrow> user_response request" where
  "get_me web clock token = sbind (get_current_active_user web clock token) (user_response_of web)"

section \<open>Sequences of requests\<close>

text \<open>The routes above by what a client sends, and the responses.\<close>

datatype call =
    Login string string
  | Refresh "string option"
  | Logout "string option"
  | CreateUser "string option" string string
  | Me "string option"

datatype response =
    Tokens token_response cookie
  | LoggedOut cookie
  | UserBody user_response
  | Failed http_error

definition respond :: "('a \<Rightarrow> response) \<Rightarrow> (http_error + 'a) \<times> server \<Rightarrow> response \<times> server" where
  "respond f r = (case r of (Inl e, s) \<Rightarrow> (Failed e, s) | (Inr v, s) \<Rightarrow> (f v, s))"

fun serve :: "web \<Rightarrow> clock \<Rightarrow> call \<Rightarrow> server \<Rightarrow> response \<times> server" where
  "serve web clock (Login u p) s = respond (\<lambda>(t, c). Tokens t c) (login web clock u p s)"
| "serve web clock (Refresh t) s = respond (\<lambda>(t, c). Tokens t c) (refresh web clock t s)"
| "serve web clock (Logout t) s = respond LoggedOut (logout web clock t s)"
| "serve web clock (CreateUser t e p) s = respond UserBody (create_tenant_user web clock t e p s)"
| "serve web clock (Me t) s = respond UserBody (get_me web clock t s)"

inductive serves :: "web \<Rightarrow> server \<Rightarrow> (call \<times> response) list \<Rightarrow> server \<Rightarrow> bool" for web where
  serves_nothing: "serves web s [] s"
| serves_next: "serves web s tr u \<Longrightarrow> serve web clock c u = (r, v) \<Longrightarrow> serves web s (tr @ [(c, r)]) v"

inductive_simps serves_Nil [simp]: "serves web s [] v"

inductive_cases serves_snocE: "serves web s (tr @ [x]) v"

end
