(* ===== verification/Csv.thy ===== *)
theory Csv
  imports Web
begin

text \<open>
  Python's \<open>csv\<close> module as the source uses it: the \<open>excel\<close> dialect (comma, double quote, quotes only
  where needed, lines ended by CR LF), the writer of \<open>download_template\<close> and of the Marg kit, and the
  reader of the Marg kit, over files opened with \<open>newline=""\<close>.  (The reader's limit of 131072
  characters per field is not modelled.)
\<close>

section \<open>Writing\<close>

definition cr :: char where "cr = CHR 0x0D"
definition lf :: char where "lf = CHR 0x0A"
definition quote :: char where "quote = CHR 0x22"
definition comma :: char where "comma = CHR '',''"

lemma csv_chars [simp]:
  "cr \<noteq> lf" "cr \<noteq> quote" "cr \<noteq> comma" "lf \<noteq> quote" "lf \<noteq> comma" "quote \<noteq> comma"
  "lf \<noteq> cr" "quote \<noteq> cr" "comma \<noteq> cr" "quote \<noteq> lf" "comma \<noteq> lf" "comma \<noteq> quote"
  by (simp_all add: cr_def lf_def quote_def comma_def)

definition needs_quotes :: "string \<Rightarrow> bool" where
  "needs_quotes f \<longleftrightarrow> list_ex (\<lambda>c. c = comma \<or> c = quote \<or> c = cr \<or> c = lf) f"

definition double_quotes :: "string \<Rightarrow> string" where
  "double_quotes f = concat (map (\<lambda>c. if c = quote then [quote, quote] else [c]) f)"

definition csv_field :: "string \<Rightarrow> string" where
  "csv_field f = (if needs_quotes f then quote # double_quotes f @ [quote] else f)"

fun csv_fields :: "string list \<Rightarrow> string" where
  "csv_fields [] = []"
| "csv_fields [f] = csv_field f"
| "csv_fields (f # fs) = csv_field f @ comma # csv_fields fs"

text \<open>A row of one empty field is written with quotes, so that it is not an empty line.\<close>

definition csv_row :: "string list \<Rightarrow> string" where
  "csv_row fs = (if fs = [[]] then [quote, quote] else csv_fields fs) @ [cr, lf]"

definition csv_text :: "string list list \<Rightarrow> string" where
  "csv_text rows = concat (map csv_row rows)"

section \<open>Reading\<close>

text \<open>
  The states of the reader: before a record, after the CR of a line end, before a field, in a field,
  in a quoted field, after a quote in a quoted field.  A position is the state, the field so far and
  the fields before it; a step may complete a record.
\<close>

datatype csv_state = StartRecord | AfterCR | StartField | InField | InQuoted | QuoteInQuoted

type_synonym csv_pos = "csv_state \<times> string \<times> string list"

definition csv_end :: "char \<Rightarrow> string list \<Rightarrow> csv_pos \<times> string list option" where
  "csv_end c record = ((if c = cr then AfterCR else StartRecord, [], []), Some record)"

definition start_field :: "string list \<Rightarrow> char \<Rightarrow> csv_pos \<times> string list option" where
  "start_field fs c =
     (if c = cr \<or> c = lf then csv_end c (fs @ [[]])
      else if c = quote then ((InQuoted, [], fs), None)
      else if c = comma then ((StartField, [], fs @ [[]]), None)
      else ((InField, [c], fs), None))"

definition start_record :: "char \<Rightarrow> csv_pos \<times> string list option" where
  "start_record c = (if c = cr \<or> c = lf then csv_end c [] else start_field [] c)"

fun csv_step :: "csv_pos \<Rightarrow> char \<Rightarrow> csv_pos \<times> string list option" where
  "csv_step (StartRecord, f, fs) c = start_record c"
| "csv_step (AfterCR, f, fs) c = (if c = lf then ((StartRecord, [], []), None) else start_record c)"
| "csv_step (StartField, f, fs) c = start_field fs c"
| "csv_step (InField, f, fs) c =
     (if c = cr \<or> c = lf then csv_end c (fs @ [f])
      else if c = comma then ((StartField, [], fs @ [f]), None)
      else ((InField, f @ [c], fs), None))"
| "csv_step (InQuoted, f, fs) c =
     (if c = quote then ((QuoteInQuoted, f, fs), None) else ((InQuoted, f @ [c], fs), None))"
| "csv_step (QuoteInQuoted, f, fs) c =
     (if c = quote then ((InQuoted, f @ [quote], fs), None)
      else if c = comma then ((StartField, [], fs @ [f]), None)
      else if c = cr \<or> c = lf then csv_end c (fs @ [f])
      else ((InField, f @ [c], fs), None))"

fun csv_run :: "csv_pos \<Rightarrow> string \<Rightarrow> string list list" where
  "csv_run (st, f, fs) [] = (if st = StartRecord \<or> st = AfterCR then [] else [fs @ [f]])"
| "csv_run p (c # cs) = (case csv_step p c of (p, r) \<Rightarrow>
     (case r of None \<Rightarrow> csv_run p cs | Some row \<Rightarrow> row # csv_run p cs))"

definition csv_rows :: "string \<Rightarrow> string list list" where
  "csv_rows = csv_run (StartRecord, [], [])"

text \<open>\<open>csv.DictReader\<close>: the first row names the fields; empty rows are skipped, missing values None.\<close>

type_synonym csv_record = "(string, string option) pydict"

definition dict_row :: "string list \<Rightarrow> string list \<Rightarrow> csv_record" where
  "dict_row names row =
     foldl (\<lambda>d (k, v). dict_set k v d) []
       (zip names (map Some row @ replicate (length names - length row) None))"

definition dict_reader :: "string \<Rightarrow> csv_record list" where
  "dict_reader text = (case csv_rows text of [] \<Rightarrow> []
     | names # rows \<Rightarrow> map (dict_row names) (filter (\<lambda>r. r \<noteq> []) rows))"

text \<open>\<open>csv.DictWriter\<close> with its header; the source only writes rows with exactly the fields.\<close>

definition dict_writer :: "string list \<Rightarrow> (string, string) pydict list \<Rightarrow> string" where
  "dict_writer names rows = csv_text (names # map (\<lambda>r. map (\<lambda>k. dict_get_or r k []) names) rows)"

section \<open>What was written is read back\<close>

lemma csv_run_Cons: "csv_step p c = (q, None) \<Longrightarrow> csv_run p (c # cs) = csv_run q cs"
  by simp

lemma run_quoted: "csv_run (InQuoted, g, fs) (double_quotes f @ s) = csv_run (InQuoted, g @ f, fs) s"
  by (induction f arbitrary: g) (auto simp: double_quotes_def)

lemma run_plain:
  "\<not> needs_quotes f \<Longrightarrow> csv_run (InField, g, fs) (f @ s) = csv_run (InField, g @ f, fs) s"
  by (induction f arbitrary: g) (auto simp: needs_quotes_def)

text \<open>Where the reader is after a field.\<close>

definition after_field :: "string \<Rightarrow> string list \<Rightarrow> csv_pos" where
  "after_field f fs = (if needs_quotes f then QuoteInQuoted else if f = [] then StartField else InField, f, fs)"

lemma run_field: "csv_run (StartField, [], fs) (csv_field f @ s) = csv_run (after_field f fs) s"
proof (cases "needs_quotes f")
  case True
  then show ?thesis by (simp add: csv_field_def after_field_def start_field_def run_quoted)
next
  case False
  show ?thesis
  proof (cases f)
    case (Cons c g)
    with False run_plain [of g "[c]" fs s] show ?thesis
      by (simp add: csv_field_def after_field_def start_field_def needs_quotes_def)
  qed (use False in \<open>simp add: csv_field_def after_field_def\<close>)
qed

lemma after_field_step:
  "csv_step (after_field f fs) comma = ((StartField, [], fs @ [f]), None)"
  "csv_step (after_field f fs) cr = ((AfterCR, [], []), Some (fs @ [f]))"
  by (simp_all add: after_field_def start_field_def csv_end_def)

lemma run_fields:
  "fs \<noteq> [] \<Longrightarrow> csv_run (StartField, [], gs) (csv_fields fs @ cr # lf # s) =
     (gs @ fs) # csv_run (StartRecord, [], []) s"
proof (induction fs arbitrary: gs rule: csv_fields.induct)
  case (2 f)
  then show ?case by (simp add: run_field after_field_step)
next
  case (3 f g fs)
  have "csv_run (StartField, [], gs) (csv_fields (f # g # fs) @ cr # lf # s) =
      csv_run (after_field f gs) (comma # csv_fields (g # fs) @ cr # lf # s)"
    by (simp add: run_field)
  also have "\<dots> = csv_run (StartField, [], gs @ [f]) (csv_fields (g # fs) @ cr # lf # s)"
    by (rule csv_run_Cons) (rule after_field_step)
  also have "\<dots> = (gs @ f # g # fs) # csv_run (StartRecord, [], []) s"
    using 3 by simp
  finally show ?case .
qed simp

text \<open>A row that starts with something is read as its fields.\<close>

lemma run_start:
  "s \<noteq> [] \<Longrightarrow> hd s \<noteq> cr \<Longrightarrow> hd s \<noteq> lf \<Longrightarrow> csv_run (StartRecord, [], []) s = csv_run (StartField, [], []) s"
  by (cases s) (simp_all add: start_record_def)

lemma csv_fields_hd:
  assumes "fs \<noteq> []" "fs \<noteq> [[]]"
  shows "csv_fields fs \<noteq> [] \<and> hd (csv_fields fs) \<noteq> cr \<and> hd (csv_fields fs) \<noteq> lf"
  using assms
  by (cases fs rule: csv_fields.cases)
    (auto simp: csv_field_def needs_quotes_def hd_append list_ex_iff dest: hd_in_set)

lemma run_row: "csv_run (StartRecord, [], []) (csv_row fs @ s) = fs # csv_run (StartRecord, [], []) s"
proof -
  consider "fs = []" | "fs = [[]]" | "fs \<noteq> []" "fs \<noteq> [[]]" by blast
  then show ?thesis
  proof cases
    case 3
    with csv_fields_hd [OF this] run_fields [of fs "[]" s]
      run_start [of "csv_fields fs @ cr # lf # s"] show ?thesis
      by (simp add: csv_row_def)
  qed (simp_all add: csv_row_def start_record_def start_field_def csv_end_def)
qed

lemma csv_rows_text: "csv_rows (csv_text rows) = rows"
proof -
  have "csv_run (StartRecord, [], []) (csv_text rows) = rows"
    by (induction rows) (simp_all add: csv_text_def run_row)
  then show ?thesis by (simp add: csv_rows_def)
qed

lemma dict_row_of:
  assumes "distinct names" "length row = length names"
  shows "dict_row names row = zip names (map Some row)"
proof -
  have gen: "foldl (\<lambda>d (k, v). dict_set k v d) d (zip ks vs) = d @ zip ks vs"
    if "distinct ks" "set ks \<inter> fst ` set d = {}" "length vs = length ks" for d ks and vs :: "string option list"
    using that
  proof (induction ks arbitrary: d vs)
    case (Cons k ks)
    then obtain v vs' where v: "vs = v # vs'" by (cases vs) auto
    have "dict_set k v d = d @ [(k, v)]"
      using Cons.prems(2) by (induction k v d rule: dict_set.induct) auto
    with Cons v show ?case by auto
  qed simp
  show ?thesis
    using gen [of names "[]" "map Some row"] assms by (simp add: dict_row_def)
qed

lemma dict_reader_writer:
  assumes "distinct names" "names \<noteq> []"
  shows "dict_reader (dict_writer names rows) = map (\<lambda>r. map (\<lambda>k. (k, Some (dict_get_or r k []))) names) rows"
proof -
  have "zip names (map (\<lambda>k. Some (dict_get_or r k [])) names) = map (\<lambda>k. (k, Some (dict_get_or r k []))) names"
    for r :: "(string, string) pydict"
    by (simp add: zip_map2 zip_same_conv_map)
  then show ?thesis
    using assms by (simp add: dict_reader_def dict_writer_def csv_rows_text dict_row_of o_def filter_map)
qed

end
