(* ===== verification/Times.thy ===== *)
theory Times
  imports Store
begin

text \<open>
  The calendar date of an instant and \<open>datetime.isoformat()\<close> of a time in UTC, which is how the status
  of a job shows the times of its row.  The date is computed as CPython's \<open>date.fromordinal\<close> does, and
  is the inverse of \<open>toordinal\<close>.
\<close>

section \<open>Dates of ordinals\<close>

text \<open>The month and day of the n-th day of a year, counted from 0.\<close>

fun month_day :: "nat \<Rightarrow> nat list \<Rightarrow> nat \<Rightarrow> nat \<times> nat" where
  "month_day y [] n = (12, n + 1)"
| "month_day y (m # ms) n =
     (if n < days_in_month y m then (m, n + 1) else month_day y ms (n - days_in_month y m))"

definition fromordinal :: "nat \<Rightarrow> pydate" where
  "fromordinal ordinal =
     (let n = ordinal - 1;
          n400 = n div 146097; n = n mod 146097;
          n100 = n div 36524; n = n mod 36524;
          n4 = n div 1461; n = n mod 1461;
          n1 = n div 365; n = n mod 365;
          y = 400 * n400 + 100 * n100 + 4 * n4 + n1
      in if n1 = 4 \<or> n100 = 4 then Date y 12 31
         else (let (m, d) = month_day (y + 1) [1..<13] n in Date (y + 1) m d))"

definition datetime_of :: "instant \<Rightarrow> pydatetime" where
  "datetime_of t =
     (let us = nat t; s = us div 1000000 in
      Datetime (fromordinal (s div 86400)) (s div 3600 mod 24) (s div 60 mod 60) (s mod 60) (us mod 1000000)
        (Some 0))"

fun isoformat :: "pydatetime \<Rightarrow> string" where
  "isoformat (Datetime d h mi s us tz) =
     show_date d @ ''T'' @ pad_nat 2 h @ '':'' @ pad_nat 2 mi @ '':'' @ pad_nat 2 s
     @ (if us = 0 then [] else ''.'' @ pad_nat 6 us)
     @ (case tz of None \<Rightarrow> [] | Some off \<Rightarrow> show_offset off)"

section \<open>Nothing is lost\<close>

lemma month_day_spec:
  assumes "k \<le> 12" "month_day y [Suc k..<13] n = (m, d)" "n < sum_list (map (days_in_month y) [Suc k..<13])"
  shows "k < m \<and> m \<le> 12 \<and> sum_list (map (days_in_month y) [Suc k..<m]) + d = n + 1"
  using assms
proof (induction "12 - k" arbitrary: k n)
  case (Suc j)
  then have k: "k < 12" by simp
  then have s: "[Suc k..<13] = Suc k # [Suc (Suc k)..<13]" by (simp add: upt_conv_Cons)
  show ?case
  proof (cases "n < days_in_month y (Suc k)")
    case True
    with Suc.prems(2) have "m = Suc k" "d = n + 1" unfolding s by simp_all
    with True k show ?thesis by simp
  next
    case False
    let ?n = "n - days_in_month y (Suc k)"
    have "Suc k < m \<and> m \<le> 12 \<and> sum_list (map (days_in_month y) [Suc (Suc k)..<m]) + d = ?n + 1"
    proof (rule Suc.hyps(1))
      show "month_day y [Suc (Suc k)..<13] ?n = (m, d)" using Suc.prems(2) False unfolding s by simp
      show "?n < sum_list (map (days_in_month y) [Suc (Suc k)..<13])" using Suc.prems(3) False unfolding s by simp
    qed (use Suc.hyps(2) k in simp_all)
    moreover from this have "[Suc k..<m] = Suc k # [Suc (Suc k)..<m]" by (intro upt_conv_Cons) simp
    ultimately show ?thesis using False by (simp del: upt_Suc) linarith
  qed
qed simp

definition year_days :: "nat \<Rightarrow> nat" where
  "year_days y = (if leap_year y then 366 else 365)"

lemma year_length: "sum_list (map (days_in_month y) [1..<13]) = year_days y"
  by (simp add: upt_conv_Cons days_in_month_def year_days_def)

lemma days_before_december: "days_before_month y 12 = year_days y - 31"
  by (simp add: days_before_month_def upt_conv_Cons days_in_month_def year_days_def)

text \<open>The days before the first one of a year whose predecessor is split as \<open>fromordinal\<close> does.\<close>

lemma year_split:
  fixes a :: nat
  assumes "b \<le> 3" "c \<le> 24" "d \<le> 3"
  defines "y \<equiv> 400 * a + 100 * b + 4 * c + d"
  shows "365 * y + y div 4 - y div 100 + y div 400 = 146097 * a + 36524 * b + 1461 * c + 365 * d"
    and "leap_year (y + 1) \<longleftrightarrow> d = 3 \<and> (c \<noteq> 24 \<or> b = 3)"
proof -
  have q: "y div 4 = 100 * a + 25 * b + c" "y div 100 = 4 * a + b" "y div 400 = a"
    using assms by (simp_all add: y_def)
  then show "365 * y + y div 4 - y div 100 + y div 400 = 146097 * a + 36524 * b + 1461 * c + 365 * d"
    by (simp add: y_def)
  have whole: "m mod n = 0 \<longleftrightarrow> m = n" if "0 < m" "m \<le> n" for m n :: nat
    using that by (cases "m = n") simp_all
  have "y + 1 = 4 * (100 * a + 25 * b + c) + (d + 1)" "y + 1 = 100 * (4 * a + b) + (4 * c + d + 1)"
    "y + 1 = 400 * a + (100 * b + 4 * c + d + 1)" by (simp_all add: y_def)
  then have m: "(y + 1) mod 4 = (d + 1) mod 4" "(y + 1) mod 100 = (4 * c + d + 1) mod 100"
    "(y + 1) mod 400 = (100 * b + 4 * c + d + 1) mod 400"
    by (metis mod_mult_self4)+
  have "(y + 1) mod 4 = 0 \<longleftrightarrow> d + 1 = 4" unfolding m by (rule whole) (use assms in simp_all)
  moreover have "(y + 1) mod 100 = 0 \<longleftrightarrow> 4 * c + d + 1 = 100" unfolding m by (rule whole) (use assms in simp_all)
  moreover have "(y + 1) mod 400 = 0 \<longleftrightarrow> 100 * b + 4 * c + d + 1 = 400"
    unfolding m by (rule whole) (use assms in simp_all)
  moreover have "4 * c + d + 1 = 100 \<longleftrightarrow> c = 24 \<and> d = 3" using assms(2,3) by arith
  moreover have "100 * b + 4 * c + d + 1 = 400 \<longleftrightarrow> b = 3 \<and> c = 24 \<and> d = 3" using assms(1-3) by arith
  ultimately show "leap_year (y + 1) \<longleftrightarrow> d = 3 \<and> (c \<noteq> 24 \<or> b = 3)" by (auto simp: leap_year_def)
qed

lemma toordinal_fromordinal:
  assumes "1 \<le> n"
  shows "toordinal (fromordinal n) = n"
proof -
  define k where "k = n - 1"
  define a where "a = k div 146097"
  define r where "r = k mod 146097"
  define b where "b = r div 36524"
  define s where "s = r mod 36524"
  define c where "c = s div 1461"
  define t where "t = s mod 1461"
  define d where "d = t div 365"
  define u where "u = t mod 365"
  have split: "n = 146097 * a + r + 1" "r = 36524 * b + s" "s = 1461 * c + t" "t = 365 * d + u"
    using assms by (simp_all add: a_def b_def c_def d_def r_def s_def t_def u_def k_def)
  have lt: "r < 146097" "s < 36524" "t < 1461" "u < 365"
    by (simp_all add: r_def s_def t_def u_def)
  have le: "b \<le> 4" "c \<le> 24" "d \<le> 4" using lt split by linarith+
  let ?y = "400 * a + 100 * b + 4 * c + d"
  have unfold: "fromordinal n = (if d = 4 \<or> b = 4 then Date ?y 12 31
      else (let (m, e) = month_day (?y + 1) [1..<13] u in Date (?y + 1) m e))"
    unfolding fromordinal_def Let_def k_def [symmetric] r_def [symmetric] a_def [symmetric]
      s_def [symmetric] b_def [symmetric] t_def [symmetric] c_def [symmetric] d_def [symmetric] u_def [symmetric] ..
  show ?thesis
  proof (cases "d = 4 \<or> b = 4")
    case True
    define a' b' c' where "a' = a" and "b' = (if b = 4 then 3 else b)"
      and "c' = (if b = 4 then 24 else c)"
    let ?p = "400 * a' + 100 * b' + 4 * c' + 3"
    have z: "b = 4 \<Longrightarrow> s = 0" using lt split by linarith
    have e: "?y = ?p + 1"
    proof (cases "b = 4")
      case True
      then have "c = 0" "d = 0" using z by (simp_all add: c_def d_def t_def)
      with True show ?thesis by (simp add: a'_def b'_def c'_def)
    next
      case False
      with \<open>d = 4 \<or> b = 4\<close> show ?thesis by (simp add: a'_def b'_def c'_def)
    qed
    have le': "b' \<le> 3" "c' \<le> 24" using le by (auto simp: b'_def c'_def)
    have leap: "leap_year ?y"
    proof -
      have "c' \<noteq> 24 \<or> b' = 3"
      proof (cases "b = 4")
        case False
        with True have "d = 4" by simp
        with split lt have "c \<noteq> 24" by linarith
        with False show ?thesis by (simp add: c'_def)
      qed (simp add: b'_def)
      then show ?thesis using year_split(2) [OF le', of 3 a'] e by simp
    qed
    have days: "365 * ?p + ?p div 4 - ?p div 100 + ?p div 400 = 146097 * a' + 36524 * b' + 1461 * c' + 365 * 3"
      using year_split(1) [OF le', of 3 a'] by simp
    have sum: "146097 * a' + 36524 * b' + 1461 * c' + 365 * 3 + 366 = n"
    proof (cases "b = 4")
      case True
      then show ?thesis using z split by (simp add: a'_def b'_def c'_def)
    next
      case False
      with \<open>d = 4 \<or> b = 4\<close> have "d = 4" by simp
      then have "u = 0" using lt split by linarith
      with False \<open>d = 4\<close> show ?thesis using split by (simp add: a'_def b'_def c'_def)
    qed
    have "toordinal (fromordinal n) = 365 * ?p + ?p div 4 - ?p div 100 + ?p div 400 + (366 - 31) + 31"
      unfolding unfold using True leap
      by (simp only: if_True toordinal_def Let_def pydate.sel days_before_december year_days_def e add_diff_cancel_right')
    then show ?thesis unfolding days using sum by simp
  next
    case False
    then have le': "b \<le> 3" "c \<le> 24" "d \<le> 3" using le by auto
    define Y where "Y = ?y"
    have days: "365 * Y + Y div 4 - Y div 100 + Y div 400 = 146097 * a + 36524 * b + 1461 * c + 365 * d"
      unfolding Y_def by (rule year_split(1)) (rule le')+
    obtain m e where md: "month_day (Y + 1) [Suc 0..<13] u = (m, e)" by (rule prod.exhaust)
    have "u < year_days (Y + 1)" using lt by (simp add: year_days_def)
    then have "u < sum_list (map (days_in_month (Y + 1)) [Suc 0..<13])" using year_length by simp
    from month_day_spec [OF _ md this] have "days_before_month (Y + 1) m + e = u + 1"
      by (simp add: days_before_month_def)
    moreover have "fromordinal n = Date (Y + 1) m e"
      unfolding unfold Y_def [symmetric] using False md by simp
    ultimately have "toordinal (fromordinal n) = 365 * Y + Y div 4 - Y div 100 + Y div 400 + (u + 1)"
      by (simp only: toordinal_def Let_def pydate.sel add_diff_cancel_right' add.assoc)
    then show ?thesis unfolding days using split by simp
  qed
qed

lemma instant_of_datetime:
  assumes "86400000000 \<le> t"
  shows "instant_of (datetime_of t) = t"
proof -
  define us where "us = nat t"
  define s where "s = us div 1000000"
  have "1 \<le> s div 86400" using assms by (simp add: s_def us_def)
  then have o: "toordinal (fromordinal (s div 86400)) = s div 86400" by (rule toordinal_fromordinal)
  have "(s div 86400 * 24 + s div 3600 mod 24) * 60 + s div 60 mod 60 = s div 60"
    using div_mult2_eq [of s 60 60] div_mult2_eq [of s 3600 24] div_mult_mod_eq [of "s div 3600" 24]
      div_mult_mod_eq [of "s div 60" 60] by simp
  then have "((s div 86400 * 24 + s div 3600 mod 24) * 60 + s div 60 mod 60) * 60 + s mod 60 = s"
    using div_mult_mod_eq [of s 60] by simp
  moreover have "s * 1000000 + us mod 1000000 = us"
    unfolding s_def by (rule div_mult_mod_eq)
  ultimately have "(((s div 86400 * 24 + s div 3600 mod 24) * 60 + s div 60 mod 60) * 60 + s mod 60) * 1000000
      + us mod 1000000 = us" by simp
  then have "instant_of (datetime_of t) = int us"
    unfolding datetime_of_def Let_def us_def [symmetric] s_def [symmetric] instant_of.simps o
    by (simp only: option.case diff_0_right)
  with assms show ?thesis by (simp add: us_def)
qed

end
