(* ===== verification/Task.thy ===== *)
theory Task
  imports SyncFacts
begin

text \<open>
  \<open>app/tasks/sync.py\<close>: the Celery task around \<open>process_sync\<close> and its retries.  The broker is the
  step relation \<open>deliver\<close>: it hands a queued message to a worker, and what the task does with it
  (return, \<open>self.retry\<close>, raise) decides whether the message comes back, after which wait, or is
  acknowledged for good.  The ids travel as the text of a UUID, which \<open>uuid.UUID\<close> reads back.
\<close>

section \<open>The task\<close>

definition max_retries :: nat where "max_retries = 3"

definition default_retry_delay :: nat where "default_retry_delay = 30"

datatype task_result = Done | RetryAfter nat exn | GivenUp exn

definition run_sync ::
  "env \<Rightarrow> run \<Rightarrow> uuid \<Rightarrow> uuid \<Rightarrow> tenant_config \<Rightarrow> worker \<times> files \<Rightarrow> (exn + unit) \<times> worker \<times> files" where
  "run_sync env rn sync_log_id tenant_id tenant_config = process_sync env rn sync_log_id tenant_id tenant_config"

text \<open>\<open>retries\<close> is \<open>self.request.retries\<close>; \<open>self.retry\<close> raises, so nothing follows it.\<close>

definition sync_erp_data ::
  "env \<Rightarrow> run \<Rightarrow> uuid \<Rightarrow> uuid \<Rightarrow> tenant_config \<Rightarrow> nat \<Rightarrow> worker \<times> files \<Rightarrow> task_result \<times> worker \<times> files" where
  "sync_erp_data env rn sync_log_id tenant_id tenant_config retries s =
     (case run_sync env rn sync_log_id tenant_id tenant_config s of
        (Inr _, s) \<Rightarrow> (Done, s)
      | (Inl exc, s) \<Rightarrow>
          if max_retries \<le> retries then
            (case delete_upload env sync_log_id tenant_id s of
               (Inl e, s) \<Rightarrow> (GivenUp e, s)
             | (Inr _, s) \<Rightarrow> (GivenUp exc, s))
          else (RetryAfter (default_retry_delay * 2 ^ retries) exc, s))"

section \<open>Deliveries\<close>

text \<open>A message waits with the number of its retries, or is acknowledged with the result.\<close>

datatype message = Queued nat | Acked task_result

type_synonym delivery = "message \<times> nat list \<times> worker \<times> files"

text \<open>\<open>rns k\<close> is what the k-th attempt reads of its surroundings; the waits are recorded in order.\<close>

inductive deliver :: "env \<Rightarrow> (nat \<Rightarrow> run) \<Rightarrow> uuid \<Rightarrow> uuid \<Rightarrow> tenant_config \<Rightarrow> delivery \<Rightarrow> delivery \<Rightarrow> bool"
  for env rns i T tc where
  succeed: "sync_erp_data env (rns k) i T tc k s = (Done, s') \<Longrightarrow>
     deliver env rns i T tc (Queued k, waits, s) (Acked Done, waits, s')"
| retry: "sync_erp_data env (rns k) i T tc k s = (RetryAfter c e, s') \<Longrightarrow>
     deliver env rns i T tc (Queued k, waits, s) (Queued (Suc k), waits @ [c], s')"
| give_up: "sync_erp_data env (rns k) i T tc k s = (GivenUp e, s') \<Longrightarrow>
     deliver env rns i T tc (Queued k, waits, s) (Acked (GivenUp e), waits, s')"

code_pred (modes: i \<Rightarrow> i \<Rightarrow> i \<Rightarrow> i \<Rightarrow> i \<Rightarrow> i \<Rightarrow> o \<Rightarrow> bool) deliver .

inductive_cases deliverE: "deliver env rns i T tc (Queued k, waits, s) d"

inductive_simps deliver_acked: "deliver env rns i T tc (Acked r, waits, s) d"

lemmas sync_erp_data_cases = sync_erp_data_def run_sync_def

lemma task_result_cases:
  assumes "sync_erp_data env rn i T tc k s = (r, s')"
  shows "r = Done \<or> (k < max_retries \<and> (\<exists>e. r = RetryAfter (default_retry_delay * 2 ^ k) e))
    \<or> (max_retries \<le> k \<and> (\<exists>e. r = GivenUp e))"
  using assms by (auto simp: sync_erp_data_cases split: prod.splits sum.splits if_splits)

text \<open>Only an acknowledged success changes the inventory; a message that comes back finds its file.\<close>

interpretation committed: logged_invariant "\<lambda>s :: worker. se_committed s = d" for d
  by unfold_locales (simp_all add: tick_def flush_failed_def)

lemma delete_upload_committed:
  "se_committed (fst (snd (delete_upload env i T (w, fs)))) = se_committed w"
proof -
  have "se_committed (snd (sbind (set_tenant_context env T) (\<lambda>_. get_sync_log env i) (open_session w))) = se_committed w"
    unfolding set_tenant_context_def get_sync_log_def
    by (intro sbind_keeps_inv [where P = "\<lambda>s. se_committed s = se_committed w"] committed.inv_execute
        committed.inv_select) (auto simp: open_session_def split: option.splits)
  then show ?thesis
    by (auto simp: delete_upload_def split: prod.splits sum.splits bool.splits)
qed

lemma task_keeps:
  assumes "sync_erp_data env rn i T tc k (w, fs) = (r, w', fs')" and "r \<noteq> Done"
  shows "inventory (se_committed w') = inventory (se_committed w)"
    and "r = RetryAfter c e \<Longrightarrow> fs' = fs"
proof -
  obtain q u gs where p: "process_sync env rn i T tc (w, fs) = (q, u, gs)"
    by (metis prod_cases3)
  have "inventory (se_committed w') = inventory (se_committed w) \<and> (r = RetryAfter c e \<longrightarrow> fs' = fs)"
  proof (cases q)
    case (Inl e')
    then show ?thesis
      using p assms failed_sync_inventory [of env rn i T tc w fs e' u gs]
        delete_upload_committed [of env i T u gs]
      by (auto simp: sync_erp_data_cases split: prod.splits sum.splits if_splits)
  qed (use p assms in \<open>auto simp: sync_erp_data_cases\<close>)
  then show "inventory (se_committed w') = inventory (se_committed w)" "r = RetryAfter c e \<Longrightarrow> fs' = fs"
    by simp_all
qed

section \<open>Reachable deliveries\<close>

definition backoff :: "nat \<Rightarrow> nat list" where
  "backoff k = map (\<lambda>j. default_retry_delay * 2 ^ j) [0..<k]"

lemma backoff_Suc [simp]: "backoff (Suc k) = backoff k @ [default_retry_delay * 2 ^ k]"
  by (simp add: backoff_def)

text \<open>What holds of every delivery reached from the first one.\<close>

fun delivery_ok :: "worker \<times> files \<Rightarrow> delivery \<Rightarrow> bool" where
  "delivery_ok s (Queued k, waits, w, fs) \<longleftrightarrow> k \<le> max_retries \<and> waits = backoff k \<and>
     inventory (se_committed w) = inventory (se_committed (fst s)) \<and> fs = snd s"
| "delivery_ok s (Acked r, waits, w, fs) \<longleftrightarrow> (\<exists>k \<le> max_retries. waits = backoff k) \<and>
     (r \<noteq> Done \<longrightarrow> inventory (se_committed w) = inventory (se_committed (fst s)))"

lemma delivery_step:
  assumes "deliver env rns i T tc d d'" and "delivery_ok s d"
  shows "delivery_ok s d'"
  using assms
proof cases
  case (succeed k x y waits)
  then show ?thesis using assms(2) by (cases x; cases y) auto
next
  case (retry k x c e y waits)
  then show ?thesis
    using assms(2) task_result_cases [OF retry(3)]
      task_keeps [of env "rns k" i T tc k "fst x" "snd x" "RetryAfter c e" "fst y" "snd y"]
    by (cases x; cases y) auto
next
  case (give_up k x e y waits)
  then show ?thesis
    using assms(2) task_keeps(1) [of env "rns k" i T tc k "fst x" "snd x" "GivenUp e" "fst y" "snd y"]
    by (cases x; cases y) auto
qed

lemma delivery_reachable:
  "(deliver env rns i T tc)\<^sup>*\<^sup>* d d' \<Longrightarrow> delivery_ok s d \<Longrightarrow> delivery_ok s d'"
  by (induction rule: rtranclp_induct) (auto intro: delivery_step)

lemma deliver_total: "\<exists>m' waits' s'. deliver env rns i T tc (Queued k, waits, s) (m', waits', s') \<and>
   (m' = Queued (Suc k) \<and> k < max_retries \<and> waits' = waits @ [default_retry_delay * 2 ^ k] \<or>
    (\<exists>r. m' = Acked r \<and> waits' = waits))"
proof -
  obtain r s' where r: "sync_erp_data env (rns k) i T tc k s = (r, s')" by (rule prod.exhaust)
  from task_result_cases [OF r] show ?thesis
    using deliver.intros [of env rns k i T tc s] r by (metis surj_pair)
qed

lemma delivered_from:
  assumes "k \<le> max_retries"
  shows "\<exists>n r s'. n \<le> max_retries - k + 1 \<and> 0 < n \<and>
    (deliver env rns i T tc ^^ n) (Queued k, backoff k, s) (Acked r, backoff (k + n - 1), s')"
  using assms
proof (induction "max_retries - k" arbitrary: k s)
  case (0 k)
  with deliver_total [of env rns i T tc k "backoff k" s] obtain r s'
    where "deliver env rns i T tc (Queued k, backoff k, s) (Acked r, backoff k, s')" by auto
  then have "(deliver env rns i T tc ^^ 1) (Queued k, backoff k, s) (Acked r, backoff (k + 1 - 1), s')"
    by (simp only: relpowp_1 add_diff_cancel_right')
  then show ?case using "0" by (metis One_nat_def le_add2 zero_less_one)
next
  case (Suc j k)
  from deliver_total [of env rns i T tc k "backoff k" s] obtain m' w' s' where
    d: "deliver env rns i T tc (Queued k, backoff k, s) (m', w', s')"
    and m: "m' = Queued (Suc k) \<and> w' = backoff (Suc k) \<or> (\<exists>r. m' = Acked r \<and> w' = backoff k)"
    by auto
  show ?case
  proof (cases "m' = Queued (Suc k)")
    case True
    have "j = max_retries - Suc k" "Suc k \<le> max_retries" using Suc by simp_all
    from Suc(1) [OF this, of s'] obtain n r t where n: "n \<le> max_retries - Suc k + 1" "0 < n"
      and "(deliver env rns i T tc ^^ n) (Queued (Suc k), backoff (Suc k), s') (Acked r, backoff (Suc k + n - 1), t)"
      by blast
    moreover have "deliver env rns i T tc (Queued k, backoff k, s) (Queued (Suc k), backoff (Suc k), s')"
      using d m True by auto
    ultimately have "(deliver env rns i T tc ^^ Suc n) (Queued k, backoff k, s) (Acked r, backoff (k + Suc n - 1), t)"
      using relpowp_Suc_I2 [of "deliver env rns i T tc"] by (metis add_Suc_shift)
    moreover have "Suc n \<le> max_retries - k + 1" using n Suc by linarith
    ultimately show ?thesis by (metis zero_less_Suc)
  next
    case False
    with m d obtain r where "deliver env rns i T tc (Queued k, backoff k, s) (Acked r, backoff k, s')"
      by auto
    then have "(deliver env rns i T tc ^^ 1) (Queued k, backoff k, s) (Acked r, backoff (k + 1 - 1), s')"
      by (simp only: relpowp_1 add_diff_cancel_right')
    moreover have "1 \<le> max_retries - k + 1" by simp
    ultimately show ?thesis by (metis zero_less_one)
  qed
qed

end
