(* ===== verification/Upload.thy ===== *)
theory Upload
  imports Auth Csv Times Task
begin

text \<open>
  \<open>app/routes/integrations.py\<close>: taking an upload and handing it to a worker, the status of a job, and
  the CSV template.  Celery's broker and the disk are parameters.
\<close>

section \<open>The surroundings\<close>

text \<open>What the route sends: the ids travel as text, the configuration as JSON.\<close>

record task_message =
  tm_sync_log_id :: string
  tm_tenant_id :: string
  tm_tenant_config :: "(string, json) pydict"

text \<open>
  Whether the disk takes a file and the broker a message, and the order in which the set of the
  extensions is listed.
\<close>

record outside =
  os_disk :: "string \<Rightarrow> bool"
  os_broker :: "task_message \<Rightarrow> bool"
  os_extensions :: "string list"

type_synonym portal = "server \<times> files \<times> task_message list"

type_synonym 'a action = "portal \<Rightarrow> (http_error + 'a) \<times> portal"

definition on_server :: "'a request \<Rightarrow> 'a action" where
  "on_server m = (\<lambda>(s, fs, q). case m s of (r, s) \<Rightarrow> (r, s, fs, q))"

definition refuse :: "nat \<Rightarrow> string \<Rightarrow> 'a action" where
  "refuse status detail = on_server (raise_http status detail False)"

section \<open>The form\<close>

record upload_form =
  uf_entity_type :: string
  uf_product_sku_code :: string
  uf_product_name :: string
  uf_product_category :: string
  uf_product_unit_of_measure :: string
  uf_product_unit_cost :: string
  uf_product_selling_price :: string
  uf_transaction_sku_code :: string
  uf_transaction_location :: string
  uf_transaction_type :: string
  uf_transaction_quantity :: string
  uf_transaction_unit_cost :: string
  uf_transaction_reference :: string
  uf_transaction_date :: string
  uf_batch_sku_code :: string
  uf_batch_no :: string
  uf_batch_manufactured_date :: string
  uf_batch_expiry_date :: string
  uf_batch_quantity :: string
  uf_batch_location :: string

text \<open>FastAPI takes the default for a field that is missing or empty, and refuses a value that is no \<open>Literal\<close>.\<close>

definition form_field :: "(string, string) pydict \<Rightarrow> string \<Rightarrow> string \<Rightarrow> string" where
  "form_field form name d = (case map_of form name of None \<Rightarrow> d | Some v \<Rightarrow> if v = [] then d else v)"

definition form_of :: "(string, string) pydict \<Rightarrow> upload_form option" where
  "form_of form =
     (let f = form_field form; e = f ''entity_type'' ''products'' in
      if e \<notin> set [''products'', ''transactions'', ''batches''] then None else Some
       \<lparr>uf_entity_type = e,
        uf_product_sku_code = f ''product_sku_code_column'' ''SKU Code'',
        uf_product_name = f ''product_name_column'' ''Product Name'',
        uf_product_category = f ''product_category_column'' ''Category'',
        uf_product_unit_of_measure = f ''product_unit_of_measure_column'' ''UOM'',
        uf_product_unit_cost = f ''product_unit_cost_column'' ''Unit Cost'',
        uf_product_selling_price = f ''product_selling_price_column'' ''Selling Price'',
        uf_transaction_sku_code = f ''transaction_sku_code_column'' ''SKU Code'',
        uf_transaction_location = f ''transaction_location_column'' ''Location'',
        uf_transaction_type = f ''transaction_type_column'' ''Transaction Type'',
        uf_transaction_quantity = f ''transaction_quantity_column'' ''Quantity'',
        uf_transaction_unit_cost = f ''transaction_unit_cost_column'' ''Unit Cost'',
        uf_transaction_reference = f ''transaction_reference_column'' ''Reference No'',
        uf_transaction_date = f ''transaction_date_column'' ''Transaction Date'',
        uf_batch_sku_code = f ''batch_sku_code_column'' ''SKU Code'',
        uf_batch_no = f ''batch_no_column'' ''Batch No'',
        uf_batch_manufactured_date = f ''batch_manufactured_date_column'' ''MFD'',
        uf_batch_expiry_date = f ''batch_expiry_date_column'' ''EXP'',
        uf_batch_quantity = f ''batch_quantity_column'' ''Quantity'',
        uf_batch_location = f ''batch_location_column'' ''Location''\<rparr>)"

definition csv_mapping_from_form :: "upload_form \<Rightarrow> (string, string) pydict" where
  "csv_mapping_from_form f =
     (if uf_entity_type f = ''transactions'' then
        [(''sku_code'', uf_transaction_sku_code f), (''location_name'', uf_transaction_location f),
         (''transaction_type'', uf_transaction_type f), (''quantity'', uf_transaction_quantity f),
         (''unit_cost_paise'', uf_transaction_unit_cost f), (''reference_no'', uf_transaction_reference f),
         (''transaction_date'', uf_transaction_date f)]
      else if uf_entity_type f = ''batches'' then
        [(''sku_code'', uf_batch_sku_code f), (''batch_no'', uf_batch_no f),
         (''manufactured_date'', uf_batch_manufactured_date f), (''expiry_date'', uf_batch_expiry_date f),
         (''quantity'', uf_batch_quantity f), (''location_name'', uf_batch_location f)]
      else
        [(''sku_code'', uf_product_sku_code f), (''name'', uf_product_name f),
         (''category'', uf_product_category f), (''unit_of_measure'', uf_product_unit_of_measure f),
         (''unit_cost_paise'', uf_product_unit_cost f), (''selling_price_paise'', uf_product_selling_price f)])"

section \<open>Taking an upload\<close>

definition ALLOWED_EXTENSIONS :: "string set" where
  "ALLOWED_EXTENSIONS = {''.csv'', ''.xlsx''}"

text \<open>\<open>filename.lower()[filename.rfind("."):] if "." in filename else ""\<close>.\<close>

definition upload_extension :: "string \<Rightarrow> string" where
  "upload_extension filename =
     (if CHR ''.'' \<in> set filename then drop (length (before_last_dot filename)) (lower filename) else [])"

text \<open>
  \<open>{**config, "entity_type": ..., "csv_mappings": {**config.get("csv_mappings", {}), ...}}\<close>; what is
  no mapping cannot be spread.
\<close>

definition upload_config :: "tenant option \<Rightarrow> upload_form \<Rightarrow> http_error + (string, json) pydict" where
  "upload_config tenant f =
     (let config = (case tenant of None \<Rightarrow> [] | Some t \<Rightarrow> get_or (tn_config t) []);
          mapping = JObj (map (\<lambda>(k, v). (k, JStr v)) (csv_mapping_from_form f));
          merged = (\<lambda>ms. dict_set ''csv_mappings'' (JObj (dict_set (uf_entity_type f) mapping ms))
            (dict_set ''entity_type'' (JStr (uf_entity_type f)) config))
      in case map_of config ''csv_mappings'' of
           None \<Rightarrow> Inr (merged [])
         | Some (JObj ms) \<Rightarrow> Inr (merged ms)
         | Some _ \<Rightarrow> Inl (Unhandled TypeError))"

definition delay :: "outside \<Rightarrow> task_message \<Rightarrow> unit action" where
  "delay os m = (\<lambda>(s, fs, q).
     if os_broker os m then (Inr (), s, fs, q @ [m]) else (Inl (Unhandled BrokerError), s, fs, q))"

record upload_response =
  up_job_id :: string
  up_status :: string

definition start_upload :: "web \<Rightarrow> outside \<Rightarrow> uuid \<Rightarrow> string \<Rightarrow> bytes \<Rightarrow> sync_log action" where
  "start_upload web os tenant_id filename content = (\<lambda>(s, fs, q).
     case start_sync (wb_env web) (os_disk os) (st_upload_dir (wb_settings web)) tenant_id filename content ''csv'' (s, fs) of
       (Inl e, s, fs) \<Rightarrow> (Inl (Unhandled e), s, fs, q)
     | (Inr l, s, fs) \<Rightarrow> (Inr l, s, fs, q))"

text \<open>The body of \<open>upload_file\<close> for an authorized user.\<close>

definition take_upload :: "web \<Rightarrow> outside \<Rightarrow> user \<Rightarrow> string \<Rightarrow> bytes \<Rightarrow> upload_form \<Rightarrow> upload_response action" where
  "take_upload web os current_user name content f =
     (let filename = (if name = [] then ''upload'' else name); mb = st_max_upload_mb (wb_settings web) in
      if upload_extension filename \<notin> ALLOWED_EXTENSIONS
        then refuse 400 (''Unsupported file type. Allowed: '' @ commas (os_extensions os))
      else if content = [] then refuse 400 ''Empty file''
      else if mb * 1024 * 1024 < int (length content)
        then refuse 413 (''File exceeds '' @ show_int mb @ ''MB limit'')
      else
        sbind (on_server (calling (get_tenant_by_id (wb_env web) (u_tenant current_user)))) (\<lambda>tenant.
        sbind (slift (upload_config tenant f)) (\<lambda>config.
        sbind (start_upload web os (u_tenant current_user) filename content) (\<lambda>l.
        sbind (delay os \<lparr>tm_sync_log_id = uuid_text (sl_id l), tm_tenant_id = uuid_text (u_tenant current_user),
                 tm_tenant_config = config\<rparr>) (\<lambda>_.
        sreturn \<lparr>up_job_id = uuid_text (sl_id l), up_status = status_value (sl_status l)\<rparr>)))))"

text \<open>The file is given by its name, empty if there is none, and its bytes.\<close>

definition upload_file ::
  "web \<Rightarrow> outside \<Rightarrow> clock \<Rightarrow> string option \<Rightarrow> (string \<times> bytes) option \<Rightarrow> (string, string) pydict
     \<Rightarrow> upload_response action" where
  "upload_file web os clock token file form =
     sbind (on_server (get_current_active_user web clock token)) (\<lambda>current_user.
     sbind (on_server (require_role [OWNER, ADMIN, OPS] current_user)) (\<lambda>_.
     case (file, form_of form) of
       (Some (name, content), Some f) \<Rightarrow> take_upload web os current_user name content f
     | _ \<Rightarrow> refuse 422 ''Unprocessable Entity''))"

section \<open>The status of a job\<close>

record job_status =
  js_job_id :: string
  js_status :: string
  js_records_processed :: int
  js_records_failed :: int
  js_total_records :: int
  js_errors :: "json list"
  js_data_quality_score :: "pyfloat option"
  js_started_at :: "string option"
  js_completed_at :: "string option"

definition is_dict :: "json \<Rightarrow> bool" where
  "is_dict j = (case j of JObj _ \<Rightarrow> True | _ \<Rightarrow> False)"

definition last_errors :: "json list \<Rightarrow> json list" where
  "last_errors es = drop (length es - 50) es"

definition iso_time :: "instant option \<Rightarrow> string option" where
  "iso_time t = map_option (\<lambda>t. isoformat (datetime_of t)) t"

definition job_status_of :: "sync_log \<Rightarrow> http_error + job_status" where
  "job_status_of l =
     (let es = last_errors (get_or (sl_errors l) []) in
      if list_all is_dict es then Inr
        \<lparr>js_job_id = uuid_text (sl_id l), js_status = status_value (sl_status l),
         js_records_processed = sl_records_processed l, js_records_failed = sl_records_failed l,
         js_total_records = sl_total_records l, js_errors = es,
         js_data_quality_score = sl_data_quality_score l,
         js_started_at = iso_time (sl_started_at l), js_completed_at = iso_time (sl_completed_at l)\<rparr>
      else Inl (Unhandled (ValidationError ''errors'')))"

text \<open>A path parameter that is no UUID is a 422.\<close>

definition upload_status :: "web \<Rightarrow> clock \<Rightarrow> string option \<Rightarrow> uuid option \<Rightarrow> job_status request" where
  "upload_status web clock token job_id =
     sbind (get_current_active_user web clock token) (\<lambda>current_user.
     case job_id of None \<Rightarrow> raise_http 422 ''Unprocessable Entity'' False
     | Some i \<Rightarrow>
       sbind (calling (get_sync_log (wb_env web) i)) (\<lambda>found s.
       case (if found then job_row s else None) of
         None \<Rightarrow> raise_http 404 ''Job not found'' False s
       | Some l \<Rightarrow>
         if sl_tenant l \<noteq> u_tenant current_user then raise_http 404 ''Job not found'' False s
         else slift (job_status_of l) s))"

section \<open>The template\<close>

record file_response =
  fr_content :: string
  fr_media_type :: string
  fr_disposition :: string

definition template_rows :: "string list list" where
  "template_rows =
     [[''SKU Code'', ''Product Name'', ''Category'', ''UOM'', ''Unit Cost'', ''Selling Price''],
      [''EXAMPLE-001'', ''Sample Product'', ''General'', ''pcs'', ''100.00'', ''150.00'']]"

definition download_template :: "web \<Rightarrow> clock \<Rightarrow> string option \<Rightarrow> file_response request" where
  "download_template web clock token =
     sbind (get_current_active_user web clock token) (\<lambda>_.
     sreturn \<lparr>fr_content = csv_text template_rows, fr_media_type = ''text/csv'',
       fr_disposition = ''attachment; filename=nexus-inventory-products.csv''\<rparr>)"

section \<open>What the worker is given\<close>

text \<open>
  The configuration of a run (\<open>Sync\<close>) from the JSON of the message.  The mapping of another entity
  type that is no dictionary of texts is dropped, for a run reads only the one of its own.
\<close>

fun string_map :: "json \<Rightarrow> (string, string) pydict option" where
  "string_map (JObj kvs) = (if list_all (\<lambda>(k, v). case v of JStr _ \<Rightarrow> True | _ \<Rightarrow> False) kvs
     then Some (map (\<lambda>(k, v). (k, case v of JStr s \<Rightarrow> s | _ \<Rightarrow> [])) kvs) else None)"
| "string_map _ = None"

definition config_of :: "(string, json) pydict \<Rightarrow> tenant_config" where
  "config_of config =
     \<lparr>tc_csv_mappings = (case map_of config ''csv_mappings'' of
        Some (JObj ms) \<Rightarrow> Some (List.map_filter (\<lambda>(k, v). map_option (Pair k) (string_map v)) ms)
      | _ \<Rightarrow> None),
      tc_entity_type = (case map_of config ''entity_type'' of Some (JStr e) \<Rightarrow> Some e | _ \<Rightarrow> None)\<rparr>"

end
