(* ===== verification/AuthFacts.thy ===== *)
theory AuthFacts
  imports Auth
begin

text \<open>
  What every request of \<open>app/routes/auth.py\<close> keeps.  The locale \<open>server_invariant\<close> names the few
  changes the requests are made of (a flush, a commit, an inserted viewer, a login time, a stored or
  deleted Redis key); an invariant that these keep is kept by every route and every sequence of them.
\<close>

definition issue_key :: "uuid \<Rightarrow> string" where
  "issue_key i = REFRESH_TOKEN_PREFIX @ uuid_hex i"

definition store_key :: "string \<times> instant \<Rightarrow> server \<Rightarrow> server" where
  "store_key x s = s\<lparr>se_next_id := Suc (se_next_id s), sv_calls := Suc (sv_calls s),
     sv_redis := (sv_redis s)(issue_key (se_next_id s) \<mapsto> x)\<rparr>"

definition drop_key :: "string \<Rightarrow> server \<Rightarrow> server" where
  "drop_key k s = s\<lparr>sv_calls := Suc (sv_calls s), sv_redis := (sv_redis s)(k := None)\<rparr>"

definition touch_users :: "uuid \<Rightarrow> instant \<Rightarrow> instant \<Rightarrow> db \<Rightarrow> db" where
  "touch_users i now sql d = d\<lparr>tb_users := map (\<lambda>u. if u_id u = i then set_last_login now sql u else u) (tb_users d)\<rparr>"

locale server_invariant = session_invariant I for I :: "server \<Rightarrow> bool" +
  assumes inv_open: "I s \<Longrightarrow> I (open_admin s)"
    and inv_commit: "I s \<Longrightarrow> d = se_db s \<Longrightarrow> I (s\<lparr>se_committed := d, se_tx := n\<rparr>)"
    and inv_restart: "I s \<Longrightarrow> d = se_committed s \<Longrightarrow> I (s\<lparr>se_db := d, se_state := TxActive, se_tx := n\<rparr>)"
    and inv_viewer: "I s \<Longrightarrow> references_ok (se_db s) (InsertUser (new_user (se_next_id s) now e h t VIEWER))
       \<Longrightarrow> I (put_user (new_user (se_next_id s) now e h t VIEWER) s)"
    and inv_touch: "I s \<Longrightarrow> d = touch_users i now sql (se_db s) \<Longrightarrow> I (s\<lparr>se_db := d\<rparr>)"
    and inv_id: "I s \<Longrightarrow> n = Suc (se_next_id s) \<Longrightarrow> I (s\<lparr>se_next_id := n\<rparr>)"
    and inv_calls: "I s \<Longrightarrow> I (s\<lparr>sv_calls := n\<rparr>)"
    and inv_store: "I s \<Longrightarrow> I (store_key x s)"
    and inv_drop: "I s \<Longrightarrow> I (drop_key k s)"
begin

lemmas keep_bind = sbind_keeps_inv [where P = I]

lemma keep_calling: "I (snd (m s)) \<Longrightarrow> I (snd (calling m s))"
  by (auto simp: calling_def split: prod.splits sum.splits)

lemma keep_raise [simp]: "I s \<Longrightarrow> I (snd (raise_http n d b s))"
  by (simp add: raise_http_def)

lemma keep_queries:
  "I s \<Longrightarrow> I (snd (get_user_by_email env e s))" "I s \<Longrightarrow> I (snd (get_user_by_id env i s))"
  "I s \<Longrightarrow> I (snd (get_tenant_by_id env i s))"
  by (simp_all add: get_user_by_email_def get_user_by_id_def get_tenant_by_id_def inv_select)

lemma keep_refresh_user: "I s \<Longrightarrow> I (snd (refresh_user env i s))"
  unfolding refresh_user_def by (rule keep_bind) (auto simp: keep_queries split: option.splits)

lemma keep_commit: "I s \<Longrightarrow> I (snd (commit env s))"
  unfolding commit_def
  by (rule keep_bind) (auto simp: inv_flush_log inv_commit inv_restart intro!: inv_in_flush inv_send)

lemma keep_create_user: "I s \<Longrightarrow> I (snd (create_user env e h t VIEWER s))"
proof -
  let ?u = "new_user (se_next_id s) (sql_now env s) e h t VIEWER"
  assume s: "I s"
  obtain r w where w: "flush_log env s = (r, w)" by fastforce
  with inv_flush_log [OF s, of env] flush_log_const(3) [of env s]
  have J: "I w" "se_next_id w = se_next_id s" by simp_all
  have "I (snd (send env (InsertUser ?u) (\<lambda>s. (Inr (), put_user ?u s)) w))"
  proof (rule inv_send)
    assume a: "I (tick w)" "answer_of env w (InsertUser ?u) = Accepted"
    then have "references_ok (se_db (tick w)) (InsertUser ?u)"
      by (simp add: answer_of_def tick_def split: if_splits)
    then show "I (snd (Inr (), put_user ?u (tick w)))"
      using inv_viewer [OF a(1), of "sql_now env s" e h t] J by (simp add: tick_def)
  qed (use J in simp)
  then have "I (snd (add_and_flush env (InsertUser ?u) (\<lambda>s. (Inr (), put_user ?u s)) s))"
    using J w by (cases r) (auto simp: add_and_flush_def sbind_def intro!: inv_in_flush)
  then show ?thesis
    unfolding create_user_def Let_def by (rule keep_bind) (simp add: keep_refresh_user)
qed

lemma keep_create_viewer: "I s \<Longrightarrow> I (snd (create_viewer web e p t s))"
  unfolding create_viewer_def Let_def
  by (intro keep_bind keep_calling keep_queries, assumption)
    (auto intro!: keep_bind keep_calling keep_queries keep_create_user keep_commit keep_refresh_user inv_id
      split: option.splits if_splits)

lemma keep_touch: "I s \<Longrightarrow> I (snd (touch_login env now u s))"
  by (auto simp: touch_login_def touch_users_def [symmetric] intro!: inv_in_flush inv_send inv_touch)

lemma keep_redis:
  "I s \<Longrightarrow> (\<And>s. I s \<Longrightarrow> I (s\<lparr>sv_calls := Suc (sv_calls s), sv_redis := snd (f (sv_redis s))\<rparr>))
     \<Longrightarrow> I (snd (redis_call web f s))"
  by (auto simp: redis_call_def Let_def inv_calls split: prod.splits) (metis snd_conv)

lemma keep_getdel: "I s \<Longrightarrow> I (snd (redis_call web (redis_getdel k now) s))"
  "I s \<Longrightarrow> I (snd (redis_call web (redis_delete k) s))"
  using inv_drop by (auto intro!: keep_redis simp: redis_getdel_def redis_delete_def drop_key_def)

lemma keep_issue: "I s \<Longrightarrow> I (snd (issue_tokens web clock u t r s))"
  using inv_store [of s] inv_calls [OF inv_id [of s]]
  by (simp add: issue_tokens_def Let_def create_refresh_token_def sbind_def redis_call_def redis_set_def
      store_key_def issue_key_def)

lemma keep_authenticate: "I s \<Longrightarrow> I (snd (authenticate web clock u p s))"
  unfolding authenticate_def Let_def bad_credentials_def
  by (intro keep_bind keep_calling keep_queries, assumption)
    (auto intro!: keep_bind keep_calling keep_touch keep_commit keep_issue split: option.splits)

lemma keep_subject: "I s \<Longrightarrow> I (snd (bad s)) \<Longrightarrow> I (snd (user_of_subject web sub bad s))"
  by (auto simp: user_of_subject_def split: sum.splits exn.splits intro!: keep_calling keep_queries)

lemma keep_refresh_tokens: "I s \<Longrightarrow> I (snd (refresh_tokens web clock t s))"
  by (auto simp: refresh_tokens_def split: option.splits
      intro!: keep_bind keep_getdel keep_subject keep_issue)

lemma keep_logout: "I s \<Longrightarrow> I (snd (logout_token web clock t s))"
  by (auto simp: logout_token_def split: option.splits intro!: keep_getdel)

lemma keep_token_user: "I s \<Longrightarrow> I (snd (get_current_user_from_token web clock t s))"
  by (auto simp: get_current_user_from_token_def credentials_exception_def split: option.splits
      intro!: keep_bind keep_subject)

lemma keep_current_user: "I s \<Longrightarrow> I (snd (get_current_active_user web clock t s))"
  unfolding get_current_active_user_def
  by (rule keep_bind) (auto simp: get_current_user_def intro!: keep_token_user inv_open split: option.splits)

lemma keep_response: "I s \<Longrightarrow> I (snd (user_response_of web u s))"
  by (simp add: user_response_of_def split: option.splits)

lemma keep_respond: "I (snd r) \<Longrightarrow> I (snd (respond f r))"
  by (auto simp: respond_def split: prod.splits sum.splits)

lemma serve_keeps: "I s \<Longrightarrow> I (snd (serve web clock c s))"
  by (cases c)
    (auto simp: login_def refresh_def logout_def create_tenant_user_def get_me_def require_role_def
      token_response_of_def split: option.splits
      intro!: keep_respond keep_bind keep_authenticate keep_refresh_tokens keep_logout keep_current_user
        keep_create_viewer keep_response inv_open)

lemma serves_keeps: "serves web s tr v \<Longrightarrow> I s \<Longrightarrow> I v"
  by (induction rule: serves.induct) (metis serve_keeps snd_conv)+

end

section \<open>Keys\<close>

text \<open>
  Every key of Redis was issued, and a key that was issued and is gone does not come back: the ids of
  two tokens differ as long as fewer than 2^128 were drawn.
\<close>

definition keys_issued :: "server \<Rightarrow> bool" where
  "keys_issued s \<longleftrightarrow> dom (sv_redis s) \<subseteq> issue_key ` {..<se_next_id s}"

definition key_dead :: "string \<Rightarrow> server \<Rightarrow> bool" where
  "key_dead k s \<longleftrightarrow> (se_next_id s \<le> 2 ^ 128 \<longrightarrow>
     sv_redis s k = None \<and> (\<exists>n < se_next_id s. k = issue_key n))"

lemma issue_key_inject: "i < 2 ^ 128 \<Longrightarrow> j < 2 ^ 128 \<Longrightarrow> issue_key i = issue_key j \<longleftrightarrow> i = j"
  by (simp add: issue_key_def uuid_hex_inject)

interpretation issued: server_invariant keys_issued
  by unfold_locales
    (auto simp: keys_issued_def tick_def flush_failed_def open_admin_def put_user_def store_key_def drop_key_def
      lessThan_Suc split: if_splits)

interpretation gone: server_invariant "key_dead k" for k
proof unfold_locales
  fix s x
  assume d: "key_dead k s"
  show "key_dead k (store_key x s)"
    unfolding key_dead_def
  proof
    assume b: "se_next_id (store_key x s) \<le> 2 ^ 128"
    with d obtain n where n: "n < se_next_id s" "k = issue_key n" "sv_redis s k = None"
      by (auto simp: key_dead_def store_key_def)
    with b have "k \<noteq> issue_key (se_next_id s)"
      using issue_key_inject [of n "se_next_id s"] by (simp add: store_key_def)
    with n show "sv_redis (store_key x s) k = None \<and> (\<exists>n < se_next_id (store_key x s). k = issue_key n)"
      by (auto simp: store_key_def intro: less_SucI)
  qed
qed (auto simp: key_dead_def tick_def flush_failed_def open_admin_def put_user_def drop_key_def
    intro: less_SucI)

section \<open>Users\<close>

text \<open>The users that are more than viewers, with what makes them so.\<close>

definition privileged :: "db \<Rightarrow> (uuid \<times> uuid \<times> string \<times> UserRole \<times> string \<times> bool) list" where
  "privileged d = map (\<lambda>u. (u_id u, u_tenant u, u_email u, u_role u, u_hashed_password u, u_is_active u))
     (filter (\<lambda>u. u_role u \<noteq> VIEWER) (tb_users d))"

definition same_privileged ::
  "(uuid \<times> uuid \<times> string \<times> UserRole \<times> string \<times> bool) list \<Rightarrow> server \<Rightarrow> bool" where
  "same_privileged x s \<longleftrightarrow> privileged (se_db s) = x \<and> privileged (se_committed s) = x"

lemma privileged_touch [simp]: "privileged (touch_users i now sql d) = privileged d"
proof -
  have "map (\<lambda>u. (u_id u, u_tenant u, u_email u, u_role u, u_hashed_password u, u_is_active u))
      (filter (\<lambda>u. u_role u \<noteq> VIEWER) (map (\<lambda>u. if u_id u = i then set_last_login now sql u else u) us)) =
    map (\<lambda>u. (u_id u, u_tenant u, u_email u, u_role u, u_hashed_password u, u_is_active u))
      (filter (\<lambda>u. u_role u \<noteq> VIEWER) us)" for us
    by (induction us) (auto simp: set_last_login_def)
  then show ?thesis by (simp add: privileged_def touch_users_def)
qed

lemma privileged_sel [simp]:
  "privileged (update_log_row c t d) = privileged d"
  "u_role u = VIEWER \<Longrightarrow> privileged (d\<lparr>tb_users := tb_users d @ [u]\<rparr>) = privileged d"
  by (simp_all add: privileged_def update_log_row_def)

lemma new_viewer [simp]:
  "u_role (new_user i now e h t r) = r" "u_id (new_user i now e h t r) = i"
  "u_email (new_user i now e h t r) = e" "u_tenant (new_user i now e h t r) = t"
  "u_is_active (new_user i now e h t r)"
  by (simp_all add: new_user_def)

interpretation privileged: server_invariant "same_privileged x" for x
  by unfold_locales
    (auto simp: same_privileged_def tick_def flush_failed_def open_admin_def put_user_def store_key_def
      drop_key_def)

text \<open>Ids and emails are unique, and every user belongs to a tenant.\<close>

definition wf_users :: "nat \<Rightarrow> db \<Rightarrow> bool" where
  "wf_users n d \<longleftrightarrow> distinct (map u_id (tb_users d)) \<and> distinct (map u_email (tb_users d)) \<and>
     (\<forall>u \<in> set (tb_users d). u_id u < n \<and> tenant_exists d (u_tenant u))"

definition users_ok :: "server \<Rightarrow> bool" where
  "users_ok s \<longleftrightarrow> wf_users (se_next_id s) (se_db s) \<and> wf_users (se_next_id s) (se_committed s)"

lemma wf_users_Suc: "wf_users n d \<Longrightarrow> wf_users (Suc n) d"
  by (auto simp: wf_users_def intro: less_SucI)

lemma touched_users [simp]:
  "map u_id (map (\<lambda>u. if u_id u = i then set_last_login now sql u else u) us) = map u_id us"
  "map u_email (map (\<lambda>u. if u_id u = i then set_last_login now sql u else u) us) = map u_email us"
  by (auto simp: set_last_login_def)

lemma wf_users_touch: "wf_users n d \<Longrightarrow> wf_users n (touch_users i now sql d)"
  unfolding wf_users_def touch_users_def
  by (auto simp: tenant_exists_def set_last_login_def simp del: map_map simp flip: o_def)

lemma wf_users_log [simp]: "wf_users n (update_log_row c t d) = wf_users n d"
  by (simp add: wf_users_def update_log_row_def tenant_exists_def)

lemma wf_users_new:
  assumes "wf_users n d" and "references_ok d (InsertUser u)" and "u_id u = n"
  shows "wf_users (Suc n) (d\<lparr>tb_users := tb_users d @ [u]\<rparr>)"
  using assms by (auto simp: wf_users_def tenant_exists_def intro: less_SucI)

interpretation users: server_invariant users_ok
  by unfold_locales
    (auto simp: users_ok_def tick_def flush_failed_def open_admin_def put_user_def store_key_def
      drop_key_def wf_users_touch wf_users_Suc wf_users_new)

section \<open>What the requests return\<close>

lemma select_untracked:
  assumes "se_log s = None" and "select env st table tenant_of matches s = (Inr r, t)"
  shows "t = tick s"
    "one_or_none (filter (\<lambda>r. rls_visible (se_context s) (tenant_of r) \<and> matches r) (table (se_db s))) = Inr r"
  using assms by (auto simp: select_def execute_def sbind_def flush_log_def tick_def dest!: send_Inr)

lemma more_const:
  "session.more (snd (send env st eff s)) = session.more s"
  "se_next_id (snd (send env st eff s)) = se_next_id s"
  if "\<And>t. session.more (snd (eff t)) = session.more t" "\<And>t. se_next_id (snd (eff t)) = se_next_id t"
  using that by (auto simp: send_def tick_def split: tx_state.splits answer.splits)

lemma in_flush_more:
  "session.more (snd (in_flush r)) = session.more (snd r)" "se_next_id (snd (in_flush r)) = se_next_id (snd r)"
  by (auto simp: in_flush_def flush_failed_def split: prod.splits sum.splits)

lemma commit_more:
  "session.more (snd (commit env s)) = session.more s" "se_next_id (snd (commit env s)) = se_next_id s"
proof -
  obtain r t where t: "flush_log env s = (r, t)" by fastforce
  have "session.more t = session.more s" "se_next_id t = se_next_id s"
    using flush_log_const(3,5) [of env s] t by simp_all
  with t show "session.more (snd (commit env s)) = session.more s" "se_next_id (snd (commit env s)) = se_next_id s"
    by (cases r; simp add: commit_def sbind_def in_flush_more more_const)+
qed

lemma touch_more:
  "session.more (snd (touch_login env now u s)) = session.more s"
  "se_next_id (snd (touch_login env now u s)) = se_next_id s"
  by (auto simp: touch_login_def in_flush_more more_const)

lemma more_server:
  assumes "session.more u = session.more (s :: server)"
  shows "sv_redis u = sv_redis s" "sv_calls u = sv_calls s"
  using assms by (cases u; cases s; simp)+

lemma issue_tokens_returns:
  assumes "issue_tokens web clock u t r s = (Inr tk, v)"
  shows "v = store_key (u, clock 2 + seconds (st_refresh_days (wb_settings web) * 86400)) s"
    "tp_access_token tk = create_access_token web (clock 0) u t r"
    "tp_refresh_token tk = fst (create_refresh_token web (clock 1) u t r (se_next_id s))"
    "tp_token_type tk = ''bearer''" "tp_expires_in tk = st_access_minutes (wb_settings web) * 60"
  using assms
  by (auto simp: issue_tokens_def Let_def create_refresh_token_def sbind_def redis_call_def redis_set_def
      store_key_def issue_key_def split: if_splits)

lemma open_admin_sel [simp]:
  "se_log (open_admin s) = None" "se_db (open_admin s) = se_committed s" "se_committed (open_admin s) = se_committed s"
  "se_context (open_admin s) = AdminRole" "se_next_id (open_admin s) = se_next_id s"
  "sv_redis (open_admin s) = sv_redis s" "se_state (open_admin s) = TxActive"
  by (simp_all add: open_admin_def)

lemma one_user:
  "one_or_none (filter P us) = Inr (Some u) \<Longrightarrow> u \<in> set us \<and> P u"
  by (auto simp: one_or_none_Some filter_eq_Cons_iff)

lemma authenticate_returns:
  assumes "authenticate web clock name pw (open_admin s) = (Inr tk, v)"
  obtains u w where "u \<in> set (tb_users (se_committed s))" "u_email u = lower name"
    "wb_verify web pw (u_hashed_password u)" "u_is_active u"
    "issue_tokens web (\<lambda>n. clock (Suc n)) (uuid_text (u_id u)) (uuid_text (u_tenant u)) (role_value (u_role u)) w = (Inr tk, v)"
    "se_next_id w = se_next_id s" "sv_redis w = sv_redis s"
proof -
  let ?env = "wb_env web"
  from assms obtain r x where g: "get_user_by_email ?env (lower name) (open_admin s) = (Inr r, x)"
    unfolding authenticate_def Let_def by (auto elim!: sbindE simp: calling_Inr calling_Inl)
  from select_untracked [OF _ g [unfolded get_user_by_email_def]]
  have x: "x = tick (open_admin s)" and
    r: "one_or_none (filter (\<lambda>u. u_email u = lower name) (tb_users (se_committed s))) = Inr r"
    by simp_all
  from assms g have rest: "(case r of None \<Rightarrow> bad_credentials
      | Some u \<Rightarrow> if \<not> verify_password web pw (u_hashed_password u) then bad_credentials
        else if \<not> u_is_active u then bad_credentials
        else sbind (calling (touch_login ?env (clock 0) u)) (\<lambda>_. sbind (calling (commit ?env)) (\<lambda>_.
          issue_tokens web (\<lambda>n. clock (Suc n)) (uuid_text (u_id u)) (uuid_text (u_tenant u)) (role_value (u_role u)))))
      x = (Inr tk, v)"
    by (simp add: authenticate_def Let_def sbind_def calling_def)
  show ?thesis
  proof (cases r)
    case None
    with rest show ?thesis by (simp add: bad_credentials_def raise_http_def)
  next
    case (Some u)
    with rest have u: "wb_verify web pw (u_hashed_password u)" "u_is_active u"
      by (auto simp: bad_credentials_def raise_http_def verify_password_def split: if_splits)
    with rest Some obtain a y b z where t: "touch_login ?env (clock 0) u x = (Inr a, y)" "commit ?env y = (Inr b, z)"
      and i: "issue_tokens web (\<lambda>n. clock (Suc n)) (uuid_text (u_id u)) (uuid_text (u_tenant u)) (role_value (u_role u)) z
        = (Inr tk, v)"
      by (auto simp: verify_password_def calling_Inr calling_Inl elim!: sbindE)
    have "session.more z = session.more x" "se_next_id z = se_next_id x"
      using t touch_more [of ?env "clock 0" u x] commit_more [of ?env y] by simp_all
    with x have "sv_redis z = sv_redis s" "se_next_id z = se_next_id s"
      using more_server(1) [of z x] by (simp_all add: tick_def open_admin_def)
    with that u i one_user [of _ _ u] r Some show ?thesis by auto
  qed
qed

lemma redis_call_returns:
  "redis_call web f s = (Inr v, t) \<longleftrightarrow> wb_redis web (sv_calls s) \<and> v = fst (f (sv_redis s)) \<and>
     t = s\<lparr>sv_calls := Suc (sv_calls s), sv_redis := snd (f (sv_redis s))\<rparr>"
  by (auto simp: redis_call_def Let_def split: prod.splits)

lemma raise_http_raises: "raise_http n d b s \<noteq> (Inr v, t)"
  by (simp add: raise_http_def)

lemma user_of_subject_returns:
  assumes "user_of_subject web sub bad s = (Inr r, t)" and "\<And>x t. bad s \<noteq> (Inr x, t)" and "se_log s = None"
  obtains str i where "sub = JStr str" "uuid_of_text str = Some i" "t = tick s"
    "one_or_none (filter (\<lambda>u. rls_visible (se_context s) (u_tenant u) \<and> u_id u = i) (tb_users (se_db s))) = Inr r"
proof -
  from assms(1,2) obtain i where i: "claim_uuid sub = Inr i" "get_user_by_id (wb_env web) i s = (Inr r, t)"
    by (auto simp: user_of_subject_def calling_Inr split: sum.splits exn.splits)
  then obtain str where "sub = JStr str" "uuid_of_text str = Some i"
    by (cases sub) (auto split: option.splits)
  with that i select_untracked [OF assms(3) i(2) [unfolded get_user_by_id_def]] show ?thesis by blast
qed

lemma refresh_returns:
  assumes "refresh_tokens web clock t (open_admin s) = (Inr tk, v)"
  obtains p key x expires str u w where "decode_token web (clock 0) t ''refresh'' = Some p"
    "refresh_key p = Some key" "sv_redis s key = Some (x, expires)" "clock 1 < expires"
    "map_of p ''sub'' = Some (JStr str)" "uuid_of_text str = Some (u_id u)"
    "u \<in> set (tb_users (se_committed s))" "u_is_active u"
    "issue_tokens web (\<lambda>n. clock (n + 2)) (uuid_text (u_id u)) (uuid_text (u_tenant u)) (role_value (u_role u)) w = (Inr tk, v)"
    "se_next_id w = se_next_id s" "sv_redis w = (sv_redis s)(key := None)"
proof -
  let ?gone = "raise_http 401 ''User not found or inactive'' True :: tokens request"
  from assms obtain p where p: "decode_token web (clock 0) t ''refresh'' = Some p"
    by (auto simp: refresh_tokens_def raise_http_def split: option.splits)
  with assms obtain key where key: "refresh_key p = Some key"
    by (auto simp: refresh_tokens_def split: option.splits)
  from assms p key obtain stored x where
    g: "redis_call web (redis_getdel key (clock 1)) (open_admin s) = (Inr stored, x)" and
    rest: "(if stored = None then raise_http 401 ''Refresh token revoked or expired'' True else
       (case map_of p ''sub'' of None \<Rightarrow> (\<lambda>s. (Inl (Unhandled (KeyError ''sub'')), s))
        | Some sub \<Rightarrow> sbind (user_of_subject web sub (raise_http 401 ''Invalid refresh token'' True)) (\<lambda>user.
              case user of None \<Rightarrow> ?gone
              | Some u \<Rightarrow> if \<not> u_is_active u then ?gone
                else issue_tokens web (\<lambda>n. clock (n + 2)) (uuid_text (u_id u)) (uuid_text (u_tenant u))
                       (role_value (u_role u))))) x = (Inr tk, v)"
    by (auto simp: refresh_tokens_def elim!: sbindE)
  from rest have st: "stored \<noteq> None" by (cases stored) (simp_all add: raise_http_def)
  then obtain val expires where k: "sv_redis s key = Some (val, expires)" "clock 1 < expires"
    using g by (auto simp: redis_call_returns redis_getdel_def split: option.splits if_splits)
  have x: "x = (open_admin s)\<lparr>sv_calls := Suc (sv_calls s), sv_redis := (sv_redis s)(key := None)\<rparr>"
    using g by (auto simp: redis_call_returns redis_getdel_def) (simp add: open_admin_def)
  from rest st obtain sub where sub: "map_of p ''sub'' = Some sub" by (auto split: option.splits)
  with rest st obtain user y where
    q: "user_of_subject web sub (raise_http 401 ''Invalid refresh token'' True) x = (Inr user, y)" and
    rest2: "(case user of None \<Rightarrow> ?gone
              | Some u \<Rightarrow> if \<not> u_is_active u then ?gone
                else issue_tokens web (\<lambda>n. clock (n + 2)) (uuid_text (u_id u)) (uuid_text (u_tenant u))
                       (role_value (u_role u))) y = (Inr tk, v)"
    by (auto elim!: sbindE)
  from rest2 obtain u where u: "user = Some u" "u_is_active u"
    by (auto simp: raise_http_def split: option.splits if_splits)
  have xl: "se_log x = None" using x by simp
  obtain str i where s: "sub = JStr str" "uuid_of_text str = Some i" "y = tick x"
    and one: "one_or_none (filter (\<lambda>u. rls_visible (se_context x) (u_tenant u) \<and> u_id u = i) (tb_users (se_db x))) = Inr user"
    by (rule user_of_subject_returns [OF q raise_http_raises xl])
  have "u \<in> set (tb_users (se_db x)) \<and> u_id u = i"
    using one_user [OF one [unfolded u(1)]] by simp
  then have "u \<in> set (tb_users (se_committed s))" "u_id u = i" using x by simp_all
  moreover have "se_next_id y = se_next_id s" "sv_redis y = (sv_redis s)(key := None)"
    using s x by (simp_all add: tick_def)
  ultimately show ?thesis using sub s u rest2 by (intro that [OF p key k, of str u y]) simp_all
qed

lemma refresh_user_returns:
  assumes "refresh_user env i s = (Inr u, t)" "se_log s = None"
  shows "t = tick s" "\<And>v. v \<in> set (tb_users (se_db s)) \<Longrightarrow> u_id v = i \<Longrightarrow> rls_visible (se_context s) (u_tenant v) \<Longrightarrow> v = u"
proof -
  from assms obtain r where r: "get_user_by_id env i s = (Inr r, t)" "r = Some u"
    by (auto simp: refresh_user_def elim!: sbindE split: option.splits)
  note e = select_untracked [OF assms(2) r(1) [unfolded get_user_by_id_def]]
  show "t = tick s" by (rule e)
  fix v assume "v \<in> set (tb_users (se_db s))" "u_id v = i" "rls_visible (se_context s) (u_tenant v)"
  then have "v \<in> set (filter (\<lambda>u. rls_visible (se_context s) (u_tenant u) \<and> u_id u = i) (tb_users (se_db s)))"
    by simp
  with e(2) r(2) show "v = u" by (auto simp: one_or_none_Some)
qed

lemma create_user_returns:
  assumes "create_user env e h T r s = (Inr u, t)" "se_log s = None" "se_context s = AdminRole"
  shows "u = new_user (se_next_id s) (sql_now env s) e h T r"
    "se_db t = (se_db s)\<lparr>tb_users := tb_users (se_db s) @ [u]\<rparr>" "se_log t = None"
    "references_ok (se_db s) (InsertUser u)"
    "se_context t = AdminRole"
proof -
  let ?u = "new_user (se_next_id s) (sql_now env s) e h T r"
  from assms obtain x y where a: "add_and_flush env (InsertUser ?u) (\<lambda>s. (Inr (), put_user ?u s)) s = (Inr x, y)"
    and r: "refresh_user env (u_id ?u) y = (Inr u, t)"
    by (auto simp: create_user_def Let_def elim!: sbindE)
  from a assms(2) have y: "y = put_user ?u (tick s)" "references_ok (se_db s) (InsertUser ?u)"
    by (auto simp: add_and_flush_def sbind_def flush_log_def in_flush_def answer_of_def
        split: prod.splits sum.splits if_splits dest!: send_Inr)
  then have yl: "se_log y = None" "se_context y = AdminRole" using assms by (simp_all add: put_user_def tick_def)
  note R = refresh_user_returns [OF r yl(1)]
  have "?u \<in> set (tb_users (se_db y))" using y by (simp add: put_user_def)
  with R(2) yl(2) show u: "u = ?u" by auto
  show "se_db t = (se_db s)\<lparr>tb_users := tb_users (se_db s) @ [u]\<rparr>" "se_log t = None"
    "references_ok (se_db s) (InsertUser u)" "se_context t = AdminRole"
    using R(1) y u assms by (simp_all add: put_user_def tick_def)
qed

lemma commit_untracked:
  assumes "commit env s = (Inr x, t)" "se_log s = None" "se_state s = TxActive"
  shows "se_committed t = se_db s" "se_db t = se_db s" "se_log t = None" "se_context t = se_context s"
  using assms by (auto simp: commit_def sbind_def flush_log_def in_flush_def tick_def
      split: prod.splits sum.splits dest!: send_Inr)

lemma create_viewer_returns:
  assumes "create_viewer web e p T s = (Inr u, v)" "se_log s = None" "se_context s = AdminRole"
  shows "u_role u = VIEWER" "u_tenant u = T" "u_email u = lower e" "u_is_active u"
    "\<exists>n. u_hashed_password u = wb_hash web n p"
    "\<exists>t \<in> set (tb_tenants (se_db s)). tn_id t = T \<and> tn_is_active t"
    "lower e \<notin> set (map u_email (tb_users (se_db s)))"
    "tb_users (se_committed v) = tb_users (se_db s) @ [u]"
proof -
  let ?env = "wb_env web"
  from assms(1) obtain tn x where t: "get_tenant_by_id ?env T s = (Inr tn, x)"
    unfolding create_viewer_def Let_def by (auto simp: calling_Inr elim!: sbindE)
  have x: "x = tick s" by (rule select_untracked [OF assms(2) t [unfolded get_tenant_by_id_def]])
  have tn: "one_or_none (filter (\<lambda>t. tn_id t = T) (tb_tenants (se_db s))) = Inr tn"
    using select_untracked(2) [OF assms(2) t [unfolded get_tenant_by_id_def]] assms(3) by simp
  from assms(1) t obtain tt where tt: "tn = Some tt" "tn_is_active tt"
    by (auto simp: create_viewer_def Let_def sbind_def calling_def raise_http_def split: option.splits if_splits)
  with tn show "\<exists>t \<in> set (tb_tenants (se_db s)). tn_id t = T \<and> tn_is_active t"
    by (auto simp: one_or_none_Some filter_eq_Cons_iff)
  from assms(1) t tt obtain ex y where e: "get_user_by_email ?env (lower e) x = (Inr ex, y)"
    by (auto simp: create_viewer_def Let_def calling_Inr elim!: sbindE)
  have xl: "se_log x = None" "se_context x = AdminRole" "se_db x = se_db s"
    using x assms by (simp_all add: tick_def)
  have y: "y = tick x" by (rule select_untracked [OF xl(1) e [unfolded get_user_by_email_def]])
  from assms(1) t tt e have "ex = None"
    by (auto simp: create_viewer_def Let_def sbind_def calling_def raise_http_def split: if_splits)
  with select_untracked(2) [OF xl(1) e [unfolded get_user_by_email_def]] xl
  show "lower e \<notin> set (map u_email (tb_users (se_db s)))"
    by (auto simp: one_or_none_None filter_empty_conv)
  let ?z = "y\<lparr>se_next_id := Suc (se_next_id y)\<rparr>"
  let ?h = "hash_password web p (se_next_id y)"
  from assms(1) t tt e \<open>ex = None\<close> obtain w z c d
    where c: "create_user ?env (lower e) ?h T VIEWER ?z = (Inr w, z)"
    and d: "commit ?env z = (Inr c, d)" and r: "refresh_user ?env (u_id w) d = (Inr u, v)"
    by (auto simp: create_viewer_def Let_def calling_Inr calling_Inl elim!: sbindE)
  have zl: "se_log ?z = None" "se_context ?z = AdminRole" "se_db ?z = se_db s"
    using y xl by (simp_all add: tick_def)
  note C = create_user_returns [OF c zl(1,2)]
  have "se_state z = TxActive"
    using c zl(1) by (auto simp: create_user_def Let_def refresh_user_def get_user_by_id_def select_def execute_def
        sbind_def tick_def split: prod.splits sum.splits option.splits dest!: send_Inr)
  note D = commit_untracked [OF d C(3) this]
  have dl: "se_log d = None" "se_context d = AdminRole" using D C by simp_all
  note R = refresh_user_returns [OF r dl(1)]
  have "w \<in> set (tb_users (se_db d))" using D C by simp
  with R(2) dl(2) have u: "u = w" by auto
  show "u_role u = VIEWER" "u_tenant u = T" "u_email u = lower e" "u_is_active u"
    "\<exists>n. u_hashed_password u = wb_hash web n p"
    using C(1) u by (auto simp: new_user_def hash_password_def)
  show "tb_users (se_committed v) = tb_users (se_db s) @ [u]"
    using R(1) D C zl u by (simp add: tick_def)
qed

lemma token_user_returns:
  assumes "get_current_user_from_token web clock t s = (Inr u, v)" "se_log s = None" "se_context s = AdminRole"
  obtains p str where "decode_token web (clock 0) t ''access'' = Some p" "map_of p ''sub'' = Some (JStr str)"
    "uuid_of_text str = Some (u_id u)" "u \<in> set (tb_users (se_db s))" "v = tick s"
proof -
  from assms(1) obtain p sub where p: "decode_token web (clock 0) t ''access'' = Some p" "map_of p ''sub'' = Some sub"
    by (auto simp: get_current_user_from_token_def credentials_exception_def raise_http_def split: option.splits)
  with assms(1) obtain r x where q: "user_of_subject web sub credentials_exception s = (Inr r, x)"
    and rest: "(case r of None \<Rightarrow> credentials_exception | Some u \<Rightarrow> sreturn u) x = (Inr u, v)"
    by (auto simp: get_current_user_from_token_def elim!: sbindE split: if_splits)
      (auto simp: credentials_exception_def raise_http_def)
  from rest have r: "r = Some u" "x = v" by (auto simp: credentials_exception_def raise_http_def split: option.splits)
  obtain str i where s: "sub = JStr str" "uuid_of_text str = Some i"
    "x = tick s" and one: "one_or_none (filter (\<lambda>u. rls_visible (se_context s) (u_tenant u) \<and> u_id u = i)
      (tb_users (se_db s))) = Inr r"
    by (rule user_of_subject_returns [OF q [unfolded credentials_exception_def] raise_http_raises assms(2)])
  have "u \<in> set (tb_users (se_db s)) \<and> u_id u = i"
    using one_user [OF one [unfolded r(1)]] by simp
  with that p s r show ?thesis by blast
qed

lemma active_user_returns:
  assumes "get_current_active_user web clock t s = (Inr u, v)"
  obtains tok p str where "t = Some tok" "decode_token web (clock 0) tok ''access'' = Some p"
    "map_of p ''sub'' = Some (JStr str)" "uuid_of_text str = Some (u_id u)"
    "u \<in> set (tb_users (se_committed s))" "u_is_active u" "v = tick (open_admin s)"
proof -
  from assms obtain tok where t: "t = Some tok" and a: "u_is_active u"
    and g: "get_current_user_from_token web clock tok (open_admin s) = (Inr u, v)"
    by (auto simp: get_current_active_user_def get_current_user_def raise_http_def
        elim!: sbindE split: option.splits if_splits)
  from token_user_returns [OF g] that [OF t] a show ?thesis by auto
qed

end
