(* ===== verification/AuthProps.thy ===== *)
theory AuthProps
  imports AuthFacts SyncProps
begin

text \<open>
  The properties of users and tokens.  What they rest on of PyJWT is stated as \<open>jwt_ok\<close>; the example
  at the end of the first section shows that it can hold.
\<close>

section \<open>What PyJWT promises\<close>

text \<open>
  A token that was encoded from such claims as the source makes is decoded with the same key and
  algorithm to those claims (a time as its whole seconds), if the required ones are there and it has
  not expired; and whatever the required claims and the time, a token has one payload.
\<close>

fun claim_json :: "claim \<Rightarrow> json" where
  "claim_json (ClaimText s) = JStr s"
| "claim_json (ClaimTime t) = JInt (t div 1000000)"

definition payload_of :: "(string, claim) pydict \<Rightarrow> payload" where
  "payload_of c = map (\<lambda>(k, v). (k, claim_json v)) c"

definition our_claims :: "(string, claim) pydict \<Rightarrow> bool" where
  "our_claims c \<longleftrightarrow> distinct (map fst c) \<and>
     (\<forall>(k, v) \<in> set c. k \<in> {''sub'', ''exp'', ''type'', ''jti'', ''tenant_id'', ''role''} \<and>
        (k = ''exp'' \<longleftrightarrow> (case v of ClaimTime _ \<Rightarrow> True | ClaimText _ \<Rightarrow> False)))"

definition jwt_ok :: "web \<Rightarrow> bool" where
  "jwt_ok web \<longleftrightarrow>
     (\<forall>c key alg required now e. our_claims c \<and> set required \<subseteq> fst ` set c \<and>
        map_of c ''exp'' = Some (ClaimTime e) \<and> now < seconds (e div 1000000) \<longrightarrow>
        wb_decode web (wb_encode web c key alg) key [alg] required now = Some (payload_of c)) \<and>
     (\<forall>token key algs required now p required' now' p'.
        wb_decode web token key algs required now = Some p \<and>
        wb_decode web token key algs required' now' = Some p' \<longrightarrow> p = p')"

lemma decode_same:
  assumes "jwt_ok web" "decode_token web now t ty = Some p" "decode_token web now' t ty' = Some p'"
  shows "p = p'" "ty = ty'"
proof -
  show "p = p'"
    using assms unfolding jwt_ok_def decode_token_def Let_def by (auto split: option.splits if_splits)
  then show "ty = ty'"
    using assms(2,3) by (auto simp: decode_token_def Let_def split: option.splits if_splits)
qed

lemma decode_access:
  assumes "jwt_ok web" and "now < seconds ((t + seconds (st_access_minutes (wb_settings web) * 60)) div 1000000)"
  shows "\<exists>p. decode_token web now (create_access_token web t u tid r) ''access'' = Some p \<and>
    map_of p ''sub'' = Some (JStr u) \<and> map_of p ''tenant_id'' = Some (JStr tid) \<and> map_of p ''role'' = Some (JStr r)"
  using assms
  by (simp add: jwt_ok_def decode_token_def create_access_token_def Let_def our_claims_def payload_of_def)

lemma decode_refresh:
  assumes "jwt_ok web" and "now < seconds ((t + seconds (st_refresh_days (wb_settings web) * 86400)) div 1000000)"
  shows "\<exists>p. decode_token web now (fst (create_refresh_token web t u tid r i)) ''refresh'' = Some p \<and>
    map_of p ''sub'' = Some (JStr u) \<and> refresh_key p = Some (issue_key i)"
  using assms
  by (simp add: jwt_ok_def decode_token_def create_refresh_token_def Let_def our_claims_def payload_of_def
      refresh_key_def issue_key_def)

section \<open>An example\<close>

text \<open>Tokens as plain text: each character after a plus sign, a dot at the end of a text.\<close>

definition put_text :: "string \<Rightarrow> string" where
  "put_text s = concat (map (\<lambda>c. [CHR ''+'', c]) s) @ ''.''"

fun get_text :: "string \<Rightarrow> (string \<times> string) option" where
  "get_text [] = None"
| "get_text [c] = (if c = CHR ''.'' then Some ([], []) else None)"
| "get_text (c # d # ds) = (if c = CHR ''.'' then Some ([], d # ds)
     else map_option (\<lambda>(s, r). (d # s, r)) (get_text ds))"

lemma get_put_text: "get_text (put_text s @ r) = Some (s, r)"
proof (induction s)
  case Nil
  then show ?case by (cases r) (simp_all add: put_text_def)
qed (simp add: put_text_def)

definition read_int :: "string \<Rightarrow> int" where
  "read_int s = (if take 1 s = ''-'' then - int (read_nat (drop 1 s)) else int (read_nat s))"

lemma read_show_int: "read_int (show_int i) = i"
proof -
  have "\<not> is_digit (CHR ''-'')" by (simp add: is_digit_def)
  then have "CHR ''-'' \<notin> set (show_nat n)" for n using show_nat_digits by blast
  then have "take 1 (show_nat n) \<noteq> ''-''" for n by (intro take_absent [of "CHR ''-''"]) simp_all
  then show ?thesis by (simp add: read_int_def show_int_def)
qed

fun put_claim :: "string \<times> claim \<Rightarrow> string" where
  "put_claim (k, ClaimText s) = put_text k @ ''t'' @ put_text s"
| "put_claim (k, ClaimTime t) = put_text k @ ''i'' @ put_text (show_int (t div 1000000))"

fun get_claims :: "nat \<Rightarrow> string \<Rightarrow> payload option" where
  "get_claims n [] = Some []"
| "get_claims 0 s = None"
| "get_claims (Suc n) s = (case get_text s of None \<Rightarrow> None
     | Some (k, r) \<Rightarrow> (case r of [] \<Rightarrow> None
        | t # r \<Rightarrow> (case get_text r of None \<Rightarrow> None
           | Some (v, r) \<Rightarrow> map_option (\<lambda>p. (k, if t = CHR ''t'' then JStr v else JInt (read_int v)) # p)
               (get_claims n r))))"

lemma get_put_claims: "length c \<le> n \<Longrightarrow> get_claims n (concat (map put_claim c)) = Some (payload_of c)"
proof (induction c arbitrary: n)
  case (Cons x c)
  then obtain m where m: "n = Suc m" "length c \<le> m" by (cases n) auto
  have ne: "put_text k @ s \<noteq> []" for k s by (simp add: put_text_def)
  have step: "get_claims (Suc m) s = (case get_text s of None \<Rightarrow> None
     | Some (k, r) \<Rightarrow> (case r of [] \<Rightarrow> None
        | t # r \<Rightarrow> (case get_text r of None \<Rightarrow> None
           | Some (v, r) \<Rightarrow> map_option (\<lambda>p. (k, if t = CHR ''t'' then JStr v else JInt (read_int v)) # p)
               (get_claims m r))))" if "s \<noteq> []" for s
    using that by (cases s) simp_all
  obtain k v where x: "x = (k, v)" by fastforce
  show ?case
    using Cons.IH [OF m(2)]
    by (cases v) (simp_all add: x m(1) step ne get_put_text read_show_int payload_of_def)
qed (simp add: payload_of_def)

lemma put_claims_length: "length c \<le> length (concat (map put_claim c))"
proof (induction c)
  case (Cons x c)
  have "put_claim x \<noteq> []" by (cases x rule: put_claim.cases) (simp_all add: put_text_def)
  then obtain y ys where "put_claim x = y # ys" by (cases "put_claim x") auto
  with Cons show ?case by simp
qed simp

definition example_web :: web where
  "example_web = \<lparr>wb_settings = default_settings ''d'' ''r'' ''q'' (replicate 32 (CHR ''k'')),
     wb_env = example_env,
     wb_encode = \<lambda>c key alg. concat (map put_claim c),
     wb_decode = \<lambda>t key algs required now. (case get_claims (length t) t of None \<Rightarrow> None
       | Some p \<Rightarrow> if list_all (\<lambda>r. r \<in> fst ` set p) required
           \<and> (case map_of p ''exp'' of Some (JInt e) \<Rightarrow> now < seconds e | _ \<Rightarrow> True) then Some p else None),
     wb_hash = \<lambda>n p. CHR ''h'' # p, wb_verify = \<lambda>p h. h = CHR ''h'' # p,
     wb_email = Some, wb_redis = \<lambda>_. True\<rparr>"

lemma example_jwt: "jwt_ok example_web"
proof -
  have "get_claims (length (concat (map put_claim c))) (concat (map put_claim c)) = Some (payload_of c)" for c
    using get_put_claims put_claims_length by blast
  moreover have "fst ` set (payload_of c) = fst ` set c" for c
    by (force simp: payload_of_def)
  moreover have "map_of (payload_of c) k = map_option claim_json (map_of c k)" for c k
    by (induction c) (auto simp: payload_of_def)
  ultimately show ?thesis
    by (auto simp: jwt_ok_def example_web_def list_all_iff split: option.splits if_splits)
qed


definition example_owner :: user where
  "example_owner = new_user 9 0 ''o@x'' ''hPw'' 1 OWNER"

definition example_server :: server where
  "example_server = \<lparr>se_db = example_db\<lparr>tb_users := [example_owner]\<rparr>,
     se_committed = example_db\<lparr>tb_users := [example_owner]\<rparr>, se_state = TxActive, se_context = AdminRole,
     se_next_id = 10, se_count = 0, se_tx = 0, se_log = None, sv_redis = Map.empty, sv_calls = 0\<rparr>"

section \<open>Properties\<close>

lemma refresh_drops:
  assumes "decode_token web (clock 0) t ''refresh'' = Some p" "refresh_key p = Some k" "wb_redis web (sv_calls s)"
    and "key_dead k (drop_key k s)"
  shows "key_dead k (snd (refresh_tokens web clock t s))"
proof -
  let ?f = "\<lambda>stored. if stored = None then raise_http 401 ''Refresh token revoked or expired'' True else
     (case map_of p ''sub'' of None \<Rightarrow> (\<lambda>s. (Inl (Unhandled (KeyError ''sub'')), s))
      | Some sub \<Rightarrow>
        sbind (user_of_subject web sub (raise_http 401 ''Invalid refresh token'' True)) (\<lambda>user.
        case user of None \<Rightarrow> raise_http 401 ''User not found or inactive'' True
        | Some u \<Rightarrow>
          if \<not> u_is_active u then raise_http 401 ''User not found or inactive'' True
          else issue_tokens web (\<lambda>n. clock (n + 2)) (uuid_text (u_id u)) (uuid_text (u_tenant u))
                 (role_value (u_role u))))"
  have eq: "refresh_tokens web clock t s = ?f (fst (redis_getdel k (clock 1) (sv_redis s))) (drop_key k s)"
    using assms(1-3)
    by (simp add: refresh_tokens_def sbind_def [of "redis_call _ _"] redis_call_def redis_getdel_def drop_key_def)
  have "key_dead k (snd (?f stored y))" if "key_dead k y" for y stored
    using that by (auto split: option.splits intro!: gone.keep_bind gone.keep_subject gone.keep_issue gone.keep_raise)
  from this [OF assms(4)] show ?thesis unfolding eq .
qed

text \<open>Whatever a refresh or a logout answers, unless Redis does not, the key of the token is gone.\<close>

lemma token_spent:
  assumes "decode_token web (clock 0) t ''refresh'' = Some p" "refresh_key p = Some k"
    and "k \<in> dom (sv_redis s)" "keys_issued s"
    and "call \<in> {Refresh (Some t), Logout (Some t)}" "t \<noteq> []"
    and "serve web clock call s = (r, u)" "r \<noteq> Failed (Unhandled RedisError)"
  shows "key_dead k u"
proof -
  from assms(3,4) obtain n where n: "n < se_next_id s" "k = issue_key n" by (auto simp: keys_issued_def)
  have dead: "key_dead k (drop_key k x)" if "se_next_id x = se_next_id s" for x
    using that n by (auto simp: key_dead_def drop_key_def)
  have answered: "wb_redis web (sv_calls s)"
    using assms by (auto simp: refresh_def refresh_tokens_def logout_def logout_token_def respond_def sbind_def
        redis_call_def Let_def open_admin_def split: if_splits)
  show ?thesis
  proof (cases "call = Logout (Some t)")
    case True
    with assms answered have "u = drop_key k s"
      by (simp add: logout_def logout_token_def respond_def sbind_def redis_call_def redis_delete_def drop_key_def Let_def)
    then show ?thesis using dead by simp
  next
    case False
    with assms(5) have c: "call = Refresh (Some t)" by simp
    have "key_dead k (snd (refresh_tokens web clock t (open_admin s)))"
      using answered by (intro refresh_drops [where clock = clock, OF assms(1,2)] dead) (simp_all add: open_admin_def)
    then have "key_dead k (snd (serve web clock call s))"
      using assms(6) by (auto simp: c refresh_def token_response_of_def intro!: gone.keep_respond gone.keep_bind)
    with assms(7) show ?thesis by simp
  qed
qed

text \<open>
  Property C13.  A spent refresh token stays spent: once a live refresh token was presented to
  \<open>/refresh\<close> or \<open>/logout\<close> and Redis answered, whatever the response was, no refresh with it succeeds
  after any sequence of further requests.
\<close>

theorem refresh_token_used_once:
  assumes "jwt_ok web" and "keys_issued s"
    and "decode_token web (c1 0) t ''refresh'' = Some p" "refresh_key p = Some k" "k \<in> dom (sv_redis s)"
    and "call \<in> {Refresh (Some t), Logout (Some t)}" "t \<noteq> []"
    and "serve web c1 call s = (r, u)" "r \<noteq> Failed (Unhandled RedisError)"
    and "serves web u tr v" "se_next_id v \<le> 2 ^ 128"
  shows "fst (serve web c2 (Refresh (Some t)) v) \<in>
    Failed ` {HTTPException 401 ''Invalid refresh token'' True,
      HTTPException 401 ''Refresh token revoked or expired'' True, Unhandled RedisError}"
proof -
  have "key_dead k u" using token_spent assms by blast
  from gone.serves_keeps [OF assms(10) this] assms(11) have none: "sv_redis v k = None"
    by (auto simp: key_dead_def)
  show ?thesis
  proof (cases "decode_token web (c2 0) t ''refresh''")
    case None
    with assms(7) show ?thesis
      by (simp add: refresh_def refresh_tokens_def respond_def sbind_def raise_http_def)
  next
    case (Some q)
    then have "q = p" using decode_same(1) [OF assms(1) _ assms(3)] by blast
    with Some none assms(4,7) show ?thesis
      by (simp add: refresh_def refresh_tokens_def respond_def sbind_def raise_http_def redis_call_def
          redis_getdel_def Let_def)
  qed
qed

definition live_server :: server where
  "live_server = example_server\<lparr>sv_redis := [issue_key 3 \<mapsto> (uuid_text 9, 1000)]\<rparr>"

definition live_token :: string where
  "live_token = fst (create_refresh_token example_web 0 (uuid_text 9) (uuid_text 1) ''owner'' 3)"

lemma live_token_decodes:
  "\<exists>p. decode_token example_web 0 live_token ''refresh'' = Some p \<and> map_of p ''sub'' = Some (JStr (uuid_text 9)) \<and>
     refresh_key p = Some (issue_key 3)"
  unfolding live_token_def
  by (rule decode_refresh [OF example_jwt]) (simp add: example_web_def default_settings_def seconds_def)

lemma live_token_nonempty: "live_token \<noteq> []"
  by (simp add: live_token_def create_refresh_token_def example_web_def put_text_def Let_def)

theorem refresh_token_used_once_witness:
  "\<exists>u. serve example_web (\<lambda>_. 0) (Logout (Some live_token)) live_server =
      (LoggedOut (clear_refresh_cookie (wb_settings example_web)), u) \<and>
     (\<exists>e. fst (serve example_web (\<lambda>_. 0) (Refresh (Some live_token)) u) = Failed e)"
proof -
  from live_token_decodes obtain p where p: "decode_token example_web ((\<lambda>_. 0) 0) live_token ''refresh'' = Some p"
    "refresh_key p = Some (issue_key 3)" by auto
  have s: "issue_key 3 \<in> dom (sv_redis live_server)" "keys_issued live_server"
    by (auto simp: live_server_def keys_issued_def example_server_def)
  let ?r = "LoggedOut (clear_refresh_cookie (wb_settings example_web))"
  have "wb_redis example_web n" for n by (simp add: example_web_def)
  with p live_token_nonempty obtain u where u: "serve example_web (\<lambda>_. 0) (Logout (Some live_token)) live_server = (?r, u)"
    "se_next_id u = 10"
    by (simp add: logout_def logout_token_def respond_def sbind_def redis_call_def redis_delete_def Let_def
        live_server_def example_server_def)
  from refresh_token_used_once [OF example_jwt s(2) p s(1) _ live_token_nonempty u(1) _ serves_nothing, of "\<lambda>_. 0"] u
  show ?thesis by auto
qed

lemma serve_login:
  assumes "serve web clock (Login name pw) s = (Tokens tr ck, v)"
  obtains tk where "authenticate web clock name pw (open_admin s) = (Inr tk, v)"
    "tr_access_token tr = tp_access_token tk" "ck = set_refresh_cookie (wb_settings web) (tp_refresh_token tk)"
  using assms
  by (auto simp: login_def respond_def token_response_of_def elim!: sbindE split: prod.splits sum.splits)

lemma serve_refresh:
  assumes "serve web clock (Refresh (Some t)) s = (Tokens tr ck, v)"
  obtains tk where "refresh_tokens web clock t (open_admin s) = (Inr tk, v)"
    "tr_access_token tr = tp_access_token tk" "ck = set_refresh_cookie (wb_settings web) (tp_refresh_token tk)"
  using assms
  by (auto simp: refresh_def respond_def token_response_of_def raise_http_def elim!: sbindE
      split: prod.splits sum.splits if_splits)

text \<open>What the tokens that were issued to a user give.\<close>

definition grants :: "web \<Rightarrow> clock \<Rightarrow> user \<Rightarrow> string \<Rightarrow> string \<Rightarrow> server \<Rightarrow> bool" where
  "grants web clock u access_token refresh_token s \<longleftrightarrow>
     (\<forall>now < seconds ((clock 0 + seconds (st_access_minutes (wb_settings web) * 60)) div 1000000).
        \<exists>p. decode_token web now access_token ''access'' = Some p \<and>
          map_of p ''sub'' = Some (JStr (uuid_text (u_id u))) \<and>
          map_of p ''tenant_id'' = Some (JStr (uuid_text (u_tenant u))) \<and>
          map_of p ''role'' = Some (JStr (role_value (u_role u)))) \<and>
     (\<forall>now < seconds ((clock 1 + seconds (st_refresh_days (wb_settings web) * 86400)) div 1000000).
        \<exists>p k. decode_token web now refresh_token ''refresh'' = Some p \<and> refresh_key p = Some k \<and>
          map_of p ''sub'' = Some (JStr (uuid_text (u_id u))) \<and>
          sv_redis s k = Some (uuid_text (u_id u), clock 2 + seconds (st_refresh_days (wb_settings web) * 86400)))"

lemma issued_grants:
  assumes "jwt_ok web"
    and "issue_tokens web clock (uuid_text (u_id u)) (uuid_text (u_tenant u)) (role_value (u_role u)) w = (Inr tk, v)"
  shows "grants web clock u (tp_access_token tk) (tp_refresh_token tk) v"
  using issue_tokens_returns [OF assms(2)]
  by (auto simp: grants_def store_key_def intro!: decode_access [OF assms(1)] dest!: decode_refresh [OF assms(1)])

text \<open>
  Property C17.  A login gives what it should to whom it should: tokens are issued only for an active
  user whose email is the given name in lower case and whose stored hash the password verifies; the
  access token carries the user's id, tenant and role until it expires, and the refresh token, which
  only the http-only cookie carries, is live in Redis.
\<close>

theorem login_grants:
  assumes "jwt_ok web" and "serve web clock (Login name pw) s = (Tokens tr ck, v)"
  shows "ck_httponly ck \<and> (\<exists>u \<in> set (tb_users (se_committed s)). u_email u = lower name \<and> u_is_active u \<and>
    wb_verify web pw (u_hashed_password u) \<and>
    grants web (\<lambda>n. clock (Suc n)) u (tr_access_token tr) (ck_value ck) v)"
proof -
  from assms(2) obtain tk where a: "authenticate web clock name pw (open_admin s) = (Inr tk, v)"
    and r: "tr_access_token tr = tp_access_token tk" "ck = set_refresh_cookie (wb_settings web) (tp_refresh_token tk)"
    by (rule serve_login)
  from a show ?thesis
  proof (rule authenticate_returns, goal_cases)
    case (1 u w)
    with issued_grants [OF assms(1) 1(5)] r show ?case
      by (auto simp: set_refresh_cookie_def)
  qed
qed

lemma example_sel [simp]:
  "wb_env example_web = example_env" "wb_redis example_web n" "wb_email example_web = Some"
  "wb_verify example_web p h \<longleftrightarrow> h = CHR ''h'' # p" "wb_hash example_web n p = CHR ''h'' # p"
  by (simp_all add: example_web_def)

lemma example_accepts [simp]: "en_answers example_env n st"
  by (simp add: example_env_def)

lemma example_name: "lower ''O@x'' = ''o@x''" "text_ok ''o@x''"
  by code_simp+

lemmas login_evaluation = login_def authenticate_def get_user_by_email_def select_def execute_def flush_log_def
  send_def sbind_def calling_def respond_def example_server_def open_admin_def answer_of_def one_or_none_def
  example_owner_def new_user_def verify_password_def touch_login_def in_flush_def tick_def commit_def
  issue_tokens_def Let_def redis_call_def redis_set_def token_response_of_def example_db_def
  bad_credentials_def raise_http_def example_name

lemma example_login:
  "\<exists>tr ck v. serve example_web (\<lambda>_. 0) (Login ''O@x'' ''Pw'') example_server = (Tokens tr ck, v)"
proof -
  have "\<exists>tr ck. fst (serve example_web (\<lambda>_. 0) (Login ''O@x'' ''Pw'') example_server) = Tokens tr ck"
    by (simp add: login_evaluation create_refresh_token_def)
  then show ?thesis by (metis prod.collapse)
qed

theorem login_grants_witness:
  "\<exists>tr ck v. serve example_web (\<lambda>_. 0) (Login ''O@x'' ''Pw'') example_server = (Tokens tr ck, v) \<and> ck_httponly ck"
  using example_login login_grants [OF example_jwt] by blast

lemma issue_tokens_raises: "issue_tokens web clock u t r s = (Inl e, v) \<Longrightarrow> e = Unhandled RedisError"
  by (auto simp: issue_tokens_def Let_def create_refresh_token_def sbind_def redis_call_def redis_set_def
      split: if_splits)

text \<open>
  A refused login tells nothing: an unknown name, a wrong password and a deactivated user
  give the same response, and neither the tables nor Redis change.
\<close>

theorem refused_logins_alike:
  assumes "serve web clock (Login name pw) s = (Failed (HTTPException status detail bearer), v)"
  shows "status = 401 \<and> detail = ''Incorrect username or password'' \<and> bearer \<and>
    se_committed v = se_committed s \<and> sv_redis v = sv_redis s"
proof -
  let ?env = "wb_env web"
  from assms obtain e where a: "authenticate web clock name pw (open_admin s) = (Inl e, v)"
    and e: "e = HTTPException status detail bearer"
    by (auto simp: login_def respond_def token_response_of_def elim!: sbindE split: prod.splits sum.splits)
  then obtain r x where g: "get_user_by_email ?env (lower name) (open_admin s) = (Inr r, x)"
    by (auto simp: authenticate_def Let_def calling_Inr calling_Inl elim!: sbindE)
  have x: "se_committed x = se_committed s" "sv_redis x = sv_redis s"
    using select_untracked(1) [OF _ g [unfolded get_user_by_email_def]] by (simp_all add: tick_def)
  have bad: "e = HTTPException 401 ''Incorrect username or password'' True \<and> v = x"
  proof (cases r)
    case None
    with a g show ?thesis
      by (simp add: authenticate_def Let_def sbind_def calling_def bad_credentials_def raise_http_def)
  next
    case (Some u)
    show ?thesis
    proof (cases "verify_password web pw (u_hashed_password u) \<and> u_is_active u")
      case False
      with a g Some show ?thesis
        by (auto simp: authenticate_def Let_def sbind_def calling_def bad_credentials_def raise_http_def split: if_splits)
    next
      case True
      with a g Some have "sbind (calling (touch_login ?env (clock 0) u)) (\<lambda>_. sbind (calling (commit ?env)) (\<lambda>_.
          issue_tokens web (\<lambda>n. clock (Suc n)) (uuid_text (u_id u)) (uuid_text (u_tenant u)) (role_value (u_role u))))
          x = (Inl e, v)"
        by (simp add: authenticate_def Let_def sbind_def [of "calling (get_user_by_email _ _)"] calling_def)
      with e show ?thesis by (auto simp: calling_Inl calling_Inr dest!: issue_tokens_raises elim!: sbindE)
    qed
  qed
  with x e show ?thesis by simp
qed

lemma example_refused_login:
  "\<exists>v. serve example_web (\<lambda>_. 0) (Login ''O@x'' ''no'') example_server =
     (Failed (HTTPException 401 ''Incorrect username or password'' True), v)"
  by (simp add: login_evaluation)

theorem refused_logins_alike_witness:
  "\<exists>v. serve example_web (\<lambda>_. 0) (Login ''O@x'' ''no'') example_server =
     (Failed (HTTPException 401 ''Incorrect username or password'' True), v) \<and> sv_redis v = Map.empty"
proof -
  from example_refused_login obtain v where v: "serve example_web (\<lambda>_. 0) (Login ''O@x'' ''no'') example_server =
     (Failed (HTTPException 401 ''Incorrect username or password'' True), v)" by blast
  from refused_logins_alike [OF v] v show ?thesis by (auto simp: example_server_def)
qed

text \<open>
  Property C33.  A refresh follows the account, not the token: it succeeds only with a live refresh
  token whose subject is, at that moment, an active user, and the new pair carries the tenant and the
  role that user has now; the old token is spent and the new one live.
\<close>

theorem refresh_follows_account:
  assumes "jwt_ok web" and "serve web clock (Refresh (Some t)) s = (Tokens tr ck, v)"
  shows "\<exists>p k u str. decode_token web (clock 0) t ''refresh'' = Some p \<and> refresh_key p = Some k \<and>
    k \<in> dom (sv_redis s) \<and> map_of p ''sub'' = Some (JStr str) \<and> uuid_of_text str = Some (u_id u) \<and>
    u \<in> set (tb_users (se_committed s)) \<and> u_is_active u \<and>
    grants web (\<lambda>n. clock (n + 2)) u (tr_access_token tr) (ck_value ck) v"
proof -
  from assms(2) obtain tk where a: "refresh_tokens web clock t (open_admin s) = (Inr tk, v)"
    and r: "tr_access_token tr = tp_access_token tk" "ck = set_refresh_cookie (wb_settings web) (tp_refresh_token tk)"
    by (rule serve_refresh)
  from a show ?thesis
  proof (rule refresh_returns, goal_cases)
    case (1 p key x expires str u w)
    with issued_grants [OF assms(1) 1(9)] r show ?case
      by (auto simp: set_refresh_cookie_def)
  qed
qed

lemma live_refresh:
  "\<exists>tr ck v. serve example_web (\<lambda>_. 0) (Refresh (Some live_token)) live_server = (Tokens tr ck, v)"
proof -
  from live_token_decodes obtain p where p: "decode_token example_web 0 live_token ''refresh'' = Some p"
    "map_of p ''sub'' = Some (JStr (uuid_text 9))" "refresh_key p = Some (issue_key 3)" by blast
  then have "\<exists>tr ck. fst (serve example_web (\<lambda>_. 0) (Refresh (Some live_token)) live_server) = Tokens tr ck"
    using live_token_nonempty
    by (simp add: refresh_def refresh_tokens_def redis_getdel_def user_of_subject_def get_user_by_id_def
        live_server_def login_evaluation create_refresh_token_def)
  then show ?thesis by (metis prod.collapse)
qed

theorem refresh_follows_account_witness:
  "\<exists>tr ck v. serve example_web (\<lambda>_. 0) (Refresh (Some live_token)) live_server = (Tokens tr ck, v) \<and>
     grants example_web (\<lambda>_. 0) example_owner (tr_access_token tr) (ck_value ck) v"
proof -
  from live_refresh obtain tr ck v where
    r: "serve example_web (\<lambda>_. 0) (Refresh (Some live_token)) live_server = (Tokens tr ck, v)" by blast
  from refresh_follows_account [OF example_jwt r] r show ?thesis
    by (auto simp: live_server_def example_server_def)
qed

text \<open>
  Property C34.  The two kinds of tokens are never taken for each other: a token that authenticates a
  request as an access token is refused by \<open>/refresh\<close> and by \<open>/logout\<close> at any time, which leave Redis
  as it is.
\<close>

theorem tokens_not_confused:
  assumes "jwt_ok web" and "serve web clock (Me (Some t)) s = (UserBody body, u)" and "t \<noteq> []"
    and "call \<in> {Refresh (Some t), Logout (Some t)}"
  shows "\<exists>v. serve web clock' call x = (Failed (HTTPException 401 ''Invalid refresh token'' True), v) \<and>
    sv_redis v = sv_redis x"
proof -
  from assms(2) obtain y z where "get_current_active_user web clock (Some t) s = (Inr y, z)"
    by (auto simp: get_me_def respond_def elim!: sbindE split: prod.splits sum.splits)
  then obtain p where p: "decode_token web (clock 0) t ''access'' = Some p"
    by (rule active_user_returns) auto
  have "decode_token web (clock' 0) t ''refresh'' = None"
  proof (cases "decode_token web (clock' 0) t ''refresh''")
    case (Some q)
    from decode_same(2) [OF assms(1) p Some] show ?thesis by simp
  qed simp
  with assms(3,4) show ?thesis
    by (auto simp: refresh_def refresh_tokens_def logout_def logout_token_def respond_def sbind_def raise_http_def)
qed

definition access_token :: string where
  "access_token = create_access_token example_web 0 (uuid_text 9) (uuid_text 1) ''owner''"

lemma access_token_decodes:
  "\<exists>p. decode_token example_web 0 access_token ''access'' = Some p \<and> map_of p ''sub'' = Some (JStr (uuid_text 9))"
proof -
  have "\<exists>p. decode_token example_web 0 access_token ''access'' = Some p \<and>
      map_of p ''sub'' = Some (JStr (uuid_text 9)) \<and> map_of p ''tenant_id'' = Some (JStr (uuid_text 1)) \<and>
      map_of p ''role'' = Some (JStr ''owner'')"
    unfolding access_token_def
    by (rule decode_access [OF example_jwt]) (simp add: example_web_def default_settings_def seconds_def)
  then show ?thesis by blast
qed

lemma access_token_nonempty: "access_token \<noteq> []"
  by (simp add: access_token_def create_access_token_def example_web_def put_text_def Let_def)

lemmas user_evaluation = get_current_active_user_def get_current_user_def get_current_user_from_token_def
  user_of_subject_def get_user_by_id_def user_response_of_def

lemma example_me: "\<exists>b v. serve example_web (\<lambda>_. 0) (Me (Some access_token)) example_server = (UserBody b, v)"
proof -
  from access_token_decodes obtain p where p: "decode_token example_web 0 access_token ''access'' = Some p"
    "map_of p ''sub'' = Some (JStr (uuid_text 9))" by blast
  then have "\<exists>b. fst (serve example_web (\<lambda>_. 0) (Me (Some access_token)) example_server) = UserBody b"
    by (simp add: get_me_def user_evaluation login_evaluation)
  then show ?thesis by (metis prod.collapse)
qed

theorem tokens_not_confused_witness:
  "\<exists>v. serve example_web (\<lambda>_. 0) (Refresh (Some access_token)) example_server =
     (Failed (HTTPException 401 ''Invalid refresh token'' True), v)"
proof -
  from example_me obtain b u where u: "serve example_web (\<lambda>_. 0) (Me (Some access_token)) example_server = (UserBody b, u)"
    by blast
  from tokens_not_confused [OF example_jwt u access_token_nonempty, of "Refresh (Some access_token)"] show ?thesis
    by simp blast
qed

text \<open>
  No sequence of requests makes anyone more than a viewer: the owners, admins and ops
  users, with their tenants, emails, password hashes and activity, are afterwards exactly those from
  before; and ids and emails stay unique.
\<close>

theorem requests_grant_no_privilege:
  assumes "serves web s tr v" and "se_db s = se_committed s" and "wf_users (se_next_id s) (se_committed s)"
  shows "privileged (se_committed v) = privileged (se_committed s) \<and> wf_users (se_next_id v) (se_committed v)"
  using privileged.serves_keeps [OF assms(1), of "privileged (se_committed s)"] users.serves_keeps [OF assms(1)] assms(2,3)
  by (simp add: same_privileged_def users_ok_def)

theorem requests_grant_no_privilege_witness:
  "\<exists>r v. serves example_web example_server [(Login ''O@x'' ''Pw'', r)] v \<and>
     privileged (se_committed v) = [(9, 1, ''o@x'', OWNER, ''hPw'', True)]"
proof -
  obtain r v where "serve example_web (\<lambda>_. 0) (Login ''O@x'' ''Pw'') example_server = (r, v)" by fastforce
  then have r: "serves example_web example_server [(Login ''O@x'' ''Pw'', r)] v"
    using serves_next [OF serves_nothing] by fastforce
  have s: "se_db example_server = se_committed example_server"
    "wf_users (se_next_id example_server) (se_committed example_server)"
    by (simp_all add: example_server_def wf_users_def example_owner_def tenant_exists_def example_db_def example_tenant_def)
  have "privileged (se_committed example_server) = [(9, 1, ''o@x'', OWNER, ''hPw'', True)]"
    by (simp add: privileged_def example_server_def example_owner_def new_user_def)
  with requests_grant_no_privilege [OF r s] r show ?thesis by auto
qed

text \<open>
  Property C18.  Only an active owner or admin creates users, and only viewers of the own active
  tenant: when \<open>/users\<close> succeeds, the table has gained one active viewer of the caller's tenant under
  the lower-case email, which nobody had before, with the hash of a password that follows the rules.
\<close>

theorem viewers_created:
  assumes "serve web clock (CreateUser t email password) s = (UserBody body, v)"
  shows "\<exists>c \<in> set (tb_users (se_committed s)). \<exists>u n e. u_role c \<in> {OWNER, ADMIN} \<and> u_is_active c \<and>
    tb_users (se_committed v) = tb_users (se_committed s) @ [u] \<and>
    u_role u = VIEWER \<and> u_is_active u \<and> u_tenant u = u_tenant c \<and>
    (\<exists>tn \<in> set (tb_tenants (se_committed s)). tn_id tn = u_tenant c \<and> tn_is_active tn) \<and>
    wb_email web email = Some e \<and> u_email u = lower e \<and> lower e \<notin> set (map u_email (tb_users (se_committed s))) \<and>
    u_hashed_password u = wb_hash web n password \<and> 8 \<le> length password \<and> password_faults password = []"
proof -
  from assms have y: "create_tenant_user web clock t email password s = (Inr body, v)"
    by (auto simp: respond_def split: prod.splits sum.splits)
  obtain c x where c: "get_current_active_user web clock t s = (Inr c, x)"
    and rest: "sbind (require_role [OWNER, ADMIN] c) (\<lambda>_. case create_user_request web email password of
       None \<Rightarrow> raise_http 422 ''Unprocessable Entity'' False
     | Some (e, p) \<Rightarrow> sbind (create_viewer web e p (u_tenant c)) (user_response_of web)) x = (Inr body, v)"
    using y unfolding create_tenant_user_def by (rule sbindE) auto
  from c have cs: "c \<in> set (tb_users (se_committed s))" "u_is_active c" "x = tick (open_admin s)"
    by (auto elim: active_user_returns)
  from rest obtain e p where role: "u_role c \<in> {OWNER, ADMIN}"
    and req: "create_user_request web email password = Some (e, p)"
    and cv: "sbind (create_viewer web e p (u_tenant c)) (user_response_of web) x = (Inr body, v)"
    by (auto simp: require_role_def sbind_def raise_http_def split: if_splits option.splits)
  from cv obtain u where u: "create_viewer web e p (u_tenant c) x = (Inr u, v)"
    by (auto simp: user_response_of_def elim!: sbindE split: option.splits)
  from req have r: "wb_email web email = Some e" "p = password" "8 \<le> length password" "password_faults password = []"
    by (auto simp: create_user_request_def password_strength_def split: option.splits if_splits sum.splits)
  have xl: "se_log x = None" "se_context x = AdminRole" "se_db x = se_committed s"
    using cs(3) by (simp_all add: tick_def)
  note V = create_viewer_returns [OF u xl(1,2)]
  from V(5) obtain n where "u_hashed_password u = wb_hash web n p" by blast
  with V r cs role xl(3) show ?thesis by (intro bexI [of _ c] exI [of _ u] exI [of _ n] exI [of _ e]) simp_all
qed

lemma example_create:
  "\<exists>b v. serve example_web (\<lambda>_. 0) (CreateUser (Some access_token) ''v@x'' ''Abcdef1!'') example_server = (UserBody b, v)"
proof -
  from access_token_decodes obtain p where p: "decode_token example_web 0 access_token ''access'' = Some p"
    "map_of p ''sub'' = Some (JStr (uuid_text 9))" by blast
  have l: "lower ''v@x'' = ''v@x''" "text_ok ''v@x''" "text_ok ''hAbcdef1!''" "password_faults ''Abcdef1!'' = []"
    by code_simp+
  have "\<exists>b. fst (serve example_web (\<lambda>_. 0) (CreateUser (Some access_token) ''v@x'' ''Abcdef1!'') example_server) = UserBody b"
    using p
    by (simp add: create_tenant_user_def user_evaluation login_evaluation require_role_def create_user_request_def
        password_strength_def l create_viewer_def get_tenant_by_id_def example_tenant_def create_user_def
        add_and_flush_def flush_log_def put_user_def refresh_user_def hash_password_def tenant_exists_def)
  then show ?thesis by (metis prod.collapse)
qed

theorem viewers_created_witness:
  "\<exists>b v u. serve example_web (\<lambda>_. 0) (CreateUser (Some access_token) ''v@x'' ''Abcdef1!'') example_server = (UserBody b, v) \<and>
     tb_users (se_committed v) = [example_owner, u] \<and> u_role u = VIEWER"
proof -
  from example_create obtain b v where
    v: "serve example_web (\<lambda>_. 0) (CreateUser (Some access_token) ''v@x'' ''Abcdef1!'') example_server = (UserBody b, v)" by blast
  from viewers_created [OF v] v show ?thesis by (auto simp: example_server_def)
qed

lemma char_range:
  "hi \<le> 256 \<Longrightarrow> c \<in> set (map char_of [lo..<hi]) \<longleftrightarrow> lo \<le> (of_char c :: nat) \<and> (of_char c :: nat) < hi"
  by (auto intro!: image_eqI [of _ _ "of_char c"])

lemma char_classes:
  "c \<in> set ''ABCDEFGHIJKLMNOPQRSTUVWXYZ'' \<longleftrightarrow> is_upper c"
  "c \<in> set ''abcdefghijklmnopqrstuvwxyz'' \<longleftrightarrow> is_lower c"
  "c \<in> set ''0123456789'' \<longleftrightarrow> is_digit c"
proof -
  have "''ABCDEFGHIJKLMNOPQRSTUVWXYZ'' = map char_of [65..<(91::nat)]"
    "''abcdefghijklmnopqrstuvwxyz'' = map char_of [97..<(123::nat)]" "''0123456789'' = map char_of [48..<(58::nat)]"
    by code_simp+
  then show "c \<in> set ''ABCDEFGHIJKLMNOPQRSTUVWXYZ'' \<longleftrightarrow> is_upper c"
    "c \<in> set ''abcdefghijklmnopqrstuvwxyz'' \<longleftrightarrow> is_lower c" "c \<in> set ''0123456789'' \<longleftrightarrow> is_digit c"
    by (auto simp only: char_range is_upper_def is_lower_def is_digit_def)
qed

definition password_rules :: "((char \<Rightarrow> bool) \<times> string) list" where
  "password_rules = [(\<lambda>c. c \<in> set ''ABCDEFGHIJKLMNOPQRSTUVWXYZ'', ''at least one uppercase letter''),
     (\<lambda>c. c \<in> set ''abcdefghijklmnopqrstuvwxyz'', ''at least one lowercase letter''),
     (\<lambda>c. c \<in> set ''0123456789'', ''at least one digit''),
     (\<lambda>c. \<not> (c \<in> set ''ABCDEFGHIJKLMNOPQRSTUVWXYZ'' \<or> c \<in> set ''abcdefghijklmnopqrstuvwxyz'' \<or>
        c \<in> set ''0123456789''), ''at least one special character'')]"

lemma rules_step:
  "map snd (filter (\<lambda>(ok, text). \<not> (\<exists>c \<in> set v. ok c)) ((ok, text) # rules)) =
     (if list_ex ok v then [] else [text]) @ map snd (filter (\<lambda>(ok, text). \<not> (\<exists>c \<in> set v. ok c)) rules)"
  by (simp add: list_ex_iff)

text \<open>
  The password rules are what their table says: a password is accepted unchanged if each
  of the four rules has a character that follows it, and otherwise the error lists exactly the
  rules that none follows, in their order.
\<close>

lemma password_strength_rules:
  "password_strength v =
     (let missing = map snd (filter (\<lambda>(ok, text). \<not> (\<exists>c \<in> set v. ok c)) password_rules) in
      if missing = [] then Inr v else Inl (ValueError (''Password must contain '' @ commas missing)))"
proof -
  have "is_special = (\<lambda>c. \<not> (is_upper c \<or> is_lower c \<or> is_digit c))"
    by (rule ext) (simp add: is_special_def)
  then have "password_faults v = map snd (filter (\<lambda>(ok, text). \<not> (\<exists>c \<in> set v. ok c)) password_rules)"
    unfolding password_rules_def char_classes password_faults_def rules_step by simp
  then show ?thesis by (simp add: password_strength_def Let_def)
qed

end
