(* ===== verification/UploadFacts.thy ===== *)
theory UploadFacts
  imports Upload AuthProps Progress
begin

text \<open>
  What the routes of \<open>Upload\<close> do to the tables, the files and the queue, and what the worker makes of
  the message.
\<close>

section \<open>The parts\<close>

lemma on_server_Inr: "on_server m (s, fs, q) = (Inr v, p) \<longleftrightarrow> (\<exists>t. m s = (Inr v, t) \<and> p = (t, fs, q))"
  by (auto simp: on_server_def split: prod.splits)

lemma on_server_Inl: "on_server m (s, fs, q) = (Inl e, p) \<longleftrightarrow> (\<exists>t. m s = (Inl e, t) \<and> p = (t, fs, q))"
  by (auto simp: on_server_def split: prod.splits)

lemmas on_server_simps = on_server_Inr on_server_Inl

lemma refuse_Inr [simp]: "refuse n d p \<noteq> (Inr v, p')"
  by (cases p) (simp add: refuse_def on_server_def raise_http_def)

lemma refuse_apply [simp]: "refuse n d (s, fs, q) = (Inl (HTTPException n d False), s, fs, q)"
  by (simp add: refuse_def on_server_def raise_http_def)

lemma require_role_Inr [simp]: "require_role rs u s = (Inr v, t) \<longleftrightarrow> u_role u \<in> set rs \<and> v = u \<and> t = s"
  by (auto simp: require_role_def raise_http_def)

lemma job_row_track: "se_log s = Some (track l) \<Longrightarrow> job_row s = Some l"
  by (auto simp: job_row_def track_def Let_def errors_value_def split: option.splits)

lemma track_clean [simp]: "\<not> needs_update (track l)"
  by (simp add: needs_update_def errors_changed_def track_def Let_def)

lemma track_id [simp]: "sl_id (tk_row (track l)) = sl_id l"
  by (simp add: track_def Let_def)

lemma send_effect:
  "send env st eff s = (Inr v, t) \<Longrightarrow> eff (tick s) = (Inr v, t) \<and> se_state s = TxActive"
  by (drule send_Inr) simp

text \<open>The job is committed, alone, and is the row that is returned.\<close>

lemma add_job_returns:
  assumes "add_job env l s = (Inr l', u)" and "se_log s = None" "se_context s = AdminRole"
  shows "l' = l" "se_committed u = (se_db s)\<lparr>tb_sync_logs := tb_sync_logs (se_db s) @ [l]\<rparr>"
proof -
  let ?p = "put_sync_log l (tick s)"
  from assms(1) obtain a x b y c z where a: "add_and_flush env (InsertSyncLog l) (\<lambda>w. (Inr (), put_sync_log l w)) s = (Inr a, x)"
    and b: "commit env x = (Inr b, y)" and c: "refresh_sync_log env y = (Inr c, z)"
    and r: "(case job_row z of None \<Rightarrow> Inl InvalidRequestError | Some l \<Rightarrow> Inr l) = Inr l'" "u = z"
    unfolding add_job_def by (auto elim!: sbindE)
  have x: "x = ?p" and act: "se_state s = TxActive"
    using a assms(2) by (auto simp: add_and_flush_def sbind_def flush_log_def in_flush_def
        split: prod.splits sum.splits dest!: send_effect)
  have xs: "se_log x = Some (track l)" "se_state x = TxActive" "se_context x = AdminRole"
    "se_db x = (se_db s)\<lparr>tb_sync_logs := tb_sync_logs (se_db s) @ [l]\<rparr>"
    using x act assms(3) by (simp_all add: put_sync_log_def tick_def)
  have y: "se_committed y = se_db x" "se_db y = se_db x" "se_log y = Some (track l)" "se_context y = AdminRole"
    using b xs by (auto simp: commit_def sbind_def flush_log_def in_flush_def tick_def
        split: prod.splits sum.splits dest!: send_effect)
  from c y(3) obtain k v where k: "select env (SelectSyncLog (sl_id l)) tb_sync_logs sl_tenant (log_by_id (sl_id l)) y = (Inr (Some k), v)"
    and z: "z = v\<lparr>se_log := Some (track k)\<rparr>"
    by (auto simp: refresh_sync_log_def elim!: sbindE split: option.splits)
  have f: "flush_log env y = (Inr (), y)" using y(3) by (simp add: flush_log_def)
  have "one_or_none (filter (\<lambda>r. rls_visible (se_context y) (sl_tenant r) \<and> log_by_id (sl_id l) r) (tb_sync_logs (se_db y)))
      = Inr (Some k)" and v: "v = tick y"
    using k f by (auto simp: select_def execute_def sbind_def dest!: send_effect)
  then have "filter (\<lambda>r. log_by_id (sl_id l) r) (tb_sync_logs (se_db y)) = [k]"
    using y(4) by (simp add: one_or_none_Some)
  moreover have "l \<in> set (filter (\<lambda>r. log_by_id (sl_id l) r) (tb_sync_logs (se_db y)))"
    using y(2) xs(4) by (simp add: log_by_id_def)
  ultimately have "k = l" by simp
  with r z job_row_track [of z k] show "l' = l" by simp
  show "se_committed u = (se_db s)\<lparr>tb_sync_logs := tb_sync_logs (se_db s) @ [l]\<rparr>"
    using r z v y(1) xs(4) by (simp add: tick_def)
qed

text \<open>And when the database answers, it is.\<close>

lemma add_job_runs:
  assumes a: "answering env" and s: "se_log s = None" "se_context s = AdminRole" "se_state s = TxActive"
    and fits: "encodable (InsertSyncLog l)" "row_types_ok (InsertSyncLog l)" "tenant_exists (se_db s) (sl_tenant l)"
    and fresh: "sl_id l \<notin> sl_id ` set (tb_sync_logs (se_db s))"
  shows "\<exists>u. add_job env l s = (Inr l, u)"
proof -
  let ?p = "put_sync_log l (tick s)"
  have acc: "en_answers env n st" for n st using a by (simp add: answering_def)
  have "add_and_flush env (InsertSyncLog l) (\<lambda>w. (Inr (), put_sync_log l w)) s = (Inr (), ?p)"
    using s fits acc by (simp add: add_and_flush_def sbind_def flush_log_def in_flush_def send_def answer_of_def)
  moreover obtain y where y: "commit env ?p = (Inr (), y)" "se_log y = Some (track l)" "se_context y = AdminRole"
    "se_state y = TxActive" "se_db y = (se_db s)\<lparr>tb_sync_logs := tb_sync_logs (se_db s) @ [l]\<rparr>"
    using s acc
    by (simp add: commit_def sbind_def flush_log_def in_flush_def send_def answer_of_def put_sync_log_def)
  moreover have "\<exists>u. refresh_sync_log env y = (Inr (), u) \<and> job_row u = Some l"
  proof -
    have none: "filter (log_by_id (sl_id l)) (tb_sync_logs (se_db s)) = []"
      using fresh unfolding filter_empty_conv log_by_id_def by (metis image_eqI)
    have "log_by_id (sl_id l) l" by (simp add: log_by_id_def)
    with y none acc have "refresh_sync_log env y = (Inr (), (tick y)\<lparr>se_log := Some (track l)\<rparr>)"
      by (simp add: refresh_sync_log_def select_def execute_def sbind_def flush_log_def send_def answer_of_def
          one_or_none_def)
    moreover have "job_row ((tick y)\<lparr>se_log := Some (track l)\<rparr>) = Some l" by (rule job_row_track) simp
    ultimately show ?thesis by blast
  qed
  ultimately show ?thesis by (auto simp: add_job_def sbind_def)
qed

lemma tenant_found:
  assumes "answering env" "se_log s = None" "se_context s = AdminRole" "se_state s = TxActive"
    and "distinct (map tn_id (tb_tenants (se_db s)))"
  shows "\<exists>t. get_tenant_by_id env T s = (Inr t, tick s)"
proof -
  have "\<exists>t. one_or_none (filter (\<lambda>t. tn_id t = T) ts) = Inr t" if "distinct (map tn_id ts)" for ts
  proof (cases "filter (\<lambda>t. tn_id t = T) ts" rule: remdups_adj.cases)
    case (3 x y zs)
    have "distinct (map tn_id (filter (\<lambda>t. tn_id t = T) ts))" using that by (simp add: distinct_map_filter)
    moreover have "tn_id x = T" "tn_id y = T"
      using arg_cong [OF 3, of set] by (auto simp: set_eq_iff)
    ultimately show ?thesis using 3 by simp
  qed (simp_all add: one_or_none_def)
  from this [OF assms(5)] assms show ?thesis
    by (auto simp: get_tenant_by_id_def select_def execute_def sbind_def flush_log_def send_def answer_of_def
        answering_def)
qed

text \<open>
  With any storage that keeps the protocol the file of a started job can be read at the path of the job,
  whatever other files are deleted, and the files there were before are as they were.
\<close>

context storage_protocol
begin

lemma started_job_readable:
  assumes run: "start_sync_in env st T filename content connector_type (s, fs) = (Inr l, v, fs')"
    and admin: "se_log s = None" "se_context s = AdminRole"
  obtains path where "sl_stored_path l = Some path"
    "\<And>qs. path \<notin> set qs \<Longrightarrow> file_read st path (fold (file_delete st) qs fs') = Inr content"
    "\<And>q. q \<noteq> path \<Longrightarrow> file_read st q fs' = file_read st q fs"
proof -
  let ?w = "s\<lparr>se_next_id := Suc (se_next_id s)\<rparr>"
  from run obtain path c where save: "file_save st (se_next_id s) filename content fs = (Inr path, fs')"
    and job: "add_job env (new_sync_log (Suc (se_next_id s)) T c filename path (sql_now env ?w)) ?w = (Inr l, v)"
    by (auto simp: start_sync_in_def Let_def split: prod.splits sum.splits option.splits)
  from add_job_returns(1) [OF job] admin have "sl_stored_path l = Some path" by (simp add: new_sync_log_def)
  then show thesis using that outlives [OF save] save_other [OF save] by blast
qed

end

definition stored_at :: "web \<Rightarrow> uuid \<Rightarrow> string \<Rightarrow> string" where
  "stored_at web i filename = path_join (st_upload_dir (wb_settings web)) (uuid_hex i @ ''_'' @ filename)"

lemma start_upload_returns:
  assumes "start_upload web os T filename content (s, fs, q) = (Inr l, v, fs', q')"
    and "se_log s = None" "se_context s = AdminRole"
  shows "\<exists>now. l = new_sync_log (Suc (se_next_id s)) T CSV filename (stored_at web (se_next_id s) filename) now"
    "se_committed v = (se_db s)\<lparr>tb_sync_logs := tb_sync_logs (se_db s) @ [l]\<rparr>"
    "fs' = fs(stored_at web (se_next_id s) filename \<mapsto> content)" "q' = q"
proof -
  let ?w = "s\<lparr>se_next_id := Suc (se_next_id s)\<rparr>"
  let ?l = "new_sync_log (Suc (se_next_id s)) T CSV filename (stored_at web (se_next_id s) filename) (sql_now (wb_env web) ?w)"
  have c: "connector_of ''csv'' = Some CSV" using connector_of_value [of CSV] by simp
  have a: "add_job (wb_env web) ?l ?w = (Inr l, v)"
    and f: "fs' = fs(stored_at web (se_next_id s) filename \<mapsto> content)" "q' = q"
    using assms(1) c
    by (auto simp: start_upload_def start_sync_disk storage_save_def stored_at_def Let_def
        split: prod.splits sum.splits if_splits)
  from add_job_returns [OF a] assms(2,3) f
  show "\<exists>now. l = new_sync_log (Suc (se_next_id s)) T CSV filename (stored_at web (se_next_id s) filename) now"
    "se_committed v = (se_db s)\<lparr>tb_sync_logs := tb_sync_logs (se_db s) @ [l]\<rparr>"
    "fs' = fs(stored_at web (se_next_id s) filename \<mapsto> content)" "q' = q"
    by auto
qed

section \<open>An accepted upload\<close>

definition filename_of :: "string \<Rightarrow> string" where
  "filename_of name = (if name = [] then ''upload'' else name)"

lemma take_upload_returns:
  assumes "take_upload web os u name content f (s, fs, q) = (Inr r, v, fs', q')"
    and "se_log s = None" "se_context s = AdminRole"
  obtains l now config t where
    "upload_extension (filename_of name) \<in> ALLOWED_EXTENSIONS" "content \<noteq> []"
    "int (length content) \<le> st_max_upload_mb (wb_settings web) * 1024 * 1024"
    "l = new_sync_log (Suc (se_next_id s)) (u_tenant u) CSV (filename_of name)
       (stored_at web (se_next_id s) (filename_of name)) now"
    "se_committed v = (se_db s)\<lparr>tb_sync_logs := tb_sync_logs (se_db s) @ [l]\<rparr>"
    "fs' = fs(stored_at web (se_next_id s) (filename_of name) \<mapsto> content)"
    "upload_config t f = Inr config" "set_option t \<subseteq> {t \<in> set (tb_tenants (se_db s)). tn_id t = u_tenant u}"
    "q' = q @ [\<lparr>tm_sync_log_id = uuid_text (sl_id l), tm_tenant_id = uuid_text (u_tenant u), tm_tenant_config = config\<rparr>]"
    "r = \<lparr>up_job_id = uuid_text (sl_id l), up_status = ''pending''\<rparr>"
proof -
  let ?fn = "filename_of name"
  have ok: "upload_extension ?fn \<in> ALLOWED_EXTENSIONS" "content \<noteq> []"
    "int (length content) \<le> st_max_upload_mb (wb_settings web) * 1024 * 1024"
    using assms(1) by (auto simp: take_upload_def Let_def filename_of_def split: if_splits)
  with assms(1) have "sbind (on_server (calling (get_tenant_by_id (wb_env web) (u_tenant u)))) (\<lambda>tenant.
        sbind (slift (upload_config tenant f)) (\<lambda>config.
        sbind (start_upload web os (u_tenant u) ?fn content) (\<lambda>l.
        sbind (delay os \<lparr>tm_sync_log_id = uuid_text (sl_id l), tm_tenant_id = uuid_text (u_tenant u),
                 tm_tenant_config = config\<rparr>) (\<lambda>_.
        sreturn \<lparr>up_job_id = uuid_text (sl_id l), up_status = status_value (sl_status l)\<rparr>)))) (s, fs, q) = (Inr r, v, fs', q')"
    by (simp add: take_upload_def Let_def filename_of_def [symmetric])
  then obtain t x config l w gs p where g: "get_tenant_by_id (wb_env web) (u_tenant u) s = (Inr t, x)"
    and c: "upload_config t f = Inr config"
    and st: "start_upload web os (u_tenant u) ?fn content (x, fs, q) = (Inr l, w, gs, p)"
    and d: "v = w" "fs' = gs"
      "q' = p @ [\<lparr>tm_sync_log_id = uuid_text (sl_id l), tm_tenant_id = uuid_text (u_tenant u), tm_tenant_config = config\<rparr>]"
      "r = \<lparr>up_job_id = uuid_text (sl_id l), up_status = status_value (sl_status l)\<rparr>"
    by (auto simp: on_server_simps calling_Inr delay_def elim!: sbindE split: if_splits)
  note S = select_untracked [OF assms(2) g [unfolded get_tenant_by_id_def]]
  have x: "se_log x = None" "se_context x = AdminRole" "se_db x = se_db s" "se_next_id x = se_next_id s"
    using S(1) assms(2,3) by simp_all
  note U = start_upload_returns [OF st x(1,2), unfolded x]
  from U(1) obtain now where l: "l = new_sync_log (Suc (se_next_id s)) (u_tenant u) CSV ?fn (stored_at web (se_next_id s) ?fn) now"
    by blast
  have "status_value (sl_status l) = ''pending''" by (simp add: l new_sync_log_def)
  moreover have "set_option t \<subseteq> {t \<in> set (tb_tenants (se_db s)). tn_id t = u_tenant u}"
    using S(2) assms(3) by (cases t) (auto simp: one_or_none_Some filter_eq_Cons_iff)
  ultimately show ?thesis using that [OF ok l _ _ c] U d by simp
qed

text \<open>What makes an upload acceptable.\<close>

definition good_upload :: "web \<Rightarrow> server \<Rightarrow> uuid \<Rightarrow> string \<Rightarrow> bytes \<Rightarrow> upload_form \<Rightarrow> bool" where
  "good_upload web s T name content f \<longleftrightarrow>
     upload_extension (filename_of name) \<in> ALLOWED_EXTENSIONS \<and> content \<noteq> [] \<and>
     int (length content) \<le> st_max_upload_mb (wb_settings web) * 1024 * 1024 \<and>
     varchar 255 (filename_of name) \<and> varchar 500 (stored_at web (se_next_id s) (filename_of name)) \<and>
     (\<forall>t \<in> set (tb_tenants (se_committed s)). tn_id t = T \<longrightarrow> \<not> isl (upload_config (Some t) f))"

text \<open>And what the tables are assumed to be.\<close>

definition ready_tables :: "server \<Rightarrow> bool" where
  "ready_tables s \<longleftrightarrow> wf_users (se_next_id s) (se_committed s) \<and>
     distinct (map tn_id (tb_tenants (se_committed s))) \<and>
     (\<forall>l \<in> set (tb_sync_logs (se_committed s)). sl_id l < se_next_id s)"

lemma take_upload_runs:
  assumes a: "answering (wb_env web)" "\<And>p. os_disk os p" "\<And>m. os_broker os m"
    and good: "good_upload web s (u_tenant u) name content f" and ready: "ready_tables s"
    and t: "tenant_exists (se_committed s) (u_tenant u)"
  shows "\<exists>r v fs' q'. take_upload web os u name content f (tick (open_admin s), fs, q) = (Inr r, v, fs', q')"
proof -
  let ?T = "u_tenant u" and ?fn = "filename_of name" and ?s = "tick (open_admin s)"
  let ?x = "tick ?s"
  let ?w = "?x\<lparr>se_next_id := Suc (se_next_id s)\<rparr>"
  let ?path = "stored_at web (se_next_id s) ?fn"
  let ?l = "new_sync_log (Suc (se_next_id s)) ?T CSV ?fn ?path (sql_now (wb_env web) ?w)"
  have good': "upload_extension ?fn \<in> ALLOWED_EXTENSIONS" "content \<noteq> []"
    "int (length content) \<le> st_max_upload_mb (wb_settings web) * 1024 * 1024" "varchar 255 ?fn" "varchar 500 ?path"
    using good by (auto simp: good_upload_def)
  obtain tn where tn: "get_tenant_by_id (wb_env web) ?T ?s = (Inr tn, ?x)"
    using tenant_found [OF a(1), of ?s ?T] ready by (auto simp: ready_tables_def)
  have "set_option tn \<subseteq> {tn \<in> set (tb_tenants (se_committed s)). tn_id tn = ?T}"
    using select_untracked(2) [OF _ tn [unfolded get_tenant_by_id_def]]
    by (cases tn) (auto simp: one_or_none_Some filter_eq_Cons_iff)
  then have "\<not> isl (upload_config tn f)"
    using good by (cases tn) (auto simp: good_upload_def upload_config_def Let_def)
  then obtain config where c: "upload_config tn f = Inr config" by (cases "upload_config tn f") auto
  have "\<exists>v. add_job (wb_env web) ?l ?w = (Inr ?l, v)"
    using good'(4,5) t ready
    by (intro add_job_runs [OF a(1)]) (force simp: new_sync_log_def int4_def text_fits ready_tables_def)+
  then obtain v where v: "add_job (wb_env web) ?l ?w = (Inr ?l, v)" by blast
  have csv: "connector_of ''csv'' = Some CSV" using connector_of_value [of CSV] by simp
  have "start_upload web os ?T ?fn content (?x, fs, q) = (Inr ?l, v, fs(?path \<mapsto> content), q)"
    using v a(2) csv by (simp add: start_upload_def start_sync_disk storage_save_def stored_at_def Let_def)
  with good'(1-3) tn c a(3) show ?thesis
    by (simp add: take_upload_def Let_def filename_of_def [symmetric] sbind_def on_server_def calling_def delay_def)
qed

lemma upload_returns:
  assumes "upload_file web os clock token file form (s, fs, q) = (Inr r, v, fs', q')"
  obtains u name content f x where "get_current_active_user web clock token s = (Inr u, x)"
    "u_role u \<in> {OWNER, ADMIN, OPS}" "file = Some (name, content)" "form_of form = Some f"
    "take_upload web os u name content f (x, fs, q) = (Inr r, v, fs', q')"
  using assms
  by (auto simp: upload_file_def on_server_simps elim!: sbindE split: option.splits prod.splits)

lemma upload_authenticated:
  assumes "get_current_active_user web clock token s = (Inr u, x)"
  shows "upload_file web os clock token upl form (s, fs, q) =
    sbind (on_server (require_role [OWNER, ADMIN, OPS] u)) (\<lambda>_. case (upl, form_of form) of
       (Some (name, content), Some f) \<Rightarrow> take_upload web os u name content f
     | _ \<Rightarrow> refuse 422 ''Unprocessable Entity'') (x, fs, q)"
  unfolding upload_file_def by (rule sbind_return) (simp add: on_server_def assms)

lemma upload_authorized:
  assumes "get_current_active_user web clock token s = (Inr u, x)" "u_role u \<in> {OWNER, ADMIN, OPS}"
    and "form_of form = Some f"
  shows "upload_file web os clock token (Some (name, content)) form (s, fs, q) =
    take_upload web os u name content f (x, fs, q)"
  unfolding upload_authenticated [OF assms(1)] assms(3) option.case prod.case
  by (rule sbind_return) (use assms(2) in \<open>auto simp: on_server_def require_role_def\<close>)

section \<open>Refusals\<close>

lemma committed_after_user: "se_committed (snd (get_current_active_user web clock token s)) = se_committed s"
proof -
  have q: "se_committed (snd (calling (get_user_by_id env i) t)) = se_committed t" for env i and t :: server
    by (auto simp: calling_def get_user_by_id_def split: prod.splits sum.splits) (metis select_const(4) snd_conv)+
  show ?thesis
    unfolding get_current_active_user_def
    by (rule sbind_keeps_inv [where P = "\<lambda>t. se_committed t = se_committed s"])
      (auto simp: get_current_user_def get_current_user_from_token_def credentials_exception_def raise_http_def
        user_of_subject_def q split: option.splits sum.splits exn.splits
        intro!: sbind_keeps_inv [where P = "\<lambda>t. se_committed t = se_committed s"])
qed

lemma take_upload_refused:
  assumes "take_upload web os u name content f (s, fs, q) = (Inl (HTTPException status detail bearer), v, fs', q')"
  shows "status \<in> {400, 413} \<and> v = s \<and> fs' = fs \<and> q' = q"
proof -
  have no: "start_upload web os T fn content p \<noteq> (Inl (HTTPException status detail bearer), p')" for T fn p p'
    by (cases p) (auto simp: start_upload_def split: prod.splits sum.splits)
  have nc: "upload_config t f \<noteq> Inl (HTTPException status detail bearer)" for t
    by (auto simp: upload_config_def Let_def split: option.splits json.splits)
  show ?thesis
    using assms no nc
    by (auto simp: take_upload_def Let_def on_server_simps calling_Inl delay_def elim!: sbindE split: if_splits)
qed

end
