(* ===== verification/UploadWork.thy ===== *)
theory UploadWork
  imports UploadFacts
begin

text \<open>
  From the message of an upload to the run of the worker: the job it names, the file under its path, and
  the column names of the form.
\<close>

section \<open>The name of the stored file\<close>

lemma split_on_parts:
  assumes "\<forall>s \<in> set ss. CHR ''/'' \<notin> set s" "CHR ''/'' \<notin> set s"
  shows "split_on (CHR ''/'') (s @ concat (map (\<lambda>t. CHR ''/'' # t) ss)) = s # ss"
  using assms
  by (induction ss arbitrary: s) (simp_all add: split_on_absent split_on_append)

lemma split_on_no_sep: "s \<in> set (split_on c xs) \<Longrightarrow> c \<notin> set s"
  by (induction xs arbitrary: s) (fastforce split: list.splits if_splits)+

definition part_ok :: "string \<Rightarrow> bool" where
  "part_ok s \<longleftrightarrow> s \<noteq> [] \<and> s \<noteq> ''.''"

lemma part_ok_long: "1 < length s \<Longrightarrow> part_ok s"
  by (auto simp: part_ok_def)

text \<open>The parts of a joined path are those of the two.\<close>

lemma split_path_join:
  assumes "filter part_ok (split_on (CHR ''/'') base @ split_on (CHR ''/'') name) = s # rest"
  shows "filter part_ok (split_on (CHR ''/'') (path_join base name)) = s # rest"
proof -
  define root :: string where "root = (if take 1 base = ''/'' then ''/'' else [])"
  have j: "path_join base name = root @ s @ concat (map (\<lambda>t. CHR ''/'' # t) rest)"
    using assms unfolding path_join_def Let_def root_def [symmetric] part_ok_def [abs_def] by simp
  have "set (s # rest) \<subseteq> set (filter part_ok (split_on (CHR ''/'') base @ split_on (CHR ''/'') name))"
    using assms by simp
  then have ok: "\<forall>t \<in> set (s # rest). CHR ''/'' \<notin> set t \<and> part_ok t" by (auto dest: split_on_no_sep)
  then have sp: "split_on (CHR ''/'') (s @ concat (map (\<lambda>t. CHR ''/'' # t) rest)) = s # rest"
    by (intro split_on_parts) simp_all
  show ?thesis
  proof (cases "root = []")
    case True
    with j sp ok show ?thesis by (auto simp: filter_id_conv)
  next
    case False
    then have "root = ''/''" by (simp add: root_def split: if_splits)
    with j sp ok show ?thesis by (auto simp: filter_id_conv) (simp add: part_ok_def)
  qed
qed

lemma path_name_join:
  assumes "CHR ''/'' \<notin> set name" "part_ok name"
  shows "path_name (path_join base name) = name"
proof -
  have parts: "filter part_ok (split_on (CHR ''/'') base @ split_on (CHR ''/'') name) =
      filter part_ok (split_on (CHR ''/'') base) @ [name]"
    using assms by (simp add: split_on_absent)
  obtain s rest where sr: "filter part_ok (split_on (CHR ''/'') base) @ [name] = s # rest"
    by (cases "filter part_ok (split_on (CHR ''/'') base)") auto
  have "last (s # rest) = name" using sr by (metis last_snoc)
  with split_path_join [OF parts [unfolded sr]] show ?thesis
    unfolding path_name_def part_ok_def [abs_def] by simp
qed

text \<open>Uploads with different ids are stored under different paths.\<close>

lemma split_on_prefix: "c \<notin> set xs \<Longrightarrow> \<exists>ys' zs. split_on c (xs @ ys) = (xs @ ys') # zs"
proof (induction xs)
  case Nil
  then show ?case by (cases "split_on c ys") (auto, metis list.distinct(1) split_on_nonempty)
next
  case (Cons x xs)
  then show ?case by (auto split: list.splits)
qed

lemma stored_parts:
  "\<exists>y zs. filter part_ok (split_on (CHR ''/'') (stored_at web k name)) =
     filter part_ok (split_on (CHR ''/'') (st_upload_dir (wb_settings web))) @ (uuid_hex k @ ''_'' @ y) # zs"
proof -
  let ?base = "filter part_ok (split_on (CHR ''/'') (st_upload_dir (wb_settings web)))"
  have "is_hex c \<Longrightarrow> c \<noteq> CHR ''/''" for c by (auto simp: is_hex_def)
  then have no: "CHR ''/'' \<notin> set (uuid_hex k @ ''_'')" by (auto simp: uuid_hex_def dest!: hex_digits_hex)
  obtain y zs where s: "split_on (CHR ''/'') ((uuid_hex k @ ''_'') @ name) = ((uuid_hex k @ ''_'') @ y) # zs"
    using split_on_prefix [OF no] by blast
  have l: "length (uuid_hex k) = 32" by (simp add: uuid_hex_def hex_digits_length)
  then have ok: "part_ok (uuid_hex k @ ''_'' @ y)" by (intro part_ok_long) simp
  have parts: "filter part_ok (split_on (CHR ''/'') (st_upload_dir (wb_settings web)) @ split_on (CHR ''/'') (uuid_hex k @ ''_'' @ name))
      = ?base @ (uuid_hex k @ ''_'' @ y) # filter part_ok zs"
    using s ok by simp
  obtain a rest where ar: "?base @ (uuid_hex k @ ''_'' @ y) # filter part_ok zs = a # rest" by (cases ?base) auto
  have "filter part_ok (split_on (CHR ''/'') (stored_at web k name)) = ?base @ (uuid_hex k @ ''_'' @ y) # filter part_ok zs"
    unfolding ar stored_at_def by (rule split_path_join [OF parts [unfolded ar]])
  then show ?thesis by blast
qed

lemma stored_at_inject:
  assumes "stored_at web k name = stored_at web k' name'" "k < 2 ^ 128" "k' < 2 ^ 128"
  shows "k = k'"
proof -
  obtain y zs y' zs' where "(uuid_hex k @ ''_'' @ y) # zs = (uuid_hex k' @ ''_'' @ y') # zs'"
    using stored_parts [of web k name] stored_parts [of web k' name'] assms(1) by (metis same_append_eq)
  then have "uuid_hex k = uuid_hex k'" by (auto simp: uuid_hex_def hex_digits_length dest!: append_eq_append_conv [THEN iffD1, rotated])
  with assms show ?thesis by (simp add: uuid_hex_inject)
qed

lemma from_last_dot_append: "CHR ''.'' \<in> set s \<Longrightarrow> from_last_dot (p @ s) = from_last_dot s"
  by (simp add: from_last_dot_def)

lemma before_last_dot_append: "CHR ''.'' \<in> set s \<Longrightarrow> before_last_dot (p @ s) = p @ before_last_dot s"
proof -
  assume d: "CHR ''.'' \<in> set s"
  then have "dropWhile (\<lambda>c. c \<noteq> CHR ''.'') (rev s) \<noteq> []" by (simp add: dropWhile_eq_Nil_conv)
  with d show ?thesis by (simp add: before_last_dot_def)
qed

lemma dot_split: "CHR ''.'' \<in> set s \<Longrightarrow> before_last_dot s @ from_last_dot s = s"
proof -
  assume d: "CHR ''.'' \<in> set s"
  let ?r = "dropWhile (\<lambda>c. c \<noteq> CHR ''.'') (rev s)"
  have "?r \<noteq> []" using d by (simp add: dropWhile_eq_Nil_conv)
  then have "?r = CHR ''.'' # tl ?r" using hd_dropWhile [of "\<lambda>c. c \<noteq> CHR ''.''" "rev s"] by (metis list.collapse)
  then have "rev (tl ?r) @ [CHR ''.''] = rev ?r" by (metis rev.simps(2))
  moreover have "rev ?r @ rev (takeWhile (\<lambda>c. c \<noteq> CHR ''.'') (rev s)) = s"
    by (metis rev_append rev_rev_ident takeWhile_dropWhile_id)
  ultimately show ?thesis
    unfolding before_last_dot_def from_last_dot_def by (metis append.assoc append_Cons append_Nil)
qed

lemma lower_append: "lower (s @ t) = lower s @ lower t"
  by (simp add: lower_def)

lemma upload_extension_dot: "CHR ''.'' \<in> set s \<Longrightarrow> upload_extension s = lower (from_last_dot s)"
proof -
  assume d: "CHR ''.'' \<in> set s"
  have "lower s = lower (before_last_dot s) @ lower (from_last_dot s)"
    unfolding lower_append [symmetric] dot_split [OF d] ..
  with d show ?thesis unfolding upload_extension_def by simp
qed

lemma allowed_dot: "upload_extension s \<in> ALLOWED_EXTENSIONS \<Longrightarrow> CHR ''.'' \<in> set s"
  by (auto simp: upload_extension_def ALLOWED_EXTENSIONS_def split: if_splits)

text \<open>The suffix that the connector finds is the extension that the route allowed.\<close>

lemma stored_suffix:
  assumes "CHR ''/'' \<notin> set name" "upload_extension name \<in> ALLOWED_EXTENSIONS"
  shows "lower (path_suffix (stored_at web i name)) = upload_extension name"
proof -
  let ?p = "uuid_hex i @ ''_''"
  have dot: "CHR ''.'' \<in> set name" using assms(2) by (rule allowed_dot)
  have hex: "is_hex c" if "c \<in> set (uuid_hex i)" for c
    using that hex_digits_hex by (simp add: uuid_hex_def)
  then have "CHR ''/'' \<notin> set (?p @ name)" using assms(1) by (auto simp: is_hex_def)
  moreover have "part_ok (?p @ name)" by (rule part_ok_long) (simp add: uuid_hex_def)
  ultimately have n: "path_name (stored_at web i name) = ?p @ name"
    unfolding stored_at_def append_assoc [symmetric] by (rule path_name_join)
  have b: "before_last_dot (?p @ name) = ?p @ before_last_dot name"
    by (rule before_last_dot_append) (rule dot)
  have "name_suffix (?p @ name) = from_last_dot name"
    unfolding name_suffix_def b using dot from_last_dot_append [OF dot, of ?p] by auto
  then show ?thesis unfolding path_suffix_def n upload_extension_dot [OF dot] by simp
qed

section \<open>The configuration\<close>

lemma string_map_texts: "string_map (JObj (map (\<lambda>(k, v). (k, JStr v)) m)) = Some m"
  by (auto simp: list_all_iff o_def case_prod_beta)

lemma map_of_texts:
  "map_of (List.map_filter (\<lambda>(k, v). map_option (Pair k) (string_map v)) (dict_set e j ms)) e = string_map j"
  if "string_map j = Some m"
  using that by (induction e j ms rule: dict_set.induct) (auto simp: map_filter_simps split: option.splits)

text \<open>The configuration of the run has the entity type and the column names of the form.\<close>

lemma upload_config_of:
  assumes "upload_config t f = Inr config"
  shows "tc_entity_type (config_of config) = Some (uf_entity_type f)"
    "\<exists>ms. tc_csv_mappings (config_of config) = Some ms \<and> map_of ms (uf_entity_type f) = Some (csv_mapping_from_form f)"
proof -
  let ?j = "JObj (map (\<lambda>(k, v). (k, JStr v)) (csv_mapping_from_form f))"
  have "\<exists>c ms. config = dict_set ''csv_mappings'' (JObj (dict_set (uf_entity_type f) ?j ms))
      (dict_set ''entity_type'' (JStr (uf_entity_type f)) c)"
    using assms
    by (auto simp: upload_config_def Let_def simp del: dict_set.simps split: option.splits json.splits)
  then obtain c ms where "config = dict_set ''csv_mappings'' (JObj (dict_set (uf_entity_type f) ?j ms))
      (dict_set ''entity_type'' (JStr (uf_entity_type f)) c)" by blast
  then show "tc_entity_type (config_of config) = Some (uf_entity_type f)"
    "\<exists>ms. tc_csv_mappings (config_of config) = Some ms \<and> map_of ms (uf_entity_type f) = Some (csv_mapping_from_form f)"
    using map_of_texts [OF string_map_texts, of "uf_entity_type f" "csv_mapping_from_form f" ms]
    by (simp_all add: config_of_def string_map_texts del: string_map.simps)
qed

text \<open>What pandas makes of the uploaded bytes.\<close>

definition parse_upload :: "pandas \<Rightarrow> string \<Rightarrow> bytes \<Rightarrow> exn + frame" where
  "parse_upload pd name content =
     (if upload_extension name = ''.csv'' then parse_csv pd content '','' else parse_excel pd content (SheetIndex 0))"

lemma upload_rows:
  assumes "upload_config t f = Inr config" "uf_entity_type f = ''products''"
    and "CHR ''/'' \<notin> set name" "upload_extension name \<in> ALLOWED_EXTENSIONS"
    and "sl_connector_type l = CSV" "sl_stored_path l = Some (stored_at web i name)"
    and "fs (stored_at web i name) = Some content"
  shows "\<exists>c. connector_for (config_of config) l = Inr c \<and>
    fetch_products (readers_of pd fs) c =
      rows_of (parse_upload pd name content) (\<lambda>r. map_to_product r (csv_mapping_from_form f))"
proof -
  from upload_config_of [OF assms(1)] obtain ms where ms: "tc_csv_mappings (config_of config) = Some ms"
    "map_of ms ''products'' = Some (csv_mapping_from_form f)" "tc_entity_type (config_of config) = Some ''products''"
    using assms(2) by auto
  have s: "path_suffix (stored_at web i name) \<noteq> [] \<and> (lower (path_suffix (stored_at web i name)) = ''.csv''
      \<longleftrightarrow> upload_extension name = ''.csv'')"
    using stored_suffix [OF assms(3,4), of web i] assms(4) by (auto simp: ALLOWED_EXTENSIONS_def lower_def)
  let ?c = "\<lparr>cc_file_path = stored_at web i name, cc_mappings = ms, cc_delimiter = '','', cc_sheet_name = SheetIndex 0,
    cc_entity_type = ''products''\<rparr>"
  have "connector_for (config_of config) l = Inr ?c"
    using ms assms(5,6)
    by (simp add: connector_for_def factory_get_def registry_def factory_register_def get_or_def csv_init_def)
  moreover have "read_dataframe (readers_of pd fs) ?c (SheetIndex 0) = parse_upload pd name content"
    using s assms(7) by (simp add: read_dataframe_def readers_of_def parse_upload_def sheet_or_0_def)
  ultimately show ?thesis
    using ms(2) by (auto simp: fetch_products_def dict_get_or_def Let_def)
qed

end
