(* ===== verification/TaskProps.thy ===== *)
theory TaskProps
  imports Task SyncProps
begin

text \<open>The properties of the task: it is tried a bounded number of times, and what a failed one leaves.\<close>

lemma backoff_take: "k \<le> max_retries \<Longrightarrow> backoff k = take k [30, 60, 120]"
proof -
  assume "k \<le> max_retries"
  then have "k = 0 \<or> k = 1 \<or> k = 2 \<or> k = 3" by (auto simp: max_retries_def)
  then show ?thesis by (auto simp: backoff_def default_retry_delay_def numeral_3_eq_3 numeral_2_eq_2)
qed

text \<open>
  Property C20.  Every job is acknowledged: whatever happens in its runs, after at most four attempts,
  with waits of 30, 60 and 120 seconds between them, the message is gone from the queue.
\<close>

theorem job_acknowledged:
  "\<exists>n r s'. 0 < n \<and> n \<le> 4 \<and>
     (deliver env rns i T tc ^^ n) (Queued 0, [], s) (Acked r, take (n - 1) [30, 60, 120], s')"
proof -
  have b: "backoff 0 = []" by (simp add: backoff_def)
  from delivered_from [of 0 env rns i T tc s] obtain n r s'
    where "n \<le> max_retries - 0 + 1" "0 < n"
      "(deliver env rns i T tc ^^ n) (Queued 0, [], s) (Acked r, backoff (n - 1), s')"
    by (auto simp: b)
  moreover from this have "backoff (n - 1) = take (n - 1) [30, 60, 120]"
    by (intro backoff_take) simp
  ultimately have "0 < n \<and> n \<le> 4 \<and>
      (deliver env rns i T tc ^^ n) (Queued 0, [], s) (Acked r, take (n - 1) [30, 60, 120], s')"
    by (simp add: max_retries_def)
  then show ?thesis by blast
qed

lemma deliveries_count:
  assumes "(deliver env rns i T tc ^^ n) (Queued 0, [], s) (m, waits, s')"
  shows "m = Queued n \<or> (\<exists>r. m = Acked r)"
  using assms
proof (induction n arbitrary: m waits s')
  case (Suc n)
  then obtain m' w' t where "(deliver env rns i T tc ^^ n) (Queued 0, [], s) (m', w', t)"
    "deliver env rns i T tc (m', w', t) (m, waits, s')"
    by (auto elim!: relcomppE)
  with Suc.IH [OF this(1)] show ?case by (auto elim: deliver.cases)
qed simp

text \<open>
  No message goes round for ever: no sequence of deliveries of a job has more than four
  attempts, and one that has not ended in an acknowledgement goes on.
\<close>

lemma attempts_bounded:
  assumes "(deliver env rns i T tc ^^ n) (Queued 0, [], s) (m, waits, s')"
  shows "n \<le> 4 \<and> ((\<exists>r. m = Acked r) \<or> (\<exists>d. deliver env rns i T tc (m, waits, s') d))"
proof -
  have ok: "delivery_ok s (m, waits, s')" if "(deliver env rns i T tc ^^ n) (Queued 0, [], s) (m, waits, s')"
    for n m waits s'
    using delivery_reachable [OF relpowp_imp_rtranclp [OF that], of s] by (cases s) (simp add: backoff_def)
  have q: "k \<le> 3" if "(deliver env rns i T tc ^^ n) (Queued 0, [], s) (Queued k, waits, s')" for n k waits s'
    using ok [OF that] by (cases s') (simp add: max_retries_def)
  have "n \<le> 4"
  proof (cases n)
    case (Suc n')
    with assms obtain m' w' t where a: "(deliver env rns i T tc ^^ n') (Queued 0, [], s) (m', w', t)"
      "deliver env rns i T tc (m', w', t) (m, waits, s')"
      by (auto elim!: relcomppE)
    with deliveries_count [OF a(1)] have "m' = Queued n'" by (auto simp: deliver_acked)
    with q a(1) have "n' \<le> 3" by blast
    with Suc show ?thesis by simp
  qed simp
  moreover have "\<exists>d. deliver env rns i T tc (Queued k, waits, s') d" for k
    using deliver_total [of env rns i T tc k waits s'] by blast
  ultimately show ?thesis using deliveries_count [OF assms] by blast
qed

lemma attempts_bounded_witness:
  "\<exists>n m ws s'. (deliver example_env (\<lambda>_. example_run) 2 1 example_config ^^ n)
      (Queued 0, [], example_worker, example_files) (m, ws, s') \<and> n = 1 \<and> (\<exists>r. m = Acked r)"
proof -
  let ?D = "deliver example_env (\<lambda>_. example_run) 2 1 example_config"
  from example_runs obtain w' fs'
    where "process_sync example_env example_run 2 1 example_config (example_worker, example_files) = (Inr (), w', fs')"
    by blast
  then have "?D (Queued 0, [], example_worker, example_files) (Acked Done, [], w', fs')"
    by (intro deliver.succeed) (simp add: sync_erp_data_cases)
  then have p: "(?D ^^ 1) (Queued 0, [], example_worker, example_files) (Acked Done, [], w', fs')"
    by (simp only: relpowp_1)
  from attempts_bounded [OF p] p show ?thesis by blast
qed

text \<open>
  Property C19.  A job is atomic across its retries: as long as no attempt has succeeded, the committed
  products, locations, batches and transactions are those from before the first one, and as long as
  another attempt is to come, so are the files; in particular every attempt finds its upload.
\<close>

theorem retries_are_atomic:
  assumes "(deliver env rns i T tc)\<^sup>*\<^sup>* (Queued 0, [], w, fs) (m, waits, w', fs')"
    and "m \<noteq> Acked Done"
  shows "inventory (se_committed w') = inventory (se_committed w) \<and> (\<forall>k. m = Queued k \<longrightarrow> fs' = fs)"
  using delivery_reachable [OF assms(1), of "(w, fs)"] assms(2)
  by (cases m) (auto simp: backoff_def)

theorem retries_are_atomic_witness:
  "\<exists>m ws w' fs'. (deliver (example_env\<lparr>en_answers := \<lambda>n st. st \<noteq> CommitWork\<rparr>) (\<lambda>_. example_run) 2 1 example_config)\<^sup>*\<^sup>*
     (Queued 0, [], example_worker, example_files) (m, ws, w', fs') \<and> m = Queued 1 \<and> fs' = example_files"
proof -
  let ?D = "deliver (example_env\<lparr>en_answers := \<lambda>n st. st \<noteq> CommitWork\<rparr>) (\<lambda>_. example_run) 2 1 example_config"
  from example_refused obtain w' fs' where
    "process_sync (example_env\<lparr>en_answers := \<lambda>n st. st \<noteq> CommitWork\<rparr>) example_run 2 1 example_config
      (example_worker, example_files) = (Inl DatabaseError, w', fs')" by blast
  then have "?D (Queued 0, [], example_worker, example_files) (Queued (Suc 0), [] @ [30], w', fs')"
    by (intro deliver.retry) (simp add: sync_erp_data_cases max_retries_def default_retry_delay_def)
  then have p: "?D\<^sup>*\<^sup>* (Queued 0, [], example_worker, example_files) (Queued 1, [30], w', fs')"
    by auto
  from retries_are_atomic [OF p] p show ?thesis by blast
qed

lemma delete_upload_runs:
  assumes "answering env"
    and "filter (\<lambda>l. sl_id l = i \<and> sl_tenant l = T) (tb_sync_logs (se_committed w)) = [l]"
  shows "\<exists>w'. delete_upload env i T (w, fs) = (Inr (), w', delete_stored (Some l) fs)"
proof -
  have "filter (\<lambda>r. T = sl_tenant r \<and> sl_id r = i) (tb_sync_logs (se_committed w)) = [l]"
    using assms(2) by (simp add: conj_commute eq_commute)
  moreover have "\<exists>p. track l = p" by simp
  ultimately show ?thesis
    using assms(1)
    by (simp add: delete_upload_def sbind_def set_tenant_context_def get_sync_log_def select_def execute_def
        flush_log_def open_session_def send_def answer_of_def one_or_none_def answering_def tick_def
        log_by_id_def job_row_def track_def Let_def delete_stored_def)
qed

text \<open>
  The last failure cleans up: when the attempt after the third retry fails too and the
  database answers the cleaning session, the uploaded file of the job is deleted, no other file is
  touched, and the task raises the error of the run.
\<close>

theorem last_failure_deletes_upload:
  assumes "3 \<le> retries"
    and "process_sync env rn i T tc (w, fs) = (Inl e, u, gs)" and "answering env"
    and "filter (\<lambda>l. sl_id l = i \<and> sl_tenant l = T) (tb_sync_logs (se_committed u)) = [l]"
  shows "\<exists>w'. sync_erp_data env rn i T tc retries (w, fs) = (GivenUp e, w', delete_stored (Some l) fs)"
proof -
  have "gs = fs" using failed_sync_inventory [OF assms(2)] by simp
  with delete_upload_runs [OF assms(3,4), of gs] assms(1,2) show ?thesis
    by (auto simp: sync_erp_data_cases max_retries_def)
qed

lemma infinite_conn:
  "sl_connector_type l = CSV \<Longrightarrow> sl_stored_path l = Some ''u'' \<Longrightarrow>
     connector_for example_config l = Inr example_connector"
  by (simp add: connector_for_def example_config_def factory_get_def
      registry_def factory_register_def get_or_def example_connector_def)

lemma infinite_entity: "get_or (tc_entity_type example_config) ''products'' = ''products''"
  by (simp add: example_config_def get_or_def)

lemma infinite_fails:
  "\<exists>e u l. process_sync example_env infinite_run 2 1 example_config (example_worker, example_files) =
      (Inl e, u, example_files) \<and>
     filter (\<lambda>l. sl_id l = 2 \<and> sl_tenant l = 1) (tb_sync_logs (se_committed u)) = [l] \<and> sl_stored_path l = Some ''u''"
  by (simp add: process_sync_def begin_sync_def sbind_def set_tenant_context_def get_sync_log_def select_def
      execute_def flush_log_def open_session_def send_def answer_of_def one_or_none_def with_log_def
      example_env_def example_worker_def example_db_def example_log_def new_sync_log_def tick_def
      log_by_id_def track_def Let_def set_row_def mark_running_def commit_def needs_update_def in_flush_def
      int4_def mark_saved_def update_log_row_def write_row_def errors_changed_def job_row_def sync_body_def
      process_entities_rows process_products_def infinite_conn infinite_rows infinite_entity new_normalizer_def
      sync_failed_def rollback_def expire_def refresh_sync_log_def mark_failed_def append_error_def
      errors_value_def)

theorem last_failure_deletes_upload_witness:
  "\<exists>e w'. sync_erp_data example_env infinite_run 2 1 example_config 3 (example_worker, example_files) =
     (GivenUp e, w', Map.empty)"
proof -
  from infinite_fails obtain e u l where f: "process_sync example_env infinite_run 2 1 example_config
      (example_worker, example_files) = (Inl e, u, example_files)"
    "filter (\<lambda>l. sl_id l = 2 \<and> sl_tenant l = 1) (tb_sync_logs (se_committed u)) = [l]"
    "sl_stored_path l = Some ''u''" by blast
  moreover from this(3) have "delete_stored (Some l) example_files = Map.empty"
    by (simp add: delete_stored_def storage_delete_def example_files_def)
  ultimately show ?thesis
    using last_failure_deletes_upload [OF order.refl f(1) example_ready(1) f(2)] by auto
qed

end
