(* ===== verification/UploadProps.thy ===== *)
theory UploadProps
  imports UploadWork TaskProps
begin

text \<open>The properties of the upload routes.\<close>

section \<open>Accepted and refused uploads\<close>

text \<open>
  Property C8.  An accepted upload is one job, one file and one message: the caller is an active owner,
  admin or ops user, the file has an allowed extension and is neither empty nor too large; the committed
  tables gain exactly one pending job of the caller's tenant, the disk exactly the uploaded bytes under
  the path the job records, and the queue exactly one message that names the job and the tenant;
  and the response names the job.
\<close>

theorem upload_accepted:
  assumes "upload_file web os clock token file form (s, fs, q) = (Inr r, v, fs', q')"
  shows "\<exists>u \<in> set (tb_users (se_committed s)). \<exists>name content l path config.
    u_is_active u \<and> u_role u \<noteq> VIEWER \<and> file = Some (name, content) \<and>
    upload_extension (filename_of name) \<in> ALLOWED_EXTENSIONS \<and>
    0 < length content \<and> int (length content) \<le> st_max_upload_mb (wb_settings web) * 1024 * 1024 \<and>
    se_committed v = (se_committed s)\<lparr>tb_sync_logs := tb_sync_logs (se_committed s) @ [l]\<rparr> \<and>
    sl_tenant l = u_tenant u \<and> sl_status l = PENDING \<and> sl_stored_path l = Some path \<and>
    sl_original_filename l = Some (filename_of name) \<and> fs' = fs(path \<mapsto> content) \<and>
    q' = q @ [\<lparr>tm_sync_log_id = uuid_text (sl_id l), tm_tenant_id = uuid_text (u_tenant u),
      tm_tenant_config = config\<rparr>] \<and>
    r = \<lparr>up_job_id = uuid_text (sl_id l), up_status = ''pending''\<rparr>"
  using assms
proof (rule upload_returns)
  fix u name content f x
  assume g: "get_current_active_user web clock token s = (Inr u, x)" and role: "u_role u \<in> {OWNER, ADMIN, OPS}"
    and upl: "file = Some (name, content)"
    and t: "take_upload web os u name content f (x, fs, q) = (Inr r, v, fs', q')"
  from g have u: "u \<in> set (tb_users (se_committed s))" "u_is_active u" "x = tick (open_admin s)"
    by (auto elim: active_user_returns)
  then have x: "se_log x = None" "se_context x = AdminRole" "se_db x = se_committed s" by simp_all
  from t x(1,2) show ?thesis
  proof (rule take_upload_returns, goal_cases)
    case (1 l now config tn)
    with u role upl x(3) show ?case
      by (intro bexI [of _ u] exI [of _ name] exI [of _ content] exI [of _ l] exI [of _ config]
          exI [of _ "stored_at web (se_next_id x) (filename_of name)"])
        (auto simp: new_sync_log_def)
  qed
qed

definition example_outside :: outside where
  "example_outside = \<lparr>os_disk = \<lambda>_. True, os_broker = \<lambda>_. True, os_extensions = [''.csv'', ''.xlsx'']\<rparr>"

lemma example_user:
  "get_current_active_user example_web (\<lambda>_. 0) (Some access_token) example_server =
     (Inr example_owner, tick (open_admin example_server))"
proof -
  from access_token_decodes obtain p where "decode_token example_web 0 access_token ''access'' = Some p"
    "map_of p ''sub'' = Some (JStr (uuid_text 9))" by blast
  then show ?thesis by (simp add: user_evaluation login_evaluation)
qed

lemma example_extension: "upload_extension ''a.csv'' = ''.csv''"
  by code_simp

definition default_form :: upload_form where
  "default_form = the (form_of [])"

lemma default_form: "form_of [] = Some default_form" "uf_entity_type default_form = ''products''"
  "csv_mapping_from_form default_form = DEFAULT_PRODUCT_MAPPING"
  by (simp_all add: default_form_def form_of_def form_field_def csv_mapping_from_form_def DEFAULT_PRODUCT_MAPPING_def)

lemma example_path_ok: "varchar 500 (path_join ''./uploads'' (uuid_hex 10 @ ''_'' @ ''a.csv''))" "varchar 255 ''a.csv''"
  by code_simp+

lemma example_good: "good_upload example_web example_server (u_tenant example_owner) ''a.csv'' [1] default_form"
proof -
  have "stored_at example_web (se_next_id example_server) ''a.csv'' = path_join ''./uploads'' (uuid_hex 10 @ ''_'' @ ''a.csv'')"
    by (simp add: stored_at_def example_web_def default_settings_def example_server_def)
  then show ?thesis
    using example_path_ok
    by (simp add: good_upload_def filename_of_def example_extension ALLOWED_EXTENSIONS_def example_web_def
        default_settings_def example_server_def example_db_def example_tenant_def upload_config_def get_or_def)
qed

lemma example_tables: "ready_tables example_server" "tenant_exists (se_committed example_server) (u_tenant example_owner)"
  "u_role example_owner = OWNER" "answering example_env" "os_disk example_outside p" "os_broker example_outside m"
  by (simp_all add: ready_tables_def example_server_def example_db_def example_tenant_def wf_users_def
      example_owner_def tenant_exists_def example_log_def new_sync_log_def example_env_def answering_def
      example_outside_def)

text \<open>
  Property C24.  A good upload is accepted: for an active owner, admin or ops user, a file whose name,
  size and columns are in bounds is taken and its job queued, when the database, the disk and the
  broker answer.
\<close>

theorem good_upload_accepted:
  assumes "get_current_active_user web clock token s = (Inr u, x)" and "u_role u \<in> {OWNER, ADMIN, OPS}"
    and "form_of form = Some f" and "good_upload web s (u_tenant u) name content f"
    and "ready_tables s" "answering (wb_env web)" "\<And>p. os_disk os p" "\<And>m. os_broker os m"
  shows "\<exists>r v fs' m. upload_file web os clock token (Some (name, content)) form (s, fs, q) = (Inr r, v, fs', q @ [m])"
proof -
  from assms(1) have u: "u \<in> set (tb_users (se_committed s))" "x = tick (open_admin s)"
    by (auto elim: active_user_returns)
  then have "tenant_exists (se_committed s) (u_tenant u)"
    using assms(5) by (auto simp: ready_tables_def wf_users_def)
  from take_upload_runs [OF assms(6-8) assms(4,5) this] obtain r v fs' q' where
    t: "take_upload web os u name content f (x, fs, q) = (Inr r, v, fs', q')"
    using u(2) by blast
  have "upload_file web os clock token (Some (name, content)) form (s, fs, q) = (Inr r, v, fs', q')"
    using upload_authorized [OF assms(1-3)] t by simp
  moreover have "\<exists>m. q' = q @ [m]"
    using take_upload_returns [OF t] u(2) by (metis tick_sel(4,7) open_admin_sel(1,4))
  ultimately show ?thesis by blast
qed

theorem good_upload_accepted_witness:
  "\<exists>r v fs' m. upload_file example_web example_outside (\<lambda>_. 0) (Some access_token) (Some (''a.csv'', [1])) []
     (example_server, Map.empty, []) = (Inr r, v, fs', [m])"
  using good_upload_accepted [OF example_user _ default_form(1) example_good example_tables(1), of example_outside Map.empty "[]"]
    example_tables(3-6) by simp

lemma example_upload:
  "\<exists>r v fs' q'. upload_file example_web example_outside (\<lambda>_. 0) (Some access_token) (Some (''a.csv'', [1])) []
     (example_server, Map.empty, []) = (Inr r, v, fs', q')"
  using take_upload_runs [of example_web example_outside example_server example_owner "''a.csv''" "[1]" default_form Map.empty "[]"]
    example_good example_tables upload_authorized [OF example_user _ default_form(1)]
  by simp

theorem upload_accepted_witness:
  "\<exists>r v fs' m. upload_file example_web example_outside (\<lambda>_. 0) (Some access_token) (Some (''a.csv'', [1])) []
     (example_server, Map.empty, []) = (Inr r, v, fs', [m]) \<and> up_status r = ''pending''"
proof -
  from example_upload obtain r v fs' q' where
    u: "upload_file example_web example_outside (\<lambda>_. 0) (Some access_token) (Some (''a.csv'', [1])) []
     (example_server, Map.empty, []) = (Inr r, v, fs', q')" by blast
  from upload_accepted [OF u] u show ?thesis by auto
qed

text \<open>
  Property C21.  A refused upload leaves no trace: when the response is a 400, 401, 403, 413 or 422, the
  committed tables, the files and the queue are what they were.
\<close>

theorem refused_upload_leaves_nothing:
  assumes "upload_file web os clock token upl form (s, fs, q) = (Inl (HTTPException status detail bearer), v, fs', q')"
  shows "status \<in> {400, 401, 403, 413, 422} \<and> se_committed v = se_committed s \<and> fs' = fs \<and> q' = q"
proof -
  have st: "status \<in> {400, 401}" if "get_current_active_user web clock token s = (Inl (HTTPException status detail bearer), t)" for t
    using that
    by (auto simp: get_current_active_user_def get_current_user_def get_current_user_from_token_def
        credentials_exception_def raise_http_def user_of_subject_def calling_Inl
        elim!: sbindE split: option.splits if_splits sum.splits exn.splits)
  obtain r x where g: "get_current_active_user web clock token s = (r, x)" by fastforce
  have x: "se_committed x = se_committed s" using committed_after_user [of web clock token s] g by simp
  show ?thesis
  proof (cases r)
    case (Inl e)
    with g assms st x show ?thesis by (auto simp: upload_file_def sbind_def on_server_def)
  next
    case (Inr u)
    note assms [unfolded upload_authenticated [OF g [unfolded Inr]]]
    with x show ?thesis
      by (auto simp: on_server_simps require_role_def raise_http_def elim!: sbindE
          split: option.splits prod.splits if_splits dest!: take_upload_refused)
  qed
qed

lemma example_refused_upload:
  "\<exists>v fs' q'. upload_file example_web example_outside (\<lambda>_. 0) (Some access_token) (Some (''a.csv'', [])) []
     (example_server, Map.empty, []) = (Inl (HTTPException 400 ''Empty file'' False), v, fs', q')"
  by (simp add: upload_file_def sbind_def on_server_def example_user example_tables require_role_def default_form
      take_upload_def Let_def example_extension ALLOWED_EXTENSIONS_def)

theorem refused_upload_leaves_nothing_witness:
  "\<exists>v. upload_file example_web example_outside (\<lambda>_. 0) (Some access_token) (Some (''a.csv'', [])) []
     (example_server, Map.empty, []) = (Inl (HTTPException 400 ''Empty file'' False), v, Map.empty, [])"
  using example_refused_upload refused_upload_leaves_nothing by blast

section \<open>From the upload to the catalogue\<close>

lemma uploaded_row:
  assumes "l = new_sync_log i T c fn p now"
  shows "sl_id l = i" "sl_tenant l = T" "sl_connector_type l = c" "sl_stored_path l = Some p" "n < 2 ^ 31 \<Longrightarrow> room n l"
  using assms by (simp_all add: new_sync_log_def room_def)

text \<open>
  Property C7.  An uploaded product file ends up in the catalogue: once the upload is accepted, the worker
  that gets the message at its first delivery finds the job and the file, reads the rows with the column
  names of the form, and, when the database answers and the normalized rows fit the columns, completes;
  the catalogue of the caller's tenant is then what it was at the upload with the rows imported in order.
\<close>

theorem uploaded_products_imported:
  assumes "upload_file web os clock token (Some (name, content)) form (s, fs, q) = (Inr r, v, fs', q')"
    and "form_of form = Some f" "uf_entity_type f = ''products''" "name \<noteq> []" "CHR ''/'' \<notin> set name"
    and "ready_tables s" "se_next_id s + 1 < 2 ^ 128" "\<forall>t \<in> set (tb_tenants (se_committed s)). tn_id t < 2 ^ 128"
    and "answering env" "se_committed w = se_committed v"
    and "rows_of (parse_upload (run_pandas rn) name content) (\<lambda>row. map_to_product row (csv_mapping_from_form f)) = map Inr nps"
    and "length nps < 2 ^ 31"
    and "\<forall>np \<in> set nps. \<forall>np'. normalize_product (product_row np) [] = Inr np' \<longrightarrow> product_fits np'"
  shows "\<exists>m i T w' fs''. q' = q @ [m] \<and> uuid_of_text (tm_sync_log_id m) = Some i \<and> uuid_of_text (tm_tenant_id m) = Some T \<and>
    sync_erp_data env rn i T (config_of (tm_tenant_config m)) 0 (w, fs') = (Done, w', fs'') \<and>
    catalogue T (tb_products (se_committed w')) = import_products nps (catalogue T (tb_products (se_committed s)))"
  using assms(1)
proof (rule upload_returns)
  fix u name' content' f' x
  assume g: "get_current_active_user web clock token s = (Inr u, x)"
    and same: "Some (name, content) = Some (name', content')" "form_of form = Some f'"
    and t: "take_upload web os u name' content' f' (x, fs, q) = (Inr r, v, fs', q')"
  have eq: "name' = name" "content' = content" "f' = f" using same assms(2) by auto
  from g have u: "u \<in> set (tb_users (se_committed s))" "x = tick (open_admin s)" by (auto elim: active_user_returns)
  then have x: "se_log x = None" "se_context x = AdminRole" "se_db x = se_committed s" "se_next_id x = se_next_id s"
    by simp_all
  let ?T = "u_tenant u" and ?i = "Suc (se_next_id s)" and ?p = "stored_at web (se_next_id s) name"
  have tenant: "tenant_exists (se_committed s) ?T" using u(1) assms(6) by (auto simp: ready_tables_def wf_users_def)
  then have T: "?T < 2 ^ 128" using assms(8) by (auto simp: tenant_exists_def)
  from t x(1,2) show ?thesis
    unfolding eq
  proof (rule take_upload_returns, goal_cases)
    case (1 l now config tn)
    note case1 = 1 [unfolded x filename_of_def if_not_P [OF assms(4)]]
    note l = uploaded_row [OF case1(4)]
    from upload_rows [OF case1(7) assms(3,5) case1(1) l(3,4), of fs' content "run_pandas rn"] case1(6)
    obtain c where c: "connector_for (config_of config) l = Inr c"
      "fetch_products (readers_of (run_pandas rn) fs') c = map Inr nps"
      using assms(11) by auto
    have "filter (\<lambda>k. sl_id k = ?i \<and> sl_tenant k = ?T) (tb_sync_logs (se_committed s)) = []"
      using assms(6) by (auto simp: ready_tables_def filter_empty_conv)
    then have job: "filter (\<lambda>k. sl_id k = ?i \<and> sl_tenant k = ?T) (tb_sync_logs (se_committed w)) = [l]"
      using case1(5) assms(10) l by simp
    have "tenant_exists (se_committed w) ?T" using tenant case1(5) assms(10) by (simp add: tenant_exists_def)
    from products_job_runs [OF assms(9) this job l(5) [OF assms(12)] c(1) _ c(2)] upload_config_of(1) [OF case1(7)]
    obtain w' fs'' where "process_sync env rn ?i ?T (config_of config) (w, fs') = (Inr (), w', fs'')"
      and cat: "catalogue ?T (tb_products (se_committed w')) = import_products nps (catalogue ?T (tb_products (se_committed w)))"
      using assms(3,13) by (auto simp: get_or_def)
    then have "sync_erp_data env rn ?i ?T (config_of config) 0 (w, fs') = (Done, w', fs'')"
      by (simp add: sync_erp_data_def run_sync_def)
    moreover have "tb_products (se_committed w) = tb_products (se_committed s)" using case1(5) assms(10) by simp
    ultimately show ?case
      using case1(9) cat l(1) T assms(7) by (intro exI conjI) auto
  qed
qed

lemma example_parsed:
  "rows_of (parse_upload (run_pandas example_run) ''a.csv'' [1]) (\<lambda>row. map_to_product row (csv_mapping_from_form default_form)) =
     map Inr [example_product]"
proof -
  have "dropna [(''SKU Code'', Cell ''S1''), (''Product Name'', Cell ''A''), (''Category'', Missing)] =
      [(''SKU Code'', VStr ''S1''), (''Product Name'', VStr ''A'')]"
    by (simp add: dropna_def)
  then show ?thesis
    by (simp add: parse_upload_def example_extension example_run_def rows_of_def example_frame_def default_form example_record)
qed

theorem uploaded_products_imported_witness:
  "\<exists>r v fs' q' i T w' fs''. upload_file example_web example_outside (\<lambda>_. 0) (Some access_token) (Some (''a.csv'', [1])) []
     (example_server, Map.empty, []) = (Inr r, v, fs', q') \<and>
     sync_erp_data example_env example_run i T (config_of (tm_tenant_config (hd q'))) 0
       (example_worker\<lparr>se_committed := se_committed v\<rparr>, fs') = (Done, w', fs'')"
proof -
  from example_upload obtain r v fs' q' where
    u: "upload_file example_web example_outside (\<lambda>_. 0) (Some access_token) (Some (''a.csv'', [1])) []
     (example_server, Map.empty, []) = (Inr r, v, fs', q')" by blast
  have s: "se_next_id example_server + 1 < 2 ^ 128" "\<forall>t \<in> set (tb_tenants (se_committed example_server)). tn_id t < 2 ^ 128"
    "''a.csv'' \<noteq> []" "CHR ''/'' \<notin> set ''a.csv''" "length [example_product] < 2 ^ 31"
    by (simp_all add: example_server_def example_db_def example_tenant_def)
  have fits: "\<forall>np \<in> set [example_product]. \<forall>np'. normalize_product (product_row np) [] = Inr np' \<longrightarrow> product_fits np'"
    using example_ready(6) by blast
  from uploaded_products_imported [OF u default_form(1,2) s(3,4) example_tables(1) s(1,2) example_ready(1) _ example_parsed s(5) fits,
      of "example_worker\<lparr>se_committed := se_committed v\<rparr>"] u
  show ?thesis by fastforce
qed

section \<open>The status and the template\<close>

lemma find_absent: "f y \<notin> f ` set ys \<Longrightarrow> find (\<lambda>x. f x = f y) ys = None"
  unfolding find_None_iff by (metis image_eqI)

lemma distinct_find:
  assumes "distinct (map f xs)"
  shows "filter (\<lambda>x. f x = i) xs = (case find (\<lambda>x. f x = i) xs of None \<Rightarrow> [] | Some x \<Rightarrow> [x])"
  using assms
proof (induction xs)
  case (Cons y ys)
  then show ?case using find_absent [of f y ys] by (cases "f y = i") auto
qed simp

lemma find_conj:
  assumes "distinct (map f xs)"
  shows "find (\<lambda>x. f x = i \<and> P x) xs = (case find (\<lambda>x. f x = i) xs of None \<Rightarrow> None | Some x \<Rightarrow> if P x then Some x else None)"
  using assms
proof (induction xs)
  case (Cons y ys)
  then show ?case using find_absent [of f y ys] by (cases "f y = i") auto
qed simp

text \<open>
  Property C22.  A caller sees the jobs of the own tenant and no others: for an authenticated user the
  response is the account of the tenant's job with that id, and the same 404 whether the id is unknown
  or belongs to another tenant; it depends on nothing else that is stored.
\<close>

theorem status_shows_own_jobs:
  assumes "get_current_active_user web clock token s = (Inr u, x)"
    and "distinct (map sl_id (tb_sync_logs (se_committed s)))" "en_answers (wb_env web) (Suc (se_count s)) (SelectSyncLog i)"
  shows "fst (upload_status web clock token (Some i) s) =
    (case find (\<lambda>l. sl_id l = i \<and> sl_tenant l = u_tenant u) (tb_sync_logs (se_committed s)) of
       None \<Rightarrow> Inl (HTTPException 404 ''Job not found'' False)
     | Some l \<Rightarrow> job_status_of l)"
proof -
  from assms(1) have x: "x = tick (open_admin s)" by (auto elim: active_user_returns)
  then have xs: "se_log x = None" "se_state x = TxActive" "se_context x = AdminRole" "se_db x = se_committed s"
    "se_count x = Suc (se_count s)" by (simp_all add: open_admin_def)
  let ?one = "find (\<lambda>l. sl_id l = i) (tb_sync_logs (se_committed s))"
  have f: "filter (log_by_id i) (tb_sync_logs (se_committed s)) = (case ?one of None \<Rightarrow> [] | Some l \<Rightarrow> [l])"
    using distinct_find [OF assms(2)] unfolding log_by_id_def .
  have g: "get_sync_log (wb_env web) i x = (case ?one of None \<Rightarrow> (Inr False, tick x)
      | Some l \<Rightarrow> (Inr True, (tick x)\<lparr>se_log := Some (track l)\<rparr>))"
    using xs assms(3) f
    by (auto simp: get_sync_log_def select_def execute_def sbind_def flush_log_def send_def answer_of_def
        one_or_none_def split: option.splits)
  have j: "job_row ((tick x)\<lparr>se_log := Some (track l)\<rparr>) = Some l" for l
    by (rule job_row_track) simp
  show ?thesis
    unfolding find_conj [OF assms(2)] using g j
    by (auto simp: upload_status_def sbind_def assms(1) calling_def raise_http_def split: option.splits)
qed

theorem status_shows_own_jobs_witness:
  "fst (upload_status example_web (\<lambda>_. 0) (Some access_token) (Some 2) example_server) = job_status_of example_log"
proof -
  have "distinct (map sl_id (tb_sync_logs (se_committed example_server)))"
    by (simp add: example_server_def example_db_def)
  moreover have "find (\<lambda>l. sl_id l = 2 \<and> sl_tenant l = u_tenant example_owner) (tb_sync_logs (se_committed example_server)) =
      Some example_log"
    by (simp add: example_server_def example_db_def example_log_def new_sync_log_def example_owner_def new_user_def)
  ultimately show ?thesis
    using status_shows_own_jobs [OF example_user, of 2] by simp
qed

text \<open>
  The template and the form fit: its first line is the product column names of an upload
  with no column given, which are those of the connector's default mapping; and its example row, read
  back and taken through the connector and the normalizer, is the product with its prices in paise.
\<close>

theorem template_imports:
  assumes "download_template web clock token s = (Inr r, v)"
  shows "\<exists>f header row np. form_of [] = Some f \<and> csv_rows (fr_content r) = [header, row] \<and>
    header = map snd (csv_mapping_from_form f) \<and> csv_mapping_from_form f = DEFAULT_PRODUCT_MAPPING \<and>
    np_sku_code np = ''EXAMPLE-001'' \<and> np_unit_cost_paise np = 10000 \<and> np_selling_price_paise np = 15000 \<and>
    map_to_product (dropna (zip header (map Cell row))) (csv_mapping_from_form f) = Inr np \<and>
    normalize_product (product_row np) [] = Inr np"
proof -
  let ?header = "[''SKU Code'', ''Product Name'', ''Category'', ''UOM'', ''Unit Cost'', ''Selling Price'']"
  let ?row = "[''EXAMPLE-001'', ''Sample Product'', ''General'', ''pcs'', ''100.00'', ''150.00'']"
  let ?np = "\<lparr>np_sku_code = ''EXAMPLE-001'', np_name = ''Sample Product'', np_category = Some ''General'',
    np_unit_of_measure = ''pcs'', np_unit_cost_paise = 10000, np_selling_price_paise = 15000, np_industry_attributes = []\<rparr>"
  have c: "csv_rows (fr_content r) = [?header, ?row]"
    using assms by (auto simp: download_template_def csv_rows_text template_rows_def elim!: sbindE)
  have strip: "strip ''EXAMPLE-001'' = ''EXAMPLE-001''" "strip ''Sample Product'' = ''Sample Product''"
    "strip ''General'' = ''General''" "strip ''pcs'' = ''pcs''"
    by (simp_all add: strip_def is_space_def)
  have "rupee_text 10000 = ''100.00''" "rupee_text 15000 = ''150.00''"
    by (simp_all add: rupee_text_def pad_nat_def show_nat.simps digit_chars)
  then have paise: "csv_to_paise (VStr ''100.00'') = Inr 10000" "csv_to_paise (VStr ''150.00'') = Inr 15000"
    using csv_paise_of_rupee_text [of 10000] csv_paise_of_rupee_text [of 15000] by simp_all
  have "csv_apply_mapping (dropna (zip ?header (map Cell ?row))) DEFAULT_PRODUCT_MAPPING =
      zip (map fst DEFAULT_PRODUCT_MAPPING) (map VStr ?row)"
    by (simp add: dropna_def csv_apply_mapping_def DEFAULT_PRODUCT_MAPPING_def)
  then have "map_to_product (dropna (zip ?header (map Cell ?row))) DEFAULT_PRODUCT_MAPPING = Inr ?np"
    by (simp add: map_to_product_def dict_setdefault_def DEFAULT_PRODUCT_MAPPING_def paise strip opt_text_def
        row_get_def dict_get_or_def del: csv_to_paise.simps)
  moreover have "normalize_product (product_row ?np) [] = Inr ?np"
    by (simp add: normalize_product_def product_row_def strip attributes_of_def opt_text_def)
  moreover have "?header = map snd DEFAULT_PRODUCT_MAPPING" by (simp add: DEFAULT_PRODUCT_MAPPING_def)
  ultimately show ?thesis
    unfolding c using default_form
    by (intro exI [of _ default_form] exI [of _ ?header] exI [of _ ?row] exI [of _ ?np]) simp
qed

theorem template_imports_witness:
  "\<exists>r v. download_template example_web (\<lambda>_. 0) (Some access_token) example_server = (Inr r, v) \<and>
     length (csv_rows (fr_content r)) = 2"
proof -
  obtain r v where r: "download_template example_web (\<lambda>_. 0) (Some access_token) example_server = (Inr r, v)"
    by (simp add: download_template_def sbind_def example_user)
  from template_imports [OF r] r show ?thesis by auto
qed

end
