(* ===== verification/Products.thy ===== *)
theory Products
  imports AuthProps "HOL-Library.Multiset"
begin

text \<open>
  \<open>get_tenant_db\<close> of \<open>app/dependencies/auth.py\<close>, \<open>app/routes/products.py\<close> with
  \<open>app/schemas/product.py\<close>, and \<open>app/routes/health.py\<close>.  The order in which the database returns rows
  that an \<open>ORDER BY\<close> does not tell apart is a parameter.
\<close>

section \<open>A session of the caller's tenant\<close>

text \<open>
  The body runs with the context of the user's tenant; what the reset and the end of the session do
  comes after the response.
\<close>

definition with_tenant_db :: "web \<Rightarrow> user \<Rightarrow> 'a request \<Rightarrow> 'a request" where
  "with_tenant_db web current_user body s =
     (let env = wb_env web in
      case calling (set_tenant_context env (u_tenant current_user)) (open_session s) of
        (Inl e, s) \<Rightarrow> (Inl e, rollback s)
      | (Inr _, s) \<Rightarrow> (case body s of (r, s) \<Rightarrow> (r, rollback (snd (reset_tenant_context env s)))))"

section \<open>Listing products\<close>

record product_response =
  pr_id :: uuid
  pr_tenant_id :: uuid
  pr_sku_code :: string
  pr_name :: string
  pr_category :: "string option"
  pr_unit_of_measure :: string
  pr_unit_cost_paise :: int
  pr_selling_price_paise :: int
  pr_industry_attributes :: "(string \<times> json) list"
  pr_created_at :: instant
  pr_updated_at :: instant

definition product_response_of :: "product \<Rightarrow> product_response" where
  "product_response_of p =
     \<lparr>pr_id = p_id p, pr_tenant_id = p_tenant p, pr_sku_code = p_sku_code p, pr_name = p_name p,
      pr_category = p_category p, pr_unit_of_measure = p_unit_of_measure p,
      pr_unit_cost_paise = p_unit_cost_paise p, pr_selling_price_paise = p_selling_price_paise p,
      pr_industry_attributes = p_industry_attributes p, pr_created_at = p_created_at p,
      pr_updated_at = p_updated_at p\<rparr>"

record product_list =
  pl_items :: "product_response list"
  pl_total :: nat

definition visible_products :: "'z session_scheme \<Rightarrow> product list" where
  "visible_products s = filter (\<lambda>p. rls_visible (se_context s) (p_tenant p)) (tb_products (se_db s))"

text \<open>\<open>arrange n ps\<close>: the rows \<open>ps\<close> as the n-th statement, ordered by \<open>created_at DESC\<close>, returns them.\<close>

definition count_products :: "env \<Rightarrow> 'z session_scheme \<Rightarrow> (exn + nat) \<times> 'z session_scheme" where
  "count_products env = execute env CountProducts (\<lambda>s. (Inr (length (visible_products s)), s))"

definition page_products ::
  "env \<Rightarrow> (nat \<Rightarrow> product list \<Rightarrow> product list) \<Rightarrow> int \<Rightarrow> int \<Rightarrow> 'z session_scheme
     \<Rightarrow> (exn + product list) \<times> 'z session_scheme" where
  "page_products env arrange skip limit = execute env (PageProducts skip limit)
     (\<lambda>s. (Inr (take (nat limit) (drop (nat skip) (arrange (se_count s) (visible_products s)))), s))"

definition list_products ::
  "web \<Rightarrow> (nat \<Rightarrow> product list \<Rightarrow> product list) \<Rightarrow> clock \<Rightarrow> string option \<Rightarrow> int \<Rightarrow> int \<Rightarrow> product_list request" where
  "list_products web arrange clock token skip limit =
     sbind (get_current_active_user web clock token) (\<lambda>current_user.
     with_tenant_db web current_user
       (if skip < 0 \<or> limit < 1 \<or> 1000 < limit then raise_http 422 ''Unprocessable Entity'' False
        else
          sbind (calling (count_products (wb_env web))) (\<lambda>total.
          sbind (calling (page_products (wb_env web) arrange skip limit)) (\<lambda>products.
          sreturn \<lparr>pl_items = map product_response_of products, pl_total = total\<rparr>))))"

section \<open>Health\<close>

record health =
  hc_status_code :: nat
  hc_status :: string
  hc_db :: string
  hc_redis :: string
  hc_version :: string

definition connected :: "'e + 'a \<Rightarrow> string" where
  "connected r = (case r of Inl _ \<Rightarrow> ''disconnected'' | Inr _ \<Rightarrow> ''connected'')"

definition health_check :: "web \<Rightarrow> server \<Rightarrow> health \<times> server" where
  "health_check web s =
     (let (d, s) = execute (wb_env web) SelectOne (\<lambda>s. (Inr (), s)) (open_session s);
          (r, s) = redis_call web (\<lambda>r. ((), r)) s;
          ok = (connected d = ''connected'' \<and> connected r = ''connected'')
      in (\<lparr>hc_status_code = (if ok then 200 else 503), hc_status = (if ok then ''ok'' else ''degraded''),
           hc_db = connected d, hc_redis = connected r, hc_version = st_app_version (wb_settings web)\<rparr>, s))"

lemma health_ok:
  "hc_status_code (fst (health_check web s)) = 200 \<longleftrightarrow>
     en_answers (wb_env web) (se_count s) SelectOne \<and> wb_redis web (sv_calls s)"
  by (auto simp: health_check_def execute_def sbind_def flush_log_def open_session_def send_def answer_of_def
      redis_call_def connected_def tick_def Let_def)

section \<open>Pages\<close>

text \<open>What PostgreSQL promises of \<open>ORDER BY created_at DESC\<close>: the rows, sorted; ties in any order.\<close>

definition newest_first :: "(nat \<Rightarrow> product list \<Rightarrow> product list) \<Rightarrow> bool" where
  "newest_first arrange \<longleftrightarrow> (\<forall>n ps. mset (arrange n ps) = mset ps \<and> sorted (rev (map p_created_at (arrange n ps))))"

lemma newest_first_eq:
  assumes "newest_first arrange" "inj_on p_created_at (set ps)"
  shows "arrange n ps = rev (sort_key p_created_at ps)"
proof -
  have "sort_key p_created_at ps = rev (arrange n ps)"
    using assms by (intro sort_key_inj_key_eq) (simp_all add: newest_first_def rev_map)
  then show ?thesis by simp
qed

text \<open>So the times of the rows are determined, whatever becomes of the ties.\<close>

lemma newest_first_times:
  assumes "newest_first arrange"
  shows "map p_created_at (arrange n ps) = rev (sort (map p_created_at ps))"
proof -
  have "mset (map p_created_at (arrange n ps)) = mset (map p_created_at ps)"
    using assms by (metis mset_map newest_first_def)
  then have "sort (map p_created_at ps) = rev (map p_created_at (arrange n ps))"
    using assms by (intro properties_for_sort) (simp_all add: newest_first_def)
  then show ?thesis by simp
qed

lemma page_subset: "mset (take k (drop j xs)) \<subseteq># mset xs"
proof -
  have "mset (take k (drop j xs)) \<subseteq># mset (drop j xs)"
    by (metis append_take_drop_id mset_append mset_subset_eq_add_left)
  also have "mset (drop j xs) \<subseteq># mset xs"
    by (metis append_take_drop_id mset_append mset_subset_eq_add_right)
  finally show ?thesis .
qed

definition products_of :: "uuid \<Rightarrow> db \<Rightarrow> product list" where
  "products_of T d = filter (\<lambda>p. p_tenant p = T) (tb_products d)"

lemma tenant_session:
  assumes "set_tenant_context env T (open_session s) = (Inr a, t)"
  shows "t = (tick (open_session s))\<lparr>se_context := RuntimeRole (Some T)\<rparr>"
  using assms
  by (auto simp: set_tenant_context_def execute_def sbind_def flush_log_def open_session_def dest!: send_Inr)

lemma untracked_execute:
  assumes "execute env st eff s = (Inr v, t)" "se_log s = None"
  shows "eff (tick s) = (Inr v, t)" "encodable st"
  using assms
  by (auto simp: execute_def sbind_def flush_log_def answer_of_def dest!: send_Inr split: if_splits)

lemma visible_own:
  assumes "se_context s = RuntimeRole (Some T)"
  shows "visible_products s = products_of T (se_db s)"
  using assms by (auto simp: visible_products_def products_of_def intro!: filter_cong)

text \<open>
  Property C23.  A page is a page of the caller's own catalogue: the total is the number of the products
  of the caller's tenant; the items are products of the tenant, none more often than it is there, and their
  times of creation are exactly those at the asked places of all of them from the newest to the oldest, in
  whatever order the database returns products of the same instant, as those of one import; where no two
  are, the items are the products at these places, so that successive pages neither repeat nor skip one; and
  reading changes nothing.
\<close>

theorem page_of_own_products:
  assumes "list_products web arrange clock token skip limit s = (Inr r, v)" and "newest_first arrange"
    and "get_current_active_user web clock token s = (Inr u, x)"
    and "own = products_of (u_tenant u) (se_committed s)"
  shows "pl_total r = length own \<and> mset (pl_items r) \<subseteq># mset (map product_response_of own) \<and>
    map pr_created_at (pl_items r) = take (nat limit) (drop (nat skip) (rev (sort (map p_created_at own)))) \<and>
    (inj_on p_created_at (set own) \<longrightarrow> pl_items r =
      map product_response_of (take (nat limit) (drop (nat skip) (rev (sort_key p_created_at own))))) \<and>
    se_committed v = se_committed s"
proof -
  let ?env = "wb_env web" and ?T = "u_tenant u"
  from assms(3) have x: "x = tick (open_admin s)" by (auto elim: active_user_returns)
  let ?body = "if skip < 0 \<or> limit < 1 \<or> 1000 < limit then raise_http 422 ''Unprocessable Entity'' False
        else sbind (calling (count_products ?env)) (\<lambda>total.
          sbind (calling (page_products ?env arrange skip limit)) (\<lambda>products.
          sreturn \<lparr>pl_items = map product_response_of products, pl_total = total\<rparr>))"
  from assms(1,3) have "with_tenant_db web u ?body x = (Inr r, v)"
    by (simp add: list_products_def sbind_def [of "get_current_active_user _ _ _"])
  then obtain a t w where t: "set_tenant_context ?env ?T (open_session x) = (Inr a, t)" and b: "?body t = (Inr r, w)"
    and v: "v = rollback (snd (reset_tenant_context ?env w))"
    by (auto simp: with_tenant_db_def Let_def calling_def split: prod.splits sum.splits)
  have ts: "se_log t = None" "se_context t = RuntimeRole (Some ?T)" "se_db t = se_committed s" "se_committed t = se_committed s"
    using tenant_session [OF t] x by (simp_all add: open_session_def)
  from b obtain n y ps where c: "count_products ?env t = (Inr n, y)"
    and p: "page_products ?env arrange skip limit y = (Inr ps, w)"
    and r: "r = \<lparr>pl_items = map product_response_of ps, pl_total = n\<rparr>"
    by (auto simp: calling_Inr raise_http_def elim!: sbindE split: if_splits)
  have y: "n = length (visible_products (tick t))" "y = tick t"
    using untracked_execute(1) [OF c [unfolded count_products_def] ts(1)] by auto
  have w: "ps = take (nat limit) (drop (nat skip) (arrange (se_count (tick y)) (visible_products (tick y))))" "w = tick y"
    using untracked_execute(1) [OF p [unfolded page_products_def]] y(2) ts(1) by auto
  have own: "visible_products (tick t) = products_of ?T (se_committed s)"
    "visible_products (tick y) = products_of ?T (se_committed s)"
    using visible_own [of "tick t" ?T] visible_own [of "tick y" ?T] ts y(2) by simp_all
  have "se_committed v = se_committed w"
  proof -
    obtain q z where q: "reset_tenant_context ?env w = (q, z)" by fastforce
    have "se_log w = None" using w(2) y(2) ts(1) by simp
    then have "se_committed z = se_committed w"
      using q by (auto simp: reset_tenant_context_def execute_def sbind_def flush_log_def send_def
          split: tx_state.splits answer.splits)
    then show ?thesis using v q by (simp add: rollback_def)
  qed
  moreover have "pl_items r = map product_response_of (take (nat limit) (drop (nat skip) (arrange (se_count (tick y)) own)))"
    "pl_total r = length own"
    using w(1) y(1) r own assms(4) by simp_all
  moreover have "mset (take (nat limit) (drop (nat skip) (arrange n own))) \<subseteq># mset own" for n
    using page_subset [of "nat limit" "nat skip" "arrange n own"] assms(2) by (simp add: newest_first_def)
  moreover have "map pr_created_at (map product_response_of (take (nat limit) (drop (nat skip) (arrange n own)))) =
      take (nat limit) (drop (nat skip) (rev (sort (map p_created_at own))))" for n
    by (simp add: comp_def product_response_of_def take_map [symmetric] drop_map [symmetric] newest_first_times [OF assms(2)])
  ultimately show ?thesis
    using newest_first_eq [OF assms(2)] w y(2) ts(4) by (simp add: image_mset_subseteq_mono)
qed

text \<open>Two products of one import, and a later one.\<close>

definition shelf_server :: server where
  "shelf_server = example_server\<lparr>se_committed := (se_committed example_server)
     \<lparr>tb_products := [product_of 1 5 20 example_product, product_of 1 5 21 (example_product\<lparr>np_sku_code := ''S2''\<rparr>),
        product_of 1 7 22 (example_product\<lparr>np_sku_code := ''S3''\<rparr>)]\<rparr>\<rparr>"

definition by_age :: "nat \<Rightarrow> product list \<Rightarrow> product list" where
  "by_age n ps = rev (sort_key p_created_at ps)"

lemma by_age: "newest_first by_age"
  by (simp add: newest_first_def by_age_def rev_map [symmetric])

lemma shelf_user:
  "get_current_active_user example_web (\<lambda>_. 0) (Some access_token) shelf_server =
     (Inr example_owner, tick (open_admin shelf_server))"
proof -
  from access_token_decodes obtain p where "decode_token example_web 0 access_token ''access'' = Some p"
    "map_of p ''sub'' = Some (JStr (uuid_text 9))" by blast
  then show ?thesis by (simp add: user_evaluation login_evaluation shelf_server_def)
qed

lemma shelf_products:
  "products_of 1 (se_committed shelf_server) =
     [product_of 1 5 20 example_product, product_of 1 5 21 (example_product\<lparr>np_sku_code := ''S2''\<rparr>),
      product_of 1 7 22 (example_product\<lparr>np_sku_code := ''S3''\<rparr>)]"
  by (simp add: products_of_def shelf_server_def product_of_def)

theorem page_of_own_products_witness:
  "\<exists>r v. list_products example_web by_age (\<lambda>_. 0) (Some access_token) 0 2 shelf_server = (Inr r, v) \<and>
     pl_total r = 3 \<and> map pr_created_at (pl_items r) = [7, 5]"
proof -
  obtain r v where r: "list_products example_web by_age (\<lambda>_. 0) (Some access_token) 0 2 shelf_server = (Inr r, v)"
    by (simp add: list_products_def sbind_def shelf_user with_tenant_db_def set_tenant_context_def execute_def
        flush_log_def open_session_def send_def answer_of_def calling_def count_products_def page_products_def
        int8_def split: prod.splits)
  have T: "u_tenant example_owner = 1" by (simp add: example_owner_def)
  have times: "map p_created_at (products_of 1 (se_committed shelf_server)) = [5, 5, 7]"
    unfolding shelf_products by (simp add: product_of_def)
  have "length (products_of 1 (se_committed shelf_server)) = 3" unfolding shelf_products by simp
  with page_of_own_products [OF r by_age shelf_user refl] r show ?thesis
    unfolding T times by (simp add: insort_is_Cons)
qed

end
