(* ===== verification/Marg.thy ===== *)
theory Marg
  imports Csv Auth
begin

text \<open>
  The sync kit for Marg exports, \<open>integrations/marg_hook/nexus_marg_sync.py\<close>: it turns the raw exports
  into the standard CSV files, uploads them in the order products, batches, transactions, and polls the
  jobs.  A file is the sequence of its bytes, each as a \<open>char\<close>.  The decoder of \<open>utf-8-sig\<close>, the guess of
  a MIME type, the clock and the replies of the server are parameters.
\<close>

section \<open>The surroundings\<close>

record request_out =
  rq_method :: string
  rq_url :: string
  rq_headers :: "(string, string) pydict"
  rq_data :: "string option"

text \<open>A reply is a JSON value, an HTTP error with its code and body, or any other exception.\<close>

datatype reply = Reply json | ErrorReply nat string | NoReply exn

record host =
  ho_decode :: "string \<Rightarrow> exn + string"
  ho_mime :: "string \<Rightarrow> string option"
  ho_reply :: "nat \<Rightarrow> request_out \<Rightarrow> reply"
  ho_time :: "nat \<Rightarrow> pyfloat"

text \<open>
  The files, the number of requests sent and of seconds slept, the next UUID, the lines of the log, each
  as the dictionary it encodes, and what was printed.
\<close>

record kit =
  kt_files :: "string \<rightharpoonup> string"
  kt_calls :: nat
  kt_slept :: nat
  kt_next_id :: uuid
  kt_log :: "(string, json) pydict list"
  kt_printed :: "string list"

type_synonym 'a job = "kit \<Rightarrow> (exn + 'a) \<times> kit"

text \<open>\<open>s.encode()\<close>.\<close>

definition utf8 :: "string \<Rightarrow> string" where
  "utf8 s = concat (map (\<lambda>c. let n = (of_char c :: nat) in
     if n < 128 then [c] else [char_of (192 + n div 64), char_of (128 + n mod 64)]) s)"

definition crlf :: string where
  "crlf = [cr, lf]"

section \<open>The standard files\<close>

definition STANDARD_HEADERS :: "(string, string list) pydict" where
  "STANDARD_HEADERS =
     [(''products'', [''SKU Code'', ''Product Name'', ''Category'', ''UOM'', ''Unit Cost'', ''Selling Price'']),
      (''batches'', [''SKU Code'', ''Batch No'', ''MFD'', ''EXP'', ''Quantity'', ''Location'']),
      (''transactions'', [''SKU Code'', ''Location'', ''Transaction Type'', ''Quantity'', ''Unit Cost'',
         ''Reference No'', ''Transaction Date''])]"

definition header :: "string \<Rightarrow> string list" where
  "header entity = dict_get_or STANDARD_HEADERS entity []"

definition clean :: "string option \<Rightarrow> string" where
  "clean value = (case value of None \<Rightarrow> []
     | Some v \<Rightarrow> let text = strip v in
         if text \<in> set [''-  -'', ''- -'', ''nan'', ''NaN'', ''None''] then [] else text)"

definition clean_date :: "string option \<Rightarrow> string" where
  "clean_date value = clean value"

text \<open>\<open>row.get(k)\<close>, and \<open>a or b\<close> of two such values.\<close>

definition raw_get :: "csv_record \<Rightarrow> string \<Rightarrow> string option" where
  "raw_get r k = dict_get_or r k None"

definition or_value :: "string option \<Rightarrow> string option \<Rightarrow> string option" where
  "or_value a b = (if a = None \<or> a = Some [] then b else a)"

definition or_text :: "string \<Rightarrow> string \<Rightarrow> string" where
  "or_text a b = (if a = [] then b else a)"

type_synonym out_row = "(string, string) pydict"

definition transform_product_rows :: "csv_record list \<Rightarrow> out_row list" where
  "transform_product_rows rows = concat (map (\<lambda>r.
     let sku = clean (raw_get r ''code''); name = clean (or_value (raw_get r ''name'') (raw_get r ''billname'')) in
     if sku = [] \<or> name = [] then [] else
       [[(''SKU Code'', sku), (''Product Name'', name), (''Category'', clean (raw_get r ''product'')),
         (''UOM'', or_text (clean (raw_get r ''unit'')) ''PCS''), (''Unit Cost'', clean (raw_get r ''prate'')),
         (''Selling Price'', clean (raw_get r ''mrp''))]]) rows)"

definition transform_batch_rows :: "string \<Rightarrow> csv_record list \<Rightarrow> out_row list" where
  "transform_batch_rows default_location rows = concat (map (\<lambda>r.
     let sku = clean (raw_get r ''code''); batch_no = clean (or_value (raw_get r ''batchno'') (raw_get r ''mybatch'')) in
     if sku = [] \<or> batch_no = [] then [] else
       [[(''SKU Code'', sku), (''Batch No'', batch_no), (''MFD'', clean_date (raw_get r ''mfd'')),
         (''EXP'', clean_date (raw_get r ''exp'')), (''Quantity'', clean (raw_get r ''balance'')),
         (''Location'', or_text (clean (raw_get r ''godwon'')) default_location)]]) rows)"

definition transform_transaction_rows :: "string \<Rightarrow> csv_record list \<Rightarrow> out_row list" where
  "transform_transaction_rows default_location rows = concat (map (\<lambda>r.
     let sku = clean (raw_get r ''code''); qty = clean (raw_get r ''qty''); tx_date = clean_date (raw_get r ''date'') in
     if sku = [] \<or> qty = [] \<or> tx_date = [] then [] else
       [[(''SKU Code'', sku), (''Location'', or_text (clean (raw_get r ''godwon'')) default_location),
         (''Transaction Type'', ''out''), (''Quantity'', qty), (''Unit Cost'', clean (raw_get r ''rate'')),
         (''Reference No'', clean (or_value (raw_get r ''vcn'') (raw_get r ''voucher''))),
         (''Transaction Date'', tx_date)]]) rows)"

section \<open>Files\<close>

definition path_exists :: "string \<Rightarrow> kit \<Rightarrow> bool" where
  "path_exists path s \<longleftrightarrow> kt_files s path \<noteq> None"

definition first_existing :: "string list \<Rightarrow> kit \<Rightarrow> string option" where
  "first_existing paths s = find (\<lambda>p. path_exists p s) paths"

definition read_csv_file :: "host \<Rightarrow> string \<Rightarrow> csv_record list job" where
  "read_csv_file ho path s = (case kt_files s path of None \<Rightarrow> (Inl OSError, s)
     | Some content \<Rightarrow> (rmap dict_reader (ho_decode ho content), s))"

definition write_csv_file :: "string \<Rightarrow> string list \<Rightarrow> out_row list \<Rightarrow> unit job" where
  "write_csv_file path headers rows s =
     (Inr (), s\<lparr>kt_files := (kt_files s)(path \<mapsto> utf8 (dict_writer headers rows))\<rparr>)"

text \<open>One entity: its export, if there is one, becomes a standard file; the result is the entry of \<open>outputs\<close>.\<close>

definition prepare_entity ::
  "host \<Rightarrow> string \<Rightarrow> string \<Rightarrow> string list \<Rightarrow> (csv_record list \<Rightarrow> out_row list) \<Rightarrow> (string, string) pydict job" where
  "prepare_entity ho work_dir entity sources transform s =
     (case first_existing (map (path_join work_dir) sources) s of
        None \<Rightarrow> (Inr [], s)
      | Some src \<Rightarrow>
        sbind (read_csv_file ho src) (\<lambda>rows.
        let path = path_join (path_join work_dir ''nexus'') (entity @ ''.csv'') in
        sbind (write_csv_file path (header entity) (transform rows)) (\<lambda>_. sreturn [(entity, path)])) s)"

definition prepare_standard_csvs :: "host \<Rightarrow> string \<Rightarrow> string \<Rightarrow> (string, string) pydict job" where
  "prepare_standard_csvs ho work_dir default_location =
     sbind (prepare_entity ho work_dir ''products'' [''pro_full.csv''] transform_product_rows) (\<lambda>p.
     sbind (prepare_entity ho work_dir ''batches'' [''probat_full.csv''] (transform_batch_rows default_location)) (\<lambda>b.
     sbind (prepare_entity ho work_dir ''transactions'' [''dis_full.csv'', ''dis_sample.csv'']
       (transform_transaction_rows default_location)) (\<lambda>t.
     sreturn (p @ b @ t))))"

definition selected_entities :: "string \<Rightarrow> (string, string) pydict \<Rightarrow> (string \<times> string) list" where
  "selected_entities command outputs =
     (let order = (if command = ''sync-products'' then [''products'']
        else if command = ''sync-batches'' then [''batches'']
        else if command = ''sync-transactions'' then [''transactions'']
        else [''products'', ''batches'', ''transactions''])
      in concat (map (\<lambda>e. case map_of outputs e of None \<Rightarrow> [] | Some p \<Rightarrow> [(e, p)]) order))"

section \<open>Requests\<close>

definition json_request :: "host \<Rightarrow> request_out \<Rightarrow> json job" where
  "json_request ho request s =
     (let s' = s\<lparr>kt_calls := Suc (kt_calls s)\<rparr> in
      case ho_reply ho (kt_calls s) request of
        Reply j \<Rightarrow> (Inr j, s')
      | ErrorReply code body \<Rightarrow> (Inl (RuntimeError (''HTTP '' @ show_nat code @ '': '' @ body)), s')
      | NoReply e \<Rightarrow> (Inl e, s'))"

text \<open>\<open>j[k]\<close>.\<close>

definition json_get :: "json \<Rightarrow> string \<Rightarrow> exn + json" where
  "json_get j k = (case j of
     JObj kvs \<Rightarrow> (case map_of kvs k of None \<Rightarrow> Inl (KeyError k) | Some v \<Rightarrow> Inr v)
   | _ \<Rightarrow> Inl TypeError)"

definition rstrip_slash :: "string \<Rightarrow> string" where
  "rstrip_slash s = rev (dropWhile (\<lambda>c. c = CHR ''/'') (rev s))"

text \<open>\<open>urllib.parse.urlencode\<close>: letters, digits and \<open>_.-~\<close> stay, a space is a plus sign, other bytes are escaped.\<close>

definition upper_hex :: "nat \<Rightarrow> char" where
  "upper_hex d = (if d < 10 then digit_char d else char_of (d + 55))"

definition quote_plus :: "string \<Rightarrow> string" where
  "quote_plus s = concat (map (\<lambda>c. let n = (of_char c :: nat) in
     if is_upper c \<or> is_lower c \<or> is_digit c \<or> c \<in> set ''_.-~'' then [c]
     else if c = CHR '' '' then ''+''
     else [CHR ''%'', upper_hex (n div 16), upper_hex (n mod 16)]) (utf8 s))"

definition urlencode :: "(string, string) pydict \<Rightarrow> string" where
  "urlencode kvs = concat (case map (\<lambda>(k, v). quote_plus k @ ''='' @ quote_plus v) kvs of
     [] \<Rightarrow> [] | p # ps \<Rightarrow> p # map (\<lambda>q. CHR ''&'' # q) ps)"

definition kit_login :: "host \<Rightarrow> string \<Rightarrow> string \<Rightarrow> string \<Rightarrow> string job" where
  "kit_login ho base_url email password =
     sbind (json_request ho
       \<lparr>rq_method = ''POST'', rq_url = rstrip_slash base_url @ ''/auth/login'',
        rq_headers = [(''Content-Type'', ''application/x-www-form-urlencoded'')],
        rq_data = Some (urlencode [(''username'', email), (''password'', password), (''grant_type'', ''password'')])\<rparr>)
     (\<lambda>j. slift (rmap claim_text (json_get j ''access_token'')))"

definition multipart :: "host \<Rightarrow> (string, string) pydict \<Rightarrow> string \<Rightarrow> string \<Rightarrow> (string \<times> string) job" where
  "multipart ho form_fields file_field path s =
     (let boundary = ''----nexus-marg-'' @ uuid_hex (kt_next_id s);
          s' = s\<lparr>kt_next_id := Suc (kt_next_id s)\<rparr>;
          q = [quote];
          field = (\<lambda>(name, v). ''--'' @ boundary @ crlf @
            utf8 (''Content-Disposition: form-data; name='' @ q @ name @ q) @ crlf @ crlf @ utf8 v @ crlf);
          mime_type = get_or (ho_mime ho (path_name path)) ''text/csv''
      in case kt_files s path of None \<Rightarrow> (Inl OSError, s')
         | Some content \<Rightarrow>
           (Inr (concat (map field form_fields) @ ''--'' @ boundary @ crlf @
              utf8 (''Content-Disposition: form-data; name='' @ q @ file_field @ q @ ''; filename='' @ q @
                path_name path @ q) @ crlf @
              utf8 (''Content-Type: '' @ or_text mime_type ''text/csv'') @ crlf @ crlf @ content @ crlf @
              ''--'' @ boundary @ ''--'' @ crlf,
              ''multipart/form-data; boundary='' @ boundary), s'))"

definition upload_csv :: "host \<Rightarrow> string \<Rightarrow> string \<Rightarrow> string \<Rightarrow> string \<Rightarrow> json job" where
  "upload_csv ho base_url token entity_type path =
     sbind (multipart ho [(''entity_type'', entity_type)] ''file'' path) (\<lambda>(body, content_type).
     json_request ho
       \<lparr>rq_method = ''POST'', rq_url = rstrip_slash base_url @ ''/integrations/upload'',
        rq_headers = [(''Authorization'', ''Bearer '' @ token), (''Content-Type'', content_type)],
        rq_data = Some body\<rparr>)"

text \<open>\<open>status in {"completed", "failed"}\<close>: a list or a dictionary has no hash.\<close>

definition finished :: "json \<Rightarrow> exn + bool" where
  "finished status = (case status of
     JList _ \<Rightarrow> Inl TypeError | JObj _ \<Rightarrow> Inl TypeError
   | _ \<Rightarrow> Inr (status = JStr ''completed'' \<or> status = JStr ''failed''))"

definition kit_sleep :: "nat \<Rightarrow> unit job" where
  "kit_sleep n s = (Inr (), s\<lparr>kt_slept := kt_slept s + n\<rparr>)"

definition poll_request :: "string \<Rightarrow> string \<Rightarrow> string \<Rightarrow> request_out" where
  "poll_request base_url token job_id =
     \<lparr>rq_method = ''GET'', rq_url = rstrip_slash base_url @ ''/integrations/upload/'' @ job_id @ ''/status'',
      rq_headers = [(''Authorization'', ''Bearer '' @ token)], rq_data = None\<rparr>"

text \<open>The loop of \<open>poll_status\<close> with the number of rounds that are left.\<close>

fun poll_rounds :: "host \<Rightarrow> string \<Rightarrow> string \<Rightarrow> string \<Rightarrow> nat \<Rightarrow> json \<Rightarrow> json job" where
  "poll_rounds ho base_url token job_id 0 last_payload =
     slift (Inl (TimeoutError (''Timed out waiting for sync job '' @ job_id @ '': '' @ json_repr last_payload)))"
| "poll_rounds ho base_url token job_id (Suc n) last_payload =
     sbind (json_request ho (poll_request base_url token job_id)) (\<lambda>payload.
     sbind (slift (json_get payload ''status'')) (\<lambda>status.
     sbind (slift (finished status)) (\<lambda>done.
     if done then
       (if status = JStr ''failed'' then slift (Inl (RuntimeError (''Sync job failed: '' @ json_repr payload)))
        else sreturn payload)
     else sbind (kit_sleep 2) (\<lambda>_. poll_rounds ho base_url token job_id n payload))))"

definition poll_status :: "host \<Rightarrow> string \<Rightarrow> string \<Rightarrow> string \<Rightarrow> json job" where
  "poll_status ho base_url token job_id = poll_rounds ho base_url token job_id 90 JNull"

section \<open>The program\<close>

record args =
  ar_command :: string
  ar_base_url :: string
  ar_email :: string
  ar_password :: string
  ar_token :: string
  ar_work_dir :: string
  ar_default_location :: string
  ar_poll :: bool

text \<open>
  The options given on the command line, over the environment, over the defaults; a command that is no
  choice ends the program.
\<close>

definition parse_args ::
  "(string \<rightharpoonup> string) \<Rightarrow> string \<Rightarrow> (string \<rightharpoonup> string) \<Rightarrow> bool \<Rightarrow> args option" where
  "parse_args getenv command options no_poll =
     (let value = (\<lambda>opt var d. get_or (options opt) (get_or (getenv var) d)) in
      if command \<notin> set [''status'', ''sync-all'', ''sync-products'', ''sync-batches'', ''sync-transactions''] then None
      else Some
        \<lparr>ar_command = command,
         ar_base_url = value ''--base-url'' ''NEXUS_BASE_URL'' ''http://127.0.0.1:8000/api/v1'',
         ar_email = value ''--email'' ''NEXUS_EMAIL'' [],
         ar_password = value ''--password'' ''NEXUS_PASSWORD'' [],
         ar_token = value ''--token'' ''NEXUS_TOKEN'' [],
         ar_work_dir = value ''--work-dir'' ''MARG_SYNC_DIR'' (''C:'' @ [char_of (92::nat)] @ ''marg-sync''),
         ar_default_location = value ''--default-location'' ''MARG_DEFAULT_LOCATION'' ''Main'',
         ar_poll = (\<not> no_poll)\<rparr>)"

text \<open>\<open>{"entity_type": entity_type, **job}\<close>.\<close>

definition job_entry :: "string \<Rightarrow> json \<Rightarrow> exn + json" where
  "job_entry entity_type job = (case job of
     JObj kvs \<Rightarrow> Inr (JObj (foldl (\<lambda>d (k, v). dict_set k v d) [(''entity_type'', JStr entity_type)] kvs))
   | _ \<Rightarrow> Inl TypeError)"

fun upload_all :: "host \<Rightarrow> args \<Rightarrow> string \<Rightarrow> (string \<times> string) list \<Rightarrow> json list \<Rightarrow> json list job" where
  "upload_all ho ar token [] jobs = sreturn jobs"
| "upload_all ho ar token ((entity_type, path) # selected) jobs =
     sbind (upload_csv ho (ar_base_url ar) token entity_type path) (\<lambda>job.
     sbind (slift (job_entry entity_type job)) (\<lambda>entry.
     sbind (if ar_poll ar then
         sbind (slift (json_get job ''job_id'')) (\<lambda>i.
         sbind (poll_status ho (ar_base_url ar) token (claim_text i)) (\<lambda>_. sreturn ()))
       else sreturn ()) (\<lambda>_.
     upload_all ho ar token selected (jobs @ [entry]))))"

definition write_log :: "host \<Rightarrow> (string, json) pydict \<Rightarrow> kit \<Rightarrow> kit" where
  "write_log ho payload s = s\<lparr>kt_log := kt_log s @
     [(''time'', JFloat (ho_time ho (length (kt_log s)))) # payload]\<rparr>"

text \<open>The body of the \<open>try\<close>; None is the end of the command \<open>status\<close>.\<close>

definition run_command :: "host \<Rightarrow> args \<Rightarrow> json list option job" where
  "run_command ho ar =
     (if ar_token ar = [] \<and> (ar_email ar = [] \<or> ar_password ar = [])
      then slift (Inl (RuntimeError ''Set NEXUS_TOKEN, or set both NEXUS_EMAIL and NEXUS_PASSWORD.''))
      else sbind (if ar_token ar \<noteq> [] then sreturn (ar_token ar)
             else kit_login ho (ar_base_url ar) (ar_email ar) (ar_password ar)) (\<lambda>token.
        if ar_command ar = ''status'' then sreturn None
        else
          sbind (prepare_standard_csvs ho (ar_work_dir ar) (ar_default_location ar)) (\<lambda>outputs.
          let selected = selected_entities (ar_command ar) outputs in
          if selected = [] then slift (Inl (RuntimeError ''No Marg exports found to upload.''))
          else sbind (upload_all ho ar token selected []) (\<lambda>jobs. sreturn (Some jobs)))))"

text \<open>\<open>dumps\<close> is \<open>json.dumps(..., indent=2)\<close>, \<open>text\<close> the \<open>str\<close> of an exception.\<close>

definition kit_main :: "(json \<Rightarrow> string) \<Rightarrow> (exn \<Rightarrow> string) \<Rightarrow> host \<Rightarrow> args \<Rightarrow> kit \<Rightarrow> nat \<times> kit" where
  "kit_main dumps text ho ar s = (case run_command ho ar s of
     (Inr None, s) \<Rightarrow> (0, s\<lparr>kt_printed := kt_printed s @ [''logged_in'']\<rparr>)
   | (Inr (Some jobs), s) \<Rightarrow>
       (let payload = [(''status'', JStr ''ok''), (''jobs'', JList jobs)]; s = write_log ho payload s
        in (0, s\<lparr>kt_printed := kt_printed s @ [dumps (JObj payload)]\<rparr>))
   | (Inl e, s) \<Rightarrow>
       (let s = write_log ho [(''status'', JStr ''error''), (''error'', JStr (text e))] s
        in (1, s\<lparr>kt_printed := kt_printed s @ [''Nexus Inventory Platform Marg sync failed: '' @ text e]\<rparr>)))"

end
