(* ===== verification/App.thy ===== *)
theory App
  imports UploadFacts Products Marg
begin

text \<open>
  \<open>app/main.py\<close>: the application with the routers it includes.  A route is named after the function that
  serves it; which route a URL selects is Starlette's business, so that a request comes as the call of its
  route, with what FastAPI has read from the path, the headers, the cookies and the body.
\<close>

section \<open>The table of the routes\<close>

datatype endpoint =
    Health_check
  | Create_tenant_user
  | Login_route
  | Refresh_route
  | Logout_route
  | Get_me
  | Upload_file
  | Upload_status
  | Download_template
  | List_products

text \<open>The status is that of a response that is no error; \<open>health_check\<close> sets its own.\<close>

record route =
  rt_method :: string
  rt_path :: string
  rt_status :: nat
  rt_endpoint :: endpoint

record router =
  ro_prefix :: string
  ro_routes :: "route list"

definition a_route :: "string \<Rightarrow> string \<Rightarrow> nat \<Rightarrow> endpoint \<Rightarrow> route" where
  "a_route method path status e = \<lparr>rt_method = method, rt_path = path, rt_status = status, rt_endpoint = e\<rparr>"

definition health_router :: router where
  "health_router = \<lparr>ro_prefix = [], ro_routes = [a_route ''GET'' ''/health'' 200 Health_check]\<rparr>"

definition auth_router :: router where
  "auth_router = \<lparr>ro_prefix = ''/auth'', ro_routes =
     [a_route ''POST'' ''/users'' 201 Create_tenant_user,
      a_route ''POST'' ''/login'' 200 Login_route,
      a_route ''POST'' ''/refresh'' 200 Refresh_route,
      a_route ''POST'' ''/logout'' 204 Logout_route,
      a_route ''GET'' ''/me'' 200 Get_me]\<rparr>"

definition integrations_router :: router where
  "integrations_router = \<lparr>ro_prefix = ''/integrations'', ro_routes =
     [a_route ''POST'' ''/upload'' 201 Upload_file,
      a_route ''GET'' ''/upload/{job_id}/status'' 200 Upload_status,
      a_route ''GET'' ''/template'' 200 Download_template]\<rparr>"

definition products_router :: router where
  "products_router = \<lparr>ro_prefix = ''/products'', ro_routes = [a_route ''GET'' [] 200 List_products]\<rparr>"

text \<open>The paths of a router go behind its own prefix, and both behind the one they are included under.\<close>

definition include_router :: "string \<Rightarrow> router \<Rightarrow> route list" where
  "include_router prefix r = map (\<lambda>t. t\<lparr>rt_path := prefix @ ro_prefix r @ rt_path t\<rparr>) (ro_routes r)"

definition api_prefix :: string where
  "api_prefix = ''/api/v1''"

definition app_routes :: "route list" where
  "app_routes = concat (map (include_router api_prefix)
     [health_router, auth_router, integrations_router, products_router])"

definition route_of :: "endpoint \<Rightarrow> route option" where
  "route_of e = find (\<lambda>t. rt_endpoint t = e) app_routes"

section \<open>Requests and replies\<close>

datatype http_call =
    GetHealth
  | AuthCall call
  | PostUpload "string option" "(string \<times> bytes) option" "(string, string) pydict"
  | GetStatus "string option" "uuid option"
  | GetTemplate "string option"
  | GetProducts "string option" int int

fun endpoint_of :: "http_call \<Rightarrow> endpoint" where
  "endpoint_of GetHealth = Health_check"
| "endpoint_of (AuthCall (Login _ _)) = Login_route"
| "endpoint_of (AuthCall (Refresh _)) = Refresh_route"
| "endpoint_of (AuthCall (Logout _)) = Logout_route"
| "endpoint_of (AuthCall (CreateUser _ _ _)) = Create_tenant_user"
| "endpoint_of (AuthCall (Me _)) = Get_me"
| "endpoint_of (PostUpload _ _ _) = Upload_file"
| "endpoint_of (GetStatus _ _) = Upload_status"
| "endpoint_of (GetTemplate _) = Download_template"
| "endpoint_of (GetProducts _ _ _) = List_products"

text \<open>The bearer token of a call.\<close>

fun token_of :: "http_call \<Rightarrow> string option" where
  "token_of (AuthCall (CreateUser t _ _)) = t"
| "token_of (AuthCall (Me t)) = t"
| "token_of (PostUpload t _ _) = t"
| "token_of (GetStatus t _) = t"
| "token_of (GetTemplate t) = t"
| "token_of (GetProducts t _ _) = t"
| "token_of _ = None"

datatype body =
    HealthBody health
  | AuthBody response
  | UploadBody upload_response
  | StatusBody job_status
  | TemplateBody file_response
  | ProductsBody product_list
  | ErrorBody http_error

definition reply_with :: "('a \<Rightarrow> body) \<Rightarrow> (http_error + 'a) \<times> portal \<Rightarrow> body \<times> portal" where
  "reply_with f r = (case r of (Inl e, p) \<Rightarrow> (ErrorBody e, p) | (Inr v, p) \<Rightarrow> (f v, p))"

text \<open>The request goes to the function of its route.\<close>

fun handle ::
  "web \<Rightarrow> outside \<Rightarrow> (nat \<Rightarrow> product list \<Rightarrow> product list) \<Rightarrow> clock \<Rightarrow> http_call \<Rightarrow> portal \<Rightarrow> body \<times> portal" where
  "handle web os arrange clock GetHealth (s, fs, q) =
     (case health_check web s of (h, s) \<Rightarrow> (HealthBody h, s, fs, q))"
| "handle web os arrange clock (AuthCall c) (s, fs, q) =
     (case serve web clock c s of (r, s) \<Rightarrow> (AuthBody r, s, fs, q))"
| "handle web os arrange clock (PostUpload token file form) p =
     reply_with UploadBody (upload_file web os clock token file form p)"
| "handle web os arrange clock (GetStatus token job_id) p =
     reply_with StatusBody (on_server (upload_status web clock token job_id) p)"
| "handle web os arrange clock (GetTemplate token) p =
     reply_with TemplateBody (on_server (download_template web clock token) p)"
| "handle web os arrange clock (GetProducts token skip limit) p =
     reply_with ProductsBody (on_server (list_products web arrange clock token skip limit) p)"

definition error_status :: "http_error \<Rightarrow> nat" where
  "error_status e = (case e of HTTPException n _ _ \<Rightarrow> n | Unhandled _ \<Rightarrow> 500)"

text \<open>The status line of a reply.\<close>

definition reply_status :: "http_call \<Rightarrow> body \<Rightarrow> nat option" where
  "reply_status c b = (case b of
     ErrorBody e \<Rightarrow> Some (error_status e)
   | AuthBody (Failed e) \<Rightarrow> Some (error_status e)
   | HealthBody h \<Rightarrow> Some (hc_status_code h)
   | _ \<Rightarrow> map_option rt_status (route_of (endpoint_of c)))"

section \<open>The table\<close>

text \<open>Every call has one route, and no two routes share a method and a path.\<close>

lemma app_routes_eq:
  "app_routes =
    [a_route ''GET'' ''/api/v1/health'' 200 Health_check,
     a_route ''POST'' ''/api/v1/auth/users'' 201 Create_tenant_user,
     a_route ''POST'' ''/api/v1/auth/login'' 200 Login_route,
     a_route ''POST'' ''/api/v1/auth/refresh'' 200 Refresh_route,
     a_route ''POST'' ''/api/v1/auth/logout'' 204 Logout_route,
     a_route ''GET'' ''/api/v1/auth/me'' 200 Get_me,
     a_route ''POST'' ''/api/v1/integrations/upload'' 201 Upload_file,
     a_route ''GET'' ''/api/v1/integrations/upload/{job_id}/status'' 200 Upload_status,
     a_route ''GET'' ''/api/v1/integrations/template'' 200 Download_template,
     a_route ''GET'' ''/api/v1/products'' 200 List_products]"
  by (simp add: app_routes_def include_router_def health_router_def auth_router_def integrations_router_def
      products_router_def a_route_def api_prefix_def)

lemma routes_apart: "distinct (map (\<lambda>t. (rt_method t, rt_path t)) app_routes)"
  by (simp add: app_routes_eq a_route_def)

lemma one_route_each: "\<exists>t. filter (\<lambda>t. rt_endpoint t = e) app_routes = [t] \<and> route_of e = Some t"
  by (cases e) (simp_all add: app_routes_eq a_route_def route_of_def)

end
