(* ===== verification/MargProps.thy ===== *)
theory MargProps
  imports Marg UploadWork
begin

text \<open>
  The properties of the Marg kit: what it writes is read back as the rows it made, with the columns the
  upload expects, and its polling ends.
\<close>

section \<open>The standard files\<close>

definition sources_of :: "string \<Rightarrow> string list" where
  "sources_of entity = (if entity = ''products'' then [''pro_full.csv'']
     else if entity = ''batches'' then [''probat_full.csv''] else [''dis_full.csv'', ''dis_sample.csv''])"

definition transform_of :: "string \<Rightarrow> string \<Rightarrow> csv_record list \<Rightarrow> out_row list" where
  "transform_of default_location entity = (if entity = ''products'' then transform_product_rows
     else if entity = ''batches'' then transform_batch_rows default_location
     else transform_transaction_rows default_location)"

definition standard_path :: "string \<Rightarrow> string \<Rightarrow> string" where
  "standard_path work_dir entity = path_join (path_join work_dir ''nexus'') (entity @ ''.csv'')"

lemma headers:
  "header ''products'' = [''SKU Code'', ''Product Name'', ''Category'', ''UOM'', ''Unit Cost'', ''Selling Price'']"
  "header ''batches'' = [''SKU Code'', ''Batch No'', ''MFD'', ''EXP'', ''Quantity'', ''Location'']"
  "header ''transactions'' = [''SKU Code'', ''Location'', ''Transaction Type'', ''Quantity'', ''Unit Cost'',
     ''Reference No'', ''Transaction Date'']"
  by (simp_all add: header_def STANDARD_HEADERS_def dict_get_or_def)

text \<open>The columns are those the connector reads by default.\<close>

lemma header_mappings:
  "header ''products'' = map snd DEFAULT_PRODUCT_MAPPING" "header ''batches'' = map snd DEFAULT_BATCH_MAPPING"
  "header ''transactions'' = map snd DEFAULT_TRANSACTION_MAPPING"
  by (simp_all add: headers DEFAULT_PRODUCT_MAPPING_def DEFAULT_BATCH_MAPPING_def DEFAULT_TRANSACTION_MAPPING_def)

definition entities :: "string list" where
  "entities = [''products'', ''batches'', ''transactions'']"

lemma header_ok: "e \<in> set entities \<Longrightarrow> distinct (header e) \<and> header e \<noteq> []"
  by (auto simp: entities_def headers)

lemma transform_keys: "e \<in> set entities \<Longrightarrow> r \<in> set (transform_of loc e rows) \<Longrightarrow> map fst r = header e"
  by (auto simp: entities_def transform_of_def transform_product_rows_def transform_batch_rows_def
      transform_transaction_rows_def headers Let_def split: if_splits)

lemma row_of_keys:
  "distinct (map fst r) \<Longrightarrow> map (\<lambda>k. (k, Some (dict_get_or r k []))) (map fst r) = map (\<lambda>(k, v). (k, Some v)) r"
proof (induction r)
  case (Cons x r)
  then show ?case by (cases x) (auto simp: dict_get_or_def intro!: map_cong [OF refl])
qed simp

lemma rows_read_back:
  assumes "e \<in> set entities"
  shows "dict_reader (dict_writer (header e) (transform_of loc e rows)) =
    map (map (\<lambda>(k, v). (k, Some v))) (transform_of loc e rows)"
proof -
  have "dict_reader (dict_writer (header e) (transform_of loc e rows)) =
      map (\<lambda>r. map (\<lambda>k. (k, Some (dict_get_or r k []))) (header e)) (transform_of loc e rows)"
    using header_ok [OF assms] by (intro dict_reader_writer) simp_all
  also have "\<dots> = map (map (\<lambda>(k, v). (k, Some v))) (transform_of loc e rows)"
  proof (intro map_cong refl)
    fix r assume "r \<in> set (transform_of loc e rows)"
    from transform_keys [OF assms this] header_ok [OF assms] row_of_keys [of r]
    show "map (\<lambda>k. (k, Some (dict_get_or r k []))) (header e) = map (\<lambda>(k, v). (k, Some v)) r" by simp
  qed
  finally show ?thesis .
qed

lemma prepare_entity_returns:
  assumes "prepare_entity ho wd e sources transform s = (Inr out, v)"
  shows "out = [] \<and> v = s \<or> (\<exists>src content text. src \<in> path_join wd ` set sources \<and> kt_files s src = Some content \<and>
    ho_decode ho content = Inr text \<and> out = [(e, standard_path wd e)] \<and>
    v = s\<lparr>kt_files := (kt_files s)(standard_path wd e \<mapsto> utf8 (dict_writer (header e) (transform (dict_reader text))))\<rparr>)"
proof (cases "first_existing (map (path_join wd) sources) s")
  case None
  with assms show ?thesis by (simp add: prepare_entity_def)
next
  case (Some src)
  then have "src \<in> path_join wd ` set sources" by (auto simp: first_existing_def find_Some_iff)
  from Some have "kt_files s src \<noteq> None" by (auto simp: first_existing_def find_Some_iff path_exists_def)
  then obtain content where content: "kt_files s src = Some content" by auto
  have "(case rmap dict_reader (ho_decode ho content) of Inl e \<Rightarrow> (Inl e, s)
      | Inr rows \<Rightarrow> (Inr [(e, standard_path wd e)],
          s\<lparr>kt_files := (kt_files s)(standard_path wd e \<mapsto> utf8 (dict_writer (header e) (transform rows)))\<rparr>)) = (Inr out, v)"
    using assms Some content
    by (simp add: prepare_entity_def sbind_def read_csv_file_def write_csv_file_def standard_path_def Let_def
        split: sum.splits)
  then obtain tx where "ho_decode ho content = Inr tx" "out = [(e, standard_path wd e)]"
    "v = s\<lparr>kt_files := (kt_files s)(standard_path wd e \<mapsto> utf8 (dict_writer (header e) (transform (dict_reader tx))))\<rparr>"
    by (cases "ho_decode ho content") simp_all
  with \<open>src \<in> path_join wd ` set sources\<close> content show ?thesis by blast
qed

lemma standard_names:
  "e \<in> set entities \<Longrightarrow> path_name (standard_path wd e) = e @ ''.csv''"
  "f \<in> set (sources_of e) \<Longrightarrow> path_name (path_join wd f) = f"
proof -
  assume "e \<in> set entities"
  then have "e = ''products'' \<or> e = ''batches'' \<or> e = ''transactions''" by (simp add: entities_def)
  then have "CHR ''/'' \<notin> set (e @ ''.csv'')" "part_ok (e @ ''.csv'')" by (auto intro: part_ok_long)
  then show "path_name (standard_path wd e) = e @ ''.csv''" unfolding standard_path_def by (rule path_name_join)
next
  assume "f \<in> set (sources_of e)"
  then have "f = ''pro_full.csv'' \<or> f = ''probat_full.csv'' \<or> f = ''dis_full.csv'' \<or> f = ''dis_sample.csv''"
    by (auto simp: sources_of_def split: if_splits)
  then have "CHR ''/'' \<notin> set f" "part_ok f" by (auto intro: part_ok_long)
  then show "path_name (path_join wd f) = f" by (rule path_name_join)
qed

lemma standard_distinct:
  assumes "e \<in> set entities" "e' \<in> set entities"
  shows "standard_path wd e = standard_path wd e' \<longleftrightarrow> e = e'"
    "f \<in> set (sources_of e') \<Longrightarrow> path_join wd f \<noteq> standard_path wd e"
proof -
  show "standard_path wd e = standard_path wd e' \<longleftrightarrow> e = e'"
    by (metis append_same_eq standard_names(1) [OF assms(1), of wd] standard_names(1) [OF assms(2), of wd])
  assume f: "f \<in> set (sources_of e')"
  have "e = ''products'' \<or> e = ''batches'' \<or> e = ''transactions''" using assms(1) by (simp add: entities_def)
  moreover have "f = ''pro_full.csv'' \<or> f = ''probat_full.csv'' \<or> f = ''dis_full.csv'' \<or> f = ''dis_sample.csv''"
    using f by (auto simp: sources_of_def split: if_splits)
  ultimately have "f \<noteq> e @ ''.csv''" by auto
  then show "path_join wd f \<noteq> standard_path wd e"
    by (metis standard_names(1) [OF assms(1), of wd] standard_names(2) [OF f, of wd])
qed

text \<open>What the kit has made of one export, between the files before and after.\<close>

definition converted :: "host \<Rightarrow> string \<Rightarrow> string \<Rightarrow> kit \<Rightarrow> kit \<Rightarrow> string \<Rightarrow> bool" where
  "converted ho wd loc s v e \<longleftrightarrow> (\<exists>src content text out. src \<in> path_join wd ` set (sources_of e) \<and>
     kt_files s src = Some content \<and> ho_decode ho content = Inr text \<and> kt_files v (standard_path wd e) = Some out \<and>
     rmap dict_reader (ho_decode ho out) = Inr (map (map (\<lambda>(k, x). (k, Some x))) (transform_of loc e (dict_reader text))))"

lemma converted_cong:
  assumes "converted ho wd loc s v e" "kt_files v' (standard_path wd e) = kt_files v (standard_path wd e)"
    and "\<And>f. f \<in> path_join wd ` set (sources_of e) \<Longrightarrow> kt_files s' f = kt_files s f"
  shows "converted ho wd loc s' v' e"
  using assms unfolding converted_def by metis

lemma prepare_entity_converts:
  assumes "prepare_entity ho wd e (sources_of e) (transform_of loc e) s = (Inr out, v)" "e \<in> set entities"
    and "\<And>t. ho_decode ho (utf8 t) = Inr t"
  shows "set out \<subseteq> {(e, standard_path wd e)}" "x \<in> set out \<Longrightarrow> converted ho wd loc s v e"
    "p \<noteq> standard_path wd e \<Longrightarrow> kt_files v p = kt_files s p"
proof -
  from prepare_entity_returns [OF assms(1)]
  have "set out \<subseteq> {(e, standard_path wd e)} \<and> (out \<noteq> [] \<longrightarrow> converted ho wd loc s v e) \<and>
    (p \<noteq> standard_path wd e \<longrightarrow> kt_files v p = kt_files s p)"
  proof (elim disjE exE conjE)
    fix src content tx
    assume s: "src \<in> path_join wd ` set (sources_of e)" "kt_files s src = Some content" "ho_decode ho content = Inr tx"
      and o: "out = [(e, standard_path wd e)]"
      and v: "v = s\<lparr>kt_files := (kt_files s)(standard_path wd e \<mapsto>
        utf8 (dict_writer (header e) (transform_of loc e (dict_reader tx))))\<rparr>"
    have "converted ho wd loc s v e"
      unfolding converted_def
      by (intro exI conjI, rule s, rule s, rule s, simp add: v, simp add: assms(3) rows_read_back [OF assms(2)])
    with o v show ?thesis by simp
  qed simp
  then show "set out \<subseteq> {(e, standard_path wd e)}" "x \<in> set out \<Longrightarrow> converted ho wd loc s v e"
    "p \<noteq> standard_path wd e \<Longrightarrow> kt_files v p = kt_files s p" by auto
qed

text \<open>
  Property C25.  The kit writes what the upload reads: every standard file that \<open>prepare_standard_csvs\<close>
  reports was made from an export in the work directory, lies at its place under \<open>nexus\<close>, has as its
  columns those the connector reads by default, and read back with the same reader gives exactly the
  transformed rows of that export, quotes, commas and line breaks included.
\<close>

theorem kit_files_read_back:
  assumes "prepare_standard_csvs ho wd loc s = (Inr outputs, v)" and "\<And>t. ho_decode ho (utf8 t) = Inr t"
    and "(e, path) \<in> set outputs"
  shows "e \<in> set entities \<and> path = standard_path wd e \<and> converted ho wd loc s v e \<and>
    header e \<in> map snd ` {DEFAULT_PRODUCT_MAPPING, DEFAULT_BATCH_MAPPING, DEFAULT_TRANSACTION_MAPPING}"
proof -
  let ?E = "\<lambda>e. prepare_entity ho wd e (sources_of e) (transform_of loc e)"
  from assms(1) obtain p x b y t where p: "?E ''products'' s = (Inr p, x)" and b: "?E ''batches'' x = (Inr b, y)"
    and t: "?E ''transactions'' y = (Inr t, v)" and o: "outputs = p @ b @ t"
    by (auto simp: prepare_standard_csvs_def sources_of_def transform_of_def elim!: sbindE)
  have mem: "''products'' \<in> set entities" "''batches'' \<in> set entities" "''transactions'' \<in> set entities"
    by (simp_all add: entities_def)
  note P = prepare_entity_converts [OF p mem(1) assms(2)]
  note B = prepare_entity_converts [OF b mem(2) assms(2)]
  note T = prepare_entity_converts [OF t mem(3) assms(2)]
  have src: "kt_files x f = kt_files s f" "kt_files y f = kt_files s f"
    if "f \<in> path_join wd ` set (sources_of e')" "e' \<in> set entities" for f e'
    using that P(3) [of f] B(3) [of f] standard_distinct(2) [OF mem(1) that(2)] standard_distinct(2) [OF mem(2) that(2)]
    by auto
  have out: "kt_files v (standard_path wd ''products'') = kt_files x (standard_path wd ''products'')"
    "kt_files v (standard_path wd ''batches'') = kt_files y (standard_path wd ''batches'')"
    using B(3) [of "standard_path wd ''products''"] T(3) [of "standard_path wd ''products''"]
      T(3) [of "standard_path wd ''batches''"] standard_distinct(1) [OF mem(1,2)] standard_distinct(1) [OF mem(1,3)]
      standard_distinct(1) [OF mem(2,3)] by auto
  consider "(e, path) \<in> set p" | "(e, path) \<in> set b" | "(e, path) \<in> set t" using assms(3) o by auto
  then show ?thesis
  proof cases
    case 1
    then have "e = ''products''" "path = standard_path wd e" using P(1) by auto
    with converted_cong [OF P(2) [OF 1] out(1)] show ?thesis using mem(1) header_mappings by simp
  next
    case 2
    then have "e = ''batches''" "path = standard_path wd e" using B(1) by auto
    with converted_cong [OF B(2) [OF 2] out(2), of s] src(1) [OF _ mem(2)] show ?thesis
      using mem(2) header_mappings by simp
  next
    case 3
    then have "e = ''transactions''" "path = standard_path wd e" using T(1) by auto
    with converted_cong [OF T(2) [OF 3] refl, of s] src(2) [OF _ mem(3)] show ?thesis
      using mem(3) header_mappings by simp
  qed
qed

fun utf8_decode :: "string \<Rightarrow> string" where
  "utf8_decode [] = []"
| "utf8_decode [c] = [c]"
| "utf8_decode (c # d # s) = (let n = (of_char c :: nat) in
     if n < 128 then c # utf8_decode (d # s)
     else char_of ((n - 192) * 64 + (of_char d - 128)) # utf8_decode s)"

lemma utf8_decode_ascii: "(of_char c :: nat) < 128 \<Longrightarrow> utf8_decode (c # s) = c # utf8_decode s"
  by (cases s) simp_all

lemma utf8_round: "utf8_decode (utf8 s) = s"
proof (induction s)
  case (Cons c s)
  let ?n = "of_char c :: nat"
  have n: "?n < 256" by simp
  show ?case
  proof (cases "?n < 128")
    case True
    then have "utf8 (c # s) = c # utf8 s" by (simp add: utf8_def)
    with True Cons show ?thesis by (simp add: utf8_decode_ascii)
  next
    case False
    have u: "utf8 (c # s) = char_of (192 + ?n div 64) # char_of (128 + ?n mod 64) # utf8 s"
      using False by (simp add: utf8_def Let_def)
    have d: "?n div 64 < 4" by (rule less_mult_imp_div_less) (use n in simp)
    then have "(of_char (char_of (192 + ?n div 64) :: char) :: nat) = 192 + ?n div 64"
      "(of_char (char_of (128 + ?n mod 64) :: char) :: nat) = 128 + ?n mod 64"
      by (simp_all add: of_char_of)
    then have "utf8_decode (utf8 (c # s)) = char_of (?n div 64 * 64 + ?n mod 64) # utf8_decode (utf8 s)"
      unfolding u by (simp add: Let_def)
    then show ?thesis using Cons by simp
  qed
qed (simp add: utf8_def)

definition example_host :: host where
  "example_host = \<lparr>ho_decode = \<lambda>s. Inr (utf8_decode s), ho_mime = \<lambda>_. None,
     ho_reply = \<lambda>n rq. Reply (JObj [(''status'', JStr (if n < 2 then ''running'' else ''completed''))]), ho_time = \<lambda>_. Fin 0 0\<rparr>"

definition example_kit :: kit where
  "example_kit = \<lparr>kt_files = [path_join ''w'' ''pro_full.csv'' \<mapsto>
       utf8 (csv_text [[''code'', ''name''], [''S1'', ''A, B''], [''nan'', ''C'']])],
     kt_calls = 0, kt_slept = 0, kt_next_id = 0, kt_log = [], kt_printed = []\<rparr>"

lemma example_paths:
  "path_join ''w'' ''probat_full.csv'' \<noteq> path_join ''w'' ''pro_full.csv''"
  "path_join ''w'' ''dis_full.csv'' \<noteq> path_join ''w'' ''pro_full.csv''"
  "path_join ''w'' ''dis_sample.csv'' \<noteq> path_join ''w'' ''pro_full.csv''"
  "path_join (path_join ''w'' ''nexus'') ''products.csv'' \<notin> {path_join ''w'' ''probat_full.csv'',
     path_join ''w'' ''dis_full.csv'', path_join ''w'' ''dis_sample.csv''}"
  by code_simp+

lemma example_prepared:
  "\<exists>v. prepare_standard_csvs example_host ''w'' ''Main'' example_kit = (Inr [(''products'', standard_path ''w'' ''products'')], v)"
  using example_paths
  by (auto simp: prepare_standard_csvs_def prepare_entity_def sbind_def first_existing_def path_exists_def example_kit_def
      read_csv_file_def example_host_def write_csv_file_def standard_path_def Let_def)

theorem kit_files_read_back_witness:
  "\<exists>v. prepare_standard_csvs example_host ''w'' ''Main'' example_kit = (Inr [(''products'', standard_path ''w'' ''products'')], v) \<and>
     converted example_host ''w'' ''Main'' example_kit v ''products''"
proof -
  have d: "ho_decode example_host (utf8 t) = Inr t" for t by (simp add: example_host_def utf8_round)
  from example_prepared obtain v where
    v: "prepare_standard_csvs example_host ''w'' ''Main'' example_kit = (Inr [(''products'', standard_path ''w'' ''products'')], v)"
    by blast
  from kit_files_read_back [OF v d, of "''products''" "standard_path ''w'' ''products''"] v show ?thesis by simp
qed

section \<open>Polling\<close>

lemma json_request_state: "json_request ho rq s = (r, t) \<Longrightarrow> t = s\<lparr>kt_calls := Suc (kt_calls s)\<rparr>"
  by (auto simp: json_request_def Let_def split: reply.splits)

lemma poll_rounds_end:
  "poll_rounds ho b tk i n last_payload s = (r, v) \<Longrightarrow>
     (\<exists>k \<le> n. \<exists>j \<le> k. v = s\<lparr>kt_calls := kt_calls s + k, kt_slept := kt_slept s + 2 * j\<rparr>) \<and>
     (\<forall>p. r = Inr p \<longrightarrow> json_get p ''status'' = Inr (JStr ''completed''))"
proof (induction n arbitrary: last_payload s)
  case (Suc n)
  let ?rq = "poll_request b tk i"
  let ?s = "s\<lparr>kt_calls := Suc (kt_calls s)\<rparr>"
  have one: "\<exists>k \<le> Suc n. \<exists>j \<le> k. ?s = s\<lparr>kt_calls := kt_calls s + k, kt_slept := kt_slept s + 2 * j\<rparr>"
    by (cases s) (auto intro!: exI [of _ 1] exI [of _ 0])
  obtain q t where q: "json_request ho ?rq s = (q, t)" by fastforce
  then have t: "t = ?s" by (rule json_request_state)
  show ?case
  proof (cases q)
    case (Inl e)
    with Suc.prems q have "v = t" "r = Inl e" by (simp_all add: sbind_def)
    with t one show ?thesis by simp
  next
    case (Inr payload)
    consider e where "json_get payload ''status'' = Inl e"
      | st e where "json_get payload ''status'' = Inr st" "finished st = Inl e"
      | d st where "json_get payload ''status'' = Inr st" "finished st = Inr d"
      by (metis obj_sumE)
    then show ?thesis
    proof cases
      case (1 e)
      with Suc.prems q Inr have "v = t \<and> r = Inl e" by (simp add: sbind_def)
      with t one show ?thesis by simp
    next
      case (2 st e)
      with Suc.prems q Inr have "v = t \<and> r = Inl e" by (simp add: sbind_def)
      with t one show ?thesis by simp
    next
      case (3 d st)
      show ?thesis
      proof (cases d)
        case True
        then have "st = JStr ''completed'' \<or> st = JStr ''failed''" using 3(2) by (auto simp: finished_def split: json.splits)
        with Suc.prems q Inr 3 True have "v = t \<and> (r = Inr payload \<and> st = JStr ''completed'' \<or> isl r)"
          by (auto simp: sbind_def)
        with t one 3 show ?thesis by auto
      next
        case False
        let ?u = "?s\<lparr>kt_slept := kt_slept s + 2\<rparr>"
        have "poll_rounds ho b tk i n payload ?u = (r, v)"
          using Suc.prems q t Inr 3 False by (simp add: sbind_def kit_sleep_def)
        from Suc.IH [OF this] obtain k j where k: "k \<le> n" "j \<le> k"
          "v = ?u\<lparr>kt_calls := kt_calls ?u + k, kt_slept := kt_slept ?u + 2 * j\<rparr>"
          and p: "\<forall>p. r = Inr p \<longrightarrow> json_get p ''status'' = Inr (JStr ''completed'')" by blast
        then have "v = s\<lparr>kt_calls := kt_calls s + Suc k, kt_slept := kt_slept s + 2 * Suc j\<rparr>" by simp
        with k p show ?thesis by (intro conjI exI [of _ "Suc k"] exI [of _ "Suc j"]) auto
      qed
    qed
  qed
qed (auto intro: exI [of _ 0])

text \<open>
  Property C26.  Polling ends: whatever the server replies, \<open>poll_status\<close> sends at most 90 requests and
  sleeps at most 180 seconds, changes nothing else, and returns a payload only if that says the job
  completed.
\<close>

theorem polling_ends:
  "(let (r, v) = poll_status ho base_url token job_id s in
     (\<exists>k n. k \<le> 90 \<and> n \<le> 180 \<and> v = s\<lparr>kt_calls := kt_calls s + k, kt_slept := kt_slept s + n\<rparr>) \<and>
     r \<in> range Inl \<union> {Inr p | p. json_get p ''status'' = Inr (JStr ''completed'')})"
proof -
  obtain r v where e: "poll_status ho base_url token job_id s = (r, v)" by fastforce
  from poll_rounds_end [OF e [unfolded poll_status_def]] obtain k j where
    "k \<le> 90" "j \<le> k" "v = s\<lparr>kt_calls := kt_calls s + k, kt_slept := kt_slept s + 2 * j\<rparr>"
    and p: "\<forall>p. r = Inr p \<longrightarrow> json_get p ''status'' = Inr (JStr ''completed'')" by blast
  then have "\<exists>k n. k \<le> 90 \<and> n \<le> 180 \<and> v = s\<lparr>kt_calls := kt_calls s + k, kt_slept := kt_slept s + n\<rparr>"
    by (intro exI [of _ k] exI [of _ "2 * j"]) simp
  with e p show ?thesis by (cases r) auto
qed

end
