(* ===== verification/AppProps.thy ===== *)
theory AppProps
  imports App MargProps
begin

text \<open>
  What the routes of the application share: they refuse who is no active user, and the sync kit asks
  them and nothing else.
\<close>

section \<open>Strangers\<close>

text \<open>The routes that ask for no user.\<close>

definition public_endpoints :: "endpoint set" where
  "public_endpoints = {Health_check, Login_route, Refresh_route, Logout_route}"

lemma reply_with_Inl: "m p = (Inl e, p') \<Longrightarrow> reply_with f (m p) = (ErrorBody e, p')"
  by (simp add: reply_with_def)

lemma respond_Inl: "m s = (Inl e, s') \<Longrightarrow> respond f (m s) = (Failed e, s')"
  by (simp add: respond_def)

lemma handle_stranger:
  assumes "endpoint_of c \<notin> public_endpoints" "get_current_active_user web clock (token_of c) s = (Inl e, v)"
    and "handle web os arrange clock c (s, fs, q) = (b, p)"
  shows "p = (v, fs, q) \<and> (b = ErrorBody e \<or> b = AuthBody (Failed e))"
proof -
  have raises: "sbind (get_current_active_user web clock (token_of c)) g s = (Inl e, v)" for g :: "user \<Rightarrow> 'a request"
    using assms(2) by (simp add: sbind_def)
  show ?thesis
  proof (cases c)
    case (AuthCall a)
    then show ?thesis using assms
      by (cases a) (auto simp: public_endpoints_def create_tenant_user_def get_me_def sbind_def respond_def)
  qed (use assms in \<open>auto simp: public_endpoints_def upload_file_def upload_status_def download_template_def
    list_products_def sbind_def on_server_def reply_with_def\<close>)
qed

lemma user_keeps_redis:
  "session.more (snd (get_current_active_user web clock t s)) = session.more s"
proof -
  have q: "session.more (snd (calling (get_user_by_id env i) s)) = session.more s" for env i and s :: server
    by (auto simp: calling_def get_user_by_id_def split: prod.splits sum.splits) (metis select_const(5) snd_conv)+
  show ?thesis
    unfolding get_current_active_user_def
    by (rule sbind_keeps_inv [where P = "\<lambda>v. session.more v = session.more s"])
      (auto simp: get_current_user_def get_current_user_from_token_def credentials_exception_def raise_http_def
        user_of_subject_def q open_admin_def split: option.splits sum.splits exn.splits
        intro!: sbind_keeps_inv [where P = "\<lambda>v. session.more v = session.more s"])
qed

text \<open>
  Property C15.  Every route but those of health, login, refresh and logout is closed to strangers: who is
  not recognized as an active user gets the error of that check as the status, and the request changes
  neither the database, nor Redis, nor the files, nor the queue of the workers.
\<close>

theorem strangers_are_refused:
  assumes "endpoint_of c \<notin> public_endpoints" and "get_current_active_user web clock (token_of c) s = (Inl e, v)"
    and "handle web os arrange clock c (s, fs, q) = (b, s', fs', q')"
  shows "reply_status c b = Some (error_status e) \<and> se_committed s' = se_committed s \<and> sv_redis s' = sv_redis s \<and>
    fs' = fs \<and> q' = q"
proof -
  from handle_stranger [OF assms] have p: "s' = v" "fs' = fs" "q' = q" "b = ErrorBody e \<or> b = AuthBody (Failed e)"
    by simp_all
  have "se_committed v = se_committed s" "session.more v = session.more s"
    using committed_after_user [of web clock "token_of c" s] user_keeps_redis [of web clock "token_of c" s] assms(2)
    by simp_all
  with p more_server(1) [of v s] show ?thesis by (auto simp: reply_status_def)
qed

theorem strangers_are_refused_witness:
  "\<forall>os arrange. reply_status (GetProducts None 0 10) (fst (handle example_web os arrange (\<lambda>_. 0) (GetProducts None 0 10)
     (example_server, Map.empty, []))) = Some 401"
proof (intro allI)
  fix os arrange
  have u: "get_current_active_user example_web (\<lambda>_. 0) (token_of (GetProducts None 0 10)) example_server =
      (Inl (HTTPException 401 ''Not authenticated'' True), example_server)"
    by (simp add: get_current_active_user_def get_current_user_def sbind_def raise_http_def)
  obtain b s' fs' q' where h: "handle example_web os arrange (\<lambda>_. 0) (GetProducts None 0 10) (example_server, Map.empty, []) =
      (b, s', fs', q')" by (metis prod_cases4)
  from strangers_are_refused [OF _ u h] h
  show "reply_status (GetProducts None 0 10) (fst (handle example_web os arrange (\<lambda>_. 0) (GetProducts None 0 10)
     (example_server, Map.empty, []))) = Some 401"
    by (simp add: public_endpoints_def error_status_def)
qed

section \<open>The sync kit\<close>

text \<open>The URL of a path with its parameters filled in, segment by segment.\<close>

definition at_path :: "(string \<rightharpoonup> string) \<Rightarrow> string \<Rightarrow> string" where
  "at_path params path = concat (map (\<lambda>s. CHR ''/'' # get_or (params s) s) (tl (split_on (CHR ''/'') path)))"

definition asks_route :: "string \<Rightarrow> request_out \<Rightarrow> bool" where
  "asks_route origin r \<longleftrightarrow> (\<exists>e \<in> {Login_route, Upload_file, Upload_status}. \<exists>t i. route_of e = Some t \<and>
     rq_method r = rt_method t \<and> rq_url r = origin @ at_path [''{job_id}'' \<mapsto> i] (rt_path t))"

lemma kit_routes:
  "route_of Login_route = Some (a_route ''POST'' ''/api/v1/auth/login'' 200 Login_route)"
  "route_of Upload_file = Some (a_route ''POST'' ''/api/v1/integrations/upload'' 201 Upload_file)"
  "route_of Upload_status = Some (a_route ''GET'' ''/api/v1/integrations/upload/{job_id}/status'' 200 Upload_status)"
  by (simp_all add: route_of_def app_routes_eq a_route_def)

lemma base_url: "rstrip_slash (origin @ api_prefix) = origin @ ''/api/v1''"
  by (simp add: rstrip_slash_def api_prefix_def)

lemma asked:
  "asks_route origin \<lparr>rq_method = ''POST'', rq_url = rstrip_slash (origin @ api_prefix) @ ''/auth/login'',
     rq_headers = h, rq_data = d\<rparr>"
  "asks_route origin \<lparr>rq_method = ''POST'', rq_url = rstrip_slash (origin @ api_prefix) @ ''/integrations/upload'',
     rq_headers = h, rq_data = d\<rparr>"
  "asks_route origin (poll_request (origin @ api_prefix) token i)"
  unfolding asks_route_def base_url poll_request_def bex_simps insert_iff
  using kit_routes
  by (auto simp: a_route_def at_path_def get_or_def)

definition answers_alike :: "string \<Rightarrow> host \<Rightarrow> (nat \<Rightarrow> request_out \<Rightarrow> reply) \<Rightarrow> bool" where
  "answers_alike origin ho f \<longleftrightarrow> (\<forall>n r. asks_route origin r \<longrightarrow> ho_reply ho n r = f n r)"

lemma alike_request:
  "answers_alike origin ho f \<Longrightarrow> asks_route origin r \<Longrightarrow> json_request (ho\<lparr>ho_reply := f\<rparr>) r = json_request ho r"
  by (rule ext) (simp add: json_request_def Let_def answers_alike_def)

lemma alike_prepare:
  "prepare_standard_csvs (ho\<lparr>ho_reply := f\<rparr>) d l = prepare_standard_csvs ho d l"
proof -
  have "read_csv_file (ho\<lparr>ho_reply := f\<rparr>) = read_csv_file ho"
    by (intro ext) (simp add: read_csv_file_def split: option.splits)
  then have "prepare_entity (ho\<lparr>ho_reply := f\<rparr>) = prepare_entity ho"
    by (intro ext) (simp add: prepare_entity_def split: option.splits)
  then show ?thesis by (simp add: prepare_standard_csvs_def)
qed

lemma alike_login:
  "answers_alike origin ho f \<Longrightarrow>
     kit_login (ho\<lparr>ho_reply := f\<rparr>) (origin @ api_prefix) e p = kit_login ho (origin @ api_prefix) e p"
  by (simp add: kit_login_def alike_request [OF _ asked(1)])

lemma alike_upload:
  assumes "answers_alike origin ho f"
  shows "upload_csv (ho\<lparr>ho_reply := f\<rparr>) (origin @ api_prefix) tk e p = upload_csv ho (origin @ api_prefix) tk e p"
proof -
  have "multipart (ho\<lparr>ho_reply := f\<rparr>) = multipart ho" by (intro ext) (simp add: multipart_def Let_def)
  then show ?thesis by (simp add: upload_csv_def alike_request [OF assms asked(2)])
qed

lemma alike_polling:
  "answers_alike origin ho f \<Longrightarrow>
     poll_rounds (ho\<lparr>ho_reply := f\<rparr>) (origin @ api_prefix) tk i n j = poll_rounds ho (origin @ api_prefix) tk i n j"
  by (induction n arbitrary: j) (simp_all add: alike_request [OF _ asked(3)] cong: if_cong)

lemma alike_uploads:
  assumes "answers_alike origin ho f" and "ar_base_url ar = origin @ api_prefix"
  shows "upload_all (ho\<lparr>ho_reply := f\<rparr>) ar tk selected jobs = upload_all ho ar tk selected jobs"
proof (induction selected arbitrary: jobs)
  case (Cons x selected)
  then show ?case
    by (cases x) (simp add: alike_upload [OF assms(1)] alike_polling [OF assms(1)] poll_status_def assms(2) cong: if_cong)
qed simp

text \<open>
  Property C27.  The sync kit and the application fit: with the application's prefix behind the origin as
  its base URL, the kit asks nothing but the routes for login, upload and the status of a job, with their
  methods and paths, so that a server that answers these requests alike is all the same to it.
\<close>

theorem kit_asks_the_routes:
  assumes "ar_base_url ar = origin @ api_prefix"
    and "\<forall>n r. asks_route origin r \<longrightarrow> ho_reply ho n r = f n r"
  shows "kit_main dumps txt (ho\<lparr>ho_reply := f\<rparr>) ar s = kit_main dumps txt ho ar s"
proof -
  have a: "answers_alike origin ho f" using assms(2) by (simp add: answers_alike_def)
  have "run_command (ho\<lparr>ho_reply := f\<rparr>) ar = run_command ho ar"
    by (simp add: run_command_def alike_login [OF a] alike_prepare alike_uploads [OF a assms(1)] assms(1) cong: if_cong)
  moreover have "write_log (ho\<lparr>ho_reply := f\<rparr>) = write_log ho" by (intro ext) (simp add: write_log_def)
  ultimately show ?thesis by (simp only: kit_main_def)
qed

text \<open>The defaults of the kit are such a base URL.\<close>

theorem kit_asks_the_routes_witness:
  "\<exists>ar. parse_args Map.empty ''sync-all'' Map.empty False = Some ar \<and>
     (\<forall>dumps txt. kit_main dumps txt (example_host\<lparr>ho_reply := \<lambda>n r. if asks_route ''http://127.0.0.1:8000'' r
       then ho_reply example_host n r else NoReply OSError\<rparr>) ar example_kit = kit_main dumps txt example_host ar example_kit)"
proof -
  obtain ar where ar: "parse_args Map.empty ''sync-all'' Map.empty False = Some ar"
    "ar_base_url ar = ''http://127.0.0.1:8000'' @ api_prefix"
    by (simp add: parse_args_def get_or_def Let_def api_prefix_def)
  from kit_asks_the_routes [OF ar(2)] ar(1) show ?thesis by simp
qed

end
