(* ===== verification/Import.thy ===== *)
theory Import
  imports SyncProps
begin

text \<open>
  What a product job that completed has done, whatever the database answered on the way: a statement that
  is refused leaves a session that cannot commit, so that completing shows that every upsert took effect.
\<close>

section \<open>One row\<close>

text \<open>The driver sends the row; one with U+0000 in a text it refuses, and only that row is lost.\<close>

definition sendable :: "NormalizedProduct \<Rightarrow> bool" where
  "sendable np \<longleftrightarrow> text_ok (np_sku_code np) \<and> text_ok (np_name np) \<and> text_null (np_category np) \<and>
     text_ok (np_unit_of_measure np)"

lemma flush_raises: "flush_log env w = (Inl e, u) \<Longrightarrow> dead u"
  by (auto simp: flush_log_def in_flush_def flush_failed_def dead_def
      split: option.splits if_splits prod.splits sum.splits)

lemma upsert_raises:
  assumes "upsert_product env np w = (Inl e, u)" "sendable np"
  shows "dead u"
proof -
  let ?st = "UpsertProduct (product_of (nz_tenant w) (sql_now env w) (se_next_id w) np)"
  let ?eff = "\<lambda>w. (Inr (returned_product np (put_product env np w)), put_product env np w)"
  have e: "encodable ?st" using assms(2) by (simp add: sendable_def product_of_def)
  have "dead x" if "execute env ?st ?eff w = (Inl e', x)" for e' x
    using that unfolding execute_def
  proof (elim sbindE)
    fix v y
    assume "send env ?st ?eff y = (Inl e', x)"
    with e show "dead x"
      by (auto simp: send_def dead_def answer_of_def split: tx_state.splits answer.splits if_splits)
  qed (auto dest: flush_raises)
  then show ?thesis
    using assms(1) unfolding upsert_product_def by (auto elim!: sbindE dest: flush_raises)
qed

text \<open>The steps of a row besides the upsert change the tracked row only.\<close>

definition log_only :: "worker \<Rightarrow> worker \<Rightarrow> bool" where
  "log_only u w \<longleftrightarrow> (\<exists>l. u = w\<lparr>se_log := l\<rparr>)"

lemma log_only_refl: "log_only w w"
  unfolding log_only_def by (rule exI [of _ "se_log w"]) simp

lemma log_only_trans: "log_only u v \<Longrightarrow> log_only v w \<Longrightarrow> log_only u w"
  by (auto simp: log_only_def)

lemma log_only_sel:
  assumes "log_only u w"
  shows "se_db u = se_db w" "nz_tenant u = nz_tenant w" "dead u = dead w"
  using assms by (auto simp: log_only_def dead_def)

lemma with_log_only: "log_only (snd (with_log f w)) w"
  by (auto simp: with_log_def log_only_refl split: option.splits) (auto simp: log_only_def)

lemma sbind_only:
  assumes "\<And>w. log_only (snd (m w)) w" "\<And>v w. log_only (snd (f v w)) w"
  shows "log_only (snd (sbind m f w)) w"
proof (cases "m w")
  case (Pair r u)
  then have "log_only u w" using assms(1) [of w] by simp
  with Pair show ?thesis
    by (cases r) (auto simp: sbind_def intro: log_only_trans [OF assms(2)])
qed

lemma row_handler_only: "log_only (snd (row_handler entity sku e w)) w"
  unfolding row_handler_def append_row_error_def bump_failed_def
  by (cases e) (auto intro!: sbind_only with_log_only)

text \<open>A row is the validation of its record and what is done with the valid one.\<close>

lemma account_row_work:
  assumes "account_row entity sku val persist w = (Inr (), u)"
  obtains y z where "log_only y w" "log_only u z"
    "case val of Inl _ \<Rightarrow> z = y | Inr v \<Rightarrow> z = snd (persist v y)"
proof -
  from assms obtain x y where t: "bump_total w = (Inr x, y)" and
    o: "or_else (sbind (slift val) (\<lambda>v. sbind (persist v) (\<lambda>_. bump_processed))) (row_handler entity sku) y = (Inr (), u)"
    unfolding account_row_def by (auto elim: sbindE)
  have y: "log_only y w" using with_log_only [of _ w] t by (metis bump_total_def snd_conv)
  have handled: "log_only u x" if "row_handler entity sku e x = (Inr (), u)" for e x
    using row_handler_only [of entity sku e x] that by simp
  show ?thesis
  proof (cases val)
    case (Inl e)
    with o have "log_only u y" by (intro handled) (simp add: or_else_def sbind_def)
    with Inl y that show ?thesis by simp
  next
    case (Inr v)
    obtain q z where z: "persist v y = (q, z)" by fastforce
    obtain b x where b: "bump_processed z = (b, x)" by fastforce
    have x: "log_only x z" using with_log_only [of _ z] b by (metis bump_processed_def snd_conv)
    have "log_only u z"
    proof (cases q)
      case (Inl e)
      with o z \<open>val = Inr v\<close> show ?thesis by (intro handled) (simp add: or_else_def sbind_def)
    next
      case (Inr i)
      with o z \<open>val = Inr v\<close> b have "case b of Inl e \<Rightarrow> row_handler entity sku e x = (Inr (), u) | Inr _ \<Rightarrow> u = x"
        by (auto simp: or_else_def sbind_def split: sum.splits)
      with x show ?thesis by (auto split: sum.splits intro: log_only_trans [OF handled])
    qed
    with Inr y z that show ?thesis by simp
  qed
qed

lemma import_row:
  assumes run: "process_product env np w = (Inr (), u)" and live: "\<not> dead u"
    and fit: "\<And>v. normalize_product (product_row np) [] = Inr v \<Longrightarrow> sendable v"
  shows "catalogue (nz_tenant w) (tb_products (se_db u)) =
      import_product (catalogue (nz_tenant w) (tb_products (se_db w))) np \<and> nz_tenant u = nz_tenant w"
proof -
  from run obtain y z where y: "log_only y w" and z: "log_only u z"
    and work: "case normalize_product (product_row np) [] of Inl _ \<Rightarrow> z = y | Inr v \<Rightarrow> z = snd (upsert_product env v y)"
    unfolding process_product_def by (rule account_row_work)
  note sel = log_only_sel [OF y] log_only_sel [OF z]
  show ?thesis
  proof (cases "normalize_product (product_row np) []")
    case (Inl e)
    with work sel show ?thesis by (simp add: import_product_def)
  next
    case (Inr v)
    with work obtain q where q: "upsert_product env v y = (q, z)" by (cases "upsert_product env v y") auto
    show ?thesis
    proof (cases q)
      case (Inl e)
      with upsert_raises [OF q [unfolded Inl] fit [OF Inr]] sel live show ?thesis by simp
    next
      case (Inr i)
      from upsert_product_effect [OF q [unfolded Inr]] sel \<open>normalize_product (product_row np) [] = Inr v\<close>
      show ?thesis by (simp add: import_product_def products_after_def catalogue_upsert)
    qed
  qed
qed

section \<open>The rows of a job\<close>

lemma import_rows:
  assumes "process_products env (map Inr nps) w = (Inr (), u)" "\<not> dead u"
    and "\<forall>np \<in> set nps. \<forall>v. normalize_product (product_row np) [] = Inr v \<longrightarrow> sendable v"
  shows "catalogue (nz_tenant w) (tb_products (se_db u)) =
    import_products nps (catalogue (nz_tenant w) (tb_products (se_db w)))"
  using assms
proof (induction nps arbitrary: w)
  case Nil
  then show ?case by (simp add: process_products_def import_products_def)
next
  case (Cons np nps)
  from Cons.prems(1) obtain x where n: "process_product env np w = (Inr (), x)"
    and rest: "process_products env (map Inr nps) x = (Inr (), u)"
    by (auto simp: process_products_def elim: sbindE)
  have "\<not> dead x" using dead_stays [OF rest] Cons.prems(2) by blast
  from import_row [OF n this] Cons.IH [OF rest Cons.prems(2)] Cons.prems(3)
  show ?case by (simp add: import_products_def)
qed

end
