(* ===== verification/Redelivery.thy ===== *)
theory Redelivery
  imports Import TaskProps
begin

text \<open>
  The message of a job is acknowledged after its run (\<open>task_acks_late\<close> of \<open>app/celery_app.py\<close>), so that a
  worker that dies leaves it to be delivered again.  What the death leaves of the run is what was committed
  and the files: they change when \<open>process_sync\<close> marks the job as running, when it ends, and when the
  upload is deleted.  After a death between the publication of a retry and the acknowledgement there are two
  messages; \<open>Platform\<close> has any number of them.
\<close>

section \<open>Interrupted runs\<close>

definition interrupted ::
  "env \<Rightarrow> run \<Rightarrow> uuid \<Rightarrow> uuid \<Rightarrow> tenant_config \<Rightarrow> nat \<Rightarrow> worker \<times> files \<Rightarrow> (worker \<times> files) list" where
  "interrupted env rn i T tc k s =
     [s, (snd (begin_sync env rn i T (fst s)), snd s), (fst (snd (process_sync env rn i T tc s)), snd s),
      snd (sync_erp_data env rn i T tc k s)]"

text \<open>
  Every run may see other times; the bytes of the upload, and so what pandas makes of them, stay the same.
\<close>

inductive redeliver :: "env \<Rightarrow> pandas \<Rightarrow> uuid \<Rightarrow> uuid \<Rightarrow> tenant_config \<Rightarrow> delivery \<Rightarrow> delivery \<Rightarrow> bool"
  for env pd i T tc where
  reported: "deliver env (\<lambda>_. rn) i T tc d d' \<Longrightarrow> run_pandas rn = pd \<Longrightarrow> redeliver env pd i T tc d d'"
| lost: "s' \<in> set (interrupted env rn i T tc k s) \<Longrightarrow> run_pandas rn = pd
    \<Longrightarrow> redeliver env pd i T tc (Queued k, waits, s) (Queued k, waits, s')"

inductive_cases redeliverE: "redeliver env pd i T tc d d'"

section \<open>The rows of the job\<close>

text \<open>What a run reads of the row of its job.\<close>

definition job_key :: "sync_log \<Rightarrow> SyncConnectorType \<times> string option" where
  "job_key l = (sl_connector_type l, sl_stored_path l)"

lemma connector_key: "job_key l = job_key l' \<Longrightarrow> connector_for tc l = connector_for tc l'"
proof -
  assume "job_key l = job_key l'"
  then have "sl_connector_type l = sl_connector_type l'" "sl_stored_path l = sl_stored_path l'"
    by (simp_all add: job_key_def)
  then show ?thesis unfolding connector_for_def by (simp only:)
qed

lemma job_key_sel [simp]:
  "job_key (l\<lparr>sl_errors := e\<rparr>) = job_key l" "job_key (mark_running n l) = job_key l"
  "job_key (mark_completed n l) = job_key l" "job_key (tally p f l) = job_key l" "job_key (running n l) = job_key l"
  by (simp_all add: job_key_def mark_running_def mark_completed_def tally_def running_def)

definition job_rows :: "uuid \<Rightarrow> uuid \<Rightarrow> db \<Rightarrow> sync_log set" where
  "job_rows i T d = {l \<in> set (tb_sync_logs d). sl_id l = i \<and> sl_tenant l = T}"

text \<open>A run that raises before it commits leaves the tables; the rows of a commit that did not touch the job.\<close>

lemma begin_sync_raises: "begin_sync env rn i T w = (Inl e, u) \<Longrightarrow> se_committed u = se_committed w"
proof -
  assume b: "begin_sync env rn i T w = (Inl e, u)"
  have ctx: "se_committed (snd (set_tenant_context env T x)) = se_committed x" for x :: worker
    unfolding set_tenant_context_def by (rule committed.inv_execute) simp_all
  have get: "se_committed (snd (get_sync_log env i x)) = se_committed x" for x :: worker
    unfolding get_sync_log_def
    by (rule sbind_keeps_inv [where P = "\<lambda>s. se_committed s = se_committed x"]) (auto split: option.splits)
  obtain r x q y where x: "set_tenant_context env T (open_session w) = (r, x)" and y: "get_sync_log env i x = (q, y)"
    by fastforce
  then have c: "se_committed x = se_committed w" "se_committed y = se_committed w"
    using ctx [of "open_session w"] get [of x] by (simp_all add: open_session_def)
  show ?thesis
  proof (cases "r = Inr () \<and> q = Inr True")
    case False
    with b x y c show ?thesis by (cases r; cases q) (auto simp: begin_sync_def sbind_def split: if_splits)
  next
    case True
    obtain a z where z: "with_log (set_row (mark_running (run_started rn))) y = (a, z)" by fastforce
    then have "se_committed z = se_committed w"
      using c with_log_committed [of "set_row (mark_running (run_started rn))" y] by simp
    with b x y z True show ?thesis
      by (cases a) (auto simp: begin_sync_def sbind_def c split: prod.splits sum.splits dest: commit_raises)
  qed
qed

lemma commit_rows:
  assumes c: "commit env w = (Inr v, u)" and t: "se_log w = Some t"
    and l: "l \<in> set (tb_sync_logs (se_committed u))" "sl_id l \<noteq> sl_id (tk_row t)"
  shows "l \<in> set (tb_sync_logs (se_db w)) \<union> set (tb_sync_logs (se_committed w))"
proof -
  from c obtain x y where fl: "flush_log env w = (Inr x, y)"
    and rest: "(if se_state y = TxAborted
      then (Inr (), y\<lparr>se_db := se_committed y, se_state := TxActive, se_tx := Suc (se_tx y)\<rparr>)
      else in_flush (send env CommitWork
        (\<lambda>s. (Inr (), s\<lparr>se_committed := se_db s, se_tx := Suc (se_tx s)\<rparr>)) y)) = (Inr v, u)"
    unfolding commit_def by (rule sbindE) auto
  have "se_committed u \<in> {se_db y, se_committed y}"
    using rest by (auto simp: in_flush_def split: if_splits prod.splits sum.splits dest!: send_Inr)
  moreover have "se_committed y = se_committed w" using flush_log_const(4) [of env w] fl by simp
  moreover have "l \<in> set (tb_sync_logs (se_db w))" if "l \<in> set (tb_sync_logs (se_db y))"
    using that fl t l(2)
    by (auto simp: flush_log_def in_flush_def update_log_row_def write_row_def
        split: if_splits prod.splits sum.splits dest!: send_Inr)
  ultimately show ?thesis using l(1) by auto
qed

text \<open>What happens to the job's row when its run does not complete it.\<close>

definition not_completed :: "uuid \<Rightarrow> uuid \<Rightarrow> db \<Rightarrow> db \<Rightarrow> bool" where
  "not_completed i T d d' \<longleftrightarrow> inventory d' = inventory d \<and> (\<forall>l' \<in> job_rows i T d'. l' \<in> job_rows i T d \<or>
     (\<exists>l \<in> job_rows i T d. job_key l' = job_key l \<and> sl_status l' \<noteq> COMPLETED))"

lemma not_completed_refl [simp]: "not_completed i T d d"
  by (simp add: not_completed_def)

lemma not_completed_trans:
  assumes "not_completed i T c d" "not_completed i T d e"
  shows "not_completed i T c e"
  using assms unfolding not_completed_def by (metis (no_types, lifting))

lemma held_key:
  assumes "held r u" "se_context u = RuntimeRole (Some T)" "l \<in> job_rows (sl_id r) T (se_db u)"
  shows "job_key l = job_key r" "sl_status l = sl_status r"
proof -
  have "l\<lparr>sl_errors := None\<rparr> = r" using assms by (auto simp: held_def table_holds_def job_rows_def)
  then show "job_key l = job_key r" "sl_status l = sl_status r"
    using job_key_sel(1) [of None l] by (auto simp del: job_key_sel)
qed

lemma begin_sync_rows:
  assumes "begin_sync env rn i T w = (r, u)"
  shows "not_completed i T (se_committed w) (se_committed u)"
proof (cases "r = Inr True")
  case True
  with assms begin_sync_returns obtain l where l: "l \<in> set (tb_sync_logs (se_committed w))" "sl_id l = i" "sl_tenant l = T"
    and u: "held (running (run_started rn) l) u" "se_committed u = se_db u" "se_context u = RuntimeRole (Some T)"
    by blast
  have "job_key l' = job_key l \<and> sl_status l' \<noteq> COMPLETED" if "l' \<in> job_rows i T (se_committed u)" for l'
    using held_key [OF u(1,3), of l'] that u(2) l(2) by (simp add: running_def mark_running_def job_key_def)
  then show ?thesis
    using begin_sync_inventory [of w env rn i T] assms l
    by (auto simp: not_completed_def unchanged_from_def job_rows_def)
next
  case False
  then have "se_committed u = se_committed w"
    using assms begin_sync_not_found [of env rn i T w u] begin_sync_raises [of env rn i T w _ u] by (cases r) auto
  then show ?thesis by simp
qed

lemma refresh_found:
  assumes "refresh_sync_log env w = (Inr v, u)" "se_context w = RuntimeRole (Some T)"
  shows "\<exists>l. l \<in> set (tb_sync_logs (se_db u)) \<and> sl_tenant l = T \<and> se_log u = Some (track l) \<and> se_state u = TxActive \<and>
    se_context u = RuntimeRole (Some T) \<and> table_holds l (l\<lparr>sl_errors := None\<rparr>) u"
proof -
  from assms(1) obtain t where t: "se_log w = Some t" by (auto simp: refresh_sync_log_def split: option.splits)
  let ?i = "sl_id (tk_row t)"
  from assms(1) t obtain l x where q: "select env (SelectSyncLog ?i) tb_sync_logs sl_tenant (log_by_id ?i) w = (Inr (Some l), x)"
    and u: "u = x\<lparr>se_log := Some (track l)\<rparr>"
    by (auto simp: refresh_sync_log_def elim!: sbindE split: option.splits)
  have x: "se_context x = RuntimeRole (Some T)"
    using select_const(1) [of env "SelectSyncLog ?i" tb_sync_logs sl_tenant "log_by_id ?i" w] q assms(2) by simp
  from select_one [OF q] x have a: "se_state x = TxActive"
    and f: "filter (\<lambda>r. T = sl_tenant r \<and> log_by_id ?i r) (tb_sync_logs (se_db x)) = [l]" by simp_all
  have only: "k = l" if "k \<in> set (tb_sync_logs (se_db x))" "sl_tenant k = T" "sl_id k = ?i" for k
  proof -
    have "k \<in> set (filter (\<lambda>r. T = sl_tenant r \<and> log_by_id ?i r) (tb_sync_logs (se_db x)))"
      using that by (simp add: log_by_id_def)
    with f show ?thesis by simp
  qed
  have "l \<in> set (tb_sync_logs (se_db x))" "sl_tenant l = T" "sl_id l = ?i"
    using f by (auto simp: filter_eq_Cons_iff log_by_id_def)
  note l = this
  have "table_holds l (l\<lparr>sl_errors := None\<rparr>) u"
    unfolding table_holds_def
  proof (intro ballI impI)
    fix k assume k: "k \<in> set (tb_sync_logs (se_db u))" "sl_id k = sl_id l \<and> rls_visible (se_context u) (sl_tenant k)"
    have "k = l" using k u x l(3) by (intro only) simp_all
    then show "k\<lparr>sl_errors := None\<rparr> = l\<lparr>sl_errors := None\<rparr>" by simp
  qed
  with l a x u show ?thesis by (intro exI [of _ l]) simp
qed

lemma refresh_same:
  assumes "refresh_sync_log env (rollback v) = (r, u)"
  shows "se_db u = se_committed v" "se_committed u = se_committed v"
proof -
  have flush: "flush_log env (rollback v) = (Inr (), rollback v)"
    by (auto simp: flush_log_def rollback_def expire_def needs_update_def split: option.splits)
  have sel: "se_db (snd (select env st tb f P (rollback v))) = se_db (rollback v) \<and>
      se_committed (snd (select env st tb f P (rollback v))) = se_committed (rollback v)" for st and tb :: "db \<Rightarrow> sync_log list" and f P
    using flush by (auto simp: select_def execute_def sbind_def send_def split: tx_state.splits answer.splits)
  have "se_db u = se_db (rollback v) \<and> se_committed u = se_committed (rollback v)"
  proof (cases "se_log (rollback v)")
    case None
    with assms show ?thesis by (simp add: refresh_sync_log_def)
  next
    case (Some t)
    let ?i = "sl_id (tk_row t)"
    obtain q x where q: "select env (SelectSyncLog ?i) tb_sync_logs sl_tenant (log_by_id ?i) (rollback v) = (q, x)"
      by fastforce
    with sel [of "SelectSyncLog ?i" tb_sync_logs sl_tenant "log_by_id ?i"]
    have "se_db x = se_db (rollback v)" "se_committed x = se_committed (rollback v)" by simp_all
    then show ?thesis
      using assms Some q by (auto simp: refresh_sync_log_def sbind_def split: sum.splits option.splits)
  qed
  then show "se_db u = se_committed v" "se_committed u = se_committed v" by (simp_all add: rollback_def)
qed

lemma sync_failed_rows:
  assumes ctx: "se_context v = RuntimeRole (Some T)"
  shows "not_completed i T (se_committed v) (se_committed (snd (sync_failed env rn e v)))"
proof -
  let ?f = "mark_failed (run_completed rn)"
  obtain a x where x: "refresh_sync_log env (rollback v) = (a, x)" by fastforce
  note dx = refresh_same [OF x]
  obtain b y where y: "with_log ?f x = (b, y)" by fastforce
  have cy: "se_committed y = se_committed v" using with_log_committed [of ?f x] y dx by simp
  obtain c z where z: "commit env y = (c, z)" by fastforce
  have inv: "inventory (se_committed (snd (sync_failed env rn e v))) = inventory (se_committed v)"
    using sync_failed_inventory [of v env rn e] by (simp add: unchanged_from_def)
  show ?thesis
  proof (cases "\<exists>p q s. a = Inr p \<and> b = Inr q \<and> c = Inr s")
    case False
    have "se_committed (snd (sync_failed env rn e v)) = se_committed v"
    proof (cases a)
      case (Inl a')
      with x dx show ?thesis by (simp add: sync_failed_def sbind_def)
    next
      case a: (Inr p)
      show ?thesis
      proof (cases b)
        case (Inl b')
        with a x y cy show ?thesis by (simp add: sync_failed_def sbind_def)
      next
        case (Inr q)
        with a False obtain c' where "c = Inl c'" by (cases c) auto
        with a Inr x y z cy commit_raises [of env y c' z] show ?thesis by (simp add: sync_failed_def sbind_def)
      qed
    qed
    then show ?thesis by simp
  next
    case True
    then have end': "snd (sync_failed env rn e v) = z" using x y z by (auto simp: sync_failed_def sbind_def)
    obtain p q s where r: "a = Inr p" "b = Inr q" "c = Inr s" using True by blast
    have "se_context (rollback v) = RuntimeRole (Some T)" using ctx by (simp add: rollback_def)
    from refresh_found [OF x [unfolded r] this] obtain l where l: "l \<in> set (tb_sync_logs (se_db x))" "sl_tenant l = T"
      "se_log x = Some (track l)" "se_state x = TxActive" "se_context x = RuntimeRole (Some T)"
      "table_holds l (l\<lparr>sl_errors := None\<rparr>) x" by blast
    let ?r = "tk_row (?f (track l))"
    have yx: "y = x\<lparr>se_log := Some (?f (track l))\<rparr>" using y r l(3) by (simp add: with_log_returns)
    have row: "sl_id ?r = sl_id l" "job_key ?r = job_key l" "sl_status ?r = FAILED" "sl_errors ?r = None"
      "tk_saved (?f (track l)) = l\<lparr>sl_errors := None\<rparr>" "\<not> tk_expired (?f (track l))"
      by (simp_all add: mark_failed_def set_row_def append_error_def track_def Let_def job_key_def split: prod.splits)
    have "table_holds ?r (l\<lparr>sl_errors := None\<rparr>) y"
      using l(6) unfolding table_holds_def row(1) by (simp add: yx)
    then have "pending ?r y"
      unfolding pending_def using l(4) row by (intro exI [of _ "?f (track l)"]) (simp add: yx)
    from commit_holds [OF this z [unfolded r]] have h: "held ?r z" "se_committed z = se_db z" "se_context z = RuntimeRole (Some T)"
      using yx l(5) by simp_all
    have "l' \<in> job_rows i T (se_committed v) \<or> (\<exists>l \<in> job_rows i T (se_committed v). job_key l' = job_key l \<and> sl_status l' \<noteq> COMPLETED)"
      if l': "l' \<in> job_rows i T (se_committed z)" for l'
    proof (cases "sl_id l = i")
      case True
      with h l' row held_key [OF h(1,3), of l'] have "job_key l' = job_key l" "sl_status l' = FAILED" by simp_all
      moreover have "l \<in> job_rows i T (se_committed v)" using l True dx by (simp add: job_rows_def)
      ultimately show ?thesis by auto
    next
      case False
      have "l' \<in> set (tb_sync_logs (se_db y)) \<union> set (tb_sync_logs (se_committed y))"
        using commit_rows [OF z [unfolded r], of "?f (track l)" l'] yx l' False row by (simp add: job_rows_def)
      then have "l' \<in> job_rows i T (se_committed v)" using l' yx dx cy by (auto simp: job_rows_def)
      then show ?thesis by blast
    qed
    with inv end' show ?thesis by (simp add: not_completed_def)
  qed
qed

section \<open>A run of the job\<close>

text \<open>The catalogue is the old one or the import, and the import once the job is reported as completed.\<close>

definition accounted ::
  "uuid \<Rightarrow> uuid \<Rightarrow> sync_log \<Rightarrow> NormalizedProduct list \<Rightarrow> (string \<rightharpoonup> NormalizedProduct) \<Rightarrow> db \<Rightarrow> bool" where
  "accounted i T job nps cat d \<longleftrightarrow> catalogue T (tb_products d) \<in> {cat, import_products nps cat} \<and>
     (\<forall>l \<in> job_rows i T d. job_key l = job_key job \<and>
       (sl_status l = COMPLETED \<longrightarrow> catalogue T (tb_products d) = import_products nps cat))"

lemma accounted_step:
  assumes "accounted i T job nps cat d" "not_completed i T d d'"
  shows "accounted i T job nps cat d'"
  using assms unfolding accounted_def not_completed_def inventory_def by (metis (no_types, lifting) prod.inject)

lemma delete_stored_key: "job_key l = job_key l' \<Longrightarrow> delete_stored (Some l) fs = delete_stored (Some l') fs"
  by (simp add: delete_stored_def job_key_def)

text \<open>The upload of the job is as it was, or gone.\<close>

definition upload_path :: "sync_log \<Rightarrow> string" where
  "upload_path l = get_or (sl_stored_path l) []"

definition upload_left :: "sync_log \<Rightarrow> files \<Rightarrow> files \<Rightarrow> bool" where
  "upload_left job fs gs \<longleftrightarrow> gs (upload_path job) \<in> {fs (upload_path job), None}"

lemma upload_left_delete: "upload_left job fs gs \<Longrightarrow> upload_left job fs (delete_stored l gs)"
  by (auto simp: upload_left_def delete_stored_def storage_delete_def split: option.splits)

lemma commit_keeps_context: "se_context (snd (commit env w)) = se_context w"
proof (cases "flush_log env w")
  case (Pair r u)
  with flush_log_const(1) [of env w] have "se_context u = se_context w" by simp
  with Pair show ?thesis
    by (cases r) (auto simp: commit_def sbind_def in_flush_def send_def flush_failed_def
        split: tx_state.splits answer.splits)
qed

lemma body_keeps_context: "se_context (snd (sync_body env rn rd T tc l w)) = se_context w"
proof -
  have pe: "se_context (snd (process_entities env rn rd tc c (new_normalizer T w))) = se_context w" for c
  proof -
    have "owning (uncommitted (se_committed w) (se_context w)) (\<lambda>_ _ _. True) (\<lambda>_ _ _. True) {} {} T (new_normalizer T w)"
      by (simp add: owning_def uncommitted_def new_normalizer_def)
    from uncommitted.process_entities_keeps [OF this, of env rn rd tc c]
    show ?thesis by (simp add: owning_def uncommitted_def)
  qed
  have wl: "se_context (snd (with_log f x)) = se_context x" for f and x :: worker
    by (auto simp: with_log_def split: option.splits)
  have tail: "se_context (snd (sbind (process_entities env rn rd tc c) (\<lambda>_.
      sbind (with_log (set_row (mark_completed (run_completed rn)))) (\<lambda>_. commit env)) (new_normalizer T w))) = se_context w" for c
    by (rule sbind_keeps_inv [where P = "\<lambda>s. se_context s = se_context w"], rule pe)
      (intro sbind_keeps_inv [where P = "\<lambda>s. se_context s = se_context w"], simp_all add: wl commit_keeps_context)
  then show ?thesis
    unfolding sync_body_def by (cases "connector_for tc l") (simp_all add: sbind_def)
qed

text \<open>A run reads nothing but the upload of its job, and nothing if that is gone.\<close>

lemma connector_reads:
  assumes "connector_for tc l = Inr c"
  shows "cc_file_path c = upload_path l" "cc_entity_type c = get_or (tc_entity_type tc) ''products''"
  using assms
  by (cases "sl_connector_type l",
      auto simp: connector_for_def factory_get_def registry_def factory_register_def get_or_def rbind_def csv_init_def
        upload_path_def split: sum.splits option.splits if_splits)

lemma read_same: "gs (cc_file_path c) = fs (cc_file_path c) \<Longrightarrow>
    read_dataframe (readers_of pd gs) c sh = read_dataframe (readers_of pd fs) c sh"
  by (simp add: read_dataframe_def readers_of_def Let_def)

lemma read_gone: "fs (cc_file_path c) = None \<Longrightarrow> read_dataframe (readers_of pd fs) c sh = Inl ReadError"
  by (simp add: read_dataframe_def readers_of_def Let_def)

lemma gone_rows:
  assumes "connector_for tc l = Inr c" and "get_or (tc_entity_type tc) ''products'' = ''products''"
    and "fs (upload_path l) = None"
  shows "fetch_products (readers_of pd fs) c = [Inl ReadError]"
  using assms connector_reads [OF assms(1)] read_gone [of fs c pd "cc_sheet_name c"]
  by (simp add: fetch_products_def rows_of_def Let_def)

lemma same_product_rows:
  assumes "connector_for tc l = Inr c" and "gs (upload_path l) = fs (upload_path l)"
  shows "fetch_products (readers_of pd gs) c = fetch_products (readers_of pd fs) c"
  using assms connector_reads(1) [OF assms(1)] read_same [of gs c fs pd "cc_sheet_name c"]
  by (simp add: fetch_products_def)

text \<open>A run leaves the job uncompleted, or its rows have been persisted and its upload is deleted.\<close>

definition same_job :: "uuid \<Rightarrow> uuid \<Rightarrow> sync_log \<Rightarrow> db \<Rightarrow> bool" where
  "same_job i T job d \<longleftrightarrow> (\<forall>l \<in> job_rows i T d. job_key l = job_key job)"

lemma same_job_step: "same_job i T job d \<Longrightarrow> not_completed i T d d' \<Longrightarrow> same_job i T job d'"
  unfolding same_job_def not_completed_def by metis

lemma run_of_job:
  assumes keys: "same_job i T job (se_committed w)" and run: "process_sync env rn i T tc (w, gs) = (r, w', gs')"
  obtains (raised) "not_completed i T (se_committed w) (se_committed w')" "gs' = gs"
  | (persisted) u c d where "connector_for tc job = Inr c"
      "process_entities env rn (readers_of (run_pandas rn) gs) tc c (new_normalizer T u) = (Inr (), d)" "\<not> dead d"
      "se_context u = RuntimeRole (Some T)" "inventory (se_db u) = inventory (se_committed w)"
      "inventory (se_committed w') = inventory (se_db d)" "same_job i T job (se_committed w')"
      "gs' = delete_stored (Some job) gs"
proof -
  let ?rd = "readers_of (run_pandas rn) gs"
  obtain q u where b: "begin_sync env rn i T w = (q, u)" by fastforce
  note u = begin_sync_rows [OF b]
  show thesis
  proof (cases "\<exists>j. q = Inr True \<and> job_row u = Some j")
    case False
    with run b u show ?thesis
      by (intro raised) (auto simp: process_sync_def split: sum.splits bool.splits option.splits)
  next
    case True
    then obtain j where j: "q = Inr True" "job_row u = Some j" by blast
    from begin_sync_returns [OF b [unfolded j(1)]] obtain l where
      l: "l \<in> job_rows i T (se_committed w)" and h: "held (running (run_started rn) l) u"
      and ctx: "se_committed u = se_db u" "se_context u = RuntimeRole (Some T)" by (auto simp: job_rows_def)
    have kl: "job_key l = job_key job" using keys l by (simp add: same_job_def)
    have jk: "job_key j = job_key job" using h j(2) kl by (auto simp: held_def job_row_def)
    obtain p v where s: "sync_body env rn ?rd T tc j u = (p, v)" by fastforce
    have cv: "se_context v = RuntimeRole (Some T)" using body_keeps_context [of env rn ?rd T tc j u] s ctx by simp
    show ?thesis
    proof (cases p)
      case (Inl e)
      have "not_completed i T (se_committed w) (se_committed (snd (sync_failed env rn e v)))"
        using not_completed_trans [OF u] sync_failed_rows [OF cv, of i env rn e] sync_body_raises [OF s [unfolded Inl]]
        by simp
      then show ?thesis using run b j s Inl by (intro raised) (auto simp: process_sync_def split: prod.splits)
    next
      case (Inr x)
      with s have s': "sync_body env rn ?rd T tc j u = (Inr (), v)" by simp
      have R: "sl_status (running (run_started rn) l) = RUNNING" by (simp add: running_def mark_running_def)
      from body_commits [OF h R s'] obtain c d where
        c: "connector_for tc j = Inr c" "process_entities env rn ?rd tc c (new_normalizer T u) = (Inr (), d)"
        and live: "\<not> dead d" and inv: "inventory (se_committed v) = inventory (se_db d)" by blast
      from sync_body_returns [OF h s' R] obtain a k where
        hv: "held (mark_completed (run_completed rn) (tally a k (running (run_started rn) l))) v" "se_committed v = se_db v"
        by blast
      let ?r = "mark_completed (run_completed rn) (tally a k (running (run_started rn) l))"
      have "sl_id ?r = i" using l by (simp add: job_rows_def mark_completed_def running_def mark_running_def)
      then have keys': "same_job i T job (se_committed v)"
        unfolding same_job_def using held_key(1) [OF hv(1) cv] hv(2) kl by simp
      from hv(1) obtain y where "job_row v = Some y" "job_key y = job_key l" by (auto simp: held_def job_row_def)
      then have "delete_stored (job_row v) gs = delete_stored (Some job) gs"
        using delete_stored_key [of y job gs] kl by simp
      moreover have "inventory (se_db u) = inventory (se_committed w)" using u ctx by (simp add: not_completed_def)
      moreover have "w' = v" "gs' = delete_stored (job_row v) gs" using run b j s Inr by (auto simp: process_sync_def)
      ultimately show ?thesis
        using persisted [OF _ c(2) live ctx(2) _ _ _] c(1) connector_key [OF jk, of tc] inv keys' by simp
    qed
  qed
qed

text \<open>What holds before a run of the job holds after it, and of the files only the upload is ever deleted.\<close>

lemma run_accounted:
  assumes conn: "connector_for tc job = Inr c" and type: "get_or (tc_entity_type tc) ''products'' = ''products''"
    and rows: "fetch_products (readers_of (run_pandas rn) fs) c = map Inr nps"
    and fit: "\<forall>np \<in> set nps. \<forall>v. normalize_product (product_row np) [] = Inr v \<longrightarrow> sendable v"
    and inv: "accounted i T job nps cat (se_committed w)" and files: "upload_left job fs gs"
    and run: "process_sync env rn i T tc (w, gs) = (r, w', gs')"
  shows "accounted i T job nps cat (se_committed w') \<and> upload_left job fs gs'"
proof -
  have "same_job i T job (se_committed w)" using inv by (simp add: accounted_def same_job_def)
  then show ?thesis
    using run
  proof (cases rule: run_of_job)
    case raised
    then show ?thesis using accounted_step [OF inv] files by simp
  next
    case (persisted u c' d)
    let ?rd = "readers_of (run_pandas rn) gs"
    have "c' = c" using persisted(1) conn by simp
    with persisted(2) type have pp: "process_products env (fetch_products ?rd c) (new_normalizer T u) = (Inr (), d)"
      by (simp add: process_entities_rows)
    have fetch: "fetch_products ?rd c = map Inr nps"
    proof (cases "gs (upload_path job) = fs (upload_path job)")
      case True
      from same_product_rows [where gs = gs and fs = fs, OF conn True, of "run_pandas rn"] rows show ?thesis by (rule trans)
    next
      case False
      with files have "gs (upload_path job) = None" by (simp add: upload_left_def)
      from gone_rows [where fs = gs, OF conn type this, of "run_pandas rn"] pp show ?thesis by (simp add: process_products_def)
    qed
    have "catalogue T (tb_products (se_committed w')) = import_products nps (catalogue T (tb_products (se_committed w)))"
      using import_rows [OF pp [unfolded fetch] persisted(3) fit] persisted(5,6)
      by (simp add: inventory_def new_normalizer_def)
    then have "catalogue T (tb_products (se_committed w')) = import_products nps cat"
      using inv by (auto simp: accounted_def import_products_twice)
    then show ?thesis
      using persisted(7,8) upload_left_delete [OF files, of "Some job"] by (simp add: accounted_def same_job_def)
  qed
qed

lemma delete_upload_files:
  assumes "delete_upload env i T (w, fs) = (r, w', fs')"
  shows "fs' = fs \<or> (\<exists>l \<in> job_rows i T (se_committed w). fs' = delete_stored (Some l) fs)"
proof -
  obtain a x where x: "set_tenant_context env T (open_session w) = (a, x)" by fastforce
  obtain b y where y: "get_sync_log env i x = (b, y)" by fastforce
  show ?thesis
  proof (cases "a = Inr () \<and> b = Inr True")
    case False
    with assms x y show ?thesis
      by (cases a; cases b) (auto simp: delete_upload_def sbind_def split: bool.splits)
  next
    case True
    have x': "x = (tick (open_session w))\<lparr>se_context := RuntimeRole (Some T)\<rparr>" "se_log x = None"
      using x True flush_nothing [of "open_session w" env]
      by (auto simp: set_tenant_context_def open_session_def dest!: execute_Inr)
    from y True obtain l z where q: "select env (SelectSyncLog i) tb_sync_logs sl_tenant (log_by_id i) x = (Inr (Some l), z)"
      and yz: "y = z\<lparr>se_log := Some (track l)\<rparr>"
      unfolding get_sync_log_def by (auto elim!: sbindE split: option.splits)
    have z: "se_db z = se_committed w" "se_context z = RuntimeRole (Some T)"
      using q x' flush_nothing [OF x'(2), of env] unfolding select_def by (auto simp: open_session_def dest!: execute_Inr)
    from select_one [OF q] have "filter (\<lambda>r. rls_visible (se_context z) (sl_tenant r) \<and> log_by_id i r) (tb_sync_logs (se_db z)) = [l]"
      by simp
    then have l: "l \<in> job_rows i T (se_committed w)"
      using z by (auto simp: filter_eq_Cons_iff log_by_id_def job_rows_def)
    obtain j where j: "job_row y = Some j" "job_key j = job_key l"
      using yz by (auto simp: job_row_def track_def Let_def job_key_def)
    have "fs' = delete_stored (Some j) fs"
      using assms x y True j(1) by (simp add: delete_upload_def sbind_def)
    with delete_stored_key [OF j(2)] l show ?thesis by metis
  qed
qed

section \<open>What deliveries keep\<close>

text \<open>
  A claim about the tables and the files that the runs of a job keep, completed or not, is kept by whatever
  the worker does with its message, dying included.
\<close>

locale job_account =
  fixes K :: "db \<Rightarrow> files \<Rightarrow> bool" and pd :: pandas and i T :: uuid and tc :: tenant_config
  assumes K_unfinished: "K d fs \<Longrightarrow> not_completed i T d d' \<Longrightarrow> K d' fs"
    and K_process: "K (se_committed w) fs \<Longrightarrow> run_pandas rn = pd \<Longrightarrow> process_sync env rn i T tc (w, fs) = (r, w', fs')
       \<Longrightarrow> K (se_committed w') fs' \<and> K (se_committed w') fs"
    and K_delete: "K d fs \<Longrightarrow> l \<in> job_rows i T d \<Longrightarrow> K d (delete_stored (Some l) fs)"
begin

lemma task_K:
  assumes K: "K (se_committed w) fs" and rn: "run_pandas rn = pd"
    and run: "sync_erp_data env rn i T tc k (w, fs) = (r, w', fs')"
  shows "K (se_committed w') fs'"
proof -
  obtain q v gs where v: "process_sync env rn i T tc (w, fs) = (q, v, gs)" by (metis prod_cases3)
  note KV = K_process [OF K rn v]
  obtain p u hs where d: "delete_upload env i T (v, gs) = (p, u, hs)" by (metis prod_cases3)
  have "se_committed u = se_committed v" using delete_upload_committed [of env i T v gs] d by simp
  then have "K (se_committed u) hs"
    using delete_upload_files [OF d] KV K_delete [of "se_committed v" gs] by auto
  then show ?thesis using run v KV d by (auto simp: sync_erp_data_cases split: sum.splits if_splits)
qed

lemma interrupted_K:
  assumes K: "K (se_committed w) fs" and rn: "run_pandas rn = pd"
    and "(w', fs') \<in> set (interrupted env rn i T tc k (w, fs))"
  shows "K (se_committed w') fs'"
proof -
  obtain b u where b: "begin_sync env rn i T w = (b, u)" by fastforce
  obtain q v gs where v: "process_sync env rn i T tc (w, fs) = (q, v, gs)" by (metis prod_cases3)
  obtain r x hs where x: "sync_erp_data env rn i T tc k (w, fs) = (r, x, hs)" by (metis prod_cases3)
  show ?thesis
    using assms(3) K b v x K_unfinished [OF K begin_sync_rows [OF b]] K_process [OF K rn v] task_K [OF K rn x]
    by (auto simp: interrupted_def)
qed

lemma redeliver_K:
  assumes "redeliver env pd i T tc (m, waits, w, fs) (m', waits', w', fs')" and K: "K (se_committed w) fs"
  shows "K (se_committed w') fs'"
  using assms(1)
proof cases
  case (reported rn)
  from reported(1) K task_K [OF K reported(2)] show ?thesis by cases auto
next
  case (lost rn k)
  with interrupted_K [OF K] show ?thesis by simp
qed

lemma redelivered_K:
  assumes "(redeliver env pd i T tc)\<^sup>*\<^sup>* (m, waits, w, fs) d'" and K: "K (se_committed w) fs"
  shows "K (se_committed (fst (snd (snd d')))) (snd (snd (snd d')))"
  using assms(1)
proof (induction rule: rtranclp_induct)
  case (step d d')
  obtain m x u gs m' x' u' gs' where "d = (m, x, u, gs)" "d' = (m', x', u', gs')" by (metis prod_cases4)
  with step redeliver_K [of env m x u gs m' x' u' gs'] show ?case by simp
qed (use K in simp)

end

text \<open>A job of a readable product file.\<close>


definition product_job ::
  "pandas \<Rightarrow> files \<Rightarrow> tenant_config \<Rightarrow> sync_log \<Rightarrow> NormalizedProduct list \<Rightarrow> bool" where
  "product_job pd fs tc job nps \<longleftrightarrow> get_or (tc_entity_type tc) ''products'' = ''products'' \<and>
     (\<exists>c. connector_for tc job = Inr c \<and> fetch_products (readers_of pd fs) c = map Inr nps) \<and>
     (\<forall>np \<in> set nps. \<forall>v. normalize_product (product_row np) [] = Inr v \<longrightarrow> sendable v)"

definition account_ok ::
  "pandas \<Rightarrow> tenant_config \<Rightarrow> uuid \<Rightarrow> uuid \<Rightarrow> sync_log \<Rightarrow> NormalizedProduct list \<Rightarrow> (string \<rightharpoonup> NormalizedProduct)
     \<Rightarrow> files \<Rightarrow> db \<Rightarrow> files \<Rightarrow> bool" where
  "account_ok pd tc i T job nps cat fs d gs \<longleftrightarrow> product_job pd fs tc job nps \<and> accounted i T job nps cat d \<and>
     upload_left job fs gs"

interpretation product_account: job_account "account_ok pd tc i T job nps cat fs" pd i T tc for pd tc i T job nps cat fs
proof unfold_locales
  fix d d' gs
  assume "account_ok pd tc i T job nps cat fs d gs" "not_completed i T d d'"
  then show "account_ok pd tc i T job nps cat fs d' gs" by (auto simp: account_ok_def intro: accounted_step)
next
  fix w gs rn env r w' gs'
  assume "account_ok pd tc i T job nps cat fs (se_committed w) gs" "run_pandas rn = pd"
    "process_sync env rn i T tc (w, gs) = (r, w', gs')"
  then show "account_ok pd tc i T job nps cat fs (se_committed w') gs' \<and> account_ok pd tc i T job nps cat fs (se_committed w') gs"
    using run_accounted [of tc job _ rn fs nps i T cat w gs env r w' gs']
    by (auto simp: account_ok_def product_job_def)
next
  fix d gs l
  assume "account_ok pd tc i T job nps cat fs d gs" "l \<in> job_rows i T d"
  then show "account_ok pd tc i T job nps cat fs d (delete_stored (Some l) gs)"
    by (simp add: account_ok_def upload_left_delete)
qed

section \<open>A run without its upload\<close>

definition job_list :: "uuid \<Rightarrow> uuid \<Rightarrow> db \<Rightarrow> sync_log list" where
  "job_list i T d = filter (\<lambda>l. sl_id l = i \<and> sl_tenant l = T) (tb_sync_logs d)"

lemma job_rows_list: "job_rows i T d = set (job_list i T d)"
  by (auto simp: job_rows_def job_list_def)

lemma job_list_update:
  assumes "sl_tenant (tk_row t) = T"
  shows "length (job_list i T (update_log_row (RuntimeRole (Some T)) t d)) = length (job_list i T d)"
proof -
  have "length (filter P (map f xs)) = length (filter P xs)" if "\<And>x. P (f x) = P x" for P and f :: "sync_log \<Rightarrow> sync_log" and xs
    by (simp add: filter_map o_def that)
  moreover have "(sl_id k = i \<and> sl_tenant k = T) = (sl_id l = i \<and> sl_tenant l = T)"
    if "k = (if sl_id l = sl_id (tk_row t) \<and> rls_visible (RuntimeRole (Some T)) (sl_tenant l) then write_row t l else l)" for k l
    using that assms by (auto simp: write_row_def)
  ultimately show ?thesis by (simp add: job_list_def update_log_row_def)
qed

lemma commit_job_list:
  assumes c: "commit env w = (Inr v, u)" and t: "se_log w = Some t" "sl_tenant (tk_row t) = T"
    and ctx: "se_context w = RuntimeRole (Some T)"
  shows "length (job_list i T (se_committed u)) \<in> {length (job_list i T (se_db w)), length (job_list i T (se_committed w))}"
proof -
  from c obtain x y where fl: "flush_log env w = (Inr x, y)"
    and rest: "(if se_state y = TxAborted
      then (Inr (), y\<lparr>se_db := se_committed y, se_state := TxActive, se_tx := Suc (se_tx y)\<rparr>)
      else in_flush (send env CommitWork
        (\<lambda>s. (Inr (), s\<lparr>se_committed := se_db s, se_tx := Suc (se_tx s)\<rparr>)) y)) = (Inr v, u)"
    unfolding commit_def by (rule sbindE) auto
  have "se_committed u \<in> {se_db y, se_committed y}"
    using rest by (auto simp: in_flush_def split: if_splits prod.splits sum.splits dest!: send_Inr)
  moreover have "se_committed y = se_committed w" using flush_log_const(4) [of env w] fl by simp
  moreover have "se_db y = se_db w \<or> se_db y = update_log_row (RuntimeRole (Some T)) t (se_db w)"
    using fl t ctx by (auto simp: flush_log_def in_flush_def split: if_splits prod.splits sum.splits dest!: send_Inr)
  ultimately show ?thesis using job_list_update [OF t(2)] by auto
qed

lemma begin_sync_list:
  assumes b: "begin_sync env rn i T w = (Inr True, u)"
  shows "length (job_list i T (se_committed u)) = length (job_list i T (se_committed w))"
proof -
  from b obtain v x y where s: "set_tenant_context env T (open_session w) = (Inr v, x)"
    and g: "get_sync_log env i x = (Inr True, y)"
    and rest: "sbind (with_log (set_row (mark_running (run_started rn))))
      (\<lambda>_. sbind (commit env) (\<lambda>_. sreturn True)) y = (Inr True, u)"
    unfolding begin_sync_def by (auto elim!: sbindE split: if_splits)
  have x: "x = (tick (open_session w))\<lparr>se_context := RuntimeRole (Some T)\<rparr>" "se_log x = None"
    using s flush_nothing [of "open_session w" env]
    by (auto simp: set_tenant_context_def open_session_def dest!: execute_Inr)
  from g obtain l z where q: "select env (SelectSyncLog i) tb_sync_logs sl_tenant (log_by_id i) x = (Inr (Some l), z)"
    and y: "y = z\<lparr>se_log := Some (track l)\<rparr>"
    unfolding get_sync_log_def by (auto elim!: sbindE split: option.splits)
  have z: "se_db z = se_committed w" "se_committed z = se_committed w" "se_context z = RuntimeRole (Some T)"
    using q x flush_nothing [OF x(2), of env] unfolding select_def by (auto simp: open_session_def dest!: execute_Inr)
  have "sl_tenant l = T"
    using select_one [OF q] z by (auto simp: filter_eq_Cons_iff)
  from rest obtain a c d where m: "with_log (set_row (mark_running (run_started rn))) y = (Inr a, c)"
    and cm: "commit env c = (Inr d, u)"
    by (auto elim!: sbindE)
  have c: "c = y\<lparr>se_log := Some (set_row (mark_running (run_started rn)) (track l))\<rparr>"
    using m y by (auto simp: with_log_returns)
  have "sl_tenant (tk_row (set_row (mark_running (run_started rn)) (track l))) = T"
    using \<open>sl_tenant l = T\<close> by (simp add: set_row_def mark_running_def track_def Let_def)
  from commit_job_list [OF cm _ this, of i] c y z show ?thesis by simp
qed

text \<open>When the database answers, the failure is recorded.\<close>

lemma sync_failed_runs:
  assumes a: "answering env" and tenant: "tenant_exists (se_committed v) T" and ctx: "se_context v = RuntimeRole (Some T)"
    and t: "se_log v = Some t" "sl_id (tk_row t) = i"
    and l: "job_list i T (se_committed v) = [l]" "room 0 l"
  shows "\<exists>z. sync_failed env rn e v = (Inl e, z) \<and> (\<forall>l' \<in> job_rows i T (se_committed z). sl_status l' = FAILED)"
proof -
  let ?f = "mark_failed (run_completed rn)"
  let ?v = "rollback v"
  have flush: "flush_log env ?v = (Inr (), ?v)"
    using t by (simp add: flush_log_def rollback_def expire_def needs_update_def)
  have v: "se_state ?v = TxActive" "se_context ?v = RuntimeRole (Some T)" "se_db ?v = se_committed v"
    "se_log ?v = Some (t\<lparr>tk_expired := True\<rparr>)"
    using ctx t by (simp_all add: rollback_def expire_def)
  have li: "sl_id l = i" "sl_tenant l = T" using l(1) by (auto simp: job_list_def filter_eq_Cons_iff)
  have "filter (\<lambda>r. T = sl_tenant r \<and> log_by_id i r) (tb_sync_logs (se_committed v)) = [l]"
    using l(1) by (simp add: job_list_def log_by_id_def conj_commute eq_commute [of T])
  then have "refresh_sync_log env ?v = (Inr (), (tick ?v)\<lparr>se_log := Some (track l)\<rparr>)"
    using a v t(2) flush
    by (simp add: refresh_sync_log_def select_def execute_def sbind_def send_def answer_of_def answering_def
        one_or_none_def)
  note x = this
  let ?x = "(tick ?v)\<lparr>se_log := Some (track l)\<rparr>"
  let ?t = "?f (track l)"
  let ?y = "?x\<lparr>se_log := Some ?t\<rparr>"
  have y: "with_log ?f ?x = (Inr (), ?y)" by (simp add: with_log_returns track_def Let_def)
  have row: "sl_id (tk_row ?t) = i" "sl_tenant (tk_row ?t) = T" "sl_status (tk_row ?t) = FAILED"
    "sl_errors (tk_row ?t) = None" "\<not> tk_expired ?t" "tk_saved ?t = l\<lparr>sl_errors := None\<rparr>" "room 0 (tk_row ?t)"
    using li l(2)
    by (simp_all add: mark_failed_def set_row_def append_error_def track_def Let_def room_def split: prod.splits)
  have "tracking T 0 (tk_row ?t) ?y"
    using v row tenant by (simp add: tracking_def writable_def)
  from commit_runs [OF a this] obtain z where z: "commit env ?y = (Inr (), z)" by blast
  have only: "k = l" if "k \<in> set (tb_sync_logs (se_committed v))" "sl_id k = i" "sl_tenant k = T" for k
  proof -
    have "k \<in> set (job_list i T (se_committed v))" using that by (simp add: job_list_def)
    with l(1) show ?thesis by simp
  qed
  have "table_holds (tk_row ?t) (tk_saved ?t) ?y"
    unfolding table_holds_def row(1,6) using v by (auto dest: only)
  then have "pending (tk_row ?t) ?y"
    unfolding pending_def using row v li by (intro exI [of _ ?t]) simp
  from commit_holds [OF this z] have h: "held (tk_row ?t) z" "se_committed z = se_db z" "se_context z = RuntimeRole (Some T)"
    using v by simp_all
  have "sl_status l' = FAILED" if "l' \<in> job_rows i T (se_committed z)" for l'
    using held_key(2) [OF h(1,3), of l'] that h(2) row by simp
  moreover have "sync_failed env rn e v = (Inl e, z)"
    using x y z by (simp add: sync_failed_def sbind_def)
  ultimately show ?thesis by blast
qed

lemma run_without_upload:
  assumes a: "answering env" and tenant: "tenant_exists (se_committed w) T"
    and job: "job_list i T (se_committed w) = [l]" and room: "room 0 l"
    and conn: "connector_for tc l = Inr c" and type: "get_or (tc_entity_type tc) ''products'' = ''products''"
    and gone: "fetch_products (readers_of (run_pandas rn) fs) c = [Inl e]"
  shows "\<exists>w'. process_sync env rn i T tc (w, fs) = (Inl e, w', fs) \<and>
    (\<forall>l' \<in> job_rows i T (se_committed w'). sl_status l' = FAILED)"
proof -
  have jl: "filter (\<lambda>l. sl_id l = i \<and> sl_tenant l = T) (tb_sync_logs (se_committed w)) = [l]"
    using job by (simp add: job_list_def)
  from begin_sync_runs [OF a tenant jl room] obtain u where u: "begin_sync env rn i T w = (Inr True, u)"
    "tracking T 0 (running (run_started rn) l) u" by blast
  from begin_sync_returns [OF u(1)] obtain k where k: "k \<in> job_rows i T (se_committed w)"
    and h: "held (running (run_started rn) k) u" "se_committed u = se_db u" "se_context u = RuntimeRole (Some T)"
    by (auto simp: job_rows_def)
  have kl: "k = l" using k job by (simp add: job_rows_list)
  obtain x where x: "job_list i T (se_committed u) = [x]"
    using begin_sync_list [OF u(1)] job by (auto simp: length_Suc_conv)
  then have xr: "x \<in> job_rows i T (se_committed u)" by (simp add: job_rows_list)
  obtain t where t: "se_log u = Some t" "tk_row t = running (run_started rn) l" using h(1) kl by (auto simp: held_def)
  have li: "sl_id l = i" "sl_tenant l = T" using k kl by (simp_all add: job_rows_def)
  have "x\<lparr>sl_errors := None\<rparr> = running (run_started rn) l"
    using h xr kl li by (auto simp: held_def table_holds_def job_rows_def running_def mark_running_def)
  then have "room 0 (x\<lparr>sl_errors := None\<rparr>)" using room by (simp add: room_def running_def mark_running_def)
  then have rx: "room 0 x" by (simp add: room_def)
  define j where "j = (tk_row t)\<lparr>sl_errors := errors_value t (tk_errors t)\<rparr>"
  have jr: "job_row u = Some j" using t by (simp add: job_row_def j_def)
  have "connector_for tc j = Inr c"
    using connector_key [of j l tc] conn t(2) by (simp add: j_def)
  then have body: "sync_body env rn (readers_of (run_pandas rn) fs) T tc j u = (Inl e, new_normalizer T u)"
    using gone type by (simp add: sync_body_def sbind_def process_entities_rows process_products_def)
  have "\<exists>z. sync_failed env rn e (new_normalizer T u) = (Inl e, z) \<and>
      (\<forall>l' \<in> job_rows i T (se_committed z). sl_status l' = FAILED)"
  proof (rule sync_failed_runs [OF a])
    show "tenant_exists (se_committed (new_normalizer T u)) T"
      using u(2) h(2) by (simp add: tracking_def writable_def new_normalizer_def)
    show "job_list i T (se_committed (new_normalizer T u)) = [x]" using x by (simp add: new_normalizer_def)
    show "sl_id (tk_row t) = i" using t li by (simp add: running_def mark_running_def)
  qed (use h t rx in \<open>simp_all add: new_normalizer_def\<close>)
  then show ?thesis using u(1) jr body by (auto simp: process_sync_def)
qed

section \<open>Properties\<close>

text \<open>
  Product jobs survive the death of workers: however often a worker dies and the message is
  delivered again, whatever the database answers, the tenant's catalogue is either as before the job or
  the import of its rows, once, and never anything between or beyond; and a job that is reported as
  completed has been imported.
\<close>

theorem redelivered_job_imports_once:
  assumes "(redeliver env pd i T tc)\<^sup>*\<^sup>* (Queued 0, [], w, fs) (m, waits, w', fs')"
    and "product_job pd fs tc job nps"
    and "job_rows i T (se_committed w) = {job}" "sl_status job \<noteq> COMPLETED"
  shows "catalogue T (tb_products (se_committed w')) \<in>
      {catalogue T (tb_products (se_committed w)), import_products nps (catalogue T (tb_products (se_committed w)))} \<and>
    (\<forall>l \<in> job_rows i T (se_committed w'). sl_status l = COMPLETED \<longrightarrow>
      catalogue T (tb_products (se_committed w')) = import_products nps (catalogue T (tb_products (se_committed w))))"
proof -
  let ?cat = "catalogue T (tb_products (se_committed w))"
  have "account_ok pd tc i T job nps ?cat fs (se_committed w) fs"
    using assms(2-4) by (simp add: account_ok_def accounted_def upload_left_def)
  from product_account.redelivered_K [OF assms(1) this] show ?thesis by (auto simp: account_ok_def accounted_def)
qed

theorem redelivered_job_imports_once_witness:
  "\<exists>w'. (redeliver example_env (run_pandas example_run) 2 1 example_config)\<^sup>*\<^sup>*
       (Queued 0, [], example_worker, example_files) (Queued 0, [], w', example_files) \<and>
     catalogue 1 (tb_products (se_committed w')) = [''S1'' \<mapsto> example_product] \<and>
     (\<forall>l \<in> job_rows 2 1 (se_committed w'). sl_status l = COMPLETED \<longrightarrow>
        catalogue 1 (tb_products (se_committed w')) =
          import_products [example_product] (catalogue 1 (tb_products (se_committed example_worker))))"
proof -
  from products_job_runs [OF example_ready(1-4) example_conn example_ready(5) example_rows] example_ready(6)
  obtain w' fs' where run: "process_sync example_env example_run 2 1 example_config (example_worker, example_files) =
      (Inr (), w', fs')"
    and cat: "catalogue 1 (tb_products (se_committed w')) =
      import_products [example_product] (catalogue 1 (tb_products (se_committed example_worker)))" by blast
  have "(w', example_files) \<in> set (interrupted example_env example_run 2 1 example_config 0 (example_worker, example_files))"
    by (simp add: interrupted_def run del: One_nat_def)
  then have path: "(redeliver example_env (run_pandas example_run) 2 1 example_config)\<^sup>*\<^sup>*
      (Queued 0, [], example_worker, example_files) (Queued 0, [], w', example_files)"
    by (intro r_into_rtranclp redeliver.lost) simp_all
  have job: "product_job (run_pandas example_run) example_files example_config example_log [example_product]"
    using example_conn example_rows example_ready(5) example_normalized
    by (auto simp: product_job_def sendable_def example_product_def text_ok_def char_of_def)
  have rows: "job_rows 2 1 (se_committed example_worker) = {example_log}" "sl_status example_log \<noteq> COMPLETED"
    using example_ready(3) by (auto simp: job_rows_list job_list_def) (simp add: example_log_def new_sync_log_def)
  have "catalogue 1 (tb_products (se_committed w')) = [''S1'' \<mapsto> example_product]"
    using cat example_normalized
    by (simp add: import_products_def import_product_def catalogue_def example_worker_def example_db_def fun_eq_iff)
      (simp add: example_product_def)
  with path redelivered_job_imports_once [OF path job rows] show ?thesis by blast
qed

text \<open>
  Property C32.  A completed job does not survive a second delivery: when the worker dies after the upload
  of a completed product job was deleted and before the message is acknowledged, the run of the next
  delivery cannot read the upload; although the database answers and the inventory stays, the run raises
  and the job that was reported as completed is reported as failed.
\<close>

theorem redelivered_completed_job_fails:
  assumes "answering env" "tenant_exists (se_committed w) T"
    and "job_list i T (se_committed w) = [l]" "room 0 l" "sl_status l = COMPLETED"
    and "sl_stored_path l = Some p" "fs p = None"
    and "get_or (tc_entity_type tc) ''products'' = ''products''"
  shows "\<exists>w'. process_sync env rn i T tc (w, fs) = (Inl ReadError, w', fs) \<and>
    inventory (se_committed w') = inventory (se_committed w) \<and>
    (\<forall>l' \<in> job_rows i T (se_committed w'). sl_status l' = FAILED)"
proof -
  obtain c where c: "connector_for tc l = Inr c"
    by (cases "sl_connector_type l")
      (simp add: connector_for_def factory_get_def registry_def factory_register_def rbind_def)
  from run_without_upload [OF assms(1-4) c assms(8) gone_rows [where fs = fs, OF c assms(8)]]
  obtain w' where w': "process_sync env rn i T tc (w, fs) = (Inl ReadError, w', fs)"
    "\<forall>l' \<in> job_rows i T (se_committed w'). sl_status l' = FAILED"
    using assms(6,7) by (auto simp: upload_path_def get_or_def)
  with failed_sync_inventory [OF w'(1)] show ?thesis by blast
qed

definition completed_worker :: worker where
  "completed_worker = example_worker\<lparr>se_committed :=
     example_db\<lparr>tb_sync_logs := [mark_completed 6 (mark_running 5 example_log)]\<rparr>\<rparr>"

theorem redelivered_completed_job_fails_witness:
  "\<exists>w'. process_sync example_env example_run 2 1 example_config (completed_worker, Map.empty) = (Inl ReadError, w', Map.empty) \<and>
     inventory (se_committed w') = inventory example_db \<and>
     (\<forall>l' \<in> job_rows 2 1 (se_committed w'). sl_status l' = FAILED)"
proof -
  let ?l = "mark_completed 6 (mark_running 5 example_log)"
  have l: "sl_id ?l = 2" "sl_tenant ?l = 1" "room 0 ?l" "sl_status ?l = COMPLETED" "sl_stored_path ?l = Some ''u''"
    by (simp_all add: mark_completed_def mark_running_def example_log_def new_sync_log_def room_def)
  then have "job_list 2 1 (se_committed completed_worker) = [?l]"
    by (simp add: job_list_def completed_worker_def)
  moreover have "tenant_exists (se_committed completed_worker) 1"
    using example_ready(2) by (simp add: completed_worker_def tenant_exists_def example_worker_def)
  ultimately have "\<exists>w'. process_sync example_env example_run 2 1 example_config (completed_worker, Map.empty) = (Inl ReadError, w', Map.empty) \<and>
     inventory (se_committed w') = inventory (se_committed completed_worker) \<and>
     (\<forall>l' \<in> job_rows 2 1 (se_committed w'). sl_status l' = FAILED)"
    by (intro redelivered_completed_job_fails [where l = ?l and p = "''u''"] example_ready(1,5) l) simp_all
  then show ?thesis by (simp add: completed_worker_def inventory_def)
qed

end
