(* ===== verification/Platform.thy ===== *)
theory Platform
  imports App Redelivery "HOL-Library.Multiset"
begin

text \<open>
  The platform as a whole: the API process of \<open>App\<close>, the workers of \<open>Task\<close> and the broker between them,
  on one database, one Redis and one disk.  A step is a request, a run of the task on a message, the death
  of a worker, or a second delivery of a message; steps do not overlap, and any of them may come next.
\<close>

section \<open>Sessions\<close>

text \<open>Between two requests no session is open.\<close>

definition idle :: "server \<Rightarrow> server" where
  "idle s = s\<lparr>se_db := se_committed s, se_state := TxActive, se_log := None\<rparr>"

text \<open>A worker is another process: it finds what is committed, the ids and the number of statements so far.\<close>

definition worker_of :: "server \<Rightarrow> worker" where
  "worker_of s = \<lparr>se_db = se_committed s, se_committed = se_committed s, se_state = TxActive,
     se_context = RuntimeRole None, se_next_id = se_next_id s, se_count = se_count s, se_tx = se_tx s, se_log = None,
     nz_tenant = 0, nz_product_cache = [], nz_location_cache = []\<rparr>"

definition leave_worker :: "server \<Rightarrow> worker \<Rightarrow> server" where
  "leave_worker s w = idle (s\<lparr>se_committed := se_committed w, se_next_id := se_next_id w,
     se_count := se_count w, se_tx := se_tx w\<rparr>)"

section \<open>The task on a message\<close>

text \<open>The ids of a message, if \<open>uuid.UUID\<close> reads both.\<close>

definition ids_of :: "task_message \<Rightarrow> (uuid \<times> uuid) option" where
  "ids_of m = (case (uuid_of_text (tm_sync_log_id m), uuid_of_text (tm_tenant_id m)) of
     (Some i, Some T) \<Rightarrow> Some (i, T)
   | _ \<Rightarrow> None)"

text \<open>An id that is none raises before the service is called, in the last attempt as well.\<close>

definition run_message ::
  "web \<Rightarrow> run \<Rightarrow> task_message \<Rightarrow> nat \<Rightarrow> server \<times> files \<Rightarrow> task_result \<times> server \<times> files" where
  "run_message web rn m k = (\<lambda>(s, fs).
     case ids_of m of
       None \<Rightarrow>
         let e = ValueError ''badly formed hexadecimal UUID string''
         in (if max_retries \<le> k then GivenUp e else RetryAfter (default_retry_delay * 2 ^ k) e, s, fs)
     | Some (i, T) \<Rightarrow>
         (case sync_erp_data (wb_env web) rn i T (config_of (tm_tenant_config m)) k (worker_of s, fs) of
            (r, w, fs) \<Rightarrow> (r, leave_worker s w, fs)))"

definition deaths ::
  "web \<Rightarrow> run \<Rightarrow> task_message \<Rightarrow> nat \<Rightarrow> server \<times> files \<Rightarrow> (server \<times> files) list" where
  "deaths web rn m k = (\<lambda>(s, fs).
     case ids_of m of
       None \<Rightarrow> [(s, fs)]
     | Some (i, T) \<Rightarrow> map (\<lambda>(w, fs). (leave_worker s w, fs))
         (interrupted (wb_env web) rn i T (config_of (tm_tenant_config m)) k (worker_of s, fs)))"

section \<open>Steps\<close>

text \<open>The messages wait with the number of their retries.\<close>

type_synonym platform = "server \<times> files \<times> (task_message \<times> nat) multiset"

datatype event =
    Asked clock http_call body
  | Worked task_message nat task_result
  | Died task_message nat
  | Repeated task_message nat

text \<open>
  The broker keeps a message until it is acknowledged, which is after its run (\<open>acks_late\<close>): after a
  death it is still there, and a message that is not acknowledged in time is delivered once more, while
  the first delivery goes on.  A retry is published as a message of its own.
\<close>

inductive platform_step :: "web \<Rightarrow> pandas \<Rightarrow> platform \<Rightarrow> event \<Rightarrow> platform \<Rightarrow> bool" for web pd where
  asked: "handle web os arrange clock c (idle s, fs, []) = (b, s', fs', q) \<Longrightarrow>
     platform_step web pd (s, fs, M) (Asked clock c b) (s', fs', M + mset (map (\<lambda>m. (m, 0)) q))"
| worked: "run_message web rn m k (s, fs) = (r, s', fs') \<Longrightarrow> run_pandas rn = pd \<Longrightarrow>
     platform_step web pd (s, fs, add_mset (m, k) M) (Worked m k r)
       (s', fs', case r of RetryAfter _ _ \<Rightarrow> add_mset (m, Suc k) M | _ \<Rightarrow> M)"
| died: "(s', fs') \<in> set (deaths web rn m k (s, fs)) \<Longrightarrow> run_pandas rn = pd \<Longrightarrow>
     platform_step web pd (s, fs, add_mset (m, k) M) (Died m k) (s', fs', add_mset (m, k) M)"
| repeated: "platform_step web pd (s, fs, add_mset (m, k) M) (Repeated m k)
     (s, fs, add_mset (m, k) (add_mset (m, k) M))"

inductive_cases platform_stepE: "platform_step web pd p e p'"

text \<open>Runs with what happened in them.\<close>

inductive platform_run :: "web \<Rightarrow> pandas \<Rightarrow> platform \<Rightarrow> event list \<Rightarrow> platform \<Rightarrow> bool" for web pd where
  run_nothing: "platform_run web pd p [] p"
| run_next: "platform_run web pd p tr p' \<Longrightarrow> platform_step web pd p' e p'' \<Longrightarrow> platform_run web pd p (tr @ [e]) p''"

inductive_cases platform_run_snocE: "platform_run web pd p (tr @ [e]) p'"

lemma idle_sel [simp]:
  "se_committed (idle s) = se_committed s" "se_db (idle s) = se_committed s" "se_log (idle s) = None"
  "se_next_id (idle s) = se_next_id s" "idle (idle s) = idle s" "idle (s\<lparr>se_log := l\<rparr>) = idle s"
  "sv_redis (idle s) = sv_redis s"
  by (simp_all add: idle_def)

lemma worker_of_sel [simp]:
  "se_committed (worker_of s) = se_committed s" "se_db (worker_of s) = se_committed s" "se_next_id (worker_of s) = se_next_id s"
  by (simp_all add: worker_of_def)

lemma leave_worker_sel [simp]:
  "se_committed (leave_worker s w) = se_committed w" "se_next_id (leave_worker s w) = se_next_id w"
  by (simp_all add: leave_worker_def)

section \<open>What requests keep\<close>

text \<open>Every request but an upload.\<close>

locale request_invariant = server_invariant I for I :: "server \<Rightarrow> bool" +
  assumes inv_context: "I s \<Longrightarrow> I (s\<lparr>se_context := c\<rparr>)"
    and inv_forget: "I s \<Longrightarrow> I (s\<lparr>se_log := None\<rparr>)"
begin

lemma keep_idle: "I s \<Longrightarrow> I (idle s)"
  using inv_forget [OF inv_restart [of s "se_committed s" "se_tx s"]] by (simp add: idle_def)

lemma keep_session: "I s \<Longrightarrow> I (open_session s)"
  using inv_context [OF inv_open [of s], of "RuntimeRole None"] by (simp add: open_session_def open_admin_def)

lemma keep_health: "I s \<Longrightarrow> I (snd (health_check web s))"
proof -
  assume s: "I s"
  obtain d t where d: "execute (wb_env web) SelectOne (\<lambda>s. (Inr (), s)) (open_session s) = (d, t)" by fastforce
  then have "I t" using inv_execute [OF keep_session [OF s], where effect = "\<lambda>s. (Inr (), s)" and env = "wb_env web" and st = SelectOne] by simp
  then have "I (snd (redis_call web (\<lambda>r. ((), r)) t))" by (rule keep_redis) (simp add: inv_calls)
  with d show ?thesis
    by (cases "redis_call web (\<lambda>r. ((), r)) t") (simp add: health_check_def Let_def)
qed

text \<open>What is left of a listing or of a look at a job when its session is closed.\<close>

lemma idle_rollback: "I s \<Longrightarrow> I (idle (rollback s))"
  using keep_idle [OF inv_restart [of s "se_committed s" "Suc (se_tx s)"]] by (simp add: rollback_def)

lemma keep_tenant_db:
  assumes "I s" and body: "\<And>s. I s \<Longrightarrow> I (snd (m s))"
  shows "I (idle (snd (with_tenant_db web u m s)))"
proof -
  let ?env = "wb_env web"
  have set: "I (snd (calling (set_tenant_context ?env T) s))" if "I s" for T s
    unfolding set_tenant_context_def using that by (intro keep_calling inv_execute) (auto intro: inv_context)
  have reset: "I (snd (reset_tenant_context ?env s))" if "I s" for s
    unfolding reset_tenant_context_def using that by (intro inv_execute) (auto intro: inv_context)
  obtain r t where t: "calling (set_tenant_context ?env (u_tenant u)) (open_session s) = (r, t)" by fastforce
  with set [OF keep_session [OF assms(1)], of "u_tenant u"] have "I t" by simp
  with t reset [OF body [OF this]] show ?thesis
    by (cases r) (auto simp: with_tenant_db_def Let_def split: prod.splits intro!: idle_rollback)
qed

lemma keep_listing: "I s \<Longrightarrow> I (idle (snd (list_products web arrange clock token skip limit s)))"
proof -
  assume s: "I s"
  obtain r t where u: "get_current_active_user web clock token s = (r, t)" by fastforce
  with keep_current_user [OF s, of web clock token] have t: "I t" by simp
  show ?thesis
  proof (cases r)
    case (Inl e)
    with u t show ?thesis by (simp add: list_products_def sbind_def keep_idle)
  next
    case (Inr v)
    have "I (snd ((if skip < 0 \<or> limit < 1 \<or> 1000 < limit then raise_http 422 ''Unprocessable Entity'' False
        else sbind (calling (count_products (wb_env web))) (\<lambda>total.
          sbind (calling (page_products (wb_env web) arrange skip limit)) (\<lambda>products.
          sreturn \<lparr>pl_items = map product_response_of products, pl_total = total\<rparr>))) s))" if "I s" for s
      using that unfolding count_products_def page_products_def
      by (auto intro!: keep_bind keep_calling inv_execute)
    from keep_tenant_db [OF t this] u Inr show ?thesis by (simp add: list_products_def sbind_def)
  qed
qed

lemma keep_status: "I s \<Longrightarrow> I (idle (snd (upload_status web clock token job_id s)))"
proof -
  assume s: "I s"
  obtain r t where u: "get_current_active_user web clock token s = (r, t)" by fastforce
  with keep_current_user [OF s, of web clock token] have t: "I t" by simp
  have log: "I (idle (snd (get_sync_log env i t)))" for env i
  proof -
    obtain q x where x: "select env (SelectSyncLog i) tb_sync_logs sl_tenant (log_by_id i) t = (q, x)" by fastforce
    with inv_select [OF t, of env "SelectSyncLog i" tb_sync_logs sl_tenant "log_by_id i"] have "I (idle x)"
      by (simp add: keep_idle)
    with x show ?thesis by (auto simp: get_sync_log_def sbind_def split: sum.splits option.splits)
  qed
  show ?thesis
  proof (cases "\<exists>v i. r = Inr v \<and> job_id = Some i")
    case False
    with u t show ?thesis
      by (cases r; cases job_id) (auto simp: upload_status_def sbind_def raise_http_def keep_idle)
  next
    case True
    then obtain v i where "r = Inr v" "job_id = Some i" by blast
    moreover obtain q x where "get_sync_log (wb_env web) i t = (q, x)" by fastforce
    moreover from this log [of "wb_env web" i] have "I (idle x)" by simp
    ultimately show ?thesis
      using u by (auto simp: upload_status_def sbind_def calling_def raise_http_def split: sum.splits option.splits)
  qed
qed

lemma idle_reply: "I (idle (snd (m s))) \<Longrightarrow> I (idle (fst (snd (reply_with f (on_server m (s, fs, q))))))"
  by (auto simp: reply_with_def on_server_def split: prod.splits sum.splits)

lemma keep_requests:
  assumes s: "I s" and "endpoint_of c \<noteq> Upload_file"
  shows "I (idle (fst (snd (handle web os arrange clock c (s, fs, q)))))"
proof (cases c)
  case GetHealth
  with keep_health [OF s, of web] show ?thesis by (auto simp: keep_idle split: prod.splits)
next
  case (AuthCall a)
  with serve_keeps [OF s, of web clock a] show ?thesis by (auto simp: keep_idle split: prod.splits)
next
  case (PostUpload t upl form)
  with assms(2) show ?thesis by simp
next
  case (GetStatus t i)
  with idle_reply [where m = "upload_status web clock t i", OF keep_status [OF s]] show ?thesis by simp
next
  case (GetTemplate t)
  have "I (snd (download_template web clock t s))"
    unfolding download_template_def by (rule keep_bind) (simp_all add: keep_current_user s)
  with GetTemplate idle_reply [where m = "download_template web clock t", OF keep_idle] show ?thesis by simp
next
  case (GetProducts t skip limit)
  with idle_reply [where m = "list_products web arrange clock t skip limit", OF keep_listing [OF s]]
  show ?thesis by simp
qed

end

text \<open>And the upload, which may insert a job.\<close>

locale portal_invariant = request_invariant I + logged_invariant I for I :: "server \<Rightarrow> bool" +
  assumes inv_job: "I s \<Longrightarrow> I (put_sync_log l s)"
begin

lemma keep_refresh: "I s \<Longrightarrow> I (snd (refresh_sync_log env s))"
  by (auto simp: refresh_sync_log_def split: option.splits intro!: keep_bind inv_select intro: inv_log)

lemma keep_add_job: "I s \<Longrightarrow> I (snd (add_job env l s))"
  unfolding add_job_def
  by (intro keep_bind inv_add_and_flush keep_commit keep_refresh) (auto intro: inv_job)

lemma keep_start_upload: "I s \<Longrightarrow> I (fst (snd (start_upload web os T name content (s, fs, q))))"
  using keep_add_job [OF inv_id [of s]]
  by (auto simp: start_upload_def start_sync_disk storage_save_def Let_def inv_id
      split: prod.splits sum.splits option.splits) (metis snd_conv)+

lemma keep_on_server: "I (fst p) \<Longrightarrow> (\<And>s. I s \<Longrightarrow> I (snd (m s))) \<Longrightarrow> I (fst (snd (on_server m p)))"
  by (cases p) (auto simp: on_server_def split: prod.splits, metis snd_conv)

lemma keep_take_upload:
  assumes "I (fst p)"
  shows "I (fst (snd (take_upload web os u name content f p)))"
proof -
  note bind = sbind_keeps_inv [where P = "\<lambda>p :: portal. I (fst p)"]
  have up: "I (fst (snd (start_upload web os T n content p)))" if "I (fst p)" for T n p
    using that keep_start_upload by (cases p) simp
  have ref: "I (fst (snd (refuse n d p)))" if "I (fst p)" for n d p
    using that by (cases p) simp
  have del: "I (fst (snd (delay os m p)))" if "I (fst p)" for m p
    using that by (cases p) (simp add: delay_def)
  show ?thesis
    unfolding take_upload_def Let_def
    by (auto intro!: bind ref up del keep_on_server keep_calling keep_queries assms)
qed

lemma keep_upload:
  assumes "I s"
  shows "I (fst (snd (upload_file web os clock token upl form (s, fs, q))))"
proof -
  note bind = sbind_keeps_inv [where P = "\<lambda>p :: portal. I (fst p)"]
  have ref: "I (fst (snd (refuse n d p)))" if "I (fst p)" for n d p
    using that by (cases p) simp
  have role: "I (fst (snd (on_server (require_role rs u) p)))" if "I (fst p)" for rs u p
    using that by (intro keep_on_server) (auto simp: require_role_def)
  show ?thesis
    unfolding upload_file_def
    by (auto split: option.splits prod.splits
        intro!: bind role ref keep_take_upload keep_on_server keep_current_user assms)
qed

lemma keep_portal:
  assumes "I s"
  shows "I (idle (fst (snd (handle web os arrange clock c (s, fs, q)))))"
proof (cases "endpoint_of c = Upload_file")
  case True
  then obtain t upl form where "c = PostUpload t upl form" by (cases c rule: endpoint_of.cases) auto
  with keep_upload [OF assms, of web os clock t upl form fs q] show ?thesis
    by (auto simp: reply_with_def keep_idle split: prod.splits sum.splits)
next
  case False
  then show ?thesis by (rule keep_requests [OF assms])
qed

end

end
