(* ===== verification/PlatformFacts.thy ===== *)
theory PlatformFacts
  imports Platform
begin

text \<open>
  What the steps of the platform keep: the invariants of requests and of runs, brought together.
\<close>

section \<open>Requests\<close>

text \<open>The inventory and the tenants are as they were, and ids are only used up.\<close>

definition stock :: "db \<Rightarrow> (product list \<times> location list \<times> batch list \<times> txn list) \<times> tenant list" where
  "stock d = (inventory d, tb_tenants d)"

definition same_stock ::
  "(product list \<times> location list \<times> batch list \<times> txn list) \<times> tenant list \<Rightarrow> nat \<Rightarrow> server \<Rightarrow> bool" where
  "same_stock x n s \<longleftrightarrow> stock (se_db s) = x \<and> stock (se_committed s) = x \<and> n \<le> se_next_id s"

lemma stock_sel [simp]:
  "stock (update_log_row c t d) = stock d" "stock (touch_users i now sql d) = stock d"
  "stock (d\<lparr>tb_users := us\<rparr>) = stock d" "stock (d\<lparr>tb_sync_logs := ls\<rparr>) = stock d"
  by (simp_all add: stock_def inventory_def touch_users_def)

interpretation stock: portal_invariant "same_stock x n" for x n
  by unfold_locales
    (auto simp: same_stock_def tick_def flush_failed_def open_admin_def put_user_def store_key_def drop_key_def
      put_sync_log_def)

interpretation portal_privileged: portal_invariant "same_privileged x" for x
  by unfold_locales (auto simp: same_privileged_def privileged_def put_sync_log_def)

interpretation portal_users: portal_invariant users_ok
  by unfold_locales (auto simp: users_ok_def wf_users_def put_sync_log_def tenant_exists_def intro: less_SucI)

text \<open>Without an upload, no job is touched either.\<close>

definition same_logs :: "sync_log list \<Rightarrow> server \<Rightarrow> bool" where
  "same_logs x s \<longleftrightarrow> se_log s = None \<and> tb_sync_logs (se_db s) = x \<and> tb_sync_logs (se_committed s) = x"

interpretation logs: request_invariant "same_logs x" for x
  by unfold_locales
    (auto simp: same_logs_def tick_def flush_failed_def open_admin_def put_user_def store_key_def drop_key_def
      touch_users_def expire_def)

lemma request_keeps:
  assumes "handle web os arrange clock c (idle s, fs, []) = (b, s', fs', q)"
  shows "stock (se_committed s') = stock (se_committed s)" "se_next_id s \<le> se_next_id s'"
    "privileged (se_committed s') = privileged (se_committed s)"
    "wf_users (se_next_id s) (se_committed s) \<Longrightarrow> wf_users (se_next_id s') (se_committed s')"
proof -
  have "same_stock (stock (se_committed s)) (se_next_id s) (idle s)" by (simp add: same_stock_def)
  from stock.keep_portal [OF this, of web os arrange clock c fs "[]"] assms
  show "stock (se_committed s') = stock (se_committed s)" "se_next_id s \<le> se_next_id s'"
    by (simp_all add: same_stock_def)
  have "same_privileged (privileged (se_committed s)) (idle s)" by (simp add: same_privileged_def)
  from portal_privileged.keep_portal [OF this, of web os arrange clock c fs "[]"] assms
  show "privileged (se_committed s') = privileged (se_committed s)" by (simp add: same_privileged_def)
  show "wf_users (se_next_id s') (se_committed s')" if "wf_users (se_next_id s) (se_committed s)"
    using that portal_users.keep_portal [of "idle s" web os arrange clock c fs "[]"] assms by (simp add: users_ok_def)
qed

lemma on_server_files: "reply_with f (on_server m (t, fs, q)) = (b, s', fs', q') \<Longrightarrow> fs' = fs \<and> q' = q"
  by (auto simp: reply_with_def on_server_def split: prod.splits sum.splits)

lemma request_keeps_logs:
  assumes "handle web os arrange clock c (idle s, fs, []) = (b, s', fs', q)" "endpoint_of c \<noteq> Upload_file"
  shows "tb_sync_logs (se_committed s') = tb_sync_logs (se_committed s)" "fs' = fs" "q = []"
proof -
  have "same_logs (tb_sync_logs (se_committed s)) (idle s)" by (simp add: same_logs_def)
  from logs.keep_requests [OF this assms(2), of web os arrange clock fs "[]"] assms(1)
  show "tb_sync_logs (se_committed s') = tb_sync_logs (se_committed s)" by (simp add: same_logs_def)
  have "fs' = fs \<and> q = []"
    using assms by (cases c) (auto dest!: on_server_files split: prod.splits)
  then show "fs' = fs" "q = []" by simp_all
qed

section \<open>Runs\<close>

context job_invariant
begin

lemma task_keeps_all:
  assumes "J w"
  shows "J (fst (snd (sync_erp_data env rn i T tc k (w, fs))))"
proof -
  obtain q v gs where p: "process_sync env rn i T tc (w, fs) = (q, v, gs)" by (metis prod_cases3)
  with process_sync_keeps [OF open_keeps [OF assms], of env rn i tc fs] have "J v" by simp
  with delete_upload_keeps [of v env i gs] p show ?thesis
    by (auto simp: sync_erp_data_cases split: prod.splits sum.splits)
qed

lemma interrupted_keep:
  assumes "J w" and "s' \<in> set (interrupted env rn i T tc k (w, fs))"
  shows "J (fst s')"
  using assms begin_sync_keeps [OF open_keeps, of w env rn i] process_sync_keeps [OF open_keeps, of w env rn i tc fs]
    task_keeps_all [of w env rn i tc k fs]
  by (auto simp: interrupted_def)

end

text \<open>Ids are only used up.\<close>

definition ids_from :: "nat \<Rightarrow> worker \<Rightarrow> bool" where
  "ids_from n w \<longleftrightarrow> n \<le> se_next_id w"

interpretation ids_from: worker_invariant "ids_from n" "\<lambda>_ _ _. True" "\<lambda>_ _ _. True" for n
proof (rule worker_invariant.intro)
  fix A B and S :: uuid
  show "session_invariant (owning (ids_from n) (\<lambda>_ _ _. True) (\<lambda>_ _ _. True) A B S)"
    by unfold_locales (auto simp: owning_def ids_from_def tick_def flush_failed_def)
qed (auto simp: owning_def ids_from_def put_product_def put_location_def put_transaction_def
    put_batch_def cache_product_def cache_location_def)

interpretation ids_from: job_invariant "ids_from n" "\<lambda>_ _ _. True" "\<lambda>_ _ _. True" "ids_from n" T for n T
proof (unfold job_invariant_def row_invariant_def session_job_def job_invariant_axioms_def
    row_invariant_axioms_def, intro conjI allI impI)
  show "worker_invariant (ids_from n) (\<lambda>_ _ _. True) (\<lambda>_ _ _. True)" by (rule ids_from.worker_invariant_axioms)
  show "session_invariant (ids_from n)"
    by unfold_locales (simp_all add: ids_from_def tick_def flush_failed_def)
qed (simp_all add: ids_from_def new_normalizer_def owning_def)

text \<open>What a run or a death of a run on a message leaves.\<close>

inductive works :: "web \<Rightarrow> pandas \<Rightarrow> uuid \<Rightarrow> uuid \<Rightarrow> task_message \<Rightarrow> server \<times> files \<Rightarrow> server \<times> files \<Rightarrow> bool"
  for web pd i T m where
  ran: "run_message web rn m k p = (r, p') \<Longrightarrow> run_pandas rn = pd \<Longrightarrow> ids_of m = Some (i, T) \<Longrightarrow> works web pd i T m p p'"
| died: "p' \<in> set (deaths web rn m k p) \<Longrightarrow> run_pandas rn = pd \<Longrightarrow> ids_of m = Some (i, T) \<Longrightarrow> works web pd i T m p p'"

lemma works_worker:
  assumes "works web pd i T m (s, fs) (s', fs')"
  obtains rn k w where "run_pandas rn = pd" "s' = leave_worker s w"
    "(w, fs') = snd (sync_erp_data (wb_env web) rn i T (config_of (tm_tenant_config m)) k (worker_of s, fs)) \<or>
     (w, fs') \<in> set (interrupted (wb_env web) rn i T (config_of (tm_tenant_config m)) k (worker_of s, fs))"
  using assms
proof cases
  case (ran rn k r)
  then obtain w where "sync_erp_data (wb_env web) rn i T (config_of (tm_tenant_config m)) k (worker_of s, fs) = (r, w, fs')"
    "s' = leave_worker s w"
    by (auto simp: run_message_def split: prod.splits)
  with ran that [of rn w k] show ?thesis by simp
next
  case (died rn k)
  then show ?thesis using that by (auto simp: deaths_def)
qed

context job_invariant
begin

lemma works_keeps:
  assumes "works web pd i T m (s, fs) (s', fs')" and "J (worker_of s)"
  obtains w where "s' = leave_worker s w" "J w"
proof -
  from assms(1) obtain rn k w where "s' = leave_worker s w"
    "(w, fs') = snd (sync_erp_data (wb_env web) rn i T (config_of (tm_tenant_config m)) k (worker_of s, fs)) \<or>
     (w, fs') \<in> set (interrupted (wb_env web) rn i T (config_of (tm_tenant_config m)) k (worker_of s, fs))"
    by (rule works_worker)
  then show ?thesis
    using that task_keeps_all [OF assms(2), of "wb_env web" rn i "config_of (tm_tenant_config m)" k fs]
      interrupted_keep [OF assms(2), of "(w, fs')"] by (metis fst_conv)
qed

end

lemma works_returns:
  assumes "works web pd i T m (s, fs) (s', fs')"
  shows "se_next_id s \<le> se_next_id s'" "others T (se_committed s') = others T (se_committed s)"
    "wf_db (se_next_id s) (se_committed s) \<Longrightarrow> wf_db (se_next_id s') (se_committed s')"
proof -
  have "ids_from (se_next_id s) (worker_of s)" by (simp add: ids_from_def)
  from ids_from.works_keeps [OF assms this] obtain w where "s' = leave_worker s w" "ids_from (se_next_id s) w" .
  then show "se_next_id s \<le> se_next_id s'" by (simp add: ids_from_def)
  have "all_isolated T (se_committed s) (worker_of s)" by (simp add: all_isolated_def)
  from isolation.works_keeps [OF assms this] obtain w where "s' = leave_worker s w" "all_isolated T (se_committed s) w" .
  then show "others T (se_committed s') = others T (se_committed s)" by (simp add: all_isolated_def)
  show "wf_db (se_next_id s') (se_committed s')" if "wf_db (se_next_id s) (se_committed s)"
  proof -
    from that have "stored (worker_of s)" by (simp add: stored_def)
    from integrity.works_keeps [OF assms this] obtain w where "s' = leave_worker s w" "stored w" .
    then show ?thesis by (simp add: stored_def)
  qed
qed

section \<open>Steps\<close>

definition waiting :: "(task_message \<times> nat) multiset \<Rightarrow> task_message set" where
  "waiting M = fst ` set_mset M"

lemma platform_step_cases:
  assumes "platform_step web pd (s, fs, M) e (s', fs', M')"
  obtains
    (request) os arrange clock c b q where "e = Asked clock c b"
      "handle web os arrange clock c (idle s, fs, []) = (b, s', fs', q)" "waiting M' = waiting M \<union> set q"
  | (work) i T m where "m \<in> waiting M" "works web pd i T m (s, fs) (s', fs')" "waiting M' \<subseteq> waiting M"
      "\<And>clock c b. e \<noteq> Asked clock c b"
  | (nothing) "s' = s" "fs' = fs" "waiting M' \<subseteq> waiting M" "\<And>clock c b. e \<noteq> Asked clock c b"
  using assms
proof cases
  case (asked os arrange clock c b q)
  then show ?thesis by (intro request) (auto simp: waiting_def image_Un image_image)
next
  case (worked rn m k r N)
  have sub: "waiting M' \<subseteq> waiting M" using worked by (auto simp: waiting_def split: task_result.splits)
  show ?thesis
  proof (cases "ids_of m")
    case None
    with worked have "s' = s" "fs' = fs" by (auto simp: run_message_def Let_def)
    then show ?thesis by (rule nothing) (use worked sub in simp_all)
  next
    case (Some x)
    obtain i T where "x = (i, T)" by (cases x)
    with worked Some sub show ?thesis by (intro work [of m i T]) (auto simp: waiting_def intro: works.ran)
  qed
next
  case (died rn m k N)
  have sub: "waiting M' \<subseteq> waiting M" using died by simp
  show ?thesis
  proof (cases "ids_of m")
    case None
    with died have "s' = s" "fs' = fs" by (auto simp: deaths_def)
    then show ?thesis by (rule nothing) (use died sub in simp_all)
  next
    case (Some x)
    obtain i T where "x = (i, T)" by (cases x)
    with died Some sub show ?thesis by (intro work [of m i T]) (auto simp: waiting_def intro: works.died)
  qed
next
  case (repeated m k N)
  then have "s' = s" "fs' = fs" by simp_all
  then show ?thesis by (rule nothing) (use repeated in \<open>auto simp: waiting_def\<close>)
qed

text \<open>What a user's upload puts into the queue.\<close>

lemma upload_queues:
  assumes "handle web os arrange clock c (idle s, fs, []) = (b, s', fs', q)" "m \<in> set q"
  shows "\<exists>r u x. b = UploadBody r \<and> get_current_active_user web clock (token_of c) (idle s) = (Inr u, x) \<and>
    u_role u \<in> {OWNER, ADMIN, OPS} \<and> u \<in> set (tb_users (se_committed s)) \<and> tm_tenant_id m = uuid_text (u_tenant u)"
proof -
  have "endpoint_of c = Upload_file"
    using request_keeps_logs(3) [OF assms(1)] assms(2) by (metis empty_iff empty_set)
  then obtain t upl form where c: "c = PostUpload t upl form" by (cases c rule: endpoint_of.cases) auto
  obtain r where u: "upload_file web os clock t upl form (idle s, fs, []) = (r, s', fs', q)"
    using assms(1) c by (auto simp: reply_with_def split: prod.splits sum.splits)
  have "\<exists>x. r = Inr x"
  proof (rule ccontr)
    assume "\<nexists>x. r = Inr x"
    then obtain e where "r = Inl e" by (cases r) auto
    have queue: "q' = q0" if "take_upload web os v n b f (v', gs, q0) = (Inl e, w, hs, q')" for v n b f v' gs q0 w hs q'
      using that
      by (auto simp: take_upload_def Let_def on_server_simps calling_Inl start_upload_def delay_def
          elim!: sbindE split: if_splits prod.splits sum.splits)
    from u \<open>r = Inl e\<close> have "q = []"
      by (auto simp: upload_file_def on_server_simps elim!: sbindE dest: queue split: option.splits prod.splits)
    with assms(2) show False by simp
  qed
  then obtain x where r: "r = Inr x" by blast
  obtain v n content f y where
    a: "get_current_active_user web clock t (idle s) = (Inr v, y)" "u_role v \<in> {OWNER, ADMIN, OPS}"
    and k: "take_upload web os v n content f (y, fs, []) = (Inr x, s', fs', q)"
    by (rule upload_returns [OF u [unfolded r]]) (rule that)
  have "v \<in> set (tb_users (se_committed (idle s))) \<and> y = tick (open_admin (idle s))"
    using a(1) by (rule active_user_returns) simp
  then have "v \<in> set (tb_users (se_committed (idle s)))" "y = tick (open_admin (idle s))"
    by simp_all
  then have y: "v \<in> set (tb_users (se_committed s))" "se_log y = None" "se_context y = AdminRole" by simp_all
  have "tm_tenant_id m = uuid_text (u_tenant v)"
    by (rule take_upload_returns [OF k y(2,3)]) (use assms(2) in simp)
  moreover have "b = UploadBody x" using assms(1) c u r by (simp add: reply_with_def)
  ultimately show ?thesis using a c y(1) by (intro exI [of _ x] exI [of _ v] exI [of _ y]) simp
qed

end
