(* ===== verification/PlatformProps.thy ===== *)
theory PlatformProps
  imports PlatformFacts
begin

text \<open>
  What holds of the whole platform, whatever requests come, whatever the database, the disk and the broker
  answer, and however often workers die and messages are delivered again.
\<close>

section \<open>Tenants\<close>

definition tenant_rows :: "uuid \<Rightarrow> db \<Rightarrow> product list \<times> location list \<times> batch list \<times> txn list" where
  "tenant_rows T d =
     (filter (\<lambda>p. p_tenant p = T) (tb_products d), filter (\<lambda>l. l_tenant l = T) (tb_locations d),
      filter (\<lambda>b. b_tenant b = T) (tb_batches d), filter (\<lambda>t. t_tenant t = T) (tb_transactions d))"

definition for_tenant :: "uuid \<Rightarrow> task_message \<Rightarrow> bool" where
  "for_tenant T m \<longleftrightarrow> (\<exists>i. ids_of m = Some (i, T))"

text \<open>An upload that is accepted from a user of the tenant who may upload.\<close>

definition accepts_upload :: "web \<Rightarrow> uuid \<Rightarrow> platform \<Rightarrow> event \<Rightarrow> bool" where
  "accepts_upload web T p e \<longleftrightarrow> (\<exists>clock c r u x. e = Asked clock c (UploadBody r) \<and>
     get_current_active_user web clock (token_of c) (idle (fst p)) = (Inr u, x) \<and>
     u_tenant u = T \<and> u_role u \<in> {OWNER, ADMIN, OPS})"

lemma tenant_rows_stock: "stock d = stock d' \<Longrightarrow> tenant_rows T d = tenant_rows T d'"
  by (simp add: stock_def inventory_def tenant_rows_def)

lemma tenant_rows_others: "others T d = others T d' \<Longrightarrow> S \<noteq> T \<Longrightarrow> tenant_rows S d = tenant_rows S d'"
proof -
  assume o: "others T d = others T d'" and ne: "S \<noteq> T"
  have f: "filter (\<lambda>x. g x = S) xs = filter (\<lambda>x. g x = S) (filter (\<lambda>x. g x \<noteq> T) xs)" for g :: "'x \<Rightarrow> uuid" and xs
    using ne by (auto intro: filter_cong)
  have eqs: "filter (\<lambda>x. g x = S) xs = filter (\<lambda>x. g x = S) ys"
    if "filter (\<lambda>x. g x \<noteq> T) xs = filter (\<lambda>x. g x \<noteq> T) ys" for g :: "'x \<Rightarrow> uuid" and xs ys
    using that f [of g xs] f [of g ys] by simp
  from o show ?thesis
    unfolding tenant_rows_def others_def prod.inject by (elim conjE) (intro conjI; erule eqs)
qed

text \<open>What is assumed of the tables, and kept.\<close>

definition tables_ok :: "server \<Rightarrow> bool" where
  "tables_ok s \<longleftrightarrow> wf_users (se_next_id s) (se_committed s) \<and> (\<forall>t \<in> set (tb_tenants (se_committed s)). tn_id t < 2 ^ 128)"

lemma step_keeps:
  assumes "platform_step web pd (s, fs, M) e (s', fs', M')"
  shows "tables_ok s \<Longrightarrow> tables_ok s'" "privileged (se_committed s') = privileged (se_committed s)"
    "wf_db (se_next_id s) (se_committed s) \<Longrightarrow> wf_db (se_next_id s') (se_committed s')"
proof -
  have "(tables_ok s \<longrightarrow> tables_ok s') \<and> privileged (se_committed s') = privileged (se_committed s) \<and>
    (wf_db (se_next_id s) (se_committed s) \<longrightarrow> wf_db (se_next_id s') (se_committed s'))"
    using assms
  proof (cases rule: platform_step_cases)
    case (request os arrange clock c b q)
    note R = request_keeps [OF request(2)]
    have "wf_db n (se_committed s') = wf_db n (se_committed s)" for n
      using R(1) by (simp add: stock_def inventory_def wf_db_def wf_batch_def wf_transaction_def has_product_def has_location_def)
    with R wf_mono(5) show ?thesis by (auto simp: tables_ok_def stock_def)
  next
    case (work i T m)
    note W = works_returns [OF work(2)]
    from W(2) have "tb_users (se_committed s') = tb_users (se_committed s)" "tb_tenants (se_committed s') = tb_tenants (se_committed s)"
      by (simp_all add: others_def)
    with W show ?thesis by (auto simp: tables_ok_def privileged_def wf_users_def tenant_exists_def)
  qed simp
  then show "tables_ok s \<Longrightarrow> tables_ok s'" "privileged (se_committed s') = privileged (se_committed s)"
    "wf_db (se_next_id s) (se_committed s) \<Longrightarrow> wf_db (se_next_id s') (se_committed s')" by simp_all
qed

text \<open>A message for the tenant is queued by an upload that was accepted from one of its users.\<close>

lemma accepted_messages:
  assumes "handle web os arrange clock c (idle s, fs, []) = (b, s', fs', q)" and "tables_ok s"
    and "n \<in> set q" "for_tenant T n"
  shows "accepts_upload web T (s, fs, M) (Asked clock c b)"
proof -
  from upload_queues [OF assms(1,3)] obtain r u x where b: "b = UploadBody r"
    and u: "get_current_active_user web clock (token_of c) (idle s) = (Inr u, x)" "u_role u \<in> {OWNER, ADMIN, OPS}"
      "u \<in> set (tb_users (se_committed s))" "tm_tenant_id n = uuid_text (u_tenant u)" by blast
  have "u_tenant u < 2 ^ 128" using assms(2) u(3) by (auto simp: tables_ok_def wf_users_def tenant_exists_def)
  with u(4) assms(4) have "u_tenant u = T" by (auto simp: for_tenant_def ids_of_def split: option.splits)
  with b u show ?thesis by (auto simp: accepts_upload_def)
qed

lemma step_isolates:
  assumes step: "platform_step web pd (s, fs, M) e (s', fs', M')" and ok: "tables_ok s"
    and no: "\<forall>m \<in> waiting M. \<not> for_tenant T m" "\<not> accepts_upload web T (s, fs, M) e"
  shows "tenant_rows T (se_committed s') = tenant_rows T (se_committed s) \<and> (\<forall>m \<in> waiting M'. \<not> for_tenant T m)"
  using step
proof (cases rule: platform_step_cases)
  case (request os arrange clock c b q)
  have "\<not> for_tenant T m" if "m \<in> set q" for m
    using accepted_messages [OF request(2) ok that, of T M] no(2) request(1) by blast
  with request(3) no(1) tenant_rows_stock [OF request_keeps(1) [OF request(2)]] show ?thesis by auto
next
  case (work i S m)
  have "S \<noteq> T"
    using work(1,2) no(1) by (auto simp: for_tenant_def elim!: works.cases)
  with work(3) no(1) tenant_rows_others [OF works_returns(2) [OF work(2)]] show ?thesis by auto
qed (use no(1) in auto)

lemma from_the_start: "platform_run web pd p tr p' \<Longrightarrow> tr = [] \<Longrightarrow> p' = p"
  by (erule platform_run.cases) simp_all

lemma step_ids: "platform_step web pd (s, fs, M) e (s', fs', M') \<Longrightarrow> se_next_id s \<le> se_next_id s'"
  by (erule platform_step_cases) (simp_all add: request_keeps(2) works_returns(1))

lemma run_keeps:
  assumes "platform_run web pd p tr p'"
  shows "tables_ok (fst p) \<Longrightarrow> tables_ok (fst p')"
    "privileged (se_committed (fst p')) = privileged (se_committed (fst p))"
    "wf_db (se_next_id (fst p)) (se_committed (fst p)) \<Longrightarrow> wf_db (se_next_id (fst p')) (se_committed (fst p'))"
  using assms
proof (induction rule: platform_run.induct)
  case (run_next p tr p' e p'')
  obtain s fs M s' fs' M' where "p' = (s, fs, M)" "p'' = (s', fs', M')" by (metis prod_cases3)
  with run_next step_keeps [of web pd s fs M e s' fs' M'] show "tables_ok (fst p) \<Longrightarrow> tables_ok (fst p'')"
    "privileged (se_committed (fst p'')) = privileged (se_committed (fst p))"
    "wf_db (se_next_id (fst p)) (se_committed (fst p)) \<Longrightarrow> wf_db (se_next_id (fst p'')) (se_committed (fst p''))"
    by simp_all
qed simp_all

lemma run_ids: "platform_run web pd p tr p' \<Longrightarrow> se_next_id (fst p) \<le> se_next_id (fst p')"
proof (induction rule: platform_run.induct)
  case (run_next p tr p' e p'')
  obtain s fs M s' fs' M' where "p' = (s, fs, M)" "p'' = (s', fs', M')" by (metis prod_cases3)
  with run_next step_ids [of web pd s fs M e s' fs' M'] show ?case by simp
qed simp

lemma run_isolates:
  assumes "platform_run web pd p tr p'" and "tables_ok (fst p)" and "\<forall>m \<in> waiting (snd (snd p)). \<not> for_tenant T m"
    and "\<forall>tr1 e tr2 q. tr = tr1 @ e # tr2 \<longrightarrow> platform_run web pd p tr1 q \<longrightarrow> \<not> accepts_upload web T q e"
  shows "tenant_rows T (se_committed (fst p')) = tenant_rows T (se_committed (fst p)) \<and>
    (\<forall>m \<in> waiting (snd (snd p')). \<not> for_tenant T m)"
  using assms
proof (induction rule: platform_run.induct)
  case (run_next p tr p' e p'')
  have "\<forall>tr1 e' tr2 q. tr = tr1 @ e' # tr2 \<longrightarrow> platform_run web pd p tr1 q \<longrightarrow> \<not> accepts_upload web T q e'"
    using run_next.prems(3) by fastforce
  with run_next have IH: "tenant_rows T (se_committed (fst p')) = tenant_rows T (se_committed (fst p))"
    "\<forall>m \<in> waiting (snd (snd p')). \<not> for_tenant T m" by blast+
  have no: "\<not> accepts_upload web T p' e" using run_next.prems(3) run_next.hyps(1) by blast
  have ok: "tables_ok (fst p')" using run_keeps(1) [OF run_next.hyps(1)] run_next.prems(1) by simp
  obtain s fs M s' fs' M' where "p' = (s, fs, M)" "p'' = (s', fs', M')" by (metis prod_cases3)
  with IH no ok run_next.hyps(2) step_isolates [of web pd s fs M e s' fs' M' T] show ?case by simp
qed simp

section \<open>An example\<close>

text \<open>The message of the example's job, and a worker that takes it.\<close>

definition example_message :: task_message where
  "example_message = \<lparr>tm_sync_log_id = uuid_text 2, tm_tenant_id = uuid_text 1, tm_tenant_config = []\<rparr>"

lemma example_message:
  "ids_of example_message = Some (2, 1)" "config_of (tm_tenant_config example_message) = example_config"
  by (simp_all add: ids_of_def example_message_def config_of_def example_config_def)

lemma example_server_ok:
  "tables_ok example_server" "wf_db (se_next_id example_server) (se_committed example_server)"
  by (simp_all add: tables_ok_def example_server_def wf_users_def example_owner_def tenant_exists_def example_db_def
      example_tenant_def wf_db_def wf_products_def wf_locations_def wf_batches_def wf_transactions_def)

lemma example_server_job:
  "tenant_exists (se_committed example_server) 1"
  "filter (\<lambda>l. sl_id l = 2 \<and> sl_tenant l = 1) (tb_sync_logs (se_committed example_server)) = [example_log]"
  "inventory (se_committed example_server) = ([], [], [], [])" "wb_env example_web = example_env"
  using example_ready(2,3)
  by (simp_all add: example_server_def example_worker_def tenant_exists_def inventory_def example_db_def example_web_def)

lemma example_platform_run:
  obtains s fs where
    "platform_run example_web (run_pandas example_run) (example_server, example_files, {#(example_message, 0)#})
       [Worked example_message 0 Done] (s, fs, {#})"
    "catalogue 1 (tb_products (se_committed s)) = [''S1'' \<mapsto> example_product]"
proof -
  let ?w = "worker_of example_server"
  have w: "tenant_exists (se_committed ?w) 1"
    "filter (\<lambda>l. sl_id l = 2 \<and> sl_tenant l = 1) (tb_sync_logs (se_committed ?w)) = [example_log]"
    using example_server_job by simp_all
  from products_job_runs [OF example_ready(1) w example_ready(4) example_conn example_ready(5) example_rows] example_ready(6)
  obtain w' fs' where run: "process_sync example_env example_run 2 1 example_config (?w, example_files) = (Inr (), w', fs')"
    and cat: "catalogue 1 (tb_products (se_committed w')) =
      import_products [example_product] (catalogue 1 (tb_products (se_committed ?w)))" by blast
  let ?s = "leave_worker example_server w'"
  have "run_message example_web example_run example_message 0 (example_server, example_files) = (Done, ?s, fs')"
    using run by (simp add: run_message_def example_message sync_erp_data_cases example_server_job(4))
  from platform_step.worked [where M = "{#}", OF this refl] have
    "platform_run example_web (run_pandas example_run) (example_server, example_files, {#(example_message, 0)#})
       ([] @ [Worked example_message 0 Done]) (?s, fs', {#})"
    by (intro run_next [OF run_nothing]) simp
  moreover have "catalogue 1 (tb_products (se_committed ?s)) = [''S1'' \<mapsto> example_product]"
    using cat example_server_job(3) example_normalized
    by (simp add: inventory_def import_products_def import_product_def catalogue_def fun_eq_iff)
      (simp add: example_product_def)
  ultimately show ?thesis using that by simp
qed

section \<open>Properties\<close>

text \<open>
  Property C2.  Nobody changes the data of another tenant: if after any run of the platform the products,
  locations, batches and transactions of a tenant are not what they were, then a message for that tenant
  was waiting at the start, or an upload was accepted on the way from a user who was active, an owner, an
  admin or ops, and of that tenant.
\<close>

theorem platform_isolates_tenants:
  assumes "platform_run web pd (s, fs, M) tr (s', fs', M')" and "tables_ok s"
    and "tenant_rows T (se_committed s') \<noteq> tenant_rows T (se_committed s)"
  shows "(\<exists>m \<in> waiting M. for_tenant T m) \<or>
    (\<exists>tr1 e tr2 p. tr = tr1 @ e # tr2 \<and> platform_run web pd (s, fs, M) tr1 p \<and> accepts_upload web T p e)"
proof (rule ccontr)
  assume n: "\<not> ?thesis"
  then have "\<forall>m \<in> waiting (snd (snd (s, fs, M))). \<not> for_tenant T m" by simp
  moreover have "\<forall>tr1 e tr2 q. tr = tr1 @ e # tr2 \<longrightarrow> platform_run web pd (s, fs, M) tr1 q \<longrightarrow> \<not> accepts_upload web T q e"
    using n by blast
  ultimately show False using run_isolates [OF assms(1), of T] assms(2,3) by simp
qed

theorem platform_isolates_tenants_witness:
  "\<exists>s fs. platform_run example_web (run_pandas example_run) (example_server, example_files, {#(example_message, 0)#})
       [Worked example_message 0 Done] (s, fs, {#}) \<and>
     tenant_rows 1 (se_committed s) \<noteq> tenant_rows 1 (se_committed example_server) \<and> for_tenant 1 example_message"
proof -
  obtain s fs where run: "platform_run example_web (run_pandas example_run)
      (example_server, example_files, {#(example_message, 0)#}) [Worked example_message 0 Done] (s, fs, {#})"
    and cat: "catalogue 1 (tb_products (se_committed s)) = [''S1'' \<mapsto> example_product]" by (rule example_platform_run)
  have ne: "tenant_rows 1 (se_committed s) \<noteq> tenant_rows 1 (se_committed example_server)"
  proof
    assume "tenant_rows 1 (se_committed s) = tenant_rows 1 (se_committed example_server)"
    then have "filter (\<lambda>p. p_tenant p = 1) (tb_products (se_committed s)) = []"
      using example_server_job(3) by (simp add: tenant_rows_def inventory_def)
    then have "find (\<lambda>p. product_key p = (1, ''S1'')) (tb_products (se_committed s)) = None"
      by (auto simp: find_None_iff filter_empty_conv product_key_def)
    then have "catalogue 1 (tb_products (se_committed s)) ''S1'' = None" by (simp add: catalogue_def)
    with cat show False by simp
  qed
  have one: "tr1 = [] \<and> e = Worked example_message 0 Done \<and> tr2 = []"
    if "[Worked example_message 0 Done] = tr1 @ e # tr2" for tr1 e tr2
    using that by (cases tr1) auto
  from platform_isolates_tenants [OF run example_server_ok(1) ne] have "for_tenant 1 example_message"
    using one by (fastforce simp: waiting_def accepts_upload_def)
  with run ne show ?thesis by blast
qed

text \<open>
  Property C6.  The tables stay consistent: along any run of the platform the ids of products,
  locations, batches and transactions stay unique and below the next one, a tenant has each SKU once and each
  batch number of a product once, as the unique constraints say, and batches and transactions refer to
  products and locations of their own tenant.
\<close>

theorem platform_keeps_integrity:
  assumes "platform_run web pd (s, fs, M) tr (s', fs', M')" and "wf_db (se_next_id s) (se_committed s)"
  shows "wf_db (se_next_id s') (se_committed s')"
  using run_keeps(3) [OF assms(1)] assms(2) by simp

theorem platform_keeps_integrity_witness:
  "\<exists>s fs. platform_run example_web (run_pandas example_run) (example_server, example_files, {#(example_message, 0)#})
       [Worked example_message 0 Done] (s, fs, {#}) \<and> wf_db (se_next_id s) (se_committed s)"
proof -
  obtain s fs where run: "platform_run example_web (run_pandas example_run)
      (example_server, example_files, {#(example_message, 0)#}) [Worked example_message 0 Done] (s, fs, {#})"
    by (rule example_platform_run)
  with platform_keeps_integrity [OF run example_server_ok(2)] show ?thesis by blast
qed

text \<open>
  Property C14.  Along no run of the platform does anyone become more than a viewer: the owners, admins and
  ops users, with their tenants, emails, password hashes and activity, are afterwards exactly those from
  before; and ids and emails stay unique.
\<close>

theorem platform_grants_no_privilege:
  assumes "platform_run web pd (s, fs, M) tr (s', fs', M')" and "tables_ok s"
  shows "privileged (se_committed s') = privileged (se_committed s) \<and> wf_users (se_next_id s') (se_committed s')"
  using run_keeps(1,2) [OF assms(1)] assms(2) by (simp add: tables_ok_def)

theorem platform_grants_no_privilege_witness:
  "\<exists>s fs. platform_run example_web (run_pandas example_run) (example_server, example_files, {#(example_message, 0)#})
       [Worked example_message 0 Done] (s, fs, {#}) \<and> privileged (se_committed s) = [(9, 1, ''o@x'', OWNER, ''hPw'', True)]"
proof -
  obtain s fs where run: "platform_run example_web (run_pandas example_run)
      (example_server, example_files, {#(example_message, 0)#}) [Worked example_message 0 Done] (s, fs, {#})"
    by (rule example_platform_run)
  have "privileged (se_committed example_server) = [(9, 1, ''o@x'', OWNER, ''hPw'', True)]"
    by (simp add: privileged_def example_server_def example_owner_def new_user_def)
  with platform_grants_no_privilege [OF run example_server_ok(1)] run show ?thesis by metis
qed

end
