(* ===== verification/Bystanders.thy ===== *)
theory Bystanders
  imports PlatformFacts
begin

text \<open>
  What the jobs of one tenant and the requests of any leave of the others' jobs: their rows, and the files
  of their uploads.
\<close>

section \<open>The runs of a tenant's jobs\<close>

text \<open>The jobs of other tenants, and where those of the tenant itself have their files.\<close>

definition other_logs :: "uuid \<Rightarrow> db \<Rightarrow> sync_log list" where
  "other_logs S d = filter (\<lambda>l. sl_tenant l \<noteq> S) (tb_sync_logs d)"

definition paths_of :: "uuid \<Rightarrow> db \<Rightarrow> string option set" where
  "paths_of S d = sl_stored_path ` {l \<in> set (tb_sync_logs d). sl_tenant l = S}"

definition bystanders :: "uuid \<Rightarrow> sync_log list \<Rightarrow> string option set \<Rightarrow> worker \<Rightarrow> bool" where
  "bystanders S X Z w \<longleftrightarrow> se_context w \<in> {RuntimeRole None, RuntimeRole (Some S)} \<and>
     (\<forall>d \<in> {se_db w, se_committed w}. other_logs S d = X \<and> paths_of S d \<subseteq> Z) \<and>
     (\<forall>t. se_log w = Some t \<longrightarrow> sl_tenant (tk_row t) = S \<and> sl_stored_path (tk_row t) \<in> Z)"

lemma bystanders_update:
  assumes "c \<in> {RuntimeRole None, RuntimeRole (Some S)}" "sl_tenant (tk_row t) = S" "sl_stored_path (tk_row t) \<in> Z"
  shows "other_logs S (update_log_row c t d) = other_logs S d"
    "paths_of S d \<subseteq> Z \<Longrightarrow> paths_of S (update_log_row c t d) \<subseteq> Z"
proof -
  let ?f = "\<lambda>l. if sl_id l = sl_id (tk_row t) \<and> rls_visible c (sl_tenant l) then write_row t l else l"
  have vis: "rls_visible c T \<Longrightarrow> T = S" for T using assms(1) by auto
  have "sl_tenant (?f l) \<noteq> S \<longleftrightarrow> sl_tenant l \<noteq> S" "sl_tenant l \<noteq> S \<Longrightarrow> ?f l = l" for l
    using vis [of "sl_tenant l"] assms(2) by (auto simp: write_row_def)
  then have "filter (\<lambda>l. sl_tenant l \<noteq> S) (map ?f ls) = filter (\<lambda>l. sl_tenant l \<noteq> S) ls" for ls
    by (induction ls) auto
  then show "other_logs S (update_log_row c t d) = other_logs S d" by (simp add: other_logs_def update_log_row_def)
  show "paths_of S (update_log_row c t d) \<subseteq> Z" if "paths_of S d \<subseteq> Z"
    using that assms(3) by (auto simp: paths_of_def update_log_row_def write_row_def)
qed

lemma bystanders_saved:
  assumes "bystanders S X Z w" "se_log w = Some t"
  shows "bystanders S X Z (w\<lparr>se_db := update_log_row (se_context w) t (se_db w), se_log := Some (mark_saved t)\<rparr>)"
proof -
  from assms have c: "se_context w \<in> {RuntimeRole None, RuntimeRole (Some S)}"
    and t: "sl_tenant (tk_row t) = S" "sl_stored_path (tk_row t) \<in> Z" by (auto simp: bystanders_def)
  from bystanders_update [OF c t, of "se_db w"] assms show ?thesis by (auto simp: bystanders_def mark_saved_def)
qed

lemma bystanders_put:
  "bystanders S X Z (put_product env np w) = bystanders S X Z w"
  "bystanders S X Z (put_location env n w) = bystanders S X Z w"
  "bystanders S X Z (put_transaction x w) = bystanders S X Z w"
  "bystanders S X Z (put_batch env pid lid nb w) = bystanders S X Z w"
  "bystanders S X Z (cache_product s i w) = bystanders S X Z w"
  "bystanders S X Z (cache_location s i w) = bystanders S X Z w"
  by (simp_all add: bystanders_def other_logs_def paths_of_def put_product_def put_location_def put_transaction_def
      put_batch_def cache_product_def cache_location_def)

interpretation bystanders: worker_invariant "bystanders S X Z" "\<lambda>_ _ _. True" "\<lambda>_ _ _. True" for S X Z
proof (rule worker_invariant.intro)
  fix A B and T :: uuid
  show "session_invariant (owning (bystanders S X Z) (\<lambda>_ _ _. True) (\<lambda>_ _ _. True) A B T)"
  proof
    fix w t assume "owning (bystanders S X Z) (\<lambda>_ _ _. True) (\<lambda>_ _ _. True) A B T w" "se_log w = Some t"
    then show "owning (bystanders S X Z) (\<lambda>_ _ _. True) (\<lambda>_ _ _. True) A B T
        (w\<lparr>se_db := update_log_row (se_context w) t (se_db w), se_log := Some (mark_saved t)\<rparr>)"
      using bystanders_saved [of S X Z w t] by (simp add: owning_def)
  qed (auto simp: owning_def bystanders_def tick_def flush_failed_def expire_def)
qed (auto simp: owning_def bystanders_put, simp_all add: cache_product_def cache_location_def)

interpretation bystanders: job_invariant "bystanders S X Z" "\<lambda>_ _ _. True" "\<lambda>_ _ _. True" "bystanders S X Z" S for S X Z
proof (unfold job_invariant_def row_invariant_def session_job_def job_invariant_axioms_def
    row_invariant_axioms_def, intro conjI allI impI)
  show "worker_invariant (bystanders S X Z) (\<lambda>_ _ _. True) (\<lambda>_ _ _. True)" by (rule bystanders.worker_invariant_axioms)
  show "session_invariant (bystanders S X Z)"
    by unfold_locales (auto simp: bystanders_saved, auto simp: bystanders_def tick_def flush_failed_def expire_def)
  have row: "bystanders S X Z (w\<lparr>se_log := l\<rparr>)" if "bystanders S X Z w" "same_row (se_log w) l" for w l
    using that by (cases "se_log w") (auto simp: bystanders_def same_row_def row_ident_def)
  then show "bystanders S X Z w \<Longrightarrow> same_row (se_log w) l \<Longrightarrow> bystanders S X Z (w\<lparr>se_log := l\<rparr>)" for w l .
  show "owning (bystanders S X Z) (\<lambda>_ _ _. True) (\<lambda>_ _ _. True) A B T (w\<lparr>se_log := l\<rparr>)"
    if "owning (bystanders S X Z) (\<lambda>_ _ _. True) (\<lambda>_ _ _. True) A B T w" "same_row (se_log w) l" for A B T w l
    using that row by (simp add: owning_def)
  show "bystanders S X Z (w\<lparr>se_log := Some (track r)\<rparr>)"
    if "bystanders S X Z w" "r \<in> set (tb_sync_logs (se_db w))" "rls_visible (se_context w) (sl_tenant r)" for w r
    using that by (auto simp: bystanders_def track_def Let_def paths_of_def)
qed (auto simp: bystanders_def new_normalizer_def owning_def)

text \<open>The only files that go are those of the tenant's own jobs.\<close>

lemma delete_stored_elsewhere:
  "(\<And>l. r = Some l \<Longrightarrow> sl_stored_path l \<noteq> Some p) \<Longrightarrow> delete_stored r fs p = fs p"
  by (auto simp: delete_stored_def storage_delete_def split: option.splits)

lemma bystanders_file:
  assumes "bystanders S X Z w" "Some p \<notin> Z"
  shows "delete_stored (job_row w) fs p = fs p"
  using assms by (intro delete_stored_elsewhere) (auto simp: bystanders_def job_row_def)

lemma process_sync_file:
  assumes b: "bystanders S X Z w" and p: "Some p \<notin> Z" and run: "process_sync env rn i S tc (w, fs) = (r, w', fs')"
  shows "fs' p = fs p"
proof -
  have u: "bystanders S X Z (snd (begin_sync env rn i S w))"
    by (rule bystanders.begin_sync_keeps) (rule bystanders.open_keeps [OF b])
  from run show ?thesis
    using bystanders_file [OF bystanders.sync_body_keeps [OF u], of p env rn "readers_of (run_pandas rn) fs" tc _ fs] p
    by (auto simp: process_sync_def split: prod.splits sum.splits bool.splits option.splits) (metis snd_conv)
qed

lemma delete_upload_file:
  assumes b: "bystanders S X Z w" and p: "Some p \<notin> Z" and run: "delete_upload env i S (w, fs) = (r, w', fs')"
  shows "fs' p = fs p"
proof -
  have u: "bystanders S X Z (fst (snd (delete_upload env i S (w, fs))))" by (rule bystanders.delete_upload_keeps [OF b])
  from run bystanders_file [OF u p, of fs] show ?thesis
    by (auto simp: delete_upload_def split: prod.splits sum.splits bool.splits)
qed

lemma task_file:
  assumes b: "bystanders S X Z w" and p: "Some p \<notin> Z" and run: "sync_erp_data env rn i S tc k (w, fs) = (r, w', fs')"
  shows "fs' p = fs p"
proof -
  obtain q v gs where v: "process_sync env rn i S tc (w, fs) = (q, v, gs)" by (metis prod_cases3)
  obtain q' u hs where u: "delete_upload env i S (v, gs) = (q', u, hs)" by (metis prod_cases3)
  have "bystanders S X Z v"
    using bystanders.process_sync_keeps [OF bystanders.open_keeps [OF b], of env rn i tc fs] v by simp
  from delete_upload_file [OF this p u] process_sync_file [OF b p v] run v u show ?thesis
    by (auto simp: sync_erp_data_cases split: sum.splits if_splits)
qed

lemma works_elsewhere:
  assumes "works web pd i S m (s, fs) (s', fs')"
  shows "other_logs S (se_committed s') = other_logs S (se_committed s)"
    "paths_of S (se_committed s') \<subseteq> paths_of S (se_committed s)"
    "Some p \<notin> paths_of S (se_committed s) \<Longrightarrow> fs' p = fs p"
proof -
  let ?X = "other_logs S (se_committed s)" and ?Z = "paths_of S (se_committed s)"
  have b: "bystanders S ?X ?Z (worker_of s)" by (simp add: bystanders_def) (simp add: worker_of_def)
  from bystanders.works_keeps [OF assms b] obtain w where "s' = leave_worker s w" "bystanders S ?X ?Z w" .
  then show "other_logs S (se_committed s') = ?X" "paths_of S (se_committed s') \<subseteq> ?Z"
    by (simp_all add: bystanders_def)
  show "fs' p = fs p" if "Some p \<notin> ?Z"
  proof -
    from assms obtain rn k w where
      "(w, fs') = snd (sync_erp_data (wb_env web) rn i S (config_of (tm_tenant_config m)) k (worker_of s, fs)) \<or>
       (w, fs') \<in> set (interrupted (wb_env web) rn i S (config_of (tm_tenant_config m)) k (worker_of s, fs))"
      by (rule works_worker)
    moreover obtain r x gs where
      x: "sync_erp_data (wb_env web) rn i S (config_of (tm_tenant_config m)) k (worker_of s, fs) = (r, x, gs)"
      by (metis prod_cases3)
    ultimately show ?thesis using task_file [OF b that x] by (auto simp: interrupted_def)
  qed
qed

section \<open>Requests\<close>

text \<open>
  A job and a file that an upload adds have an id and a path that were not given before: \<open>k\<close> is the id that
  the storage takes for the name of the file, and the job takes the next.
\<close>

definition fresh_log :: "web \<Rightarrow> nat \<Rightarrow> nat \<Rightarrow> sync_log \<Rightarrow> bool" where
  "fresh_log web n n' l \<longleftrightarrow> (\<exists>k name. n \<le> k \<and> k < n' \<and> sl_id l = Suc k \<and> sl_stored_path l = Some (stored_at web k name))"

definition fresh_file :: "web \<Rightarrow> nat \<Rightarrow> nat \<Rightarrow> string \<Rightarrow> bool" where
  "fresh_file web n n' p \<longleftrightarrow> (\<exists>k name. n \<le> k \<and> k < n' \<and> p = stored_at web k name)"

definition grown_by :: "web \<Rightarrow> nat \<Rightarrow> sync_log list \<Rightarrow> files \<Rightarrow> server \<Rightarrow> files \<Rightarrow> bool" where
  "grown_by web n L fs s' fs' \<longleftrightarrow> (\<forall>l \<in> set (tb_sync_logs (se_committed s')). l \<in> set L \<or> fresh_log web n (se_next_id s') l) \<and>
     (\<forall>p. fs' p \<noteq> fs p \<longrightarrow> fresh_file web n (se_next_id s') p)"

lemma add_job_commits:
  assumes "add_job env l s = (r, u)" and "se_log s = None"
  shows "tb_sync_logs (se_committed u) \<in> {tb_sync_logs (se_committed s), tb_sync_logs (se_db s) @ [l]}"
proof -
  let ?db = "(se_db s)\<lparr>tb_sync_logs := tb_sync_logs (se_db s) @ [l]\<rparr>"
  obtain a x where a: "add_and_flush env (InsertSyncLog l) (\<lambda>w. (Inr (), put_sync_log l w)) s = (a, x)" by fastforce
  have refresh: "se_committed (snd (refresh_sync_log env y)) = se_committed y" for y :: "'a session_scheme"
    by (auto simp: refresh_sync_log_def split: option.splits
        intro!: sbind_keeps_inv [where P = "\<lambda>w. se_committed w = se_committed y"])
  show ?thesis
  proof (cases a)
    case (Inl e)
    with a assms(2) have "se_committed x = se_committed s"
      by (auto simp: add_and_flush_def sbind_def flush_log_def in_flush_def send_def flush_failed_def
          split: tx_state.splits answer.splits)
    with a Inl assms(1) show ?thesis by (simp add: add_job_def sbind_def)
  next
    case (Inr v)
    then have x: "x = put_sync_log l (tick s)" and act: "se_state s = TxActive"
      using a assms(2) by (auto simp: add_and_flush_def sbind_def flush_log_def in_flush_def
          split: prod.splits sum.splits dest!: send_effect)
    have xs: "se_log x = Some (track l)" "se_db x = ?db" "se_committed x = se_committed s"
      using x by (simp_all add: put_sync_log_def tick_def)
    obtain b y where b: "commit env x = (b, y)" by fastforce
    have "se_committed y \<in> {?db, se_committed s}"
      using b xs by (auto simp: commit_def sbind_def flush_log_def in_flush_def send_def flush_failed_def
          split: tx_state.splits answer.splits if_splits)
    moreover have "se_committed u = se_committed y"
      using assms(1) a Inr b refresh [of y]
      by (auto simp: add_job_def sbind_def split: prod.splits sum.splits)
    ultimately show ?thesis by auto
  qed
qed

lemma grown_refl: "tb_sync_logs (se_committed s) = L \<Longrightarrow> grown_by web n L fs s fs"
  by (simp add: grown_by_def)

lemma start_upload_grows:
  assumes "start_upload web os T name content (s, fs, q) = (r, s', fs', q')"
    and s: "same_logs L s" "same_stock x n s"
  shows "grown_by web n L fs s' fs'"
proof -
  let ?k = "se_next_id s" and ?w = "s\<lparr>se_next_id := Suc (se_next_id s)\<rparr>"
  let ?p = "stored_at web ?k name"
  have n: "n \<le> ?k" using s(2) by (simp add: same_stock_def)
  have c: "connector_of ''csv'' = Some CSV" using connector_of_value [of CSV] by simp
  show ?thesis
  proof (cases "os_disk os ?p")
    case False
    with assms(1) s show ?thesis
      by (auto simp: start_upload_def start_sync_disk storage_save_def stored_at_def Let_def same_logs_def grown_by_def)
  next
    case True
    let ?l = "new_sync_log (Suc ?k) T CSV name ?p (sql_now (wb_env web) ?w)"
    obtain a u where a: "add_job (wb_env web) ?l ?w = (a, u)" by fastforce
    have s': "s' = u" "fs' = fs(?p \<mapsto> content)"
      using assms(1) True a c
      by (auto simp: start_upload_def start_sync_disk storage_save_def stored_at_def Let_def split: sum.splits prod.splits)
    have "same_stock x (Suc ?k) ?w" using s(2) by (simp add: same_stock_def)
    from stock.keep_add_job [OF this, of "wb_env web" ?l] a have "Suc ?k \<le> se_next_id u" by (simp add: same_stock_def)
    then have k: "?k < se_next_id s'" using s' by simp
    have "tb_sync_logs (se_committed u) \<in> {L, L @ [?l]}"
      using add_job_commits [OF a] s(1) by (simp add: same_logs_def)
    moreover have "fresh_log web n (se_next_id s') ?l"
      unfolding fresh_log_def using k n by (intro exI [of _ ?k] exI [of _ name]) (simp add: new_sync_log_def)
    moreover have "fresh_file web n (se_next_id s') ?p" using k n by (auto simp: fresh_file_def)
    ultimately show ?thesis using s' unfolding grown_by_def by auto
  qed
qed

text \<open>What goes wrong before, or after.\<close>

lemma sbind_grows:
  assumes "sbind m f (s, fs, q) = (r, s', fs', q')"
    and "\<And>e s' fs' q'. m (s, fs, q) = (Inl e, s', fs', q') \<Longrightarrow> grown_by web n L fs s' fs'"
    and "\<And>v s1 fs1 q1. m (s, fs, q) = (Inr v, s1, fs1, q1) \<Longrightarrow> f v (s1, fs1, q1) = (r, s', fs', q') \<Longrightarrow> grown_by web n L fs s' fs'"
  shows "grown_by web n L fs s' fs'"
proof -
  obtain a s1 fs1 q1 where "m (s, fs, q) = (a, s1, fs1, q1)" by (metis prod_cases4)
  with assms show ?thesis by (cases a) (auto simp: sbind_def)
qed

lemma take_upload_grows:
  assumes run: "take_upload web os u name content f (s, fs, q) = (r, s', fs', q')"
    and s: "same_logs L s" "same_stock x n s"
  shows "grown_by web n L fs s' fs'"
proof -
  let ?tenant = "calling (get_tenant_by_id (wb_env web) (u_tenant u))"
  let ?name = "if name = [] then ''upload'' else name"
  have start: "grown_by web n L fs s' fs'"
    if "sbind (start_upload web os (u_tenant u) ?name content) (\<lambda>l. sbind (delay os (msg l)) (\<lambda>_. sreturn (v l)))
        (t, fs, p) = (r, s', fs', q')" "same_logs L t" "same_stock x n t" for t p msg and v :: "sync_log \<Rightarrow> upload_response"
  proof (rule sbind_grows [OF that(1)])
    fix l s1 fs1 q1
    assume up: "start_upload web os (u_tenant u) ?name content (t, fs, p) = (Inr l, s1, fs1, q1)"
      and rest: "sbind (delay os (msg l)) (\<lambda>_. sreturn (v l)) (s1, fs1, q1) = (r, s', fs', q')"
    from rest have "s' = s1" "fs' = fs1" by (auto simp: sbind_def delay_def split: if_splits)
    with start_upload_grows [OF up that(2,3)] show "grown_by web n L fs s' fs'" by simp
  qed (rule start_upload_grows [OF _ that(2,3)])
  have body: "grown_by web n L fs s' fs'"
    if "sbind (on_server ?tenant) (\<lambda>tenant. sbind (slift (upload_config tenant f)) (\<lambda>config.
        sbind (start_upload web os (u_tenant u) ?name content) (\<lambda>l. sbind (delay os (msg config l)) (\<lambda>_. sreturn (v l)))))
        (s, fs, q) = (r, s', fs', q')" for msg v
  proof -
    obtain a t where a: "?tenant s = (a, t)" by fastforce
    have "same_logs L (snd (?tenant s))" "same_stock x n (snd (?tenant s))"
      by (intro logs.keep_calling logs.keep_queries stock.keep_calling stock.keep_queries s)+
    with a have t: "same_logs L t" "same_stock x n t" by simp_all
    from t(1) have none: "grown_by web n L fs t fs" by (intro grown_refl) (simp add: same_logs_def)
    show ?thesis
    proof (cases a)
      case (Inl e)
      with that a none show ?thesis by (simp add: sbind_def on_server_def)
    next
      case a': (Inr tn)
      show ?thesis
      proof (cases "upload_config tn f")
        case (Inl e)
        with that a a' none show ?thesis by (simp add: sbind_def on_server_def)
      next
        case (Inr config)
        with that a a' have "sbind (start_upload web os (u_tenant u) ?name content)
            (\<lambda>l. sbind (delay os (msg config l)) (\<lambda>_. sreturn (v l))) (t, fs, q) = (r, s', fs', q')"
          by (simp add: sbind_def on_server_def)
        from start [OF this t] show ?thesis .
      qed
    qed
  qed
  have ref: "grown_by web n L fs s' fs'" if "refuse a b (s, fs, q) = (r, s', fs', q')" for a b
    using that s(1) by (auto simp: refuse_def on_server_def raise_http_def same_logs_def intro: grown_refl)
  show ?thesis
    using run body ref unfolding take_upload_def Let_def by (auto split: if_splits)
qed

lemma upload_grows:
  assumes run: "upload_file web os clock token upl form (s, fs, q) = (r, s', fs', q')"
    and s: "same_logs L s" "same_stock x n s"
  shows "grown_by web n L fs s' fs'"
proof -
  have refl: "same_logs L t \<Longrightarrow> grown_by web n L gs t gs" for t gs
    by (intro grown_refl) (simp add: same_logs_def)
  from run show ?thesis
    unfolding upload_file_def
  proof (rule sbind_grows)
    fix e s1 fs1 q1
    assume "on_server (get_current_active_user web clock token) (s, fs, q) = (Inl e, s1, fs1, q1)"
    with logs.keep_current_user [OF s(1), of web clock token] show "grown_by web n L fs s1 fs1"
      by (auto simp: on_server_Inl intro: refl)
  next
    fix u s1 fs1 q1
    assume a: "on_server (get_current_active_user web clock token) (s, fs, q) = (Inr u, s1, fs1, q1)"
      and rest: "sbind (on_server (require_role [OWNER, ADMIN, OPS] u)) (\<lambda>_. case (upl, form_of form) of
          (Some (name, content), Some f) \<Rightarrow> take_upload web os u name content f
        | _ \<Rightarrow> refuse 422 ''Unprocessable Entity'') (s1, fs1, q1) = (r, s', fs', q')"
    from a logs.keep_current_user [OF s(1), of web clock token] stock.keep_current_user [OF s(2), of web clock token]
    have s1: "same_logs L s1" "same_stock x n s1" "fs1 = fs" by (auto simp: on_server_Inr)
    obtain b where "require_role [OWNER, ADMIN, OPS] u s1 = (b, s1)"
      by (cases "u_role u \<in> {OWNER, ADMIN, OPS}") (auto simp: require_role_def raise_http_def)
    with rest s1 show "grown_by web n L fs s' fs'"
      by (cases b) (auto simp: sbind_def on_server_def refuse_def raise_http_def intro: refl
          split: option.splits elim!: take_upload_grows)
  qed
qed

lemma request_grows:
  assumes "handle web os arrange clock c (idle s, fs, []) = (b, s', fs', q)"
  shows "grown_by web (se_next_id s) (tb_sync_logs (se_committed s)) fs s' fs'"
proof (cases "endpoint_of c = Upload_file")
  case True
  then obtain t upl form where c: "c = PostUpload t upl form" by (cases c rule: endpoint_of.cases) auto
  with assms obtain r where "upload_file web os clock t upl form (idle s, fs, []) = (r, s', fs', q)"
    by (auto simp: reply_with_def split: prod.splits sum.splits)
  then show ?thesis
    by (rule upload_grows [where x = "stock (se_committed s)"]) (simp_all add: same_logs_def same_stock_def)
next
  case False
  from request_keeps_logs [OF assms False] show ?thesis by (simp add: grown_by_def)
qed

end
