(* ===== verification/Reimport.thy ===== *)
theory Reimport
  imports Import
begin

text \<open>
  Transactions have no key in the database: \<open>create_transaction\<close> looks for the row before it inserts one.
  This theory follows what a live run reads, to show that a file of transactions that was imported once
  adds nothing when it is imported again.
\<close>

section \<open>What a run reads\<close>

definition sku_rows :: "uuid \<Rightarrow> string \<Rightarrow> db \<Rightarrow> product list" where
  "sku_rows T s d = filter (\<lambda>p. p_tenant p = T \<and> p_sku_code p = s) (tb_products d)"

definition name_rows :: "uuid \<Rightarrow> string \<Rightarrow> db \<Rightarrow> location list" where
  "name_rows T n d = filter (\<lambda>l. l_tenant l = T \<and> l_name l = n) (tb_locations d)"

definition movement_rows :: "uuid \<Rightarrow> uuid \<Rightarrow> uuid \<Rightarrow> NormalizedTransaction \<Rightarrow> db \<Rightarrow> txn list" where
  "movement_rows T pid lid nt d = filter (same_transaction T pid lid nt) (tb_transactions d)"

lemma rows_inventory:
  assumes "inventory d = inventory d'"
  shows "sku_rows T s d = sku_rows T s d'" "name_rows T n d = name_rows T n d'"
    "movement_rows T pid lid nt d = movement_rows T pid lid nt d'"
  using assms by (simp_all add: inventory_def sku_rows_def name_rows_def movement_rows_def)

text \<open>A session of the tenant whose caches hold what the queries find, for texts that can be asked for.\<close>

definition reading :: "uuid \<Rightarrow> worker \<Rightarrow> bool" where
  "reading T w \<longleftrightarrow> se_context w = RuntimeRole (Some T) \<and> nz_tenant w = T \<and>
     (\<forall>s i. map_of (nz_product_cache w) s = Some i \<longrightarrow> text_ok s \<and> (\<exists>p. sku_rows T s (se_db w) = [p] \<and> p_id p = i)) \<and>
     (\<forall>n i. map_of (nz_location_cache w) n = Some i \<longrightarrow> text_ok n \<and> (\<exists>l. name_rows T n (se_db w) = [l] \<and> l_id l = i))"

lemma reading_same: "reading T w \<Longrightarrow> same_work u w \<Longrightarrow> reading T u"
proof -
  assume R: "reading T w" and S: "same_work u w"
  then have "inventory (se_db u) = inventory (se_db w)" by (simp add: same_work_def)
  note sel = same_work_sel(5,7-9) [OF S] rows_inventory(1,2) [OF this]
  show "reading T u" using R unfolding reading_def sel .
qed

lemma reading_log: "log_only u w \<Longrightarrow> reading T u = reading T w"
  by (auto simp: log_only_def reading_def)

lemma select_live:
  assumes "select env st table tenant_of matches w = (r, u)" "\<not> dead u"
  shows "same_work u w" "(r = Inl DatabaseError \<and> \<not> encodable st) \<or> encodable st \<and>
    r = one_or_none (filter (\<lambda>r. rls_visible (se_context w) (tenant_of r) \<and> matches r) (table (se_db u)))"
proof -
  obtain f v where v: "flush_log env w = (f, v)" by fastforce
  have "f = Inr ()" using v assms by (cases f) (auto simp: select_def execute_def sbind_def dest: flush_raises)
  with v have f: "flush_log env w = (Inr (), v)" by simp
  let ?eff = "\<lambda>s :: worker. (one_or_none (filter (\<lambda>r. rls_visible (se_context s) (tenant_of r) \<and> matches r) (table (se_db s))), s)"
  have s: "send env st ?eff v = (r, u)"
    using assms(1) f by (simp add: select_def execute_def sbind_def)
  have a: "se_state v = TxActive" "answer_of env v st \<noteq> Refused"
    using s assms(2) by (auto simp: send_def dead_def split: tx_state.splits)
  then have u: "u = tick v"
    using s by (auto simp: send_def split: answer.splits)
  show "same_work u w" using flush_same [OF f] u by simp
  show "(r = Inl DatabaseError \<and> \<not> encodable st) \<or> encodable st \<and>
    r = one_or_none (filter (\<lambda>r. rls_visible (se_context w) (tenant_of r) \<and> matches r) (table (se_db u)))"
    using s a u same_work_sel(5) [OF flush_same [OF f]]
    by (auto simp: send_def answer_of_def split: answer.splits if_splits)
qed

lemma one_or_none_cases:
  obtains "rows = []" "one_or_none rows = Inr None" | r where "rows = [r]" "one_or_none rows = Inr (Some r)"
    | "\<And>r. rows \<noteq> [r]" "rows \<noteq> []" "one_or_none rows = Inl MultipleResultsFound"
  by (cases rows; cases "tl rows") (auto simp: one_or_none_def)

lemma add_and_flush_raises: "add_and_flush env st eff w = (Inl e, u) \<Longrightarrow> dead u"
  by (auto simp: add_and_flush_def in_flush_def flush_failed_def dead_def elim!: sbindE
      split: prod.splits sum.splits dest: flush_raises [unfolded dead_def])

lemma flush_dead: "dead w \<Longrightarrow> flush_log env w = (r, u) \<Longrightarrow> dead u"
  by (auto simp: flush_log_def in_flush_def send_def flush_failed_def dead_def
      split: option.splits if_splits tx_state.splits)

lemma send_dead: "dead w \<Longrightarrow> send env st eff w = (r, u) \<Longrightarrow> dead u"
  by (auto simp: send_def dead_def split: tx_state.splits)

lemma add_and_flush_dead:
  assumes "dead w"
  shows "dead (snd (add_and_flush env st eff w))"
proof -
  obtain f v where v: "flush_log env w = (f, v)" by fastforce
  then have "dead v" using flush_dead assms by blast
  obtain q u where u: "send env st eff v = (q, u)" by fastforce
  then have "dead u" using send_dead \<open>dead v\<close> by blast
  with \<open>dead v\<close> v u show ?thesis
    by (auto simp: add_and_flush_def sbind_def in_flush_def flush_failed_def dead_def split: sum.splits)
qed

lemma select_dead:
  assumes "dead w"
  shows "dead (snd (select env st table tenant_of matches (w :: worker)))"
proof -
  obtain f v where v: "flush_log env w = (f, v)" by fastforce
  then have "dead v" using flush_dead assms by blast
  let ?eff = "\<lambda>s :: worker. (one_or_none (filter (\<lambda>r. rls_visible (se_context s) (tenant_of r) \<and> matches r) (table (se_db s))), s)"
  obtain q u where u: "send env st ?eff v = (q, u)" by fastforce
  then have "dead u" using send_dead \<open>dead v\<close> by blast
  with \<open>dead v\<close> v u show ?thesis
    by (cases f) (simp_all add: select_def execute_def sbind_def)
qed

lemma sbind_dead:
  assumes "dead (snd (m w))" "\<And>v u. dead u \<Longrightarrow> dead (snd (f v u))"
  shows "dead (snd (sbind m f w))"
  using assms by (auto simp: sbind_def split: prod.splits sum.splits)

section \<open>The references of a row\<close>

lemma resolve_product_reads:
  assumes R: "reading T w" and run: "resolve_product env s w = (r, u)" and live: "\<not> dead u"
  shows "reading T u" "inventory (se_db u) = inventory (se_db w)"
    "case r of Inl _ \<Rightarrow> text_ok s \<longrightarrow> (\<forall>p. sku_rows T s (se_db w) \<noteq> [p]) | Inr i \<Rightarrow> text_ok s \<and> (\<exists>p. sku_rows T s (se_db w) = [p] \<and> p_id p = i)"
proof -
  have "reading T u \<and> inventory (se_db u) = inventory (se_db w) \<and> (case r of Inl _ \<Rightarrow> text_ok s \<longrightarrow> (\<forall>p. sku_rows T s (se_db w) \<noteq> [p])
    | Inr i \<Rightarrow> text_ok s \<and> (\<exists>p. sku_rows T s (se_db w) = [p] \<and> p_id p = i))"
  proof (cases "map_of (nz_product_cache w) s")
    case (Some i)
    with R run show ?thesis by (auto simp: resolve_product_def reading_def)
  next
    case None
    have T: "nz_tenant w = T" "se_context w = RuntimeRole (Some T)" using R by (simp_all add: reading_def)
    let ?q = "select env (SelectProduct T s) tb_products p_tenant (\<lambda>p. p_tenant p = T \<and> p_sku_code p = s)"
    obtain q v where v: "?q w = (q, v)" by fastforce
    have u: "(r, u) = (case q of Inl e \<Rightarrow> (Inl e, v) | Inr None \<Rightarrow> (Inl (product_not_found s), v)
        | Inr (Some p) \<Rightarrow> (Inr (p_id p), cache_product s (p_id p) v))"
      using run None T v by (simp add: resolve_product_def sbind_def split: sum.splits option.splits)
    then have "\<not> dead v" using live
      by (auto simp: dead_def cache_product_def split: sum.splits option.splits)
    note sv = select_live [OF v this]
    have "filter (\<lambda>p. rls_visible (se_context w) (p_tenant p) \<and> p_tenant p = T \<and> p_sku_code p = s)
        (tb_products (se_db v)) = sku_rows T s (se_db v)"
      unfolding sku_rows_def by (rule filter_cong) (auto simp: T(2))
    with sv(2) have q: "(q = Inl DatabaseError \<and> \<not> text_ok s) \<or> (text_ok s \<and> q = one_or_none (sku_rows T s (se_db v)))"
      by simp
    have V: "reading T v" "inventory (se_db v) = inventory (se_db w)"
      using reading_same [OF R sv(1)] sv(1) by (simp_all add: same_work_def)
    note same = rows_inventory [OF V(2)]
    show ?thesis
    proof (cases "text_ok s")
      case False
      with q u V show ?thesis by simp
    next
      case True
      with q have q: "q = one_or_none (sku_rows T s (se_db v))" by simp
      show ?thesis
      proof (rule one_or_none_cases [of "sku_rows T s (se_db v)"])
      fix p assume p: "sku_rows T s (se_db v) = [p]" "one_or_none (sku_rows T s (se_db v)) = Inr (Some p)"
      then have "r = Inr (p_id p)" "u = cache_product s (p_id p) v" using u q by simp_all
      then show ?thesis
        using V p same True by (auto simp: reading_def cache_product_def map_of_dict_set)
      qed (use u q V same in simp_all)
    qed
  qed
  then show "reading T u" "inventory (se_db u) = inventory (se_db w)"
    "case r of Inl _ \<Rightarrow> text_ok s \<longrightarrow> (\<forall>p. sku_rows T s (se_db w) \<noteq> [p]) | Inr i \<Rightarrow> text_ok s \<and> (\<exists>p. sku_rows T s (se_db w) = [p] \<and> p_id p = i)"
    by blast+
qed

text \<open>A location that is not there is created: afterwards the name has a row.\<close>

definition names_kept :: "uuid \<Rightarrow> db \<Rightarrow> db \<Rightarrow> bool" where
  "names_kept T d d' \<longleftrightarrow> tb_products d' = tb_products d \<and>
     (\<forall>m. name_rows T m d \<noteq> [] \<longrightarrow> name_rows T m d' = name_rows T m d)"

lemma names_kept_inventory: "inventory d' = inventory d \<Longrightarrow> names_kept T d d'"
  using rows_inventory(2) [of d' d] by (simp add: names_kept_def inventory_def)

lemma names_kept_trans: "names_kept T c d \<Longrightarrow> names_kept T d e \<Longrightarrow> names_kept T c e"
  by (auto simp: names_kept_def)

lemma create_location_reads:
  assumes R: "reading T w" and run: "create_location env n w = (r, u)" and live: "\<not> dead u"
    and none: "name_rows T n (se_db w) = []"
  obtains l where "r = Inr (l_id l)" "name_rows T n (se_db u) = [l]" "reading T u" "names_kept T (se_db w) (se_db u)"
    "tb_transactions (se_db u) = tb_transactions (se_db w)"
proof (cases r)
  case (Inl e)
  with run live show ?thesis by (auto simp: create_location_def dest: add_and_flush_raises)
next
  case (Inr i)
  let ?l = "new_location (nz_tenant w) (sql_now env w) (se_next_id w) n"
  from run [unfolded Inr create_location_def] obtain v where v: "same_work v w"
    and u: "i = se_next_id (tick v)" "u = put_location env n (tick v)"
    by (rule add_and_flush_same) simp
  have V: "inventory (se_db v) = inventory (se_db w)" using v by (simp add: same_work_def)
  note RV = reading_same [OF R v] and sel = same_work_sel [OF v]
  have T: "nz_tenant w = T" using R by (simp add: reading_def)
  have rows: "name_rows T m (se_db u) = name_rows T m (se_db w) @ (if m = n then [?l] else [])" for m
    using u(2) sel rows_inventory(2) [OF V] T
    by (auto simp: name_rows_def put_location_def new_location_def sql_now_def)
  have kept: "names_kept T (se_db w) (se_db u)"
    using rows none u(2) sel by (auto simp: names_kept_def put_location_def)
  have "sku_rows T s (se_db u) = sku_rows T s (se_db w)" for s
    using u(2) sel by (simp add: sku_rows_def put_location_def)
  moreover have "nz_product_cache u = nz_product_cache w" "nz_location_cache u = nz_location_cache w"
    "se_context u = se_context w" "nz_tenant u = nz_tenant w"
    using u(2) sel by (simp_all add: put_location_def)
  ultimately have "reading T u"
    using R kept unfolding reading_def names_kept_def by (metis list.discI)
  moreover have "i = l_id ?l" using u(1) sel(6) by (simp add: new_location_def)
  ultimately show ?thesis
    using that [of ?l] Inr rows [of n] none kept u(2) sel by (simp add: put_location_def)
qed

lemma resolve_location_reads:
  assumes R: "reading T w" and run: "resolve_location env n w = (r, u)" and live: "\<not> dead u"
  shows "reading T u" "names_kept T (se_db w) (se_db u)" "tb_transactions (se_db u) = tb_transactions (se_db w)"
    "text_ok n \<Longrightarrow> name_rows T n (se_db u) \<noteq> []"
    "\<not> text_ok n \<or> name_rows T n (se_db w) \<noteq> [] \<Longrightarrow> inventory (se_db u) = inventory (se_db w)"
    "case r of Inl _ \<Rightarrow> text_ok n \<longrightarrow> (\<forall>l. name_rows T n (se_db u) \<noteq> [l]) | Inr i \<Rightarrow> text_ok n \<and> (\<exists>l. name_rows T n (se_db u) = [l] \<and> l_id l = i)"
proof -
  let ?out = "\<lambda>x. case r of Inl _ \<Rightarrow> text_ok n \<longrightarrow> (\<forall>l. name_rows T n (se_db x) \<noteq> [l]) | Inr i \<Rightarrow> text_ok n \<and> (\<exists>l. name_rows T n (se_db x) = [l] \<and> l_id l = i)"
  have "reading T u \<and> names_kept T (se_db w) (se_db u) \<and> tb_transactions (se_db u) = tb_transactions (se_db w) \<and>
    (text_ok n \<longrightarrow> name_rows T n (se_db u) \<noteq> []) \<and>
    (text_ok n \<and> name_rows T n (se_db w) = [] \<or> inventory (se_db u) = inventory (se_db w)) \<and> ?out u"
  proof (cases "map_of (nz_location_cache w) n")
    case (Some i)
    with run have "r = Inr i" "u = w" by (simp_all add: resolve_location_def)
    moreover from R Some obtain l where "text_ok n" "name_rows T n (se_db w) = [l]" "l_id l = i" unfolding reading_def by blast
    ultimately show ?thesis using R by (simp add: names_kept_def)
  next
    case None
    have T: "nz_tenant w = T" "se_context w = RuntimeRole (Some T)" using R by (simp_all add: reading_def)
    let ?q = "select env (SelectLocation T n) tb_locations l_tenant (\<lambda>l. l_tenant l = T \<and> l_name l = n)"
    obtain q v where v: "?q w = (q, v)" by fastforce
    obtain b x where b: "(case q of Inl e \<Rightarrow> (Inl e, v) | Inr None \<Rightarrow> create_location env n v | Inr (Some l) \<Rightarrow> (Inr (l_id l), v)) = (b, x)"
      by fastforce
    have u: "(r, u) = (case b of Inl e \<Rightarrow> (Inl e, x) | Inr i \<Rightarrow> (Inr i, cache_location n i x))"
      using run None T v b by (auto simp: resolve_location_def sbind_def split: sum.splits option.splits prod.splits)
    then have live_x: "\<not> dead x" using live
      by (auto simp: dead_def cache_location_def split: sum.splits)
    have "\<not> dead v"
    proof
      assume "dead v"
      then have "dead (snd (create_location env n v))"
        unfolding create_location_def by (rule add_and_flush_dead)
      with b \<open>dead v\<close> live_x show False by (auto split: sum.splits option.splits)
    qed
    note sv = select_live [OF v this]
    have "filter (\<lambda>l. rls_visible (se_context w) (l_tenant l) \<and> l_tenant l = T \<and> l_name l = n)
        (tb_locations (se_db v)) = name_rows T n (se_db v)"
      unfolding name_rows_def by (rule filter_cong) (auto simp: T(2))
    with sv(2) have q: "(q = Inl DatabaseError \<and> \<not> text_ok n) \<or> (text_ok n \<and> q = one_or_none (name_rows T n (se_db v)))"
      by simp
    have V: "reading T v" "inventory (se_db v) = inventory (se_db w)"
      using reading_same [OF R sv(1)] sv(1) by (simp_all add: same_work_def)
    note same = rows_inventory [OF V(2)] and kept = names_kept_inventory [OF V(2), of T]
    have tv: "tb_transactions (se_db v) = tb_transactions (se_db w)" using V(2) by (simp add: inventory_def)
    show ?thesis
    proof (cases "text_ok n")
      case False
      with q have "r = Inl DatabaseError" "u = v" using u b by auto
      then show ?thesis using V kept tv False by simp
    next
      case True
      with q have q: "q = one_or_none (name_rows T n (se_db v))" by simp
      show ?thesis
      proof (rule one_or_none_cases [of "name_rows T n (se_db v)"])
        fix l assume l: "name_rows T n (se_db v) = [l]" "one_or_none (name_rows T n (se_db v)) = Inr (Some l)"
        then have "r = Inr (l_id l)" "u = cache_location n (l_id l) v" using u b q by auto
        then show ?thesis
          using V l kept tv True by (auto simp: reading_def cache_location_def)
      next
        assume e: "name_rows T n (se_db v) = []" "one_or_none (name_rows T n (se_db v)) = Inr None"
        then have "create_location env n v = (b, x)" using b q by simp
        from create_location_reads [OF V(1) this live_x e(1)] obtain l where l: "b = Inr (l_id l)"
          "name_rows T n (se_db x) = [l]" "reading T x" "names_kept T (se_db v) (se_db x)"
          "tb_transactions (se_db x) = tb_transactions (se_db v)" .
        then have "r = Inr (l_id l)" "u = cache_location n (l_id l) x" using u by auto
        then show ?thesis
          using l e(1) same(2) tv True names_kept_trans [OF kept] by (auto simp: reading_def cache_location_def)
      next
        assume m: "\<And>l. name_rows T n (se_db v) \<noteq> [l]" "name_rows T n (se_db v) \<noteq> []"
          "one_or_none (name_rows T n (se_db v)) = Inl MultipleResultsFound"
        then have "r = Inl MultipleResultsFound" "u = v" using u b q by auto
        then show ?thesis using V m kept tv by simp
      qed
    qed
  qed
  then show "reading T u" "names_kept T (se_db w) (se_db u)" "tb_transactions (se_db u) = tb_transactions (se_db w)"
    "text_ok n \<Longrightarrow> name_rows T n (se_db u) \<noteq> []"
    "\<not> text_ok n \<or> name_rows T n (se_db w) \<noteq> [] \<Longrightarrow> inventory (se_db u) = inventory (se_db w)" "?out u"
    by blast+
qed


section \<open>Rows that are recorded\<close>

text \<open>
  What the tables hold after a row: if its product is there (and is one), so is its location, and if that
  is one, so is the movement, unless the driver refuses a text of it.
\<close>

definition sent :: "NormalizedTransaction \<Rightarrow> bool" where
  "sent nt \<longleftrightarrow> text_null (nt_reference_no nt)"

definition recorded :: "uuid \<Rightarrow> NormalizedTransaction \<Rightarrow> db \<Rightarrow> bool" where
  "recorded T nt d \<longleftrightarrow> (\<forall>p. text_ok (nt_sku_code nt) \<and> text_ok (nt_location_name nt) \<and> sku_rows T (nt_sku_code nt) d = [p] \<longrightarrow>
     name_rows T (nt_location_name nt) d \<noteq> [] \<and>
     (\<forall>l. name_rows T (nt_location_name nt) d = [l] \<and> sent nt \<longrightarrow> movement_rows T (p_id p) (l_id l) nt d \<noteq> []))"

definition grown :: "uuid \<Rightarrow> db \<Rightarrow> db \<Rightarrow> bool" where
  "grown T d d' \<longleftrightarrow> names_kept T d d' \<and> set (tb_transactions d) \<subseteq> set (tb_transactions d')"

lemma grown_inventory: "inventory d' = inventory d \<Longrightarrow> grown T d d'"
  using names_kept_inventory [of d' d T] by (simp add: grown_def inventory_def)

lemma grown_trans: "grown T c d \<Longrightarrow> grown T d e \<Longrightarrow> grown T c e"
  using names_kept_trans by (auto simp: grown_def)

lemma recorded_grown:
  assumes "recorded T nt d" "grown T d d'"
  shows "recorded T nt d'"
proof -
  have s: "sku_rows T s d' = sku_rows T s d" for s using assms(2) by (simp add: grown_def names_kept_def sku_rows_def)
  have n: "name_rows T m d \<noteq> [] \<Longrightarrow> name_rows T m d' = name_rows T m d" for m
    using assms(2) by (simp add: grown_def names_kept_def)
  have m: "movement_rows T i j nt d \<noteq> [] \<Longrightarrow> movement_rows T i j nt d' \<noteq> []" for i j
    using assms(2) by (auto simp: grown_def movement_rows_def filter_empty_conv)
  show ?thesis using assms(1) n m unfolding recorded_def s by metis
qed

lemma recorded_inventory: "inventory d' = inventory d \<Longrightarrow> recorded T nt d' = recorded T nt d"
proof -
  assume "inventory d' = inventory d"
  from rows_inventory [OF this] show ?thesis by (simp add: recorded_def)
qed

text \<open>The movement itself, once its product and its location are resolved.\<close>

lemma record_reads:
  assumes R: "reading T w" and live: "\<not> dead u"
    and run: "sbind (find_transaction env pid lid nt) (\<lambda>existing w.
      case existing of Some t \<Rightarrow> (Inr (t_id t), w) | None \<Rightarrow> add_transaction env pid lid nt w) w = (r, u)"
  shows "reading T u" "grown T (se_db w) (se_db u)" "name_rows T n (se_db u) = name_rows T n (se_db w)"
    "sent nt \<Longrightarrow> movement_rows T pid lid nt (se_db u) \<noteq> []"
    "sent nt \<Longrightarrow> movement_rows T pid lid nt (se_db w) \<noteq> [] \<Longrightarrow> inventory (se_db u) = inventory (se_db w)"
    "\<not> sent nt \<Longrightarrow> inventory (se_db u) = inventory (se_db w)"
proof -
  have T: "nz_tenant w = T" "se_context w = RuntimeRole (Some T)" using R by (simp_all add: reading_def)
  obtain q v where v: "find_transaction env pid lid nt w = (q, v)" by fastforce
  with run have u: "(r, u) = (case q of Inl e \<Rightarrow> (Inl e, v) | Inr None \<Rightarrow> add_transaction env pid lid nt v
      | Inr (Some t) \<Rightarrow> (Inr (t_id t), v))"
    by (simp add: sbind_def split: sum.splits option.splits)
  have "\<not> dead v"
  proof
    assume "dead v"
    then have "dead (snd (add_transaction env pid lid nt v))"
      by (auto simp: add_transaction_def insert_transaction_def add_and_flush_dead split: option.splits)
    with u \<open>dead v\<close> live show False by (auto split: sum.splits option.splits) (metis snd_conv)
  qed
  note sv = select_live [OF v [unfolded find_transaction_def T(1)] this]
  have "filter (\<lambda>t. rls_visible (se_context w) (t_tenant t) \<and> same_transaction T pid lid nt t)
      (tb_transactions (se_db v)) = movement_rows T pid lid nt (se_db v)"
    unfolding movement_rows_def by (rule filter_cong) (auto simp: T(2) same_transaction_def)
  with sv(2) have q: "(q = Inl DatabaseError \<and> \<not> sent nt) \<or> (sent nt \<and> q = one_or_none (movement_rows T pid lid nt (se_db v)))"
    by (simp add: sent_def)
  have V: "reading T v" "inventory (se_db v) = inventory (se_db w)"
    using reading_same [OF R sv(1)] sv(1) by (simp_all add: same_work_def)
  note same = rows_inventory [OF V(2)] and gv = grown_inventory [OF V(2), of T]
  have "reading T u \<and> grown T (se_db w) (se_db u) \<and> name_rows T n (se_db u) = name_rows T n (se_db w) \<and>
    (sent nt \<longrightarrow> movement_rows T pid lid nt (se_db u) \<noteq> []) \<and>
    (\<not> sent nt \<or> movement_rows T pid lid nt (se_db w) \<noteq> [] \<longrightarrow> inventory (se_db u) = inventory (se_db w))"
  proof (cases "q = Inr None")
    case False
    then have uv: "u = v" using u by (auto split: sum.splits option.splits)
    have "movement_rows T pid lid nt (se_db v) \<noteq> []" if "sent nt"
      using q that False by (auto simp: one_or_none_def)
    then show ?thesis using uv V gv same by auto
  next
    case True
    have sent: "sent nt" using q True by auto
    from True have a: "add_transaction env pid lid nt v = (r, u)" using u by simp
    have empty: "movement_rows T pid lid nt (se_db v) = []"
      using q True one_or_none_None [of "movement_rows T pid lid nt (se_db v)"] by auto
    show ?thesis
    proof (cases r)
      case (Inl e)
      with a True live show ?thesis
        by (auto simp: add_transaction_def insert_transaction_def dest: add_and_flush_raises)
    next
      case (Inr i)
      note A = add_transaction_effect [OF a [unfolded Inr]]
      from a [unfolded Inr] obtain x k where x: "same_work x v" "u = put_transaction k (tick x)"
        by (auto simp: add_transaction_def insert_transaction_def transaction_of_def elim!: add_and_flush_same)
      from A(1) obtain t where t: "tb_transactions (se_db u) = tb_transactions (se_db v) @ [t]"
        "same_transaction (nz_tenant v) pid lid nt t" by blast
      have d: "tb_products (se_db u) = tb_products (se_db v)" "tb_locations (se_db u) = tb_locations (se_db v)"
        using x same_work_sel [OF x(1)] by (simp_all add: put_transaction_def)
      then have rows: "sku_rows T s (se_db u) = sku_rows T s (se_db v)" "name_rows T m (se_db u) = name_rows T m (se_db v)" for s m
        by (simp_all add: sku_rows_def name_rows_def)
      have "reading T u" using V(1) A(2-5) unfolding reading_def rows by simp
      moreover have "grown T (se_db v) (se_db u)" using t d rows by (auto simp: grown_def names_kept_def)
      ultimately show ?thesis
        using t V(1) rows same gv empty sent by (auto simp: movement_rows_def reading_def intro: grown_trans)
    qed
  qed
  then show "reading T u" "grown T (se_db w) (se_db u)" "name_rows T n (se_db u) = name_rows T n (se_db w)"
    "sent nt \<Longrightarrow> movement_rows T pid lid nt (se_db u) \<noteq> []"
    "sent nt \<Longrightarrow> movement_rows T pid lid nt (se_db w) \<noteq> [] \<Longrightarrow> inventory (se_db u) = inventory (se_db w)"
    "\<not> sent nt \<Longrightarrow> inventory (se_db u) = inventory (se_db w)" by blast+
qed

section \<open>The rows of a file\<close>

lemma record_dead:
  "dead w \<Longrightarrow> dead (snd (sbind (find_transaction env pid lid nt) (\<lambda>existing w.
      case existing of Some t \<Rightarrow> (Inr (t_id t), w) | None \<Rightarrow> add_transaction env pid lid nt w) w))"
  by (rule sbind_dead)
    (auto simp: find_transaction_def select_dead add_transaction_def insert_transaction_def add_and_flush_dead
      split: option.splits)

lemma resolve_location_dead:
  assumes "dead w"
  shows "dead (snd (resolve_location env n w))"
proof (cases "map_of (nz_location_cache w) n")
  case None
  have "dead (snd (case r of None \<Rightarrow> create_location env n u | Some l \<Rightarrow> (Inr (l_id l), u)))" if "dead u" for r u
    using that by (auto simp: create_location_def add_and_flush_dead split: option.splits)
  with assms show ?thesis
    unfolding resolve_location_def None option.case
    by (intro sbind_dead select_dead) (auto simp: cache_location_def dead_def)
qed (use assms in \<open>simp add: resolve_location_def\<close>)

lemma create_transaction_reads:
  assumes R: "reading T w" and run: "create_transaction env nt w = (r, u)" and live: "\<not> dead u"
  shows "reading T u \<and> grown T (se_db w) (se_db u) \<and> recorded T nt (se_db u) \<and>
    (recorded T nt (se_db w) \<longrightarrow> inventory (se_db u) = inventory (se_db w))"
proof -
  obtain a x where x: "resolve_product env (nt_sku_code nt) w = (a, x)" by fastforce
  have "\<not> dead x"
  proof
    assume "dead x"
    then have "dead (snd (sbind (resolve_location env (nt_location_name nt)) (\<lambda>lid.
        sbind (find_transaction env pid lid nt) (\<lambda>existing w.
          case existing of Some t \<Rightarrow> (Inr (t_id t), w) | None \<Rightarrow> add_transaction env pid lid nt w)) x))" for pid
      by (intro sbind_dead resolve_location_dead record_dead)
    note D = this
    show False
    proof (cases a)
      case (Inl e)
      with run x live \<open>dead x\<close> show False by (simp add: create_transaction_def sbind_def)
    next
      case (Inr pid)
      with D [of pid] run x live show False
        by (simp add: create_transaction_def sbind_def [of "resolve_product _ _"])
    qed
  qed
  note P = resolve_product_reads [OF R x this]
  note gx = grown_inventory [OF P(2), of T] and same = rows_inventory [OF P(2)]
  show ?thesis
  proof (cases a)
    case (Inl e)
    then have "u = x" using run x by (simp add: create_transaction_def sbind_def)
    then show ?thesis using P Inl gx same by (auto simp: recorded_def)
  next
    case (Inr pid)
    obtain b y where y: "resolve_location env (nt_location_name nt) x = (b, y)" by fastforce
    have "\<not> dead y"
    proof
      assume "dead y"
      show False
      proof (cases b)
        case (Inl e)
        with run x y live \<open>dead y\<close> \<open>a = Inr pid\<close> show False by (simp add: create_transaction_def sbind_def)
      next
        case (Inr lid)
        with record_dead [OF \<open>dead y\<close>, of env pid lid nt] run x y live \<open>a = Inr pid\<close> show False
          by (simp add: create_transaction_def sbind_def [of "resolve_product _ _"] sbind_def [of "resolve_location _ _"])
      qed
    qed
    note L = resolve_location_reads [OF P(1) y this]
    from P(3) Inr obtain p where p: "sku_rows T (nt_sku_code nt) (se_db w) = [p]" "p_id p = pid"
      and sku: "text_ok (nt_sku_code nt)" by auto
    have py: "sku_rows T s (se_db y) = sku_rows T s (se_db w)" for s
      using L(2) same(1) [of T s] by (simp add: names_kept_def sku_rows_def)
    have gy: "grown T (se_db w) (se_db y)"
      using gx L(2,3) by (auto simp: grown_def intro: names_kept_trans)
    have stays: "inventory (se_db y) = inventory (se_db w)" if "recorded T nt (se_db w)"
      using that p P(3) Inr L(5) P(2) same(2) by (auto simp: recorded_def)
    show ?thesis
    proof (cases b)
      case (Inl e)
      then have "u = y" using run x y \<open>a = Inr pid\<close> by (simp add: create_transaction_def sbind_def)
      then show ?thesis using L Inl gy stays by (auto simp: recorded_def)
    next
      case (Inr lid)
      with L(6) obtain l where l: "name_rows T (nt_location_name nt) (se_db y) = [l]" "l_id l = lid"
        and loc: "text_ok (nt_location_name nt)" by auto
      from run x y \<open>a = Inr pid\<close> Inr have "sbind (find_transaction env pid lid nt) (\<lambda>existing w.
          case existing of Some t \<Rightarrow> (Inr (t_id t), w) | None \<Rightarrow> add_transaction env pid lid nt w) y = (r, u)"
        by (simp add: create_transaction_def sbind_def)
      note M = record_reads [OF L(1) live this]
      have "recorded T nt (se_db u)"
        unfolding recorded_def
      proof (intro allI impI conjI; (elim conjE)?)
        fix p' assume "sku_rows T (nt_sku_code nt) (se_db u) = [p']"
        moreover have "sku_rows T (nt_sku_code nt) (se_db u) = [p]"
          using M(2) py [of "nt_sku_code nt"] p by (simp add: grown_def names_kept_def sku_rows_def)
        ultimately have "p' = p" by simp
        show "name_rows T (nt_location_name nt) (se_db u) \<noteq> []" using M(3) l by simp
        fix l' assume "name_rows T (nt_location_name nt) (se_db u) = [l']" "sent nt"
        then show "movement_rows T (p_id p') (l_id l') nt (se_db u) \<noteq> []"
          using M(3) [of "nt_location_name nt"] M(4) l p \<open>p' = p\<close> by simp
      qed
      moreover have "inventory (se_db u) = inventory (se_db w)" if rec: "recorded T nt (se_db w)"
      proof -
        note iy = stays [OF rec]
        have "sent nt \<Longrightarrow> movement_rows T pid lid nt (se_db y) \<noteq> []"
          using rec p l sku loc rows_inventory(2,3) [OF iy] by (simp add: recorded_def)
        then have "inventory (se_db u) = inventory (se_db y)" using M(5,6) by blast
        then show ?thesis using iy by simp
      qed
      ultimately show ?thesis using M(1) grown_trans [OF gy M(2)] by blast
    qed
  qed
qed

text \<open>A row whose record does not normalize changes nothing.\<close>

definition row_recorded :: "uuid \<Rightarrow> NormalizedTransaction \<Rightarrow> db \<Rightarrow> bool" where
  "row_recorded T nt d \<longleftrightarrow> (case normalize_transaction (transaction_row nt) [] of
     Inl _ \<Rightarrow> True | Inr v \<Rightarrow> recorded T v d)"

lemma transaction_row_reads:
  assumes R: "reading T w" and run: "process_transaction env nt w = (Inr (), u)" and live: "\<not> dead u"
  shows "reading T u \<and> grown T (se_db w) (se_db u) \<and> row_recorded T nt (se_db u) \<and>
    (row_recorded T nt (se_db w) \<longrightarrow> inventory (se_db u) = inventory (se_db w))"
proof -
  from run obtain y z where y: "log_only y w" and z: "log_only u z"
    and work: "case normalize_transaction (transaction_row nt) [] of Inl _ \<Rightarrow> z = y | Inr v \<Rightarrow> z = snd (create_transaction env v y)"
    unfolding process_transaction_def by (rule account_row_work)
  note sel = log_only_sel [OF y] log_only_sel [OF z]
  have Ry: "reading T y" using R reading_log [OF y] by simp
  show ?thesis
  proof (cases "normalize_transaction (transaction_row nt) []")
    case (Inl e)
    with work sel Ry reading_log [OF z] show ?thesis by (simp add: row_recorded_def grown_inventory)
  next
    case (Inr v)
    with work obtain q where q: "create_transaction env v y = (q, z)" by (cases "create_transaction env v y") auto
    from create_transaction_reads [OF Ry q] sel live reading_log [OF z] Inr show ?thesis
      by (simp add: row_recorded_def)
  qed
qed

lemma transactions_dead:
  assumes "process_transactions env rows w = (Inr (), u)" "dead w"
  shows "dead u"
proof -
  have "owning dead (\<lambda>_ _ _. True) (\<lambda>_ _ _. True) {} {} (nz_tenant w) w" using assms(2) by (simp add: owning_def)
  then have "owning dead (\<lambda>_ _ _. True) (\<lambda>_ _ _. True) {} {} (nz_tenant w) (snd (process_transactions env rows w))"
    unfolding process_transactions_def
    by (rule dead.for_each_keeps)
      (auto simp: process_transaction_def intro!: dead.account_row_keeps dead.create_transaction_keeps)
  with assms(1) show ?thesis by (simp add: owning_def)
qed

lemma transaction_rows_read:
  assumes "reading T w" "process_transactions env (map Inr nts) w = (Inr (), u)" "\<not> dead u"
  shows "grown T (se_db w) (se_db u) \<and> (\<forall>nt \<in> set nts. row_recorded T nt (se_db u)) \<and>
    ((\<forall>nt \<in> set nts. row_recorded T nt (se_db w)) \<longrightarrow> inventory (se_db u) = inventory (se_db w))"
  using assms
proof (induction nts arbitrary: w)
  case Nil
  then show ?case by (simp add: process_transactions_def grown_inventory)
next
  case (Cons nt nts)
  from Cons.prems(2) obtain x where n: "process_transaction env nt w = (Inr (), x)"
    and rest: "process_transactions env (map Inr nts) x = (Inr (), u)"
    by (auto simp: process_transactions_def elim: sbindE)
  have "\<not> dead x" using transactions_dead [OF rest] Cons.prems(3) by blast
  note X = transaction_row_reads [OF Cons.prems(1) n this]
  note IH = Cons.IH [OF X [THEN conjunct1] rest Cons.prems(3)]
  have keep: "row_recorded T m d \<Longrightarrow> grown T d d' \<Longrightarrow> row_recorded T m d'" for m d d'
    using recorded_grown by (auto simp: row_recorded_def split: sum.splits)
  have "row_recorded T nt (se_db u)" using keep X IH by blast
  moreover have "inventory (se_db u) = inventory (se_db w)" if "\<forall>m \<in> set (nt # nts). row_recorded T m (se_db w)"
  proof -
    have "inventory (se_db x) = inventory (se_db w)" using X that by simp
    moreover have "\<forall>m \<in> set nts. row_recorded T m (se_db x)" using that keep X by auto
    ultimately show ?thesis using IH by simp
  qed
  ultimately show ?case using X IH grown_trans by (metis set_ConsD)
qed

section \<open>The job\<close>

lemma new_normalizer_reads: "se_context u = RuntimeRole (Some T) \<Longrightarrow> reading T (new_normalizer T u)"
  by (simp add: reading_def new_normalizer_def)

lemma transactions_job_reads:
  assumes run: "process_sync env rn i T tc (w, fs) = (Inr (), w', fs')"
    and job: "filter (\<lambda>l. sl_id l = i \<and> sl_tenant l = T) (tb_sync_logs (se_committed w)) = [l]"
    and conn: "connector_for tc l = Inr c" and type: "get_or (tc_entity_type tc) ''products'' = ''transactions''"
    and rows: "fetch_transactions (readers_of (run_pandas rn) fs) (run_clock rn) c = map Inr nts"
  shows "\<forall>nt \<in> set nts. row_recorded T nt (se_committed w')" "grown T (se_committed w) (se_committed w')"
    "\<forall>nt \<in> set nts. row_recorded T nt (se_committed w) \<Longrightarrow> inventory (se_committed w') = inventory (se_committed w)"
proof -
  from process_sync_body [OF run job] obtain u j where h: "held (running (run_started rn) l) u"
    and cj: "connector_for tc j = connector_for tc l"
    and body: "sync_body env rn (readers_of (run_pandas rn) fs) T tc j u = (Inr (), w')"
    and ctx: "se_context u = RuntimeRole (Some T)" and inv: "inventory (se_db u) = inventory (se_committed w)" .
  have "sl_status (running (run_started rn) l) = RUNNING" by (simp add: running_def mark_running_def)
  from body_commits [OF h this body] obtain d b where d: "connector_for tc j = Inr d"
    and pe: "process_entities env rn (readers_of (run_pandas rn) fs) tc d (new_normalizer T u) = (Inr (), b)"
    and b: "\<not> dead b" "inventory (se_committed w') = inventory (se_db b)" .
  from d cj conn have "d = c" by simp
  with pe type rows have p: "process_transactions env (map Inr nts) (new_normalizer T u) = (Inr (), b)"
    by (simp add: process_entities_rows)
  have R: "reading T (new_normalizer T u)" using ctx by (rule new_normalizer_reads)
  have n: "se_db (new_normalizer T u) = se_db u" by (simp add: new_normalizer_def)
  have move: "row_recorded T nt d' = row_recorded T nt d" if "inventory d' = inventory d" for nt d d'
    using recorded_inventory [OF that] by (simp add: row_recorded_def split: sum.splits)
  note J = transaction_rows_read [OF R p b(1), unfolded n]
  show "\<forall>nt \<in> set nts. row_recorded T nt (se_committed w')" using J move [OF b(2)] by blast
  show "grown T (se_committed w) (se_committed w')"
    using J grown_inventory [OF inv] grown_inventory [OF b(2)] by (meson grown_trans)
  show "inventory (se_committed w') = inventory (se_committed w)"
    if "\<forall>nt \<in> set nts. row_recorded T nt (se_committed w)"
    using J that move [OF inv] b(2) inv by simp
qed

end
