(* ===== verification/Movements.thy ===== *)
theory Movements
  imports Reimport PersistProps
begin

text \<open>
  Jobs of transactions: when the database answers and the rows fit the columns they complete, and
  importing the same rows again adds nothing.
\<close>

section \<open>Statements that are answered\<close>

lemma tracking_live: "tracking T m r w \<Longrightarrow> \<not> dead w"
  by (simp add: tracking_def writable_def dead_def)

lemma tracking_caches [simp]:
  "tracking T m r (cache_product s i w) = tracking T m r w"
  "tracking T m r (cache_location n i w) = tracking T m r w"
  by (simp_all add: tracking_def writable_def cache_product_def cache_location_def)

lemma select_runs:
  assumes "answering env" "tracking T m r w" "encodable st" "row_types_ok st"
    "policy_ok (RuntimeRole (Some T)) st" "\<And>d. references_ok d st"
  shows "\<exists>q u. select env st table tenant_of matches w = (q, u) \<and> tracking T m r u"
  using execute_runs [OF assms(1-5), of "\<lambda>s. (one_or_none (filter (\<lambda>r. rls_visible (se_context s) (tenant_of r) \<and> matches r) (table (se_db s))), s)"]
    assms(6) unfolding select_def by auto

lemma add_and_flush_runs:
  assumes a: "answering env" and t: "tracking T m r w"
    and st: "encodable st" "row_types_ok st" "policy_ok (RuntimeRole (Some T)) st"
    and refs: "\<And>d. inventory d = inventory (se_db w) \<Longrightarrow> tenant_exists d T \<Longrightarrow> references_ok d st"
    and eff: "\<And>u. tracking T m r u \<Longrightarrow> \<exists>v x. eff u = (Inr v, x) \<and> tracking T m r x"
  shows "\<exists>v u. add_and_flush env st eff w = (Inr v, u) \<and> tracking T m r u"
proof -
  from flush_runs [OF a t] obtain u where u: "flush_log env w = (Inr (), u)" "tracking T m r u"
    "inventory (se_db u) = inventory (se_db w)" by blast
  then have s: "se_state u = TxActive" "answer_of env u st = Accepted"
    using a st refs by (auto simp: tracking_def writable_def intro!: answer_accepted)
  have "tracking T m r (tick u)" using u(2) by (simp add: tracking_def writable_def)
  from eff [OF this] u(1) s show ?thesis
    by (auto simp: add_and_flush_def sbind_def in_flush_def send_def)
qed

section \<open>One movement\<close>

definition movement_fits :: "NormalizedTransaction \<Rightarrow> bool" where
  "movement_fits nt \<longleftrightarrow> text_ok (nt_sku_code nt) \<and> varchar 255 (nt_location_name nt) \<and>
     varchar_null 100 (nt_reference_no nt) \<and> int8 (nt_quantity nt) \<and> int8 (nt_unit_cost_paise nt)"

lemma resolve_product_runs:
  assumes "answering env" "tracking T m r w" "text_ok s"
  shows "\<exists>q u. resolve_product env s w = (q, u) \<and> tracking T m r u"
proof (cases "map_of (nz_product_cache w) s")
  case None
  have "\<exists>q u. select env (SelectProduct (nz_tenant w) s) tb_products p_tenant
      (\<lambda>p. p_tenant p = nz_tenant w \<and> p_sku_code p = s) w = (q, u) \<and> tracking T m r u"
    by (rule select_runs [OF assms(1,2)]) (simp_all add: assms(3))
  then show ?thesis
    by (auto simp: resolve_product_def None sbind_def split: sum.splits option.splits)
qed (use assms(2) in \<open>simp add: resolve_product_def\<close>)

lemma create_location_runs:
  assumes a: "answering env" and t: "tracking T m r w" and n: "varchar 255 n" and T: "nz_tenant w = T"
  shows "\<exists>i u. create_location env n w = (Inr i, u) \<and> tracking T m r u"
  unfolding create_location_def
proof (rule add_and_flush_runs [OF a t])
  show "row_types_ok (InsertLocation (new_location (nz_tenant w) (sql_now env w) (se_next_id w) n))"
    using n by (simp add: new_location_def text_fits)
qed (use n in \<open>auto simp: new_location_def T text_fits tracking_def writable_def put_location_def tenant_exists_def\<close>)

lemma resolve_location_runs:
  assumes a: "answering env" and t: "tracking T m r w" and n: "varchar 255 n" and R: "reading T w"
  shows "\<exists>q u. resolve_location env n w = (q, u) \<and> tracking T m r u"
proof (cases "map_of (nz_location_cache w) n")
  case None
  have "text_ok n" using n by (simp add: varchar_def)
  then have "\<exists>q u. select env (SelectLocation (nz_tenant w) n) tb_locations l_tenant
      (\<lambda>l. l_tenant l = nz_tenant w \<and> l_name l = n) w = (q, u) \<and> tracking T m r u"
    by (intro select_runs [OF a t]) simp_all
  then obtain q u where q: "select env (SelectLocation (nz_tenant w) n) tb_locations l_tenant
      (\<lambda>l. l_tenant l = nz_tenant w \<and> l_name l = n) w = (q, u)" "tracking T m r u" by blast
  have "nz_tenant u = T"
    using select_live(1) [OF q(1) tracking_live [OF q(2)]] R same_work_sel(7) by (simp add: reading_def)
  from create_location_runs [OF a q(2) n this] q show ?thesis
    by (auto simp: resolve_location_def None sbind_def split: sum.splits option.splits prod.splits)
qed (use t in \<open>simp add: resolve_location_def\<close>)

lemma add_transaction_runs:
  assumes a: "answering env" and t: "tracking T m r w" and fits: "movement_fits nt" and T: "nz_tenant w = T"
    and refs: "product_exists (se_db w) pid" "location_exists (se_db w) lid"
  shows "\<exists>i u. add_transaction env pid lid nt w = (Inr i, u) \<and> tracking T m r u"
proof -
  let ?t = "transaction_of (nz_tenant w) (sql_now env w) (se_next_id w) pid lid nt (instant_of (nt_transaction_date nt))"
  have "\<exists>i u. add_and_flush env (InsertTransaction ?t) (\<lambda>w. (Inr (t_id ?t), put_transaction ?t w)) w = (Inr i, u) \<and>
      tracking T m r u"
  proof (rule add_and_flush_runs [OF a t])
    show "references_ok b (InsertTransaction ?t)" if "inventory b = inventory (se_db w)" "tenant_exists b T" for b
      using that refs T by (simp add: transaction_of_def inventory_def product_exists_def location_exists_def)
  qed (use fits T in \<open>auto simp: movement_fits_def text_fits transaction_of_def tracking_def writable_def
        put_transaction_def tenant_exists_def\<close>)
  then show ?thesis by (simp add: add_transaction_def insert_transaction_def)
qed

lemma create_transaction_runs:
  assumes a: "answering env" and t: "tracking T m r w" and R: "reading T w" and fits: "movement_fits nt"
  shows "\<exists>q u. create_transaction env nt w = (q, u) \<and> tracking T m r u"
proof -
  have f: "text_ok (nt_sku_code nt)" "varchar 255 (nt_location_name nt)" "varchar_null 100 (nt_reference_no nt)"
    "int8 (nt_quantity nt)" "int8 (nt_unit_cost_paise nt)"
    using fits by (simp_all add: movement_fits_def)
  obtain b x where x: "resolve_product env (nt_sku_code nt) w = (b, x)" "tracking T m r x"
    using resolve_product_runs [OF a t f(1)] by blast
  note P = resolve_product_reads [OF R x(1) tracking_live [OF x(2)]]
  obtain c y where y: "resolve_location env (nt_location_name nt) x = (c, y)" "tracking T m r y"
    using resolve_location_runs [OF a x(2) f(2) P(1)] by blast
  note L = resolve_location_reads [OF P(1) y(1) tracking_live [OF y(2)]]
  show ?thesis
  proof (cases "(\<exists>e. b = Inl e) \<or> (\<exists>e. c = Inl e)")
    case True
    then show ?thesis
    proof (cases b)
      case (Inl e)
      with x show ?thesis by (simp add: create_transaction_def sbind_def)
    next
      case (Inr pid)
      with True x y show ?thesis by (auto simp: create_transaction_def sbind_def)
    qed
  next
    case False
    then obtain pid lid where i: "b = Inr pid" "c = Inr lid" by (cases b; cases c) auto
    obtain p l where p: "sku_rows T (nt_sku_code nt) (se_db w) = [p]" "p_id p = pid"
      and l: "name_rows T (nt_location_name nt) (se_db y) = [l]" "l_id l = lid"
      using P(3) L(6) i by auto
    have "sku_rows T (nt_sku_code nt) (se_db y) = [p]"
      using L(2) P(2) p by (simp add: names_kept_def sku_rows_def inventory_def)
    then have refs: "product_exists (se_db y) pid" "location_exists (se_db y) lid"
      using p(2) l by (auto simp: product_exists_def location_exists_def sku_rows_def name_rows_def filter_eq_Cons_iff)
    have "\<exists>q v. find_transaction env pid lid nt y = (q, v) \<and> tracking T m r v"
      unfolding find_transaction_def
      by (rule select_runs [OF a y(2)]) (use f in \<open>simp_all add: text_fits\<close>)
    then obtain q v where v: "find_transaction env pid lid nt y = (q, v)" "tracking T m r v" by blast
    have "same_work v y"
      using select_live(1) [OF v(1) [unfolded find_transaction_def] tracking_live [OF v(2)]] .
    then have "nz_tenant v = T" "product_exists (se_db v) pid" "location_exists (se_db v) lid"
      using same_work_sel [of v y] L(1) refs by (simp_all add: reading_def product_exists_def location_exists_def)
    from add_transaction_runs [OF a v(2) fits this] v x y i show ?thesis
      by (auto simp: create_transaction_def sbind_def split: sum.splits option.splits)
  qed
qed

section \<open>The job\<close>

lemma account_row_runs_with:
  assumes t: "tracking T (Suc m) r w"
    and log: "\<And>u v. log_only u v \<Longrightarrow> Q v \<Longrightarrow> Q u"
    and invalid: "\<And>e. val = Inl e \<Longrightarrow> Q w"
    and persist: "\<And>v u k. val = Inr v \<Longrightarrow> log_only u w \<Longrightarrow> tracking T m k u \<Longrightarrow>
      \<exists>q x. persist v u = (q, x) \<and> tracking T m k x \<and> Q x"
  shows "\<exists>u p k. account_row entity sku val persist w = (Inr (), u) \<and> tracking T m (tally p k r) u \<and> Q u"
proof -
  let ?r = "r\<lparr>sl_total_records := sl_total_records r + 1\<rparr>"
  have room: "room m ?r" "room m (tally 1 0 r)" "room m (tally 0 1 r)"
    using t by (auto simp: tracking_def room_def tally_def)
  obtain u where u: "bump_total w = (Inr (), u)" "tracking T m ?r u"
    using with_log_runs [OF t, of "\<lambda>l. l\<lparr>sl_total_records := sl_total_records l + 1\<rparr>" m] room
    by (auto simp: bump_total_def)
  have ul: "log_only u w" using with_log_only [of _ w] u(1) by (metis bump_total_def snd_conv)
  have fail: "\<exists>z. row_handler entity sku e x = (Inr (), z) \<and> tracking T m (tally 0 1 r) z \<and> Q z"
    if t': "tracking T m ?r x" and Q: "Q x" for e x
  proof -
    obtain y where y: "bump_failed x = (Inr (), y)" "tracking T m (tally 0 1 r) y"
      using with_log_runs [OF t', of "\<lambda>l. l\<lparr>sl_records_failed := sl_records_failed l + 1\<rparr>" m] room
      by (auto simp: bump_failed_def tally_def)
    have "\<exists>z. row_handler entity sku e x = (Inr (), z) \<and> tracking T m (tally 0 1 r) z"
      using y append_error_runs [OF y(2), of "row_error entity sku e"]
      by (cases e) (auto simp: row_handler_def append_row_error_def sbind_def)
    with log [OF row_handler_only [of entity sku e x] Q] show ?thesis by (metis snd_conv)
  qed
  show ?thesis
  proof (cases val)
    case (Inl e)
    with u(1) fail [OF u(2) log [OF ul invalid [OF Inl]], of e] show ?thesis
      by (auto simp: account_row_def sbind_def or_else_def)
  next
    case (Inr v)
    from persist [OF this ul u(2)] obtain q x where x: "persist v u = (q, x)" "tracking T m ?r x" "Q x" by blast
    show ?thesis
    proof (cases q)
      case (Inl e)
      with u(1) x fail [OF x(2,3), of e] Inr show ?thesis by (auto simp: account_row_def sbind_def or_else_def)
    next
      case (Inr i)
      obtain y where y: "bump_processed x = (Inr (), y)" "tracking T m (tally 1 0 r) y"
        using with_log_runs [OF x(2), of "\<lambda>l. l\<lparr>sl_records_processed := sl_records_processed l + 1\<rparr>" m] room
        by (auto simp: bump_processed_def tally_def)
      have "Q y" using log [OF with_log_only x(3)] y(1) by (metis bump_processed_def snd_conv)
      with y u(1) x Inr \<open>val = Inr v\<close> show ?thesis by (auto simp: account_row_def sbind_def or_else_def)
    qed
  qed
qed

lemma account_row_runs:
  assumes "tracking T (Suc m) r w"
    and "\<And>v u k. val = Inr v \<Longrightarrow> log_only u w \<Longrightarrow> tracking T m k u \<Longrightarrow>
      \<exists>q x. persist v u = (q, x) \<and> tracking T m k x"
  shows "\<exists>u p k. account_row entity sku val persist w = (Inr (), u) \<and> tracking T m (tally p k r) u"
proof -
  have "\<exists>u p k. account_row entity sku val persist w = (Inr (), u) \<and> tracking T m (tally p k r) u \<and> True"
    by (rule account_row_runs_with [where Q = "\<lambda>_. True", OF assms(1)]) (use assms(2) in auto)
  then show ?thesis by simp
qed

lemma process_transactions_runs:
  assumes a: "answering env"
    and fits: "\<And>nt v. nt \<in> set nts \<Longrightarrow> normalize_transaction (transaction_row nt) [] = Inr v \<Longrightarrow> movement_fits v"
    and "tracking T (length nts + m) r w" "reading T w"
  shows "\<exists>u p k. process_transactions env (map Inr nts) w = (Inr (), u) \<and> tracking T m (tally p k r) u"
  using assms(2-)
proof (induction nts arbitrary: r w)
  case Nil
  have "tally 0 0 r = r" by (simp add: tally_def)
  with Nil show ?case by (metis (no_types) add_0 for_each.simps(1) list.map(1) list.size(3) process_transactions_def)
next
  case (Cons nt nts)
  have "\<exists>x p k. process_transaction env nt w = (Inr (), x) \<and> tracking T (length nts + m) (tally p k r) x"
    unfolding process_transaction_def
  proof (rule account_row_runs)
    show "tracking T (Suc (length nts + m)) r w" using Cons.prems(2) by simp
    fix v u k assume "normalize_transaction (transaction_row nt) [] = Inr v" "log_only u w" "tracking T (length nts + m) k u"
    then show "\<exists>q x. create_transaction env v u = (q, x) \<and> tracking T (length nts + m) k x"
      using Cons.prems(1) [of nt v] Cons.prems(3) reading_log by (intro create_transaction_runs [OF a]) auto
  qed
  then obtain x p k where x: "process_transaction env nt w = (Inr (), x)" "tracking T (length nts + m) (tally p k r) x"
    by blast
  have "reading T x" using transaction_row_reads [OF Cons.prems(3) x(1) tracking_live [OF x(2)]] by blast
  from Cons.IH [OF _ x(2) this] Cons.prems(1) obtain u p' k' where
    "process_transactions env (map Inr nts) x = (Inr (), u)" "tracking T m (tally p' k' (tally p k r)) u" by fastforce
  with x(1) show ?case by (auto simp: process_transactions_def sbind_def tally_tally)
qed

lemma transactions_job_runs:
  assumes a: "answering env" and tenant: "tenant_exists (se_committed w) T"
    and job: "filter (\<lambda>l. sl_id l = i \<and> sl_tenant l = T) (tb_sync_logs (se_committed w)) = [l]"
    and room: "room (length nts) l" and conn: "connector_for tc l = Inr c"
    and type: "get_or (tc_entity_type tc) ''products'' = ''transactions''"
    and rows: "fetch_transactions (readers_of (run_pandas rn) fs) (run_clock rn) c = map Inr nts"
    and fits: "\<And>nt v. nt \<in> set nts \<Longrightarrow> normalize_transaction (transaction_row nt) [] = Inr v \<Longrightarrow> movement_fits v"
  shows "\<exists>w' fs' p k. process_sync env rn i T tc (w, fs) = (Inr (), w', fs') \<and>
    map_option (\<lambda>r. r\<lparr>sl_errors := None\<rparr>) (job_row w') =
      Some (mark_completed (run_completed rn) (tally p k (running (run_started rn) l)))"
proof (rule job_runs [OF a tenant job room conn, where Q = "\<lambda>_ _ _. True"])
  fix u assume u: "tracking T (length nts) (running (run_started rn) l) u" "u = new_normalizer T u"
  then have "reading T u"
    by (metis (no_types, lifting) new_normalizer_reads tracking_def writable_def)
  then show "\<exists>v p k. process_entities env rn (readers_of (run_pandas rn) fs) tc c u = (Inr (), v) \<and>
      tracking T 0 (tally p k (running (run_started rn) l)) v \<and> True"
    using process_transactions_runs [OF a, of nts T 0 "running (run_started rn) l" u] fits u(1) type rows
    by (simp add: process_entities_rows)
qed blast

section \<open>An example\<close>

definition moving_frame :: frame where
  "moving_frame = [[(''SKU Code'', Cell ''S1''), (''Location'', Cell ''W''), (''Transaction Date'', Cell ''2024-01-02'')]]"

definition moving_run :: run where
  "moving_run = example_run\<lparr>run_pandas := \<lparr>parse_csv = \<lambda>_ _. Inr moving_frame, parse_excel = \<lambda>_ _. Inr moving_frame\<rparr>\<rparr>"

definition moving_config :: tenant_config where
  "moving_config = \<lparr>tc_csv_mappings = None, tc_entity_type = Some ''transactions''\<rparr>"

definition moving_connector :: CSVConnector where
  "moving_connector = csv_init \<lparr>cfg_file_path = ''u'', cfg_mappings = Some [], cfg_delimiter = None,
     cfg_sheet_name = None, cfg_entity_type = Some ''transactions''\<rparr>"

definition moving_worker :: worker where
  "moving_worker = example_worker\<lparr>se_committed := example_db\<lparr>tb_products := [product_of 1 0 3 example_product]\<rparr>\<rparr>"

definition moved :: NormalizedTransaction where
  "moved = \<lparr>nt_sku_code = ''S1'', nt_location_name = ''W'', nt_transaction_type = IN, nt_quantity = 0,
     nt_unit_cost_paise = 0, nt_reference_no = None, nt_transaction_date = Datetime (Date 2024 1 2) 0 0 0 0 (Some 0)\<rparr>"

lemma moving_conn: "connector_for moving_config example_log = Inr moving_connector"
  by (simp add: connector_for_def moving_config_def example_log_def new_sync_log_def factory_get_def
      registry_def factory_register_def get_or_def moving_connector_def)

lemma moving_date: "csv_to_datetime now (VStr ''2024-01-02'') = Datetime (Date 2024 1 2) 0 0 0 0 (Some 0)"
proof -
  have s: "strip ''2024-01-02'' = ''2024-01-02''" by (simp add: strip_def is_space_def)
  have "strptime fmt_Y_m_d ''2024-01-02'' = Some (Datetime (Date 2024 1 2) 0 0 0 0 None)"
    by (simp add: strptime_def fmt_Y_m_d_def four_digits_def two_digits_def one_digit_def space_digit_def tm0_def is_digit_def digit_val_def read_nat_def tm_datetime_def days_in_month_def Let_def)
  then show ?thesis by (simp add: csv_date_text_def date_formats_def s midnight_utc_def del: strp.simps)
qed

lemma moving_parts: "csv_to_transaction_type (VTxn IN) = IN" "csv_to_int (VInt 0) = Inr 0" "strip ''W'' = ''W''"
  by (simp_all add: csv_to_transaction_type_def txn_of_def enum_of_value_def enum_TransactionType_def lower_def
      lower_char_def Let_def strip_def is_space_def py_float_of_int_def fl_round_def rdiv_def)

lemma moving_record:
  "map_to_transaction now [(''SKU Code'', VStr ''S1''), (''Location'', VStr ''W''), (''Transaction Date'', VStr ''2024-01-02'')]
     DEFAULT_TRANSACTION_MAPPING = Inr moved"
proof -
  have "csv_apply_mapping [(''SKU Code'', VStr ''S1''), (''Location'', VStr ''W''), (''Transaction Date'', VStr ''2024-01-02'')]
      DEFAULT_TRANSACTION_MAPPING =
    [(''sku_code'', VStr ''S1''), (''location_name'', VStr ''W''), (''transaction_date'', VStr ''2024-01-02'')]"
    by (simp add: csv_apply_mapping_def DEFAULT_TRANSACTION_MAPPING_def)
  then show ?thesis
    by (simp add: map_to_transaction_def moving_date paise_of_zero strip_plain opt_text_def moved_def
       moving_parts del: csv_to_paise.simps csv_to_int.simps csv_to_datetime.simps)
qed

lemma moving_rows:
  "fetch_transactions (readers_of (run_pandas moving_run) example_files) clock moving_connector = map Inr [moved]"
proof -
  have "read_dataframe (readers_of (run_pandas moving_run) example_files) moving_connector
      (cc_sheet_name moving_connector) = Inr moving_frame"
    by (simp add: read_dataframe_def path_suffix_def path_name_def name_suffix_def lower_def readers_of_def
        example_files_def moving_run_def moving_connector_def csv_init_def get_or_def)
  moreover have "dropna [(''SKU Code'', Cell ''S1''), (''Location'', Cell ''W''), (''Transaction Date'', Cell ''2024-01-02'')] =
      [(''SKU Code'', VStr ''S1''), (''Location'', VStr ''W''), (''Transaction Date'', VStr ''2024-01-02'')]"
    by (simp add: dropna_def)
  ultimately show ?thesis
    by (simp add: fetch_transactions_def moving_frame_def moving_record moving_connector_def
        csv_init_def get_or_def dict_get_or_def)
qed

lemma moved_normalizes: "normalize_transaction (transaction_row moved) [] = Inr moved"
  by (simp add: normalize_transaction_def transaction_row_def moved_def strip_plain moving_parts opt_text_def)

lemma moved_fits: "movement_fits moved"
  by (simp add: movement_fits_def moved_def varchar_def varchar_null_def text_ok_def int8_def char_of_def)

lemma moving_ready:
  "answering example_env" "tenant_exists (se_committed moving_worker) 1"
  "filter (\<lambda>l. sl_id l = 2 \<and> sl_tenant l = 1) (tb_sync_logs (se_committed moving_worker)) = [example_log]"
  "room (length [moved]) example_log"
  "get_or (tc_entity_type moving_config) ''products'' = ''transactions''"
  "nt \<in> set [moved] \<Longrightarrow> normalize_transaction (transaction_row nt) [] = Inr v \<Longrightarrow> movement_fits v"
  using example_ready(1-4) moved_fits
  by (auto simp: moving_worker_def moving_config_def get_or_def tenant_exists_def example_worker_def moved_normalizes)

section \<open>Properties\<close>

text \<open>
  Property C11.  No row can fail a job of transactions: when the database answers and the normalized rows
  fit its columns, the job completes; the products stay, no transaction is lost, and every movement of a
  product that the tenant has is stored under the location of its name, which is created where needed.
\<close>

theorem transactions_job_completes:
  assumes "answering env" and "tenant_exists (se_committed w) T"
    and "filter (\<lambda>l. sl_id l = i \<and> sl_tenant l = T) (tb_sync_logs (se_committed w)) = [l]"
    and "room (length nts) l" and "connector_for tc l = Inr c"
    and "get_or (tc_entity_type tc) ''products'' = ''transactions''"
    and "fetch_transactions (readers_of (run_pandas rn) fs) (run_clock rn) c = map Inr nts"
    and "\<And>nt v. nt \<in> set nts \<Longrightarrow> normalize_transaction (transaction_row nt) [] = Inr v \<Longrightarrow> movement_fits v"
  shows "\<exists>w' fs'. process_sync env rn i T tc (w, fs) = (Inr (), w', fs') \<and>
    map_option sl_status (job_row w') = Some COMPLETED \<and>
    tb_products (se_committed w') = tb_products (se_committed w) \<and>
    set (tb_transactions (se_committed w)) \<subseteq> set (tb_transactions (se_committed w')) \<and>
    (\<forall>nt v p. nt \<in> set nts \<and> normalize_transaction (transaction_row nt) [] = Inr v \<and>
        sku_rows T (nt_sku_code v) (se_committed w) = [p] \<longrightarrow>
      name_rows T (nt_location_name v) (se_committed w') \<noteq> [] \<and>
      (\<forall>l. name_rows T (nt_location_name v) (se_committed w') = [l] \<longrightarrow>
        (\<exists>t \<in> set (tb_transactions (se_committed w')). same_transaction T (p_id p) (l_id l) v t)))"
proof -
  from transactions_job_runs [OF assms(1-7)] assms(8) obtain w' fs' p k where run: "process_sync env rn i T tc (w, fs) = (Inr (), w', fs')"
    and row: "map_option (\<lambda>r. r\<lparr>sl_errors := None\<rparr>) (job_row w') =
      Some (mark_completed (run_completed rn) (tally p k (running (run_started rn) l)))" by blast
  note J = transactions_job_reads [OF run assms(3,5-7)]
  from row obtain r where r: "job_row w' = Some r" and
    e: "r\<lparr>sl_errors := None\<rparr> = mark_completed (run_completed rn) (tally p k (running (run_started rn) l))" by auto
  from arg_cong [OF e, of sl_status] r have "map_option sl_status (job_row w') = Some COMPLETED"
    by (simp add: mark_completed_def)
  moreover have "tb_products (se_committed w') = tb_products (se_committed w)"
    "set (tb_transactions (se_committed w)) \<subseteq> set (tb_transactions (se_committed w'))"
    using J(2) by (simp_all add: grown_def names_kept_def)
  moreover have "name_rows T (nt_location_name v) (se_committed w') \<noteq> [] \<and>
      (\<forall>l. name_rows T (nt_location_name v) (se_committed w') = [l] \<longrightarrow>
        (\<exists>t \<in> set (tb_transactions (se_committed w')). same_transaction T (p_id p) (l_id l) v t))"
    if "nt \<in> set nts" "normalize_transaction (transaction_row nt) [] = Inr v"
      "sku_rows T (nt_sku_code v) (se_committed w) = [p]" for nt v p
  proof -
    have "recorded T v (se_committed w')" using J(1) that by (auto simp: row_recorded_def)
    moreover have "sent v" "text_ok (nt_sku_code v)" "text_ok (nt_location_name v)"
      using assms(8) that by (simp_all add: movement_fits_def sent_def text_fits)
    moreover have "sku_rows T (nt_sku_code v) (se_committed w') = [p]"
      using that(3) J(2) by (simp add: sku_rows_def grown_def names_kept_def)
    ultimately show ?thesis by (auto simp: recorded_def movement_rows_def filter_empty_conv)
  qed
  ultimately show ?thesis using run by blast
qed

theorem transactions_job_completes_witness:
  "\<exists>w' fs'. process_sync example_env moving_run 2 1 moving_config (moving_worker, example_files) = (Inr (), w', fs') \<and>
     map_option sl_status (job_row w') = Some COMPLETED \<and> name_rows 1 ''W'' (se_committed w') \<noteq> []"
proof -
  have "sku_rows 1 (nt_sku_code moved) (se_committed moving_worker) = [product_of 1 0 3 example_product]"
    by (simp add: sku_rows_def moving_worker_def moved_def product_of_def example_product_def)
  moreover have "nt_location_name moved = ''W''" by (simp add: moved_def)
  moreover obtain w' fs' where
    w': "process_sync example_env moving_run 2 1 moving_config (moving_worker, example_files) = (Inr (), w', fs')"
      "map_option sl_status (job_row w') = Some COMPLETED"
    and rows: "\<And>nt v p. nt \<in> set [moved] \<and> normalize_transaction (transaction_row nt) [] = Inr v \<and>
      sku_rows 1 (nt_sku_code v) (se_committed moving_worker) = [p] \<Longrightarrow>
      name_rows 1 (nt_location_name v) (se_committed w') \<noteq> []"
    using transactions_job_completes [OF moving_ready(1-4) moving_conn moving_ready(5) moving_rows] moving_ready(6)
    by blast
  ultimately show ?thesis using rows [of moved moved] moved_normalizes by auto
qed

text \<open>
  What may happen between two jobs of a tenant \<open>T\<close>: the SKUs \<open>S\<close> stand for the same products, which may be updated,
  a location that was there is the one of its name, and no transaction was removed; whatever else is new.
\<close>

definition still_there :: "uuid \<Rightarrow> string set \<Rightarrow> db \<Rightarrow> db \<Rightarrow> bool" where
  "still_there T S d d' \<longleftrightarrow> (\<forall>s \<in> S. map p_id (sku_rows T s d') = map p_id (sku_rows T s d)) \<and>
     (\<forall>n. name_rows T n d \<noteq> [] \<longrightarrow> map l_id (name_rows T n d') = map l_id (name_rows T n d)) \<and>
     {t \<in> set (tb_transactions d). t_tenant t = T} \<subseteq> set (tb_transactions d')"

definition skus_of :: "NormalizedTransaction list \<Rightarrow> string set" where
  "skus_of nts = {nt_sku_code v | v. \<exists>nt \<in> set nts. normalize_transaction (transaction_row nt) [] = Inr v}"

lemma still_there_inventory: "inventory d' = inventory d \<Longrightarrow> still_there T S d d'"
  using rows_inventory(1,2) [of d' d] by (simp add: still_there_def inventory_def)

lemma recorded_still:
  assumes "recorded T nt d" "still_there T S d d'" "nt_sku_code nt \<in> S"
  shows "recorded T nt d'"
  unfolding recorded_def
proof (intro allI impI conjI; elim conjE)
  fix p' assume ok: "text_ok (nt_sku_code nt)" "text_ok (nt_location_name nt)" and p': "sku_rows T (nt_sku_code nt) d' = [p']"
  have "map p_id (sku_rows T (nt_sku_code nt) d) = map p_id [p']"
    using assms(2,3) unfolding p' [symmetric] by (simp add: still_there_def)
  then obtain p where p: "sku_rows T (nt_sku_code nt) d = [p]" "p_id p = p_id p'" by auto
  with assms(1) ok have n: "name_rows T (nt_location_name nt) d \<noteq> []" by (simp add: recorded_def)
  with assms(2) have m: "map l_id (name_rows T (nt_location_name nt) d') = map l_id (name_rows T (nt_location_name nt) d)"
    by (simp add: still_there_def)
  with n show "name_rows T (nt_location_name nt) d' \<noteq> []" by auto
  fix l' assume l': "name_rows T (nt_location_name nt) d' = [l']" "sent nt"
  with m have "map l_id (name_rows T (nt_location_name nt) d) = [l_id l']" by simp
  then obtain l where l: "name_rows T (nt_location_name nt) d = [l]" "l_id l = l_id l'" by auto
  with assms(1) ok p l'(2) have "movement_rows T (p_id p') (l_id l') nt d \<noteq> []" by (simp add: recorded_def)
  then obtain t where t: "t \<in> set (tb_transactions d)" "same_transaction T (p_id p') (l_id l') nt t"
    by (auto simp: movement_rows_def filter_empty_conv)
  then have "t_tenant t = T" by (simp add: same_transaction_def)
  with t assms(2) show "movement_rows T (p_id p') (l_id l') nt d' \<noteq> []"
    by (auto simp: still_there_def movement_rows_def filter_empty_conv)
qed

text \<open>
  Property C9.  Importing a file of transactions twice is importing it once: after a job of transactions
  completed, a second job of the tenant that reads rows of the first, after a new upload or a redelivery, in
  a session of its own and whatever the database answers, leaves products, locations, batches and
  transactions as they are when it completes, although the table of the transactions has no unique key.  In
  between anything may happen that leaves the tenant's transactions, the locations of their names and the
  products of the rows' SKUs: updates of products, jobs of other files, other tenants.  (A row whose SKU had no
  product the first time, and has one now, is a new row.)
\<close>

theorem repeated_transactions_add_nothing:
  assumes "process_sync env rn i T tc (w, fs) = (Inr (), w', fs')"
    and "filter (\<lambda>l. sl_id l = i \<and> sl_tenant l = T) (tb_sync_logs (se_committed w)) = [l]"
    and "connector_for tc l = Inr c" and "get_or (tc_entity_type tc) ''products'' = ''transactions''"
    and "fetch_transactions (readers_of (run_pandas rn) fs) (run_clock rn) c = map Inr nts"
    and "still_there T (skus_of nts') (se_committed w') (se_committed v)"
    and "process_sync env' rn' j T tc' (v, gs) = (Inr (), v', gs')"
    and "filter (\<lambda>l. sl_id l = j \<and> sl_tenant l = T) (tb_sync_logs (se_committed v)) = [k]"
    and "connector_for tc' k = Inr d" and "get_or (tc_entity_type tc') ''products'' = ''transactions''"
    and "fetch_transactions (readers_of (run_pandas rn') gs) (run_clock rn') d = map Inr nts'"
    and "set nts' \<subseteq> set nts"
  shows "inventory (se_committed v') = inventory (se_committed v)"
proof (rule transactions_job_reads(3) [OF assms(7-11)], intro ballI)
  fix nt assume nt: "nt \<in> set nts'"
  with assms(12) transactions_job_reads(1) [OF assms(1-5)] have "row_recorded T nt (se_committed w')" by blast
  with nt show "row_recorded T nt (se_committed v)"
    using recorded_still [OF _ assms(6)] by (auto simp: row_recorded_def skus_of_def split: sum.splits)
qed

text \<open>The same file, uploaded again: the job is new, the tables are those that the first one left.\<close>

definition moved_again :: "worker \<Rightarrow> worker" where
  "moved_again w = moving_worker\<lparr>se_committed := (se_committed w)\<lparr>tb_tenants := [example_tenant],
     tb_users := [], tb_sync_logs := [example_log]\<rparr>\<rparr>"

theorem repeated_transactions_add_nothing_witness:
  "\<exists>w' fs' v' gs'. process_sync example_env moving_run 2 1 moving_config (moving_worker, example_files) = (Inr (), w', fs') \<and>
     process_sync example_env moving_run 2 1 moving_config (moved_again w', example_files) = (Inr (), v', gs') \<and>
     inventory (se_committed v') = inventory (se_committed w')"
proof -
  from transactions_job_runs [OF moving_ready(1-4) moving_conn moving_ready(5) moving_rows] moving_ready(6)
  obtain w' fs' where run: "process_sync example_env moving_run 2 1 moving_config (moving_worker, example_files) =
      (Inr (), w', fs')" by blast
  have again: "tenant_exists (se_committed (moved_again w')) 1"
    "filter (\<lambda>l. sl_id l = 2 \<and> sl_tenant l = 1) (tb_sync_logs (se_committed (moved_again w'))) = [example_log]"
    "inventory (se_committed (moved_again w')) = inventory (se_committed w')"
    by (simp_all add: moved_again_def tenant_exists_def example_tenant_def example_log_def new_sync_log_def inventory_def)
  from transactions_job_runs [OF moving_ready(1) again(1,2) moving_ready(4) moving_conn moving_ready(5) moving_rows] moving_ready(6)
  obtain v' gs' where run': "process_sync example_env moving_run 2 1 moving_config (moved_again w', example_files) =
      (Inr (), v', gs')" by blast
  from repeated_transactions_add_nothing [OF run moving_ready(3) moving_conn moving_ready(5) moving_rows
      still_there_inventory [OF again(3)]
      run' again(2) moving_conn moving_ready(5) moving_rows order.refl]
  show ?thesis using run run' again(3) by auto
qed

end
