(* ===== verification/PlatformJobs.thy ===== *)
theory PlatformJobs
  imports PlatformProps Bystanders UploadWork Movements
begin

text \<open>
  Jobs on the platform: what the runs of a job keep is kept while its message waits, is delivered again and
  again, and requests and the jobs of other tenants come in between; so product jobs import once and
  transaction jobs write once.
\<close>

section \<open>A job among requests, other jobs and deaths\<close>

text \<open>The only message for the tenant that waits, and that is put there, is the job's, with its copies.\<close>

definition only_message :: "uuid \<Rightarrow> task_message \<Rightarrow> platform \<Rightarrow> bool" where
  "only_message T m p \<longleftrightarrow> (\<forall>n \<in> waiting (snd (snd p)). for_tenant T n \<longrightarrow> n = m)"

definition no_uploads :: "web \<Rightarrow> pandas \<Rightarrow> uuid \<Rightarrow> platform \<Rightarrow> event list \<Rightarrow> bool" where
  "no_uploads web pd T p tr \<longleftrightarrow>
     (\<forall>tr1 e tr2 q. tr = tr1 @ e # tr2 \<longrightarrow> platform_run web pd p tr1 q \<longrightarrow> \<not> accepts_upload web T q e)"

text \<open>
  The upload of the job is its own: no other tenant's job has the path, and storing a file under an id that
  is still to come, up to the id \<open>n\<close>, will not take it.
\<close>

definition own_upload :: "web \<Rightarrow> uuid \<Rightarrow> uuid \<Rightarrow> string \<Rightarrow> uuid \<Rightarrow> server \<Rightarrow> bool" where
  "own_upload web i T path n s \<longleftrightarrow> i < se_next_id s \<and>
     (\<forall>l \<in> set (tb_sync_logs (se_committed s)). sl_stored_path l = Some path \<longrightarrow> sl_tenant l = T) \<and>
     (\<forall>k name. se_next_id s \<le> k \<longrightarrow> k < n \<longrightarrow> stored_at web k name \<noteq> path)"

text \<open>So it is for a file that an upload has stored.\<close>

lemma stored_upload_is_own:
  assumes "path = stored_at web k name" "k < se_next_id s" "i < se_next_id s" "k < 2 ^ 128" "n \<le> 2 ^ 128"
    and "\<forall>l \<in> set (tb_sync_logs (se_committed s)). sl_stored_path l = Some path \<longrightarrow> sl_tenant l = T"
  shows "own_upload web i T path n s"
proof -
  have "stored_at web j name' \<noteq> path" if "se_next_id s \<le> j" "j < n" for j name'
  proof
    assume "stored_at web j name' = path"
    then have "j = k" using assms(1,4,5) that by (intro stored_at_inject [of web j name' k name]) simp_all
    with that assms(2) show False by simp
  qed
  with assms(3,6) show ?thesis by (simp add: own_upload_def)
qed

lemma no_uploads_snoc:
  assumes "no_uploads web pd T p (tr @ [e])" "platform_run web pd p tr q"
  shows "no_uploads web pd T p tr" "\<not> accepts_upload web T q e"
proof -
  show "no_uploads web pd T p tr" using assms(1) unfolding no_uploads_def by fastforce
  show "\<not> accepts_upload web T q e" using assms unfolding no_uploads_def by blast
qed

lemma own_upload_step:
  assumes step: "platform_step web pd (s, fs, M) e (s', fs', M')" and own: "own_upload web i T path n s"
    and few: "se_next_id s' \<le> n"
  shows "own_upload web i T path n s'"
proof -
  let ?own = "\<lambda>l. sl_stored_path l = Some path \<longrightarrow> sl_tenant l = T"
  have next_id: "se_next_id s \<le> se_next_id s'" by (rule step_ids [OF step])
  have old: "\<forall>l \<in> set (tb_sync_logs (se_committed s)). ?own l" using own by (simp add: own_upload_def)
  have "\<forall>l \<in> set (tb_sync_logs (se_committed s')). ?own l"
    using step
  proof (cases rule: platform_step_cases)
    case (request os arrange clock c b q)
    have "\<not> fresh_log web (se_next_id s) (se_next_id s') l" if "sl_stored_path l = Some path" for l
      using that own few by (auto simp: fresh_log_def own_upload_def)
    with request_grows [OF request(2)] old show ?thesis unfolding grown_by_def by blast
  next
    case (work j S m)
    note W = works_elsewhere(1,2) [OF work(2)]
    show ?thesis
    proof (intro ballI impI)
      fix l assume l: "l \<in> set (tb_sync_logs (se_committed s'))" "sl_stored_path l = Some path"
      show "sl_tenant l = T"
      proof (cases "sl_tenant l = S")
        case True
        with l have "Some path \<in> paths_of S (se_committed s')" by (force simp: paths_of_def)
        with W(2) have "Some path \<in> paths_of S (se_committed s)" by blast
        with old True show ?thesis by (force simp: paths_of_def)
      next
        case False
        with l have "l \<in> set (other_logs S (se_committed s'))" by (simp add: other_logs_def)
        with W(1) old l(2) show ?thesis by (simp add: other_logs_def)
      qed
    qed
  qed (use old in simp)
  with own next_id show ?thesis by (auto simp: own_upload_def)
qed

text \<open>A claim about a job that looks at nothing but its tenant's rows, its own row and its upload.\<close>

locale steady_job = job_account K pd i T tc
  for K :: "db \<Rightarrow> files \<Rightarrow> bool" and pd :: pandas and i T :: uuid and tc :: tenant_config +
  fixes path :: string
  assumes K_others: "K d fs \<Longrightarrow> tenant_rows T d' = tenant_rows T d \<Longrightarrow> job_rows i T d' \<subseteq> job_rows i T d
    \<Longrightarrow> fs' path = fs path \<Longrightarrow> K d' fs'"
begin

lemma works_K:
  assumes "works web pd i T m (s, fs) (s', fs')" and "tc = config_of (tm_tenant_config m)" and K: "K (se_committed s) fs"
  shows "K (se_committed s') fs'"
proof -
  from assms(1) obtain rn k w where rn: "run_pandas rn = pd" and s': "s' = leave_worker s w"
    and w: "(w, fs') = snd (sync_erp_data (wb_env web) rn i T tc k (worker_of s, fs)) \<or>
     (w, fs') \<in> set (interrupted (wb_env web) rn i T tc k (worker_of s, fs))"
    unfolding assms(2) by (rule works_worker)
  have K': "K (se_committed (worker_of s)) fs" using K by simp
  show ?thesis
    using w task_K [OF K' rn, of "wb_env web" k _ w fs'] interrupted_K [OF K' rn, of w fs' "wb_env web" k] s'
    by (cases "sync_erp_data (wb_env web) rn i T tc k (worker_of s, fs)") auto
qed

lemma others_K:
  assumes "works web pd j S m (s, fs) (s', fs')" and "S \<noteq> T" and own: "own_upload web i T path n s"
    and K: "K (se_committed s) fs"
  shows "K (se_committed s') fs'"
proof (rule K_others [OF K])
  show "tenant_rows T (se_committed s') = tenant_rows T (se_committed s)"
    using tenant_rows_others [OF works_returns(2) [OF assms(1)]] assms(2) by simp
  have mine: "job_rows i T d = {l \<in> set (other_logs S d). sl_id l = i \<and> sl_tenant l = T}" for d
    using assms(2) by (auto simp: job_rows_def other_logs_def)
  show "job_rows i T (se_committed s') \<subseteq> job_rows i T (se_committed s)"
    unfolding mine works_elsewhere(1) [OF assms(1)] by blast
  have "Some path \<notin> paths_of S (se_committed s)" using own assms(2) by (auto simp: own_upload_def paths_of_def)
  from works_elsewhere(3) [OF assms(1) this] show "fs' path = fs path" .
qed

lemma request_K:
  assumes "handle web os arrange clock c (idle s, fs, []) = (b, s', fs', q)" and own: "own_upload web i T path n s"
    and few: "se_next_id s' \<le> n" and K: "K (se_committed s) fs"
  shows "K (se_committed s') fs'"
proof (rule K_others [OF K])
  note G = request_grows [OF assms(1)]
  show "tenant_rows T (se_committed s') = tenant_rows T (se_committed s)"
    using tenant_rows_stock [OF request_keeps(1) [OF assms(1)]] .
  have "sl_id l \<noteq> i" if "fresh_log web (se_next_id s) (se_next_id s') l" for l
    using that own by (auto simp: fresh_log_def own_upload_def)
  with G show "job_rows i T (se_committed s') \<subseteq> job_rows i T (se_committed s)"
    by (auto simp: grown_by_def job_rows_def)
  have "\<not> fresh_file web (se_next_id s) (se_next_id s') path"
    using own few by (auto simp: fresh_file_def own_upload_def)
  with G show "fs' path = fs path" by (auto simp: grown_by_def)
qed

lemma platform_K:
  assumes "platform_run web pd p tr p'" and "tc = config_of (tm_tenant_config m)" "ids_of m = Some (i, T)"
    and "tables_ok (fst p)" "only_message T m p" "no_uploads web pd T p tr" "own_upload web i T path n (fst p)"
    and "se_next_id (fst p') \<le> n" and "K (se_committed (fst p)) (fst (snd p))"
  shows "K (se_committed (fst p')) (fst (snd p')) \<and> only_message T m p' \<and> own_upload web i T path n (fst p')"
  using assms
proof (induction rule: platform_run.induct)
  case (run_next p tr p' e p'')
  obtain s fs M s' fs' M' where p: "p' = (s, fs, M)" "p'' = (s', fs', M')" by (metis prod_cases3)
  note step = run_next.hyps(2) [unfolded p]
  note no = no_uploads_snoc [OF run_next.prems(5) run_next.hyps(1)]
  have few: "se_next_id s' \<le> n" using run_next.prems(7) p by simp
  with step_ids [OF step] run_next.IH run_next.prems no(1) p
  have IH: "K (se_committed s) fs" "only_message T m (s, fs, M)" "own_upload web i T path n s" by simp_all
  have ok: "tables_ok s" using run_keeps(1) [OF run_next.hyps(1)] run_next.prems(3) p by simp
  have "K (se_committed s') fs' \<and> only_message T m (s', fs', M')"
    using step
  proof (cases rule: platform_step_cases)
    case (request os arrange clock c b q)
    have "\<not> for_tenant T l" if "l \<in> set q" for l
      using accepted_messages [OF request(2) ok that, of T M] no(2) request(1) p by auto
    with request_K [OF request(2) IH(3) few IH(1)] IH(2) request(3) show ?thesis by (auto simp: only_message_def)
  next
    case (work j S l)
    have "K (se_committed s') fs'"
    proof (cases "S = T")
      case True
      with work have "l = m" using IH(2) by (auto simp: only_message_def for_tenant_def elim!: works.cases)
      with work(2) run_next.prems(2) have "j = i" by (auto elim: works.cases)
      with True \<open>l = m\<close> work(2) works_K [OF _ run_next.prems(1) IH(1)] show ?thesis by simp
    next
      case False
      from others_K [OF work(2) this IH(3,1)] show ?thesis .
    qed
    with IH(2) work(3) show ?thesis by (auto simp: only_message_def)
  qed (use IH in \<open>auto simp: only_message_def\<close>)
  with own_upload_step [OF step IH(3) few] show ?case by (simp add: p)
qed simp

end

section \<open>Product jobs\<close>

lemma catalogue_rows: "tenant_rows T d' = tenant_rows T d \<Longrightarrow> catalogue T (tb_products d') = catalogue T (tb_products d)"
proof -
  assume "tenant_rows T d' = tenant_rows T d"
  then have e: "filter (\<lambda>p. p_tenant p = T) (tb_products d') = filter (\<lambda>p. p_tenant p = T) (tb_products d)"
    by (simp add: tenant_rows_def)
  have "find (\<lambda>p. product_key p = (T, k)) ps = find (\<lambda>p. product_key p = (T, k)) (filter (\<lambda>p. p_tenant p = T) ps)" for k ps
    by (induction ps) (auto simp: product_key_def)
  then have "find (\<lambda>p. product_key p = (T, k)) (tb_products d') = find (\<lambda>p. product_key p = (T, k)) (tb_products d)" for k
    using e by metis
  then show ?thesis by (simp add: catalogue_def fun_eq_iff)
qed

interpretation steady_product: steady_job "account_ok pd tc i T job nps cat fs" pd i T tc "upload_path job"
  for pd tc i T job nps cat fs
proof
  fix d d' gs gs'
  assume "account_ok pd tc i T job nps cat fs d gs" "tenant_rows T d' = tenant_rows T d"
    "job_rows i T d' \<subseteq> job_rows i T d" "gs' (upload_path job) = gs (upload_path job)"
  with catalogue_rows [of T d' d] show "account_ok pd tc i T job nps cat fs d' gs'"
    by (auto simp: account_ok_def accounted_def upload_left_def)
qed

text \<open>
  Property C3.  Product jobs survive the death of workers: while the job's message, or copies of it, are
  waiting, delivered, retried and delivered again, and any requests, but uploads of the tenant, and the jobs of
  other tenants come in between, whatever the database answers, the tenant's catalogue is either as before the job or the import of
  its rows, once, and never anything between or beyond; and a job that is reported as completed has been
  imported.
\<close>

theorem platform_imports_once:
  assumes "platform_run web pd (s, fs, M) tr (s', fs', M')" and "tables_ok s"
    and "ids_of m = Some (i, T)" "only_message T m (s, fs, M)" "no_uploads web pd T (s, fs, M) tr"
    and "product_job pd fs (config_of (tm_tenant_config m)) job nps"
    and "job_rows i T (se_committed s) = {job}" "sl_status job \<noteq> COMPLETED"
    and "own_upload web i T (upload_path job) (se_next_id s') s"
  shows "catalogue T (tb_products (se_committed s')) \<in>
      {catalogue T (tb_products (se_committed s)), import_products nps (catalogue T (tb_products (se_committed s)))} \<and>
    (\<forall>l \<in> job_rows i T (se_committed s'). sl_status l = COMPLETED \<longrightarrow>
      catalogue T (tb_products (se_committed s')) = import_products nps (catalogue T (tb_products (se_committed s))))"
proof -
  let ?cat = "catalogue T (tb_products (se_committed s))"
  have "account_ok pd (config_of (tm_tenant_config m)) i T job nps ?cat fs (se_committed s) fs"
    using assms(6-8) by (simp add: account_ok_def accounted_def upload_left_def)
  then have "account_ok pd (config_of (tm_tenant_config m)) i T job nps ?cat fs (se_committed (fst (s', fs', M')))
      (fst (snd (s', fs', M')))"
    using assms(2,4,5,9) steady_product.platform_K [OF assms(1) refl assms(3)] by simp
  then show ?thesis by (auto simp: account_ok_def accounted_def)
qed

lemma example_quiet:
  assumes "\<And>clock c b. Asked clock c b \<notin> set tr"
  shows "no_uploads web pd T p tr"
proof -
  have "\<not> accepts_upload web T q e" if "e \<in> set tr" for q e
    using that assms by (cases e) (auto simp: accepts_upload_def)
  then show ?thesis by (simp add: no_uploads_def)
qed

lemma example_own_upload:
  assumes "tb_sync_logs (se_committed s) = [example_log]" "2 < se_next_id s"
  shows "own_upload example_web 2 1 ''u'' n s"
proof -
  have dir: "filter part_ok (split_on (CHR ''/'') (st_upload_dir (wb_settings example_web))) = [''uploads'']"
    by (simp add: example_web_def default_settings_def part_ok_def)
  have "stored_at example_web k name \<noteq> ''u''" for k name
    using stored_parts [of example_web k name] unfolding dir by (auto simp: part_ok_def)
  with assms show ?thesis by (simp add: own_upload_def example_log_def new_sync_log_def)
qed

theorem platform_imports_once_witness:
  "\<exists>s fs. platform_run example_web (run_pandas example_run) (example_server, example_files, {#(example_message, 0)#})
       [Worked example_message 0 Done] (s, fs, {#}) \<and>
     catalogue 1 (tb_products (se_committed s)) = import_products [example_product] Map.empty"
proof -
  obtain s fs where run: "platform_run example_web (run_pandas example_run)
      (example_server, example_files, {#(example_message, 0)#}) [Worked example_message 0 Done] (s, fs, {#})"
    and cat: "catalogue 1 (tb_products (se_committed s)) = [''S1'' \<mapsto> example_product]" by (rule example_platform_run)
  have job: "product_job (run_pandas example_run) example_files (config_of (tm_tenant_config example_message))
      example_log [example_product]"
    using example_conn example_rows example_ready(5) example_normalized
    by (auto simp: example_message product_job_def sendable_def example_product_def text_ok_def char_of_def)
  have rows: "job_rows 2 1 (se_committed example_server) = {example_log}" "sl_status example_log \<noteq> COMPLETED"
    using example_server_job(2) by (auto simp: job_rows_list job_list_def) (simp add: example_log_def new_sync_log_def)
  have none: "catalogue 1 (tb_products (se_committed example_server)) = Map.empty"
    using example_server_job(3) by (simp add: inventory_def catalogue_def fun_eq_iff)
  have path: "upload_path example_log = ''u''"
    by (simp add: upload_path_def example_log_def new_sync_log_def get_or_def)
  have own: "own_upload example_web 2 1 (upload_path example_log) (se_next_id s) example_server"
    unfolding path by (rule example_own_upload) (simp_all add: example_server_def example_db_def)
  have "catalogue 1 (tb_products (se_committed s)) \<in> {Map.empty, import_products [example_product] Map.empty}"
    using platform_imports_once [OF run example_server_ok(1) example_message(1) _ example_quiet job rows own] unfolding none
    by (simp add: waiting_def only_message_def)
  with run cat show ?thesis by (intro exI [of _ s] exI [of _ fs]) auto
qed

section \<open>Transaction jobs\<close>

text \<open>
  A job of a readable file whose rows all carry a date that can be read: no run reads it differently.  A row
  without one is taken to be of the time of the run (\<open>csv_to_datetime\<close>), so that a redelivery would not find it.
\<close>

definition dated_job ::
  "pandas \<Rightarrow> files \<Rightarrow> tenant_config \<Rightarrow> sync_log \<Rightarrow> NormalizedTransaction list \<Rightarrow> bool" where
  "dated_job pd fs tc job nts \<longleftrightarrow> get_or (tc_entity_type tc) ''products'' = ''transactions'' \<and>
     (\<exists>c. connector_for tc job = Inr c \<and> (\<forall>clock. fetch_transactions (readers_of pd fs) clock c = map Inr nts))"

lemma gone_transactions:
  assumes "connector_for tc l = Inr c" and "get_or (tc_entity_type tc) ''products'' = ''transactions''"
    and "fs (upload_path l) = None"
  shows "fetch_transactions (readers_of pd fs) clock c = [Inl ReadError]"
  using assms connector_reads [OF assms(1)] read_gone [of fs c pd "cc_sheet_name c"]
  by (simp add: fetch_transactions_def Let_def)

lemma same_transaction_rows:
  assumes "connector_for tc l = Inr c" and "gs (upload_path l) = fs (upload_path l)"
  shows "fetch_transactions (readers_of pd gs) clock c = fetch_transactions (readers_of pd fs) clock c"
  using assms connector_reads(1) [OF assms(1)] read_same [of gs c fs pd "cc_sheet_name c"]
  by (simp add: fetch_transactions_def)

definition all_recorded :: "uuid \<Rightarrow> NormalizedTransaction list \<Rightarrow> db \<Rightarrow> bool" where
  "all_recorded T nts d \<longleftrightarrow> (\<forall>nt \<in> set nts. row_recorded T nt d)"

lemma all_recorded_inventory: "inventory d' = inventory d \<Longrightarrow> all_recorded T nts d' = all_recorded T nts d"
  using recorded_inventory [of d' d T] by (simp add: all_recorded_def row_recorded_def split: sum.splits)

lemma all_recorded_rows: "tenant_rows T d' = tenant_rows T d \<Longrightarrow> all_recorded T nts d' = all_recorded T nts d"
proof -
  assume e: "tenant_rows T d' = tenant_rows T d"
  have f: "filter P ys = filter P xs"
    if "filter (\<lambda>x. g x = T) ys = filter (\<lambda>x. g x = T) xs" "\<And>x. P x \<Longrightarrow> g x = T" for g :: "'x \<Rightarrow> uuid" and P xs ys
  proof -
    have "filter P zs = filter P (filter (\<lambda>x. g x = T) zs)" for zs
      using that(2) by (induction zs) auto
    with that(1) show ?thesis by metis
  qed
  from e have rows: "filter (\<lambda>p. p_tenant p = T) (tb_products d') = filter (\<lambda>p. p_tenant p = T) (tb_products d)"
    "filter (\<lambda>l. l_tenant l = T) (tb_locations d') = filter (\<lambda>l. l_tenant l = T) (tb_locations d)"
    "filter (\<lambda>t. t_tenant t = T) (tb_transactions d') = filter (\<lambda>t. t_tenant t = T) (tb_transactions d)"
    by (simp_all add: tenant_rows_def)
  have "sku_rows T s d' = sku_rows T s d" for s
    unfolding sku_rows_def by (rule f [OF rows(1)]) simp
  moreover have "name_rows T k d' = name_rows T k d" for k
    unfolding name_rows_def by (rule f [OF rows(2)]) simp
  moreover have "movement_rows T pid lid v d' = movement_rows T pid lid v d" for pid lid v
    unfolding movement_rows_def by (rule f [OF rows(3)]) (simp add: same_transaction_def)
  ultimately have "recorded T v d' = recorded T v d" for v unfolding recorded_def by metis
  then show ?thesis by (simp add: all_recorded_def row_recorded_def split: sum.splits)
qed

lemma tenant_rows_inventory: "inventory d' = inventory d \<Longrightarrow> tenant_rows T d' = tenant_rows T d"
  by (simp add: inventory_def tenant_rows_def)

text \<open>A run changes the inventory only from a state that lacks a row to one that has them all.\<close>

lemma run_records:
  assumes j: "dated_job (run_pandas rn) fs tc job nts" and keys: "same_job i T job (se_committed w)"
    and files: "upload_left job fs gs" and run: "process_sync env rn i T tc (w, gs) = (r, w', gs')"
  shows "same_job i T job (se_committed w') \<and> upload_left job fs gs' \<and>
    (inventory (se_committed w') = inventory (se_committed w) \<or>
     \<not> all_recorded T nts (se_committed w) \<and> all_recorded T nts (se_committed w'))"
  using keys run
proof (cases rule: run_of_job)
  case raised
  then show ?thesis using same_job_step [OF keys] files by (simp add: not_completed_def)
next
  case (persisted u c d)
  let ?rd = "readers_of (run_pandas rn) gs"
  from j have type: "get_or (tc_entity_type tc) ''products'' = ''transactions''"
    and rows: "fetch_transactions (readers_of (run_pandas rn) fs) (run_clock rn) c = map Inr nts"
    using persisted(1) by (auto simp: dated_job_def)
  from persisted(2) type have p: "process_transactions env (fetch_transactions ?rd (run_clock rn) c) (new_normalizer T u) = (Inr (), d)"
    by (simp add: process_entities_rows)
  have fetch: "fetch_transactions ?rd (run_clock rn) c = map Inr nts"
  proof (cases "gs (upload_path job) = fs (upload_path job)")
    case True
    from same_transaction_rows [where gs = gs and fs = fs, OF persisted(1) True, of "run_pandas rn" "run_clock rn"] rows
    show ?thesis by (rule trans)
  next
    case False
    with files have "gs (upload_path job) = None" by (simp add: upload_left_def)
    from gone_transactions [where fs = gs, OF persisted(1) type this, of "run_pandas rn" "run_clock rn"] p
    show ?thesis by (simp add: process_transactions_def)
  qed
  have n: "se_db (new_normalizer T u) = se_db u" by (simp add: new_normalizer_def)
  note J = transaction_rows_read [OF new_normalizer_reads [OF persisted(4)] p [unfolded fetch] persisted(3), unfolded n]
  have "all_recorded T nts (se_committed w')"
    using J all_recorded_inventory [OF persisted(6)] by (simp add: all_recorded_def)
  moreover have "inventory (se_committed w') = inventory (se_committed w)" if "all_recorded T nts (se_committed w)"
    using J that all_recorded_inventory [OF persisted(5)] persisted(5,6) by (simp add: all_recorded_def)
  ultimately show ?thesis
    using persisted(7,8) upload_left_delete [OF files, of "Some job"] by (cases "all_recorded T nts (se_committed w)") simp_all
qed

text \<open>Before the rows are written, and after.\<close>

definition written_ok ::
  "bool \<Rightarrow> product list \<times> location list \<times> batch list \<times> txn list \<Rightarrow> pandas \<Rightarrow> tenant_config \<Rightarrow> uuid \<Rightarrow> uuid \<Rightarrow> sync_log
     \<Rightarrow> NormalizedTransaction list \<Rightarrow> files \<Rightarrow> db \<Rightarrow> files \<Rightarrow> bool" where
  "written_ok after x pd tc i T job nts fs d gs \<longleftrightarrow> dated_job pd fs tc job nts \<and> same_job i T job d \<and>
     upload_left job fs gs \<and>
     (if after then tenant_rows T d = x \<and> all_recorded T nts d else tenant_rows T d = x \<or> all_recorded T nts d)"

lemma written_rows:
  assumes "written_ok after x pd tc i T job nts fs d gs" "tenant_rows T d' = tenant_rows T d" "same_job i T job d'"
    "upload_left job fs gs'"
  shows "written_ok after x pd tc i T job nts fs d' gs'"
  using assms all_recorded_rows [OF assms(2), of nts] by (simp add: written_ok_def)

interpretation transaction_account: job_account "written_ok after x pd tc i T job nts fs" pd i T tc
  for after x pd tc i T job nts fs
proof unfold_locales
  fix d d' gs
  assume k: "written_ok after x pd tc i T job nts fs d gs"
  then have j: "same_job i T job d" "upload_left job fs gs" by (simp_all add: written_ok_def)
  show "written_ok after x pd tc i T job nts fs d' gs" if n: "not_completed i T d d'"
    using n same_job_step [OF j(1) n] j(2) by (intro written_rows [OF k] tenant_rows_inventory) (simp_all add: not_completed_def)
  show "written_ok after x pd tc i T job nts fs d (delete_stored (Some l) gs)" for l
    using j by (intro written_rows [OF k]) (simp_all add: upload_left_delete)
next
  fix w gs rn env r w' gs'
  assume k: "written_ok after x pd tc i T job nts fs (se_committed w) gs" and rn: "run_pandas rn = pd"
    and run: "process_sync env rn i T tc (w, gs) = (r, w', gs')"
  from k rn have j: "dated_job (run_pandas rn) fs tc job nts" "same_job i T job (se_committed w)" "upload_left job fs gs"
    by (simp_all add: written_ok_def)
  from run_records [OF j run] k j(3) tenant_rows_inventory [of "se_committed w'" "se_committed w" T]
    all_recorded_rows [of T "se_committed w'" "se_committed w" nts]
  show "written_ok after x pd tc i T job nts fs (se_committed w') gs' \<and> written_ok after x pd tc i T job nts fs (se_committed w') gs"
    by (auto simp: written_ok_def split: if_splits)
qed

interpretation steady_transaction: steady_job "written_ok after x pd tc i T job nts fs" pd i T tc "upload_path job"
  for after x pd tc i T job nts fs
proof
  fix d d' gs gs'
  assume k: "written_ok after x pd tc i T job nts fs d gs" and "tenant_rows T d' = tenant_rows T d"
    "job_rows i T d' \<subseteq> job_rows i T d" "gs' (upload_path job) = gs (upload_path job)"
  then show "written_ok after x pd tc i T job nts fs d' gs'"
    by (intro written_rows [OF k]) (auto simp: written_ok_def same_job_def upload_left_def)
qed

text \<open>
  Property C10.  Transaction jobs write once, although transactions have no key: if every row of the file carries
  a date that can be read, then while the job's message, or copies of it, are waiting, delivered, retried and delivered again, and any requests, but uploads of
  the tenant, and the jobs of other tenants come in between, the tenant's rows change at most once; once they are not what they were
  before the job, no later delivery changes them any more.
\<close>

theorem platform_writes_once:
  assumes "platform_run web pd (s, fs, M) tr (s', fs', M')" and "platform_run web pd (s', fs', M') tr' (s'', fs'', M'')"
    and "tables_ok s" "ids_of m = Some (i, T)" "only_message T m (s, fs, M)"
    and "no_uploads web pd T (s, fs, M) tr" "no_uploads web pd T (s', fs', M') tr'"
    and "dated_job pd fs (config_of (tm_tenant_config m)) job nts"
    and "job_rows i T (se_committed s) = {job}" "own_upload web i T (upload_path job) (se_next_id s'') s"
    and "tenant_rows T (se_committed s') \<noteq> tenant_rows T (se_committed s)"
  shows "tenant_rows T (se_committed s'') = tenant_rows T (se_committed s')"
proof -
  let ?tc = "config_of (tm_tenant_config m)"
  let ?K = "\<lambda>b x d. written_ok b x pd ?tc i T job nts fs d"
  have ids: "se_next_id s' \<le> se_next_id s''" using run_ids [OF assms(2)] by simp
  have "?K False (tenant_rows T (se_committed s)) (se_committed s) fs"
    using assms(8,9) by (simp add: written_ok_def same_job_def upload_left_def)
  then have K: "?K False (tenant_rows T (se_committed s)) (se_committed s') fs'" "only_message T m (s', fs', M')"
    "own_upload web i T (upload_path job) (se_next_id s'') s'"
    using assms(3,5,6,10) ids steady_transaction.platform_K [OF assms(1) refl assms(4)] by simp_all
  have ok: "tables_ok s'" using run_keeps(1) [OF assms(1)] assms(3) by simp
  have "?K True (tenant_rows T (se_committed s')) (se_committed s') fs'" using K(1) assms(11) by (simp add: written_ok_def)
  then have "?K True (tenant_rows T (se_committed s')) (se_committed s'') fs''"
    using K(2,3) ok assms(7) steady_transaction.platform_K [OF assms(2) refl assms(4)] by simp
  then show ?thesis by (simp add: written_ok_def)
qed

definition moving_server :: server where
  "moving_server = example_server\<lparr>se_committed := (se_committed example_server)
     \<lparr>tb_products := [product_of 1 0 3 example_product]\<rparr>\<rparr>"

definition moving_message :: task_message where
  "moving_message = \<lparr>tm_sync_log_id = uuid_text 2, tm_tenant_id = uuid_text 1,
     tm_tenant_config = [(''entity_type'', JStr ''transactions'')]\<rparr>"

lemma moving_message:
  "ids_of moving_message = Some (2, 1)" "config_of (tm_tenant_config moving_message) = moving_config"
  by (simp_all add: ids_of_def moving_message_def config_of_def moving_config_def)

text \<open>The worker dies when the rows are committed; the message is delivered again.\<close>

theorem platform_writes_once_witness:
  "\<exists>s fs r s' fs' M. platform_run example_web (run_pandas moving_run)
       (moving_server, example_files, {#(moving_message, 0)#}) [Died moving_message 0] (s, fs, {#(moving_message, 0)#}) \<and>
     platform_run example_web (run_pandas moving_run) (s, fs, {#(moving_message, 0)#}) [Worked moving_message 0 r] (s', fs', M) \<and>
     tenant_rows 1 (se_committed s) \<noteq> tenant_rows 1 (se_committed moving_server) \<and>
     tenant_rows 1 (se_committed s') = tenant_rows 1 (se_committed s)"
proof -
  let ?w = "worker_of moving_server"
  have w: "tenant_exists (se_committed ?w) 1"
    "filter (\<lambda>l. sl_id l = 2 \<and> sl_tenant l = 1) (tb_sync_logs (se_committed ?w)) = [example_log]"
    using example_server_job by (simp_all add: moving_server_def tenant_exists_def)
  from transactions_job_runs [OF example_ready(1) w moving_ready(4) moving_conn moving_ready(5) moving_rows] moving_ready(6)
  obtain w' fs' where run: "process_sync example_env moving_run 2 1 moving_config (?w, example_files) = (Inr (), w', fs')"
    by blast
  note J = transactions_job_reads [OF run w(2) moving_conn moving_ready(5) moving_rows]
  have "sku_rows 1 (nt_sku_code moved) (se_committed ?w) = [product_of 1 0 3 example_product]"
    by (simp add: sku_rows_def moving_server_def moved_def product_of_def example_product_def)
  then have "sku_rows 1 (nt_sku_code moved) (se_committed w') = [product_of 1 0 3 example_product]"
    using J(2) by (simp add: sku_rows_def grown_def names_kept_def)
  moreover have "text_ok (nt_sku_code moved)" "text_ok (nt_location_name moved)"
    using moved_fits by (simp_all add: movement_fits_def text_fits)
  ultimately have loc: "name_rows 1 (nt_location_name moved) (se_committed w') \<noteq> []"
    using J(1) by (simp add: row_recorded_def moved_normalizes recorded_def)
  let ?s = "leave_worker moving_server w'"
  have "(?s, example_files) \<in> set (deaths example_web moving_run moving_message 0 (moving_server, example_files))"
    using run by (simp add: deaths_def moving_message interrupted_def example_server_job(4))
  from platform_step.died [where M = "{#}", OF this refl]
  have r1: "platform_run example_web (run_pandas moving_run) (moving_server, example_files, {#(moving_message, 0)#})
      ([] @ [Died moving_message 0]) (?s, example_files, {#(moving_message, 0)#})"
    by (intro run_next [OF run_nothing])
  obtain r s' gs where "run_message example_web moving_run moving_message 0 (?s, example_files) = (r, s', gs)"
    by (metis prod_cases3)
  from platform_step.worked [where M = "{#}", OF this refl] obtain M where
    r2: "platform_run example_web (run_pandas moving_run) (?s, example_files, {#(moving_message, 0)#})
      ([] @ [Worked moving_message 0 r]) (s', gs, M)"
    using run_next [OF run_nothing] by metis
  have ne: "tenant_rows 1 (se_committed ?s) \<noteq> tenant_rows 1 (se_committed moving_server)"
  proof
    assume "tenant_rows 1 (se_committed ?s) = tenant_rows 1 (se_committed moving_server)"
    then have "filter (\<lambda>l. l_tenant l = 1) (tb_locations (se_committed w')) = []"
      using example_server_job(3) by (simp add: tenant_rows_def moving_server_def inventory_def)
    with loc show False by (auto simp: name_rows_def filter_empty_conv)
  qed
  have job: "dated_job (run_pandas moving_run) example_files (config_of (tm_tenant_config moving_message))
      example_log [moved]"
    using moving_conn moving_rows moving_ready(5) by (auto simp: moving_message dated_job_def)
  have rows: "job_rows 2 1 (se_committed moving_server) = {example_log}"
    using w(2) by (simp add: job_rows_list job_list_def)
  have ok: "tables_ok moving_server" using example_server_ok(1) by (simp add: tables_ok_def moving_server_def wf_users_def tenant_exists_def)
  have path: "upload_path example_log = ''u''"
    by (simp add: upload_path_def example_log_def new_sync_log_def get_or_def)
  have own: "own_upload example_web 2 1 (upload_path example_log) (se_next_id s') moving_server"
    unfolding path by (rule example_own_upload) (simp_all add: moving_server_def example_server_def example_db_def)
  from platform_writes_once [OF r1 r2 ok moving_message(1) _ example_quiet example_quiet job rows own ne]
  have "tenant_rows 1 (se_committed s') = tenant_rows 1 (se_committed ?s)" by (simp add: waiting_def only_message_def)
  with r1 r2 ne show ?thesis
    by (intro exI [of _ ?s] exI [of _ example_files] exI [of _ r] exI [of _ s'] exI [of _ gs] exI [of _ M]) simp
qed

end
