(* ===== verification/Batches.thy ===== *)
theory Batches
  imports Movements
begin

text \<open>
  Jobs of batches: when the database answers and the rows fit the columns they complete, and the last row
  of a batch is what is stored of it.
\<close>

section \<open>What is stored of a batch\<close>

definition lookup_batch :: "uuid \<Rightarrow> string \<Rightarrow> uuid \<Rightarrow> db \<Rightarrow> batch option" where
  "lookup_batch T no pid d = find (\<lambda>b. batch_key b = (T, no, pid)) (tb_batches d)"

text \<open>A row is about the batch of the product that its SKU finds.\<close>

definition about_batch :: "uuid \<Rightarrow> db \<Rightarrow> string \<Rightarrow> uuid \<Rightarrow> NormalizedBatch \<Rightarrow> bool" where
  "about_batch T d no pid nb \<longleftrightarrow> nb_batch_no nb = no \<and> (\<exists>p. sku_rows T (nb_sku_code nb) d = [p] \<and> p_id p = pid)"

text \<open>The location that a name stands for.\<close>

definition located :: "uuid \<Rightarrow> string option \<Rightarrow> db \<Rightarrow> uuid option \<Rightarrow> bool" where
  "located T name d lid \<longleftrightarrow> (case name of
     None \<Rightarrow> lid = None
   | Some n \<Rightarrow> if n = [] then lid = None else \<exists>l. name_rows T n d = [l] \<and> lid = Some (l_id l))"

definition batch_says :: "NormalizedBatch \<Rightarrow> uuid option \<Rightarrow> batch \<Rightarrow> bool" where
  "batch_says nb lid b \<longleftrightarrow> b_manufactured_date b = nb_manufactured_date nb \<and> b_expiry_date b = nb_expiry_date nb \<and>
     b_quantity b = nb_quantity nb \<and> b_location_id b = lid"

definition batch_recorded :: "uuid \<Rightarrow> string \<Rightarrow> uuid \<Rightarrow> NormalizedBatch \<Rightarrow> db \<Rightarrow> bool" where
  "batch_recorded T no pid nb d \<longleftrightarrow>
     (\<forall>n. nb_location_name nb = Some n \<and> n \<noteq> [] \<longrightarrow> name_rows T n d \<noteq> []) \<and>
     (\<forall>lid. located T (nb_location_name nb) d lid \<longrightarrow> (\<exists>b. lookup_batch T no pid d = Some b \<and> batch_says nb lid b))"

definition batch_fits :: "NormalizedBatch \<Rightarrow> bool" where
  "batch_fits nb \<longleftrightarrow> text_ok (nb_sku_code nb) \<and> varchar 100 (nb_batch_no nb) \<and> int8 (nb_quantity nb) \<and>
     (\<forall>n. nb_location_name nb = Some n \<longrightarrow> varchar 255 n)"

lemma about_batch_products: "tb_products d = tb_products d' \<Longrightarrow> about_batch T d = about_batch T d'"
  by (intro ext) (simp add: about_batch_def sku_rows_def)

lemma batch_recorded_kept:
  assumes "batch_recorded T no pid nb d" "names_kept T d d'" "lookup_batch T no pid d' = lookup_batch T no pid d"
  shows "batch_recorded T no pid nb d'"
  using assms unfolding batch_recorded_def located_def names_kept_def
  by (auto split: option.splits if_splits)

section \<open>One row\<close>

lemma batch_location_runs:
  assumes a: "answering env" and t: "tracking T m r w" and R: "reading T w" and n: "\<And>n. name = Some n \<Longrightarrow> varchar 255 n"
  shows "\<exists>q u. batch_location env name w = (q, u) \<and> tracking T m r u \<and> reading T u \<and> names_kept T (se_db w) (se_db u) \<and>
    tb_transactions (se_db u) = tb_transactions (se_db w) \<and>
    (\<forall>n. name = Some n \<and> n \<noteq> [] \<longrightarrow> name_rows T n (se_db u) \<noteq> []) \<and>
    (case q of Inl _ \<Rightarrow> \<forall>lid. \<not> located T name (se_db u) lid | Inr lid \<Rightarrow> located T name (se_db u) lid)"
proof (cases "\<exists>n. name = Some n \<and> n \<noteq> []")
  case False
  then show ?thesis using t R
    by (auto simp: batch_location_def located_def names_kept_def split: option.splits)
next
  case True
  then obtain n where name: "name = Some n" "n \<noteq> []" by blast
  from resolve_location_runs [OF a t n [OF name(1)] R] obtain q u where u: "resolve_location env n w = (q, u)"
    "tracking T m r u" by blast
  note L = resolve_location_reads [OF R u(1) tracking_live [OF u(2)]]
  have "text_ok n" using n [OF name(1)] by (simp add: text_fits)
  then show ?thesis using name u L
    by (cases q) (auto simp: batch_location_def sbind_def located_def)
qed

text \<open>As long as the transaction lives, looking for a location changes no batch.\<close>

definition batches_stay :: "batch list \<Rightarrow> worker \<Rightarrow> bool" where
  "batches_stay x w \<longleftrightarrow> dead w \<or> tb_batches (se_db w) = x"

interpretation batches_stay: session_invariant "batches_stay x" for x
  by unfold_locales (auto simp: batches_stay_def tick_def flush_failed_def dead_def)

lemma location_keeps_batches:
  assumes "batches_stay x w"
  shows "batches_stay x (snd (batch_location env name w))"
proof -
  have put: "batches_stay x (put_location env n u)" "batches_stay x (cache_location n i u)" if "batches_stay x u" for n i u
    using that by (simp_all add: batches_stay_def put_location_def cache_location_def dead_def)
  have "batches_stay x (snd (resolve_location env n u))" if "batches_stay x u" for n u
    unfolding resolve_location_def create_location_def using that
    by (auto split: option.splits simp: put
        intro!: sbind_keeps_inv [where P = "batches_stay x"] batches_stay.inv_select batches_stay.inv_add_and_flush)
  then show ?thesis
    using assms by (auto simp: batch_location_def split: option.splits intro!: sbind_keeps_inv [where P = "batches_stay x"])
qed

lemma write_batch_runs:
  assumes a: "answering env" and t: "tracking T m r w" and R: "reading T w" and fits: "batch_fits nb"
    and refs: "product_exists (se_db w) pid" "\<And>l. lid = Some l \<Longrightarrow> location_exists (se_db w) l"
  shows "\<exists>i u. write_batch env pid lid nb w = (Inr i, u) \<and> tracking T m r u \<and> reading T u \<and>
    tb_products (se_db u) = tb_products (se_db w) \<and> tb_locations (se_db u) = tb_locations (se_db w) \<and>
    tb_transactions (se_db u) = tb_transactions (se_db w) \<and>
    (\<forall>no p. if no = nb_batch_no nb \<and> p = pid then \<exists>b. lookup_batch T no p (se_db u) = Some b \<and> batch_says nb lid b
      else lookup_batch T no p (se_db u) = lookup_batch T no p (se_db w))"
proof -
  have T: "nz_tenant w = T" using R by (simp add: reading_def)
  let ?st = "UpsertBatch (batch_of (nz_tenant w) (sql_now env w) (se_next_id w) pid lid nb)"
  let ?eff = "\<lambda>w. let w = put_batch env pid lid nb w in
    (Inr (id_of_key batch_key b_id (nz_tenant w, nb_batch_no nb, pid) (tb_batches (se_db w))), w)"
  have "\<exists>u. execute env ?st ?eff w = ?eff (tick u) \<and> tracking T m r (tick u) \<and>
      inventory (se_db u) = inventory (se_db w) \<and> session.more u = session.more w"
    using fits refs T
    by (intro execute_runs [OF a t])
      (auto simp: batch_of_def batch_fits_def text_fits inventory_def product_exists_def location_exists_def split: option.splits)
  then obtain u where u: "write_batch env pid lid nb w = ?eff (tick u)" "tracking T m r (tick u)"
    "inventory (se_db u) = inventory (se_db w)" "session.more u = session.more w"
    unfolding write_batch_def by blast
  let ?v = "put_batch env pid lid nb (tick u)"
  note more = worker_more [OF u(4)]
  have "tracking T m r ?v" using u(2) by (simp add: tracking_def writable_def put_batch_def tenant_exists_def)
  moreover have inv: "tb_products (se_db ?v) = tb_products (se_db w)" "tb_locations (se_db ?v) = tb_locations (se_db w)"
    "tb_transactions (se_db ?v) = tb_transactions (se_db w)"
    using u(3) by (simp_all add: put_batch_def inventory_def)
  moreover have "reading T ?v"
  proof -
    have "se_context ?v = RuntimeRole (Some T)" using u(2) by (simp add: put_batch_def tracking_def writable_def)
    moreover have "nz_tenant ?v = T" "nz_product_cache ?v = nz_product_cache w" "nz_location_cache ?v = nz_location_cache w"
      using more T by (simp_all add: put_batch_def)
    ultimately show ?thesis using R inv by (simp add: reading_def sku_rows_def name_rows_def)
  qed
  moreover have "if no = nb_batch_no nb \<and> p = pid then \<exists>b. lookup_batch T no p (se_db ?v) = Some b \<and> batch_says nb lid b
      else lookup_batch T no p (se_db ?v) = lookup_batch T no p (se_db w)" for no p
  proof -
    have b: "tb_batches (se_db u) = tb_batches (se_db w)" using u(3) by (simp add: inventory_def)
    have "lookup_batch T no p (se_db ?v) = (if no = nb_batch_no nb \<and> p = pid
        then Some (case lookup_batch T no p (se_db w) of
            None \<Rightarrow> batch_of T (sql_now env u) (se_next_id u) pid lid nb | Some b \<Rightarrow> set_batch (sql_now env u) lid nb b)
        else lookup_batch T no p (se_db w))"
      using more T b by (simp add: lookup_batch_def put_batch_def batches.find_upsert)
    then show ?thesis
      by (auto simp: batch_says_def set_batch_def batch_of_def split: option.splits)
  qed
  ultimately show ?thesis using u(1) by (auto simp: Let_def)
qed

lemma store_batch_runs:
  assumes a: "answering env" and t: "tracking T m r w" and R: "reading T w" and fits: "batch_fits nb"
    and refs: "product_exists (se_db w) pid" "\<And>l. lid = Some l \<Longrightarrow> location_exists (se_db w) l"
  shows "\<exists>i u. sbind (write_batch env pid lid nb) (\<lambda>i. sbind (flush_log env) (\<lambda>_ w. (Inr i, w))) w = (Inr i, u) \<and>
    tracking T m r u \<and> reading T u \<and>
    tb_products (se_db u) = tb_products (se_db w) \<and> tb_locations (se_db u) = tb_locations (se_db w) \<and>
    tb_transactions (se_db u) = tb_transactions (se_db w) \<and>
    (\<forall>no p. if no = nb_batch_no nb \<and> p = pid then \<exists>b. lookup_batch T no p (se_db u) = Some b \<and> batch_says nb lid b
      else lookup_batch T no p (se_db u) = lookup_batch T no p (se_db w))"
proof -
  from write_batch_runs [OF assms] obtain i z where z: "write_batch env pid lid nb w = (Inr i, z)" "tracking T m r z" "reading T z"
    "tb_products (se_db z) = tb_products (se_db w)" "tb_locations (se_db z) = tb_locations (se_db w)"
    "tb_transactions (se_db z) = tb_transactions (se_db w)"
    "\<forall>no p. if no = nb_batch_no nb \<and> p = pid then \<exists>b. lookup_batch T no p (se_db z) = Some b \<and> batch_says nb lid b
      else lookup_batch T no p (se_db z) = lookup_batch T no p (se_db w)" by blast
  obtain u where u: "flush_log env z = (Inr (), u)" "tracking T m r u" "inventory (se_db u) = inventory (se_db z)"
    using flush_runs [OF a z(2)] by blast
  have "lookup_batch T no p (se_db u) = lookup_batch T no p (se_db z)" for no p
    using u(3) by (simp add: lookup_batch_def inventory_def)
  moreover have "tb_products (se_db u) = tb_products (se_db w)" "tb_locations (se_db u) = tb_locations (se_db w)"
    "tb_transactions (se_db u) = tb_transactions (se_db w)" using u(3) z(4-6) by (simp_all add: inventory_def)
  ultimately show ?thesis
    using z(1,7) u(1,2) reading_same [OF z(3) flush_same [OF u(1)]] by (auto simp: sbind_def)
qed

text \<open>A row of a known product and a location that is found is stored; any other row changes no batch.\<close>

definition row_applied :: "uuid \<Rightarrow> NormalizedBatch \<Rightarrow> db \<Rightarrow> db \<Rightarrow> bool" where
  "row_applied T nb d d' \<longleftrightarrow> names_kept T d d' \<and> tb_transactions d' = tb_transactions d \<and>
     (\<forall>no pid. if about_batch T d no pid nb then batch_recorded T no pid nb d'
       else lookup_batch T no pid d' = lookup_batch T no pid d)"

lemma located_batch_runs:
  assumes a: "answering env" and t: "tracking T m r w" and R: "reading T w" and fits: "batch_fits nb"
    and p: "sku_rows T (nb_sku_code nb) (se_db w) = [p]"
  shows "\<exists>q u. sbind (batch_location env (nb_location_name nb)) (\<lambda>lid. sbind (write_batch env (p_id p) lid nb) (\<lambda>i.
      sbind (flush_log env) (\<lambda>_ w. (Inr i, w)))) w = (q, u) \<and> tracking T m r u \<and> reading T u \<and> row_applied T nb (se_db w) (se_db u)"
proof -
  have about: "about_batch T (se_db w) no i nb \<longleftrightarrow> no = nb_batch_no nb \<and> i = p_id p" for no i
    using p by (auto simp: about_batch_def)
  obtain c y where y: "batch_location env (nb_location_name nb) w = (c, y)" and ty: "tracking T m r y" and Ry: "reading T y"
    and ky: "names_kept T (se_db w) (se_db y)" and sy: "tb_transactions (se_db y) = tb_transactions (se_db w)"
    and ny: "\<forall>n. nb_location_name nb = Some n \<and> n \<noteq> [] \<longrightarrow> name_rows T n (se_db y) \<noteq> []"
    and c: "case c of Inl _ \<Rightarrow> \<forall>lid. \<not> located T (nb_location_name nb) (se_db y) lid
      | Inr lid \<Rightarrow> located T (nb_location_name nb) (se_db y) lid"
    using batch_location_runs [OF a t R, of "nb_location_name nb"] fits unfolding batch_fits_def by blast
  have look: "lookup_batch T no i (se_db y) = lookup_batch T no i (se_db w)" for no i
    using location_keeps_batches [of "tb_batches (se_db w)" w env "nb_location_name nb"] y tracking_live [OF ty]
    by (simp add: lookup_batch_def batches_stay_def)
  show ?thesis
  proof (cases c)
    case (Inl e)
    have "batch_recorded T no i nb (se_db y)" for no i
      using c Inl ny by (simp add: batch_recorded_def)
    with y Inl ty Ry ky sy look show ?thesis by (simp add: sbind_def row_applied_def)
  next
    case (Inr lid)
    have prod: "product_exists (se_db y) (p_id p)"
      using p ky by (auto simp: product_exists_def sku_rows_def names_kept_def filter_eq_Cons_iff)
    have loc: "location_exists (se_db y) l" if "lid = Some l" for l
      using c Inr that
      by (auto simp: located_def location_exists_def name_rows_def filter_eq_Cons_iff split: option.splits if_splits)
    from store_batch_runs [OF a ty Ry fits prod loc] obtain i u where
      u: "sbind (write_batch env (p_id p) lid nb) (\<lambda>i. sbind (flush_log env) (\<lambda>_ w. (Inr i, w))) y = (Inr i, u)"
        "tracking T m r u" "reading T u"
      and du: "tb_products (se_db u) = tb_products (se_db y)" "tb_locations (se_db u) = tb_locations (se_db y)"
        "tb_transactions (se_db u) = tb_transactions (se_db y)"
      and bu: "\<And>no j. if no = nb_batch_no nb \<and> j = p_id p then \<exists>b. lookup_batch T no j (se_db u) = Some b \<and> batch_says nb lid b
        else lookup_batch T no j (se_db u) = lookup_batch T no j (se_db y)" by blast
    have names: "name_rows T n (se_db u) = name_rows T n (se_db y)" for n using du by (simp add: name_rows_def)
    have only: "located T (nb_location_name nb) (se_db u) k \<longleftrightarrow> k = lid" for k
      using c Inr by (auto simp: located_def names split: option.splits if_splits)
    have "if about_batch T (se_db w) no j nb then batch_recorded T no j nb (se_db u)
        else lookup_batch T no j (se_db u) = lookup_batch T no j (se_db w)" for no j
      using bu [of no j] ny look by (auto simp: about batch_recorded_def names only)
    moreover have "names_kept T (se_db w) (se_db u)" using ky names du by (simp add: names_kept_def)
    ultimately show ?thesis using y Inr u du sy by (auto simp: sbind_def row_applied_def)
  qed
qed

lemma row_applied_refl: "(\<And>no pid. \<not> about_batch T d no pid nb) \<Longrightarrow> inventory d' = inventory d \<Longrightarrow> row_applied T nb d d'"
  using names_kept_inventory [of d' d T] by (simp add: row_applied_def inventory_def lookup_batch_def)

lemma lookup_inventory: "inventory d = inventory e \<Longrightarrow> lookup_batch T no pid d = lookup_batch T no pid e"
  by (simp add: lookup_batch_def inventory_def)

lemma row_applied_from: "row_applied T nb d d'' \<Longrightarrow> inventory d = inventory e \<Longrightarrow> row_applied T nb e d''"
  using names_kept_trans [OF names_kept_inventory [of d e T], of d''] about_batch_products [of d e T]
    lookup_inventory [of d e T]
  by (simp add: row_applied_def inventory_def)

lemma upsert_batch_runs:
  assumes a: "answering env" and t: "tracking T m r w" and R: "reading T w" and fits: "batch_fits nb"
  shows "\<exists>q u. upsert_batch env nb w = (q, u) \<and> tracking T m r u \<and> reading T u \<and> row_applied T nb (se_db w) (se_db u)"
proof -
  obtain b x where x: "resolve_product env (nb_sku_code nb) w = (b, x)" "tracking T m r x"
    using resolve_product_runs [OF a t, of "nb_sku_code nb"] fits unfolding batch_fits_def by blast
  note P = resolve_product_reads [OF R x(1) tracking_live [OF x(2)]]
  show ?thesis
  proof (cases b)
    case (Inl e)
    with P(3) fits have "\<not> about_batch T (se_db w) no pid nb" for no pid by (auto simp: about_batch_def batch_fits_def)
    with x Inl P row_applied_refl [OF _ P(2)] show ?thesis by (simp add: upsert_batch_def sbind_def)
  next
    case (Inr pid)
    with P(3) obtain p where p: "sku_rows T (nb_sku_code nb) (se_db w) = [p]" "p_id p = pid" by auto
    then have "sku_rows T (nb_sku_code nb) (se_db x) = [p]" using P(2) by (simp add: sku_rows_def inventory_def)
    from located_batch_runs [OF a x(2) P(1) fits this] obtain q u where
      "sbind (batch_location env (nb_location_name nb)) (\<lambda>lid. sbind (write_batch env (p_id p) lid nb) (\<lambda>i.
        sbind (flush_log env) (\<lambda>_ w. (Inr i, w)))) x = (q, u)"
      "tracking T m r u" "reading T u" "row_applied T nb (se_db x) (se_db u)" by blast
    moreover from this(1) x(1) Inr p(2) have "upsert_batch env nb w = (q, u)" by (simp add: upsert_batch_def sbind_def)
    ultimately show ?thesis using row_applied_from [OF _ P(2)] by blast
  qed
qed

section \<open>The rows of a file\<close>

text \<open>The last normalized row about a batch.\<close>

definition valid_rows :: "NormalizedBatch list \<Rightarrow> NormalizedBatch list" where
  "valid_rows nbs = concat (map (\<lambda>nb. case normalize_batch (batch_row nb) [] of Inl _ \<Rightarrow> [] | Inr v \<Rightarrow> [v]) nbs)"

definition last_about :: "uuid \<Rightarrow> db \<Rightarrow> string \<Rightarrow> uuid \<Rightarrow> NormalizedBatch list \<Rightarrow> NormalizedBatch option" where
  "last_about T d no pid vs = find (about_batch T d no pid) (rev vs)"

definition rows_applied :: "uuid \<Rightarrow> NormalizedBatch list \<Rightarrow> db \<Rightarrow> db \<Rightarrow> bool" where
  "rows_applied T vs d d' \<longleftrightarrow> names_kept T d d' \<and> tb_transactions d' = tb_transactions d \<and>
     (\<forall>no pid. case last_about T d no pid vs of
        None \<Rightarrow> lookup_batch T no pid d' = lookup_batch T no pid d
      | Some v \<Rightarrow> batch_recorded T no pid v d')"

lemma find_in_append: "find P (xs @ ys) = (case find P xs of None \<Rightarrow> find P ys | Some x \<Rightarrow> Some x)"
  by (induction xs) simp_all

lemma rows_applied_same: "inventory d' = inventory d \<Longrightarrow> rows_applied T [] d d'"
  using names_kept_inventory [of d' d T] lookup_inventory [of d' d T]
  by (simp add: rows_applied_def last_about_def inventory_def)

lemmas rows_applied_refl = rows_applied_same [OF refl]

lemma rows_applied_one: "row_applied T v d e \<Longrightarrow> rows_applied T [v] d e"
  unfolding row_applied_def rows_applied_def last_about_def by auto

lemma rows_applied_append:
  assumes r: "rows_applied T us c d" and rs: "rows_applied T vs d e"
  shows "rows_applied T (us @ vs) c e"
proof -
  have k: "names_kept T c d" "names_kept T d e" "tb_transactions e = tb_transactions c"
    using r rs by (simp_all add: rows_applied_def)
  have about: "last_about T d = last_about T c"
    using k(1) about_batch_products [of d c T] by (intro ext) (simp add: names_kept_def last_about_def)
  have find: "last_about T c no pid (us @ vs) =
      (case last_about T c no pid vs of None \<Rightarrow> last_about T c no pid us | Some v \<Rightarrow> Some v)" for no pid
    by (simp add: last_about_def find_in_append split: option.splits)
  have "case last_about T c no pid (us @ vs) of None \<Rightarrow> lookup_batch T no pid e = lookup_batch T no pid c
      | Some v \<Rightarrow> batch_recorded T no pid v e" for no pid
  proof (cases "last_about T c no pid vs")
    case (Some u)
    have "case last_about T d no pid vs of None \<Rightarrow> lookup_batch T no pid e = lookup_batch T no pid d
      | Some v \<Rightarrow> batch_recorded T no pid v e" using rs unfolding rows_applied_def by blast
    with Some show ?thesis by (simp add: find about)
  next
    case None
    have "case last_about T d no pid vs of None \<Rightarrow> lookup_batch T no pid e = lookup_batch T no pid d
      | Some v \<Rightarrow> batch_recorded T no pid v e" using rs unfolding rows_applied_def by blast
    then have same: "lookup_batch T no pid e = lookup_batch T no pid d" using None by (simp add: about)
    have "case last_about T c no pid us of None \<Rightarrow> lookup_batch T no pid d = lookup_batch T no pid c
      | Some v \<Rightarrow> batch_recorded T no pid v d" using r unfolding rows_applied_def by blast
    with None same batch_recorded_kept [OF _ k(2) same] show ?thesis by (auto simp: find split: option.splits)
  qed
  then show ?thesis using k names_kept_trans unfolding rows_applied_def by blast
qed

lemma process_batches_runs:
  assumes a: "answering env"
    and fits: "\<And>nb v. nb \<in> set nbs \<Longrightarrow> normalize_batch (batch_row nb) [] = Inr v \<Longrightarrow> batch_fits v"
    and "tracking T (length nbs + m) r w" "reading T w"
  shows "\<exists>u p k. process_batches env (map Inr nbs) w = (Inr (), u) \<and> tracking T m (tally p k r) u \<and>
    rows_applied T (valid_rows nbs) (se_db w) (se_db u)"
  using assms(2-)
proof (induction nbs arbitrary: r w)
  case Nil
  have "tally 0 0 r = r" by (simp add: tally_def)
  moreover have "rows_applied T [] (se_db w) (se_db w)"
    by (simp add: rows_applied_def last_about_def names_kept_def)
  ultimately show ?case using Nil.prems(2)
    by (intro exI [of _ w] exI [of _ 0]) (simp add: process_batches_def valid_rows_def)
next
  case (Cons nb nbs)
  let ?Q = "\<lambda>x. reading T x \<and> rows_applied T (valid_rows [nb]) (se_db w) (se_db x)"
  have one: "rows_applied T (valid_rows [nb]) (se_db w) d"
    if "case normalize_batch (batch_row nb) [] of Inl _ \<Rightarrow> d = se_db w | Inr v \<Rightarrow> row_applied T v (se_db w) d" for d
    using that by (auto simp: valid_rows_def rows_applied_refl rows_applied_one split: sum.splits)
  have "\<exists>x p k. process_batch env nb w = (Inr (), x) \<and> tracking T (length nbs + m) (tally p k r) x \<and> ?Q x"
    unfolding process_batch_def
  proof (rule account_row_runs_with)
    show "tracking T (Suc (length nbs + m)) r w" using Cons.prems(2) by simp
    show "?Q u" if "log_only u v" "?Q v" for u v using that reading_log log_only_sel(1) by simp
    show "?Q w" if "normalize_batch (batch_row nb) [] = Inl e" for e using that Cons.prems(3) one by simp
    fix v u k assume v: "normalize_batch (batch_row nb) [] = Inr v" and u: "log_only u w" "tracking T (length nbs + m) k u"
    have "reading T u" "se_db u = se_db w" using reading_log [OF u(1)] log_only_sel(1) [OF u(1)] Cons.prems(3) by simp_all
    with upsert_batch_runs [OF a u(2) _ Cons.prems(1) [OF _ v]] one v
    show "\<exists>q x. upsert_batch env v u = (q, x) \<and> tracking T (length nbs + m) k x \<and> ?Q x" by fastforce
  qed
  then obtain x p k where x: "process_batch env nb w = (Inr (), x)" "tracking T (length nbs + m) (tally p k r) x"
    "reading T x" "rows_applied T (valid_rows [nb]) (se_db w) (se_db x)" by blast
  from Cons.IH [OF _ x(2,3)] Cons.prems(1) obtain u p' k' where
    u: "process_batches env (map Inr nbs) x = (Inr (), u)" "tracking T m (tally p' k' (tally p k r)) u"
      "rows_applied T (valid_rows nbs) (se_db x) (se_db u)" by fastforce
  have "rows_applied T (valid_rows [nb] @ valid_rows nbs) (se_db w) (se_db u)"
    using x(4) u(3) by (rule rows_applied_append)
  moreover have "valid_rows (nb # nbs) = valid_rows [nb] @ valid_rows nbs" by (simp add: valid_rows_def)
  ultimately show ?case using x(1) u by (auto simp: process_batches_def sbind_def tally_tally)
qed

section \<open>The job\<close>

lemma batches_job_runs:
  assumes a: "answering env" and tenant: "tenant_exists (se_committed w) T"
    and job: "filter (\<lambda>l. sl_id l = i \<and> sl_tenant l = T) (tb_sync_logs (se_committed w)) = [l]"
    and room: "room (length nbs) l" and conn: "connector_for tc l = Inr c"
    and type: "get_or (tc_entity_type tc) ''products'' = ''batches''"
    and rows: "fetch_batches (readers_of (run_pandas rn) fs) c = map Inr nbs"
    and fits: "\<And>nb v. nb \<in> set nbs \<Longrightarrow> normalize_batch (batch_row nb) [] = Inr v \<Longrightarrow> batch_fits v"
  shows "\<exists>w' fs' p k. process_sync env rn i T tc (w, fs) = (Inr (), w', fs') \<and>
    map_option (\<lambda>r. r\<lparr>sl_errors := None\<rparr>) (job_row w') =
      Some (mark_completed (run_completed rn) (tally p k (running (run_started rn) l))) \<and>
    rows_applied T (valid_rows nbs) (se_committed w) (se_committed w')"
proof -
  let ?Q = "\<lambda>(_::nat) (_::nat) x. \<forall>d. inventory d = x \<longrightarrow> rows_applied T (valid_rows nbs) (se_committed w) d"
  have loop: "\<exists>v p k. process_entities env rn (readers_of (run_pandas rn) fs) tc c u = (Inr (), v) \<and>
      tracking T 0 (tally p k (running (run_started rn) l)) v \<and> ?Q p k (inventory (se_db v))"
    if u: "tracking T (length nbs) (running (run_started rn) l) u" "u = new_normalizer T u"
      "inventory (se_db u) = inventory (se_committed w)" for u
  proof -
    have "reading T u"
      using u(1,2) by (metis (no_types, lifting) new_normalizer_reads tracking_def writable_def)
    with process_batches_runs [OF a, of nbs T 0 "running (run_started rn) l" u] fits u(1) obtain v p k where
      v: "process_batches env (map Inr nbs) u = (Inr (), v)" "tracking T 0 (tally p k (running (run_started rn) l)) v"
        "rows_applied T (valid_rows nbs) (se_db u) (se_db v)" by auto
    have "?Q p k (inventory (se_db v))"
      using rows_applied_append [OF rows_applied_same [OF u(3)] rows_applied_append [OF v(3) rows_applied_same]] by simp
    with v type rows show ?thesis by (intro exI [of _ v]) (auto simp: process_entities_rows)
  qed
  show ?thesis by (rule job_runs [OF a tenant job room conn, where Q = ?Q, OF loop]) blast+
qed

section \<open>An example\<close>

text \<open>Two rows of one batch: the second one puts it into a location.\<close>

definition shelving_frame :: frame where
  "shelving_frame = [[(''SKU Code'', Cell ''S1''), (''Batch No'', Cell ''B''), (''Location'', Missing)],
     [(''SKU Code'', Cell ''S1''), (''Batch No'', Cell ''B''), (''Location'', Cell ''W'')]]"

definition shelving_run :: run where
  "shelving_run = example_run\<lparr>run_pandas := \<lparr>parse_csv = \<lambda>_ _. Inr shelving_frame, parse_excel = \<lambda>_ _. Inr shelving_frame\<rparr>\<rparr>"

definition shelving_config :: tenant_config where
  "shelving_config = \<lparr>tc_csv_mappings = None, tc_entity_type = Some ''batches''\<rparr>"

definition shelving_connector :: CSVConnector where
  "shelving_connector = csv_init \<lparr>cfg_file_path = ''u'', cfg_mappings = Some [], cfg_delimiter = None,
     cfg_sheet_name = None, cfg_entity_type = Some ''batches''\<rparr>"

definition shelved :: "string option \<Rightarrow> NormalizedBatch" where
  "shelved place = \<lparr>nb_sku_code = ''S1'', nb_batch_no = ''B'', nb_manufactured_date = None,
     nb_expiry_date = None, nb_quantity = 0, nb_location_name = place\<rparr>"

lemma shelving_conn: "connector_for shelving_config example_log = Inr shelving_connector"
  by (simp add: connector_for_def shelving_config_def example_log_def new_sync_log_def factory_get_def
      registry_def factory_register_def get_or_def shelving_connector_def)

lemma strip_B: "strip ''B'' = ''B''"
  by (simp add: strip_def is_space_def)

lemma shelving_record:
  "map_to_batch [(''SKU Code'', VStr ''S1''), (''Batch No'', VStr ''B'')] DEFAULT_BATCH_MAPPING = Inr (shelved None)"
  "map_to_batch [(''SKU Code'', VStr ''S1''), (''Batch No'', VStr ''B''), (''Location'', VStr ''W'')] DEFAULT_BATCH_MAPPING =
     Inr (shelved (Some ''W''))"
  by (simp_all add: map_to_batch_def csv_apply_mapping_def DEFAULT_BATCH_MAPPING_def strip_plain strip_B moving_parts
      opt_text_def shelved_def del: csv_to_int.simps)

lemma shelving_rows:
  "fetch_batches (readers_of (run_pandas shelving_run) example_files) shelving_connector =
     map Inr [shelved None, shelved (Some ''W'')]"
proof -
  have "read_dataframe (readers_of (run_pandas shelving_run) example_files) shelving_connector
      (cc_sheet_name shelving_connector) = Inr shelving_frame"
    by (simp add: read_dataframe_def path_suffix_def path_name_def name_suffix_def lower_def readers_of_def
        example_files_def shelving_run_def shelving_connector_def csv_init_def get_or_def)
  then show ?thesis
    by (simp add: fetch_batches_def rows_of_def shelving_frame_def dropna_def shelving_record shelving_connector_def
        csv_init_def get_or_def dict_get_or_def)
qed

lemma shelved_normalizes: "place \<in> {None, Some ''W''} \<Longrightarrow> normalize_batch (batch_row (shelved place)) [] = Inr (shelved place)"
  by (auto simp: normalize_batch_def batch_row_def shelved_def strip_plain strip_B moving_parts opt_text_def
      parse_optional_date_def)

lemma shelving_ready:
  "get_or (tc_entity_type shelving_config) ''products'' = ''batches''" "room (length [shelved None, shelved (Some ''W'')]) example_log"
  "nb \<in> set [shelved None, shelved (Some ''W'')] \<Longrightarrow> normalize_batch (batch_row nb) [] = Inr v \<Longrightarrow> batch_fits v"
  using shelved_normalizes
  by (auto simp: shelving_config_def get_or_def room_def example_log_def new_sync_log_def)
    (auto simp: batch_fits_def shelved_def varchar_def text_ok_def int8_def char_of_def)

section \<open>Properties\<close>

text \<open>
  Property C12.  No row can fail a job of batches: when the database answers and the normalized rows fit its
  columns, the job completes; products and transactions stay, every batch that the file has a row of, of a
  product that the tenant has, is stored as the last such row says, under the location of its name, which
  is created where needed, and every other batch of the tenant is as before.
\<close>

theorem batches_job_completes:
  assumes "answering env" and "tenant_exists (se_committed w) T"
    and "filter (\<lambda>l. sl_id l = i \<and> sl_tenant l = T) (tb_sync_logs (se_committed w)) = [l]"
    and "room (length nbs) l" and "connector_for tc l = Inr c"
    and "get_or (tc_entity_type tc) ''products'' = ''batches''"
    and "fetch_batches (readers_of (run_pandas rn) fs) c = map Inr nbs"
    and "\<And>nb v. nb \<in> set nbs \<Longrightarrow> normalize_batch (batch_row nb) [] = Inr v \<Longrightarrow> batch_fits v"
  shows "\<exists>w' fs'. process_sync env rn i T tc (w, fs) = (Inr (), w', fs') \<and>
    map_option sl_status (job_row w') = Some COMPLETED \<and>
    tb_products (se_committed w') = tb_products (se_committed w) \<and>
    tb_transactions (se_committed w') = tb_transactions (se_committed w) \<and>
    (\<forall>no pid. case last_about T (se_committed w) no pid (valid_rows nbs) of
       None \<Rightarrow> lookup_batch T no pid (se_committed w') = lookup_batch T no pid (se_committed w)
     | Some v \<Rightarrow> batch_recorded T no pid v (se_committed w'))"
proof -
  from batches_job_runs [OF assms(1-7)] assms(8) obtain w' fs' p k where
    run: "process_sync env rn i T tc (w, fs) = (Inr (), w', fs')"
    and row: "map_option (\<lambda>r. r\<lparr>sl_errors := None\<rparr>) (job_row w') =
      Some (mark_completed (run_completed rn) (tally p k (running (run_started rn) l)))"
    and R: "rows_applied T (valid_rows nbs) (se_committed w) (se_committed w')" by blast
  from row obtain r where r: "job_row w' = Some r" and
    e: "r\<lparr>sl_errors := None\<rparr> = mark_completed (run_completed rn) (tally p k (running (run_started rn) l))" by auto
  from arg_cong [OF e, of sl_status] r have "map_option sl_status (job_row w') = Some COMPLETED"
    by (simp add: mark_completed_def)
  with run R show ?thesis unfolding rows_applied_def names_kept_def by blast
qed

theorem batches_job_completes_witness:
  "\<exists>w' fs'. process_sync example_env shelving_run 2 1 shelving_config (moving_worker, example_files) = (Inr (), w', fs') \<and>
     name_rows 1 ''W'' (se_committed w') \<noteq> [] \<and> (\<forall>l. name_rows 1 ''W'' (se_committed w') = [l] \<longrightarrow>
       (\<exists>b. lookup_batch 1 ''B'' 3 (se_committed w') = Some b \<and> b_location_id b = Some (l_id l)))"
proof -
  have rows: "valid_rows [shelved None, shelved (Some ''W'')] = [shelved None, shelved (Some ''W'')]"
    by (simp add: valid_rows_def shelved_normalizes)
  have "sku_rows 1 ''S1'' (se_committed moving_worker) = [product_of 1 0 3 example_product]"
    by (simp add: sku_rows_def moving_worker_def product_of_def example_product_def)
  then have last: "last_about 1 (se_committed moving_worker) ''B'' 3 [shelved None, shelved (Some ''W'')] = Some (shelved (Some ''W''))"
    by (simp add: last_about_def about_batch_def shelved_def)
  obtain w' fs' where run: "process_sync example_env shelving_run 2 1 shelving_config (moving_worker, example_files) = (Inr (), w', fs')"
    and all: "\<forall>no pid. case last_about 1 (se_committed moving_worker) no pid (valid_rows [shelved None, shelved (Some ''W'')]) of
       None \<Rightarrow> lookup_batch 1 no pid (se_committed w') = lookup_batch 1 no pid (se_committed moving_worker)
     | Some v \<Rightarrow> batch_recorded 1 no pid v (se_committed w')"
    using batches_job_completes [OF moving_ready(1-3) shelving_ready(2) shelving_conn shelving_ready(1) shelving_rows]
      shelving_ready(3) by blast
  from spec [OF spec [OF all, of "''B''"], of 3] have "batch_recorded 1 ''B'' 3 (shelved (Some ''W'')) (se_committed w')"
    unfolding rows last option.case .
  then have "name_rows 1 ''W'' (se_committed w') \<noteq> []" "\<forall>l. name_rows 1 ''W'' (se_committed w') = [l] \<longrightarrow>
       (\<exists>b. lookup_batch 1 ''B'' 3 (se_committed w') = Some b \<and> b_location_id b = Some (l_id l))"
    by (auto simp: batch_recorded_def located_def batch_says_def shelved_def)
  with run show ?thesis by blast
qed

end
