(* ===== verification/Rls.thy ===== *)
theory Rls
  imports Store
begin

text \<open>
  \<open>app/rls.py\<close>: the SQL that turns row-level security on and off for a table, and the Alembic hook
  that adds it to a revision that creates tenant-scoped tables.  An operation of a revision is what the
  hook looks at: the creation of a table, a statement, or anything else.
\<close>

definition RUNTIME_ROLE :: string where
  "RUNTIME_ROLE = ''nexus_runtime''"

definition TENANT_SETTING :: string where
  "TENANT_SETTING = ''app.current_tenant_id''"

definition rls_upgrade_sql :: "string \<Rightarrow> string \<Rightarrow> string list" where
  "rls_upgrade_sql table_name tenant_col =
     (let policy = ''tenant_isolation_'' @ table_name in
      [''ALTER TABLE '' @ table_name @ '' ENABLE ROW LEVEL SECURITY'',
       ''ALTER TABLE '' @ table_name @ '' FORCE ROW LEVEL SECURITY'',
       ''CREATE POLICY '' @ policy @ '' ON '' @ table_name @ '' FOR ALL TO '' @ RUNTIME_ROLE @
         '' USING ('' @ tenant_col @ '' = '' @ TENANT_SETTING @ ''()) WITH CHECK ('' @ tenant_col @ '' = '' @
         TENANT_SETTING @ ''())''])"

definition rls_downgrade_sql :: "string \<Rightarrow> string list" where
  "rls_downgrade_sql table_name =
     (let policy = ''tenant_isolation_'' @ table_name in
      [''DROP POLICY IF EXISTS '' @ policy @ '' ON '' @ table_name,
       ''ALTER TABLE '' @ table_name @ '' NO FORCE ROW LEVEL SECURITY'',
       ''ALTER TABLE '' @ table_name @ '' DISABLE ROW LEVEL SECURITY''])"

text \<open>The metadata: the tables with, for each column, the flag of its \<open>info\<close>.\<close>

type_synonym metadata = "(string, (string \<times> bool) list) pydict"

definition is_rls_table :: "metadata \<Rightarrow> string \<Rightarrow> bool" where
  "is_rls_table metadata table_name =
     (case map_of metadata table_name of None \<Rightarrow> False | Some columns \<Rightarrow> list_ex snd columns)"

datatype revision_op = CreateTableOp string | ExecuteSQLOp string | OtherOp string

definition rls_tables :: "metadata \<Rightarrow> revision_op list \<Rightarrow> string list" where
  "rls_tables metadata ops = concat (map (\<lambda>p. case p of
     CreateTableOp t \<Rightarrow> if is_rls_table metadata t then [t] else [] | _ \<Rightarrow> []) ops)"

text \<open>The operations of the upgrade and of the downgrade, as the hook leaves them.\<close>

definition process_revision_directives ::
  "metadata \<Rightarrow> revision_op list \<times> revision_op list \<Rightarrow> revision_op list \<times> revision_op list" where
  "process_revision_directives metadata = (\<lambda>(up, down).
     foldl (\<lambda>(up, down) t.
       (foldl (\<lambda>ops sql. ops @ [ExecuteSQLOp sql]) up (rls_upgrade_sql t ''tenant_id''),
        foldl (\<lambda>ops sql. ExecuteSQLOp sql # ops) down (rev (rls_downgrade_sql t))))
       (up, down) (rls_tables metadata up))"

section \<open>What the hook adds\<close>

lemma append_all: "foldl (\<lambda>ops x. ops @ [f x]) ops xs = ops @ map f xs"
  by (induction xs arbitrary: ops) simp_all

lemma push_all: "foldl (\<lambda>ops x. f x # ops) ops xs = rev (map f xs) @ ops"
  by (induction xs arbitrary: ops) simp_all

text \<open>
  The upgrade secures the new tables in their order after everything else; the downgrade undoes that
  before everything else, the last table first.
\<close>

lemma directives:
  "process_revision_directives metadata (up, down) =
     (let ts = rls_tables metadata up in
      (up @ concat (map (\<lambda>t. map ExecuteSQLOp (rls_upgrade_sql t ''tenant_id'')) ts),
       concat (map (\<lambda>t. map ExecuteSQLOp (rls_downgrade_sql t)) (rev ts)) @ down))"
proof -
  have "foldl (\<lambda>(up, down) t.
       (foldl (\<lambda>ops sql. ops @ [ExecuteSQLOp sql]) up (rls_upgrade_sql t ''tenant_id''),
        foldl (\<lambda>ops sql. ExecuteSQLOp sql # ops) down (rev (rls_downgrade_sql t)))) (u, d) ts =
      (u @ concat (map (\<lambda>t. map ExecuteSQLOp (rls_upgrade_sql t ''tenant_id'')) ts),
       concat (map (\<lambda>t. map ExecuteSQLOp (rls_downgrade_sql t)) (rev ts)) @ d)" for ts u d
    by (induction ts arbitrary: u d) (simp_all add: append_all push_all rev_map)
  then show ?thesis by (simp add: process_revision_directives_def Let_def)
qed

end
