(* ===== verification/Schema.thy ===== *)
theory Schema
  imports Rls Connector
begin

text \<open>
  The operations of the Alembic revisions on a PostgreSQL schema: what each does to the tables, indexes,
  enum types, functions, policies and grants, and when PostgreSQL refuses it.  A statement given as text
  is read word by word.  Tables and indexes are kept in the order of their creation.
\<close>

section \<open>Schemas\<close>

datatype coltype = UUID | VARCHAR "nat option" | BOOLEAN | TIMESTAMPTZ | DATE | JSONB | INTEGER | BIGINT | FLOAT
  | ENUM string

record column =
  co_name :: string
  co_type :: coltype
  co_nullable :: bool
  co_default_now :: bool

datatype on_delete = RESTRICT | SET_NULL

record fkey =
  fk_name :: string
  fk_column :: string
  fk_table :: string
  fk_target :: string
  fk_ondelete :: on_delete

record policy =
  po_name :: string
  po_command :: string
  po_role :: string
  po_using :: "string option"
  po_check :: "string option"

text \<open>A UUID is given by its text in lower case.\<close>

datatype sqlval = SNull | SText string | SUuid string | SBool bool | SNow

type_synonym srow = "(string, sqlval) pydict"

record table =
  ta_columns :: "column list"
  ta_primary :: "string list"
  ta_uniques :: "(string \<times> string list) list"
  ta_fkeys :: "fkey list"
  ta_rls :: bool
  ta_forced :: bool
  ta_policies :: "policy list"
  ta_rows :: "srow list"

record index =
  ix_name :: string
  ix_table :: string
  ix_columns :: "string list"
  ix_unique :: bool

record schema =
  sc_tables :: "(string, table) pydict"
  sc_indexes :: "index list"
  sc_enums :: "(string, string list) pydict"
  sc_schemas :: "string list"
  sc_functions :: "string list"
  sc_grants :: "string list list"

definition empty_schema :: schema where
  "empty_schema = \<lparr>sc_tables = [], sc_indexes = [], sc_enums = [], sc_schemas = [''public''], sc_functions = [],
     sc_grants = []\<rparr>"

datatype migration_op =
    CreateTable string "column list" "fkey list" "string list" "(string \<times> string list) list"
  | DropTable string
  | CreateIndex index
  | DropIndex string
  | AddColumn string column
  | DropColumn string string
  | CreateForeignKey string fkey
  | DropConstraint string string
  | AlterColumnType string string coltype
  | CreateEnum string "string list"
  | DropEnum string
  | Execute string
  | InsertIgnore string srow
  | DeleteById string string
  | UpdateUnlisted string string string "string list"

section \<open>Looking things up\<close>

definition names :: "table \<Rightarrow> string list" where
  "names t = map co_name (ta_columns t)"

definition cell_of :: "srow \<Rightarrow> string \<Rightarrow> sqlval" where
  "cell_of r c = dict_get_or r c SNull"

text \<open>The column an index expression is about, as in \<open>transaction_date DESC\<close>.\<close>

definition index_column :: "string \<Rightarrow> string" where
  "index_column c = takeWhile (\<lambda>x. x \<noteq> CHR '' '') c"

definition check :: "bool \<Rightarrow> exn + unit" where
  "check b = (if b then Inr () else Inl DatabaseError)"

definition find_table :: "string \<Rightarrow> schema \<Rightarrow> exn + table" where
  "find_table n s = (case map_of (sc_tables s) n of None \<Rightarrow> Inl DatabaseError | Some t \<Rightarrow> Inr t)"

definition change_table :: "string \<Rightarrow> (table \<Rightarrow> exn + table) \<Rightarrow> schema \<Rightarrow> exn + schema" where
  "change_table n f s = rbind (find_table n s) (\<lambda>t. rbind (f t) (\<lambda>t'.
     Inr (s\<lparr>sc_tables := dict_set n t' (sc_tables s)\<rparr>)))"

definition references_to :: "string \<Rightarrow> schema \<Rightarrow> (string \<times> fkey) list" where
  "references_to n s = concat (map (\<lambda>(m, t). map (Pair m) (filter (\<lambda>k. fk_table k = n) (ta_fkeys t))) (sc_tables s))"

text \<open>The keys that rows may not share: the primary key, the unique constraints and indexes.\<close>

definition unique_keys :: "string \<Rightarrow> table \<Rightarrow> schema \<Rightarrow> string list list" where
  "unique_keys n t s = ta_primary t # map snd (ta_uniques t) @
     map ix_columns (filter (\<lambda>i. ix_table i = n \<and> ix_unique i) (sc_indexes s))"

definition same_key :: "string list \<Rightarrow> srow \<Rightarrow> srow \<Rightarrow> bool" where
  "same_key key r r' \<longleftrightarrow> list_all (\<lambda>c. cell_of r c = cell_of r' c \<and> cell_of r c \<noteq> SNull) key"

definition target_exists :: "schema \<Rightarrow> srow \<Rightarrow> fkey \<Rightarrow> bool" where
  "target_exists s r k \<longleftrightarrow> cell_of r (fk_column k) = SNull \<or>
     (case map_of (sc_tables s) (fk_table k) of None \<Rightarrow> False
      | Some t \<Rightarrow> list_ex (\<lambda>q. cell_of q (fk_target k) = cell_of r (fk_column k)) (ta_rows t))"

section \<open>Tables and columns\<close>

definition create_table ::
  "string \<Rightarrow> column list \<Rightarrow> fkey list \<Rightarrow> string list \<Rightarrow> (string \<times> string list) list \<Rightarrow> schema \<Rightarrow> exn + schema" where
  "create_table n cols fks pk uqs s =
     rbind (check (map_of (sc_tables s) n = None \<and> distinct (map co_name cols) \<and>
       list_all (\<lambda>k. fk_column k \<in> set (map co_name cols) \<and>
         (case map_of (sc_tables s) (fk_table k) of None \<Rightarrow> False | Some t \<Rightarrow> fk_target k \<in> set (names t))) fks \<and>
       list_all (\<lambda>c. c \<in> set (map co_name cols)) (pk @ concat (map snd uqs)))) (\<lambda>_.
     Inr (s\<lparr>sc_tables := sc_tables s @ [(n, \<lparr>ta_columns = cols, ta_primary = pk, ta_uniques = uqs, ta_fkeys = fks,
       ta_rls = False, ta_forced = False, ta_policies = [], ta_rows = []\<rparr>)]\<rparr>))"

definition drop_table :: "string \<Rightarrow> schema \<Rightarrow> exn + schema" where
  "drop_table n s =
     rbind (find_table n s) (\<lambda>_.
     rbind (check (list_all (\<lambda>(m, k). m = n) (references_to n s))) (\<lambda>_.
     Inr (s\<lparr>sc_tables := filter (\<lambda>(m, t). m \<noteq> n) (sc_tables s),
       sc_indexes := filter (\<lambda>i. ix_table i \<noteq> n) (sc_indexes s)\<rparr>)))"

definition create_index :: "index \<Rightarrow> schema \<Rightarrow> exn + schema" where
  "create_index i s =
     rbind (find_table (ix_table i) s) (\<lambda>t.
     rbind (check (ix_name i \<notin> set (map ix_name (sc_indexes s)) \<and>
       list_all (\<lambda>c. index_column c \<in> set (names t)) (ix_columns i) \<and>
       (ix_unique i \<longrightarrow> distinct (map (\<lambda>r. map (cell_of r) (ix_columns i)) (ta_rows t))))) (\<lambda>_.
     Inr (s\<lparr>sc_indexes := sc_indexes s @ [i]\<rparr>)))"

definition drop_index :: "string \<Rightarrow> schema \<Rightarrow> exn + schema" where
  "drop_index n s =
     rbind (check (n \<in> set (map ix_name (sc_indexes s)))) (\<lambda>_.
     Inr (s\<lparr>sc_indexes := filter (\<lambda>i. ix_name i \<noteq> n) (sc_indexes s)\<rparr>))"

text \<open>The rows get the default, or NULL, which a NOT NULL column refuses.\<close>

definition add_column :: "string \<Rightarrow> column \<Rightarrow> schema \<Rightarrow> exn + schema" where
  "add_column n c = change_table n (\<lambda>t.
     rbind (check (co_name c \<notin> set (names t) \<and> (co_nullable c \<or> co_default_now c \<or> ta_rows t = []))) (\<lambda>_.
     Inr (t\<lparr>ta_columns := ta_columns t @ [c],
       ta_rows := map (\<lambda>r. dict_set (co_name c) (if co_default_now c then SNow else SNull) r) (ta_rows t)\<rparr>)))"

definition policy_uses :: "string \<Rightarrow> table \<Rightarrow> bool" where
  "policy_uses c t \<longleftrightarrow> list_ex (\<lambda>p. po_using p = Some c \<or> po_check p = Some c) (ta_policies t)"

text \<open>The indexes and constraints on a dropped column go with it; what else depends on it keeps it.\<close>

definition drop_column :: "string \<Rightarrow> string \<Rightarrow> schema \<Rightarrow> exn + schema" where
  "drop_column n c s =
     rbind (check (\<not> list_ex (\<lambda>(m, k). fk_target k = c) (references_to n s))) (\<lambda>_.
     change_table n (\<lambda>t.
       rbind (check (c \<in> set (names t) \<and> \<not> policy_uses c t)) (\<lambda>_.
       Inr (t\<lparr>ta_columns := filter (\<lambda>d. co_name d \<noteq> c) (ta_columns t),
         ta_uniques := filter (\<lambda>(u, cs). c \<notin> set cs) (ta_uniques t),
         ta_fkeys := filter (\<lambda>k. fk_column k \<noteq> c) (ta_fkeys t),
         ta_rows := map (filter (\<lambda>(d, v). d \<noteq> c)) (ta_rows t)\<rparr>)))
       (s\<lparr>sc_indexes := filter (\<lambda>i. \<not> (ix_table i = n \<and> c \<in> set (map index_column (ix_columns i)))) (sc_indexes s)\<rparr>))"

definition create_foreign_key :: "string \<Rightarrow> fkey \<Rightarrow> schema \<Rightarrow> exn + schema" where
  "create_foreign_key n k s = change_table n (\<lambda>t.
     rbind (find_table (fk_table k) s) (\<lambda>u.
     rbind (check (fk_name k \<notin> set (map fk_name (ta_fkeys t)) \<and> fk_column k \<in> set (names t) \<and>
       fk_target k \<in> set (names u) \<and> list_all (\<lambda>r. target_exists s r k) (ta_rows t))) (\<lambda>_.
     Inr (t\<lparr>ta_fkeys := ta_fkeys t @ [k]\<rparr>)))) s"

definition drop_constraint :: "string \<Rightarrow> string \<Rightarrow> schema \<Rightarrow> exn + schema" where
  "drop_constraint n k = change_table n (\<lambda>t.
     rbind (check (k \<in> set (map fk_name (ta_fkeys t)))) (\<lambda>_.
     Inr (t\<lparr>ta_fkeys := filter (\<lambda>f. fk_name f \<noteq> k) (ta_fkeys t)\<rparr>)))"

text \<open>A value that is no label of the enum, or too long a text, cannot be converted.\<close>

fun converts :: "schema \<Rightarrow> coltype \<Rightarrow> sqlval \<Rightarrow> bool" where
  "converts s (ENUM e) (SText v) \<longleftrightarrow> (case map_of (sc_enums s) e of None \<Rightarrow> False | Some ls \<Rightarrow> v \<in> set ls)"
| "converts s (VARCHAR (Some n)) (SText v) \<longleftrightarrow> length v \<le> n"
| "converts s ty v \<longleftrightarrow> True"

definition alter_column_type :: "string \<Rightarrow> string \<Rightarrow> coltype \<Rightarrow> schema \<Rightarrow> exn + schema" where
  "alter_column_type n c ty s = change_table n (\<lambda>t.
     rbind (check (c \<in> set (names t) \<and> \<not> policy_uses c t \<and>
       (case ty of ENUM e \<Rightarrow> map_of (sc_enums s) e \<noteq> None | _ \<Rightarrow> True) \<and>
       list_all (\<lambda>r. converts s ty (cell_of r c)) (ta_rows t))) (\<lambda>_.
     Inr (t\<lparr>ta_columns := map (\<lambda>d. if co_name d = c then d\<lparr>co_type := ty\<rparr> else d) (ta_columns t)\<rparr>))) s"

text \<open>With \<open>checkfirst\<close> an enum that is there is not created again, and one that is not is not dropped.\<close>

definition create_enum :: "string \<Rightarrow> string list \<Rightarrow> schema \<Rightarrow> exn + schema" where
  "create_enum e labels s =
     (if map_of (sc_enums s) e \<noteq> None then Inr s else Inr (s\<lparr>sc_enums := sc_enums s @ [(e, labels)]\<rparr>))"

definition drop_enum :: "string \<Rightarrow> schema \<Rightarrow> exn + schema" where
  "drop_enum e s =
     rbind (check (\<not> list_ex (\<lambda>(n, t). list_ex (\<lambda>c. co_type c = ENUM e) (ta_columns t)) (sc_tables s))) (\<lambda>_.
     Inr (s\<lparr>sc_enums := filter (\<lambda>(n, ls). n \<noteq> e) (sc_enums s)\<rparr>))"

section \<open>Rows\<close>

text \<open>\<open>INSERT ... ON CONFLICT (id) DO NOTHING\<close>: any other conflict is an error.\<close>

definition fill_row :: "table \<Rightarrow> srow \<Rightarrow> srow" where
  "fill_row t r = map (\<lambda>c. (co_name c, case map_of r (co_name c) of Some v \<Rightarrow> v
     | None \<Rightarrow> if co_default_now c then SNow else SNull)) (ta_columns t)"

definition insert_ignore :: "string \<Rightarrow> srow \<Rightarrow> schema \<Rightarrow> exn + schema" where
  "insert_ignore n r s = change_table n (\<lambda>t.
     let q = fill_row t r in
     rbind (check (set (map fst r) \<subseteq> set (names t) \<and>
       list_all (\<lambda>c. co_nullable c \<or> cell_of q (co_name c) \<noteq> SNull) (ta_columns t))) (\<lambda>_.
     if list_ex (\<lambda>p. cell_of p ''id'' = cell_of q ''id'') (ta_rows t) then Inr t
     else
       rbind (check (list_all (\<lambda>k. \<not> list_ex (same_key k q) (ta_rows t)) (unique_keys n t s) \<and>
         list_all (target_exists s q) (ta_fkeys t) \<and> list_all (\<lambda>c. converts s (co_type c) (cell_of q (co_name c))) (ta_columns t)))
       (\<lambda>_. Inr (t\<lparr>ta_rows := ta_rows t @ [q]\<rparr>)))) s"

text \<open>A row that others refer to is kept by RESTRICT, and forgotten by SET NULL.\<close>

definition refers :: "fkey \<Rightarrow> string \<Rightarrow> srow \<Rightarrow> bool" where
  "refers k i r \<longleftrightarrow> cell_of r (fk_column k) = SUuid i"

definition forget :: "string \<Rightarrow> string \<Rightarrow> table \<Rightarrow> table" where
  "forget n i t = t\<lparr>ta_rows := map (\<lambda>r. map (\<lambda>(c, v).
     (c, if list_ex (\<lambda>k. fk_table k = n \<and> fk_ondelete k = SET_NULL \<and> fk_column k = c \<and> v = SUuid i) (ta_fkeys t)
         then SNull else v)) r) (ta_rows t)\<rparr>"

definition delete_by_id :: "string \<Rightarrow> string \<Rightarrow> schema \<Rightarrow> exn + schema" where
  "delete_by_id n i s =
     rbind (find_table n s) (\<lambda>t.
     if \<not> list_ex (\<lambda>r. cell_of r ''id'' = SUuid i) (ta_rows t) then Inr s
     else
       rbind (check (\<not> list_ex (\<lambda>(m, u). list_ex (\<lambda>k. fk_table k = n \<and> fk_ondelete k = RESTRICT \<and>
         list_ex (refers k i) (ta_rows u)) (ta_fkeys u)) (sc_tables s))) (\<lambda>_.
       change_table n (\<lambda>t. Inr (t\<lparr>ta_rows := filter (\<lambda>r. cell_of r ''id'' \<noteq> SUuid i) (ta_rows t)\<rparr>))
         (s\<lparr>sc_tables := map (\<lambda>(m, u). (m, forget n i u)) (sc_tables s)\<rparr>)))"

text \<open>\<open>UPDATE n SET c = v WHERE c NOT IN allowed\<close>; NULL is not \<open>NOT IN\<close>.\<close>

definition update_unlisted :: "string \<Rightarrow> string \<Rightarrow> string \<Rightarrow> string list \<Rightarrow> schema \<Rightarrow> exn + schema" where
  "update_unlisted n c v allowed = change_table n (\<lambda>t.
     rbind (check (c \<in> set (names t))) (\<lambda>_.
     Inr (t\<lparr>ta_rows := map (\<lambda>r. case cell_of r c of
         SText x \<Rightarrow> if x \<in> set allowed then r else dict_set c (SText v) r | _ \<Rightarrow> r) (ta_rows t)\<rparr>)))"

section \<open>Statements\<close>

text \<open>The words of a statement: what spaces and line ends separate.\<close>

definition words :: "string \<Rightarrow> string list" where
  "words sql = filter (\<lambda>w. w \<noteq> [])
     (split_on (CHR '' '') (map (\<lambda>c. if c = CHR 0x0A then CHR '' '' else c) sql))"

text \<open>\<open>(column = app.current_tenant_id())\<close>: the column that has to be the tenant.\<close>

definition tenant_clause :: "string list \<Rightarrow> string option" where
  "tenant_clause ws = (case ws of
     [c, e, f] \<Rightarrow> if take 1 c = ''('' \<and> e = ''='' \<and> f = TENANT_SETTING @ ''())'' then Some (drop 1 c) else None
   | _ \<Rightarrow> None)"

text \<open>The clauses \<open>USING\<close> and \<open>WITH CHECK\<close>.\<close>

definition policy_clauses :: "string list \<Rightarrow> (string option \<times> string option) option" where
  "policy_clauses ws =
     (if take 1 ws = [''USING''] then
        (case tenant_clause (take 3 (drop 1 ws)) of None \<Rightarrow> None
         | Some c \<Rightarrow>
           if drop 4 ws = [] then Some (Some c, None)
           else if take 2 (drop 4 ws) = [''WITH'', ''CHECK'']
             then map_option (\<lambda>d. (Some c, Some d)) (tenant_clause (drop 6 ws))
           else None)
      else if take 2 ws = [''WITH'', ''CHECK''] then map_option (\<lambda>d. (None, Some d)) (tenant_clause (drop 2 ws))
      else None)"

definition create_policy :: "string \<Rightarrow> policy \<Rightarrow> schema \<Rightarrow> exn + schema" where
  "create_policy n p s =
     rbind (check (TENANT_SETTING \<in> set (sc_functions s))) (\<lambda>_.
     change_table n (\<lambda>t.
       rbind (check (po_name p \<notin> set (map po_name (ta_policies t)) \<and>
         (\<forall>c \<in> set_option (po_using p) \<union> set_option (po_check p). c \<in> set (names t)))) (\<lambda>_.
       Inr (t\<lparr>ta_policies := ta_policies t @ [p]\<rparr>))) s)"

definition policies_depend :: "schema \<Rightarrow> bool" where
  "policies_depend s \<longleftrightarrow> list_ex (\<lambda>(n, t). ta_policies t \<noteq> []) (sc_tables s)"

definition run_statement :: "string list \<Rightarrow> schema \<Rightarrow> exn + schema" where
  "run_statement ws s =
     (if take 2 ws = [''ALTER'', ''TABLE''] then
        (case drop 2 ws of
           n # clause \<Rightarrow> change_table n (\<lambda>t.
             if clause = [''ENABLE'', ''ROW'', ''LEVEL'', ''SECURITY''] then Inr (t\<lparr>ta_rls := True\<rparr>)
             else if clause = [''DISABLE'', ''ROW'', ''LEVEL'', ''SECURITY''] then Inr (t\<lparr>ta_rls := False\<rparr>)
             else if clause = [''FORCE'', ''ROW'', ''LEVEL'', ''SECURITY''] then Inr (t\<lparr>ta_forced := True\<rparr>)
             else if clause = [''NO'', ''FORCE'', ''ROW'', ''LEVEL'', ''SECURITY''] then Inr (t\<lparr>ta_forced := False\<rparr>)
             else Inl DatabaseError) s
         | [] \<Rightarrow> Inl DatabaseError)
      else if take 2 ws = [''CREATE'', ''POLICY''] then
        (case drop 2 ws of
           p # on_word # n # for_word # cmd # to_word # role # clauses \<Rightarrow>
             if on_word = ''ON'' \<and> for_word = ''FOR'' \<and> to_word = ''TO'' then
               (case policy_clauses clauses of None \<Rightarrow> Inl DatabaseError
                | Some (u, c) \<Rightarrow> create_policy n \<lparr>po_name = p, po_command = cmd, po_role = role, po_using = u, po_check = c\<rparr> s)
             else Inl DatabaseError
         | _ \<Rightarrow> Inl DatabaseError)
      else if take 4 ws = [''DROP'', ''POLICY'', ''IF'', ''EXISTS''] then
        (case drop 4 ws of
           [p, on_word, n] \<Rightarrow> if on_word \<noteq> ''ON'' then Inl DatabaseError else
             change_table n (\<lambda>t. Inr (t\<lparr>ta_policies := filter (\<lambda>q. po_name q \<noteq> p) (ta_policies t)\<rparr>)) s
         | _ \<Rightarrow> Inl DatabaseError)
      else if ws = [''CREATE'', ''SCHEMA'', ''IF'', ''NOT'', ''EXISTS'', ''app''] then
        Inr (if ''app'' \<in> set (sc_schemas s) then s else s\<lparr>sc_schemas := sc_schemas s @ [''app'']\<rparr>)
      else if ws = [''DROP'', ''SCHEMA'', ''IF'', ''EXISTS'', ''app''] then
        rbind (check (sc_functions s = [])) (\<lambda>_.
        Inr (s\<lparr>sc_schemas := filter (\<lambda>n. n \<noteq> ''app'') (sc_schemas s),
          sc_grants := filter (\<lambda>g. ''app'' \<notin> set g) (sc_grants s)\<rparr>))
      else if take 5 ws = [''CREATE'', ''OR'', ''REPLACE'', ''FUNCTION'', TENANT_SETTING @ ''()''] then
        rbind (check (''app'' \<in> set (sc_schemas s))) (\<lambda>_.
        Inr (if TENANT_SETTING \<in> set (sc_functions s) then s else s\<lparr>sc_functions := sc_functions s @ [TENANT_SETTING]\<rparr>))
      else if ws = [''DROP'', ''FUNCTION'', ''IF'', ''EXISTS'', TENANT_SETTING @ ''()''] then
        rbind (check (\<not> policies_depend s)) (\<lambda>_.
        Inr (s\<lparr>sc_functions := filter (\<lambda>f. f \<noteq> TENANT_SETTING) (sc_functions s),
          sc_grants := filter (\<lambda>g. TENANT_SETTING @ ''()'' \<notin> set g) (sc_grants s)\<rparr>))
      else if take 1 ws = [''GRANT''] then
        Inr (if ws \<in> set (sc_grants s) then s else s\<lparr>sc_grants := sc_grants s @ [ws]\<rparr>)
      else Inl DatabaseError)"

fun run_op :: "migration_op \<Rightarrow> schema \<Rightarrow> exn + schema" where
  "run_op (CreateTable n cols fks pk uqs) s = create_table n cols fks pk uqs s"
| "run_op (DropTable n) s = drop_table n s"
| "run_op (CreateIndex i) s = create_index i s"
| "run_op (DropIndex n) s = drop_index n s"
| "run_op (AddColumn n c) s = add_column n c s"
| "run_op (DropColumn n c) s = drop_column n c s"
| "run_op (CreateForeignKey n k) s = create_foreign_key n k s"
| "run_op (DropConstraint n k) s = drop_constraint n k s"
| "run_op (AlterColumnType n c ty) s = alter_column_type n c ty s"
| "run_op (CreateEnum e ls) s = create_enum e ls s"
| "run_op (DropEnum e) s = drop_enum e s"
| "run_op (Execute sql) s = run_statement (words sql) s"
| "run_op (InsertIgnore n r) s = insert_ignore n r s"
| "run_op (DeleteById n i) s = delete_by_id n i s"
| "run_op (UpdateUnlisted n c v allowed) s = update_unlisted n c v allowed s"

fun run_ops :: "migration_op list \<Rightarrow> schema \<Rightarrow> exn + schema" where
  "run_ops [] s = Inr s"
| "run_ops (p # ps) s = rbind (run_op p s) (run_ops ps)"

lemma run_ops_append: "run_ops (ps @ qs) s = rbind (run_ops ps s) (run_ops qs)"
  by (induction ps arbitrary: s) (auto simp: rbind_def split: sum.splits)

end
