(* ===== verification/Migrations.thy ===== *)
theory Migrations
  imports Schema Web
begin

text \<open>
  The Alembic revisions of \<open>alembic/versions/\<close> and how \<open>alembic/env.py\<close> runs them.  A line break inside a
  statement is written as a space.  The password hash and the environment variables are parameters.
\<close>

section \<open>The revisions\<close>

definition required :: "string \<Rightarrow> coltype \<Rightarrow> column" where
  "required n ty = \<lparr>co_name = n, co_type = ty, co_nullable = False, co_default_now = False\<rparr>"

definition optional :: "string \<Rightarrow> coltype \<Rightarrow> column" where
  "optional n ty = \<lparr>co_name = n, co_type = ty, co_nullable = True, co_default_now = False\<rparr>"

text \<open>A column that is not null and has \<open>now()\<close> as its server default.\<close>

definition stamped :: "string \<Rightarrow> coltype \<Rightarrow> column" where
  "stamped n ty = \<lparr>co_name = n, co_type = ty, co_nullable = False, co_default_now = True\<rparr>"

text \<open>A foreign key to the \<open>id\<close> of a table.\<close>

definition foreign :: "string \<Rightarrow> string \<Rightarrow> string \<Rightarrow> on_delete \<Rightarrow> fkey" where
  "foreign n c t od = \<lparr>fk_name = n, fk_column = c, fk_table = t, fk_target = ''id'', fk_ondelete = od\<rparr>"

text \<open>\<open>36e6ea49bb2b\<close>: the users.\<close>

definition upgrade_36e6ea49bb2b :: "migration_op list" where
  "upgrade_36e6ea49bb2b =
     [CreateTable ''users''
       [required ''id'' UUID,
        required ''email'' (VARCHAR None),
        required ''hashed_password'' (VARCHAR None),
        required ''is_active'' BOOLEAN,
        stamped ''created_at'' TIMESTAMPTZ,
        stamped ''updated_at'' TIMESTAMPTZ]
       []
       [''id'']
       [],
      CreateIndex \<lparr>ix_name = ''ix_users_email'', ix_table = ''users'',
        ix_columns = [''email''], ix_unique = True\<rparr>]"

definition downgrade_36e6ea49bb2b :: "migration_op list" where
  "downgrade_36e6ea49bb2b =
     [DropIndex ''ix_users_email'',
      DropTable ''users'']"

text \<open>\<open>4bc4e45b350d\<close>: the tenants.\<close>

definition upgrade_4bc4e45b350d :: "migration_op list" where
  "upgrade_4bc4e45b350d =
     [CreateTable ''tenants''
       [required ''id'' UUID,
        required ''name'' (VARCHAR (Some 255)),
        optional ''industry_type'' (VARCHAR (Some 100)),
        optional ''erp_type'' (VARCHAR (Some 100)),
        required ''subscription_plan'' (VARCHAR (Some 20)),
        required ''subscription_status'' (VARCHAR (Some 20)),
        optional ''trial_start_date'' DATE,
        optional ''trial_end_date'' DATE,
        optional ''subscription_start_date'' DATE,
        optional ''next_billing_date'' DATE,
        optional ''config'' JSONB,
        required ''is_active'' BOOLEAN,
        stamped ''created_at'' TIMESTAMPTZ,
        stamped ''updated_at'' TIMESTAMPTZ]
       []
       [''id'']
       [(''tenants_name_key'', [''name''])]]"

definition downgrade_4bc4e45b350d :: "migration_op list" where
  "downgrade_4bc4e45b350d =
     [DropTable ''tenants'']"

text \<open>\<open>444a0c65e4f0\<close>: tenant, role and last login of a user.\<close>

definition upgrade_444a0c65e4f0 :: "migration_op list" where
  "upgrade_444a0c65e4f0 =
     [AddColumn ''users'' (required ''tenant_id'' UUID),
      AddColumn ''users'' (required ''role'' (VARCHAR (Some 20))),
      AddColumn ''users'' (optional ''last_login'' TIMESTAMPTZ),
      CreateIndex \<lparr>ix_name = ''ix_users_tenant_id'', ix_table = ''users'',
        ix_columns = [''tenant_id''], ix_unique = False\<rparr>,
      CreateForeignKey ''users'' (foreign ''fk_users_tenant_id'' ''tenant_id'' ''tenants'' RESTRICT)]"

definition downgrade_444a0c65e4f0 :: "migration_op list" where
  "downgrade_444a0c65e4f0 =
     [DropConstraint ''users'' ''fk_users_tenant_id'',
      DropIndex ''ix_users_tenant_id'',
      DropColumn ''users'' ''last_login'',
      DropColumn ''users'' ''role'',
      DropColumn ''users'' ''tenant_id'']"

text \<open>\<open>f7e098064859\<close>: row-level security of users and tenants.\<close>

definition upgrade_f7e098064859 :: "migration_op list" where
  "upgrade_f7e098064859 =
     [Execute ''CREATE SCHEMA IF NOT EXISTS app'',
      Execute (''CREATE OR REPLACE FUNCTION app.current_tenant_id() RETURNS uuid LANGUAGE sql STABLE AS $$ '' @
        ''SELECT current_setting('' @
        [char_of (39::nat)] @ ''app.current_tenant_id'' @ [char_of (39::nat)] @ '', true)::uuid $$''),
      Execute ''ALTER TABLE users ENABLE ROW LEVEL SECURITY'',
      Execute ''ALTER TABLE users FORCE ROW LEVEL SECURITY'',
      Execute (''CREATE POLICY tenant_isolation_select ON users FOR SELECT TO nexus_runtime'' @
        '' USING (tenant_id = app.current_tenant_id())''),
      Execute (''CREATE POLICY tenant_isolation_insert ON users FOR INSERT TO nexus_runtime'' @
        '' WITH CHECK (tenant_id = app.current_tenant_id())''),
      Execute (''CREATE POLICY tenant_isolation_update ON users FOR UPDATE TO nexus_runtime'' @
        '' USING (tenant_id = app.current_tenant_id()) WITH CHECK (tenant_id = app.current_tenant_id())''),
      Execute (''CREATE POLICY tenant_isolation_delete ON users FOR DELETE TO nexus_runtime'' @
        '' USING (tenant_id = app.current_tenant_id())''),
      Execute ''ALTER TABLE tenants ENABLE ROW LEVEL SECURITY'',
      Execute ''ALTER TABLE tenants FORCE ROW LEVEL SECURITY'',
      Execute (''CREATE POLICY tenant_self_select ON tenants FOR SELECT TO nexus_runtime'' @
        '' USING (id = app.current_tenant_id())''),
      Execute ''GRANT USAGE ON SCHEMA app TO nexus_runtime'',
      Execute ''GRANT EXECUTE ON FUNCTION app.current_tenant_id() TO nexus_runtime'']"

definition downgrade_f7e098064859 :: "migration_op list" where
  "downgrade_f7e098064859 =
     [Execute ''DROP POLICY IF EXISTS tenant_self_select ON tenants'',
      Execute ''ALTER TABLE tenants DISABLE ROW LEVEL SECURITY'',
      Execute ''ALTER TABLE tenants NO FORCE ROW LEVEL SECURITY'',
      Execute ''DROP POLICY IF EXISTS tenant_isolation_delete ON users'',
      Execute ''DROP POLICY IF EXISTS tenant_isolation_update ON users'',
      Execute ''DROP POLICY IF EXISTS tenant_isolation_insert ON users'',
      Execute ''DROP POLICY IF EXISTS tenant_isolation_select ON users'',
      Execute ''ALTER TABLE users DISABLE ROW LEVEL SECURITY'',
      Execute ''ALTER TABLE users NO FORCE ROW LEVEL SECURITY'',
      Execute ''DROP FUNCTION IF EXISTS app.current_tenant_id()'',
      Execute ''DROP SCHEMA IF EXISTS app'']"

text \<open>\<open>ef7f95410110\<close>: the default tenant and its owner, from the environment.\<close>

definition DEFAULT_TENANT_ID :: string where
  "DEFAULT_TENANT_ID = ''00000000-0000-4000-a000-000000000001''"

definition DEFAULT_OWNER_ID :: string where
  "DEFAULT_OWNER_ID = ''00000000-0000-4000-a000-000000000002''"

definition seed_ops :: "string \<Rightarrow> string \<Rightarrow> migration_op list" where
  "seed_ops owner_email hashed =
     [InsertIgnore ''tenants''
        [(''id'', SUuid DEFAULT_TENANT_ID), (''name'', SText ''Default''), (''subscription_plan'', SText ''enterprise''),
         (''subscription_status'', SText ''active''), (''is_active'', SBool True)],
      InsertIgnore ''users''
        [(''id'', SUuid DEFAULT_OWNER_ID), (''tenant_id'', SUuid DEFAULT_TENANT_ID), (''email'', SText owner_email),
         (''role'', SText ''owner''), (''hashed_password'', SText hashed), (''is_active'', SBool True)]]"

definition upgrade_ef7f95410110 ::
  "(string \<rightharpoonup> string) \<Rightarrow> (string \<Rightarrow> string) \<Rightarrow> exn + migration_op list" where
  "upgrade_ef7f95410110 getenv hash =
     (let owner_email = get_or (getenv ''SEED_OWNER_EMAIL'') []; owner_password = get_or (getenv ''SEED_OWNER_PASSWORD'') [] in
      if owner_email = [] \<or> owner_password = [] then
        Inl (RuntimeError (''SEED_OWNER_EMAIL and SEED_OWNER_PASSWORD must be set '' @
          ''when running the bootstrap seed migration.''))
      else Inr (seed_ops owner_email (hash owner_password)))"

definition downgrade_ef7f95410110 :: "migration_op list" where
  "downgrade_ef7f95410110 =
     [DeleteById ''users'' DEFAULT_OWNER_ID,
      DeleteById ''tenants'' DEFAULT_TENANT_ID]"

text \<open>\<open>3bd67eab8293\<close>: the role becomes an enum.\<close>

definition upgrade_3bd67eab8293 :: "migration_op list" where
  "upgrade_3bd67eab8293 =
     [UpdateUnlisted ''users'' ''role'' ''viewer'' [''owner'', ''admin'', ''ops'', ''viewer''],
      CreateEnum ''user_role_enum'' [''owner'', ''admin'', ''ops'', ''viewer''],
      AlterColumnType ''users'' ''role'' (ENUM ''user_role_enum'')]"

definition downgrade_3bd67eab8293 :: "migration_op list" where
  "downgrade_3bd67eab8293 =
     [AlterColumnType ''users'' ''role'' (VARCHAR (Some 20)),
      DropEnum ''user_role_enum'']"

text \<open>\<open>ca2c9afa5eb7\<close>: the inventory and the jobs.\<close>

definition upgrade_ca2c9afa5eb7 :: "migration_op list" where
  "upgrade_ca2c9afa5eb7 =
     [CreateTable ''locations''
       [required ''id'' UUID,
        required ''name'' (VARCHAR (Some 255)),
        required ''type'' (VARCHAR (Some 50)),
        optional ''city'' (VARCHAR (Some 100)),
        optional ''state'' (VARCHAR (Some 100)),
        required ''is_active'' BOOLEAN,
        stamped ''created_at'' TIMESTAMPTZ,
        stamped ''updated_at'' TIMESTAMPTZ,
        required ''tenant_id'' UUID]
       [foreign ''locations_tenant_id_fkey'' ''tenant_id'' ''tenants'' RESTRICT]
       [''id'']
       [],
      CreateIndex \<lparr>ix_name = ''ix_locations_tenant_id'', ix_table = ''locations'',
        ix_columns = [''tenant_id''], ix_unique = False\<rparr>,
      CreateTable ''products''
       [required ''id'' UUID,
        required ''sku_code'' (VARCHAR (Some 100)),
        required ''name'' (VARCHAR (Some 255)),
        optional ''category'' (VARCHAR (Some 100)),
        required ''unit_of_measure'' (VARCHAR (Some 50)),
        required ''unit_cost_paise'' BIGINT,
        required ''selling_price_paise'' BIGINT,
        optional ''industry_attributes'' JSONB,
        stamped ''created_at'' TIMESTAMPTZ,
        stamped ''updated_at'' TIMESTAMPTZ,
        required ''tenant_id'' UUID]
       [foreign ''products_tenant_id_fkey'' ''tenant_id'' ''tenants'' RESTRICT]
       [''id'']
       [(''uq_tenant_sku'', [''tenant_id'', ''sku_code''])],
      CreateIndex \<lparr>ix_name = ''ix_products_tenant_id'', ix_table = ''products'',
        ix_columns = [''tenant_id''], ix_unique = False\<rparr>,
      CreateTable ''sync_logs''
       [required ''id'' UUID,
        required ''connector_type'' (VARCHAR (Some 50)),
        optional ''original_filename'' (VARCHAR (Some 255)),
        optional ''stored_path'' (VARCHAR (Some 500)),
        required ''status'' (VARCHAR (Some 20)),
        required ''total_records'' INTEGER,
        required ''records_processed'' INTEGER,
        required ''records_failed'' INTEGER,
        optional ''errors'' JSONB,
        optional ''data_quality_score'' FLOAT,
        optional ''started_at'' TIMESTAMPTZ,
        optional ''completed_at'' TIMESTAMPTZ,
        stamped ''created_at'' TIMESTAMPTZ,
        required ''tenant_id'' UUID]
       [foreign ''sync_logs_tenant_id_fkey'' ''tenant_id'' ''tenants'' RESTRICT]
       [''id'']
       [],
      CreateIndex \<lparr>ix_name = ''ix_sync_logs_tenant_id'', ix_table = ''sync_logs'',
        ix_columns = [''tenant_id''], ix_unique = False\<rparr>,
      CreateIndex \<lparr>ix_name = ''ix_sync_logs_tenant_status'', ix_table = ''sync_logs'',
        ix_columns = [''tenant_id'', ''status''], ix_unique = False\<rparr>,
      CreateTable ''batches''
       [required ''id'' UUID,
        required ''product_id'' UUID,
        required ''batch_no'' (VARCHAR (Some 100)),
        optional ''manufactured_date'' DATE,
        optional ''expiry_date'' DATE,
        required ''quantity'' BIGINT,
        optional ''location_id'' UUID,
        stamped ''created_at'' TIMESTAMPTZ,
        stamped ''updated_at'' TIMESTAMPTZ,
        required ''tenant_id'' UUID]
       [foreign ''batches_location_id_fkey'' ''location_id'' ''locations'' SET_NULL,
        foreign ''batches_product_id_fkey'' ''product_id'' ''products'' RESTRICT,
        foreign ''batches_tenant_id_fkey'' ''tenant_id'' ''tenants'' RESTRICT]
       [''id'']
       [(''uq_tenant_batch_product'', [''tenant_id'', ''batch_no'', ''product_id''])],
      CreateIndex \<lparr>ix_name = ''ix_batches_tenant_id'', ix_table = ''batches'',
        ix_columns = [''tenant_id''], ix_unique = False\<rparr>,
      CreateTable ''transactions''
       [required ''id'' UUID,
        required ''product_id'' UUID,
        required ''location_id'' UUID,
        required ''transaction_type'' (VARCHAR (Some 50)),
        required ''quantity'' BIGINT,
        required ''unit_cost_paise'' BIGINT,
        optional ''reference_no'' (VARCHAR (Some 100)),
        required ''transaction_date'' TIMESTAMPTZ,
        stamped ''created_at'' TIMESTAMPTZ,
        required ''tenant_id'' UUID]
       [foreign ''transactions_location_id_fkey'' ''location_id'' ''locations'' RESTRICT,
        foreign ''transactions_product_id_fkey'' ''product_id'' ''products'' RESTRICT,
        foreign ''transactions_tenant_id_fkey'' ''tenant_id'' ''tenants'' RESTRICT]
       [''id'']
       [],
      CreateIndex \<lparr>ix_name = ''ix_transactions_tenant_date'', ix_table = ''transactions'',
        ix_columns = [''tenant_id'', ''transaction_date DESC''], ix_unique = False\<rparr>,
      CreateIndex \<lparr>ix_name = ''ix_transactions_tenant_id'', ix_table = ''transactions'',
        ix_columns = [''tenant_id''], ix_unique = False\<rparr>,
      CreateIndex \<lparr>ix_name = ''ix_transactions_tenant_location'', ix_table = ''transactions'',
        ix_columns = [''tenant_id'', ''location_id''], ix_unique = False\<rparr>,
      CreateIndex \<lparr>ix_name = ''ix_transactions_tenant_product'', ix_table = ''transactions'',
        ix_columns = [''tenant_id'', ''product_id''], ix_unique = False\<rparr>,
      CreateIndex \<lparr>ix_name = ''ix_transactions_tenant_type'', ix_table = ''transactions'',
        ix_columns = [''tenant_id'', ''transaction_type''], ix_unique = False\<rparr>,
      Execute ''ALTER TABLE locations ENABLE ROW LEVEL SECURITY'',
      Execute ''ALTER TABLE locations FORCE ROW LEVEL SECURITY'',
      Execute (''CREATE POLICY tenant_isolation_locations ON locations FOR ALL TO nexus_runtime'' @
        '' USING (tenant_id = app.current_tenant_id()) WITH CHECK (tenant_id = app.current_tenant_id())''),
      Execute ''ALTER TABLE products ENABLE ROW LEVEL SECURITY'',
      Execute ''ALTER TABLE products FORCE ROW LEVEL SECURITY'',
      Execute (''CREATE POLICY tenant_isolation_products ON products FOR ALL TO nexus_runtime'' @
        '' USING (tenant_id = app.current_tenant_id()) WITH CHECK (tenant_id = app.current_tenant_id())''),
      Execute ''ALTER TABLE sync_logs ENABLE ROW LEVEL SECURITY'',
      Execute ''ALTER TABLE sync_logs FORCE ROW LEVEL SECURITY'',
      Execute (''CREATE POLICY tenant_isolation_sync_logs ON sync_logs FOR ALL TO nexus_runtime'' @
        '' USING (tenant_id = app.current_tenant_id()) WITH CHECK (tenant_id = app.current_tenant_id())''),
      Execute ''ALTER TABLE batches ENABLE ROW LEVEL SECURITY'',
      Execute ''ALTER TABLE batches FORCE ROW LEVEL SECURITY'',
      Execute (''CREATE POLICY tenant_isolation_batches ON batches FOR ALL TO nexus_runtime'' @
        '' USING (tenant_id = app.current_tenant_id()) WITH CHECK (tenant_id = app.current_tenant_id())''),
      Execute ''ALTER TABLE transactions ENABLE ROW LEVEL SECURITY'',
      Execute ''ALTER TABLE transactions FORCE ROW LEVEL SECURITY'',
      Execute (''CREATE POLICY tenant_isolation_transactions ON transactions FOR ALL TO nexus_runtime'' @
        '' USING (tenant_id = app.current_tenant_id()) WITH CHECK (tenant_id = app.current_tenant_id())'')]"

definition downgrade_ca2c9afa5eb7 :: "migration_op list" where
  "downgrade_ca2c9afa5eb7 =
     [Execute ''DROP POLICY IF EXISTS tenant_isolation_transactions ON transactions'',
      Execute ''ALTER TABLE transactions NO FORCE ROW LEVEL SECURITY'',
      Execute ''ALTER TABLE transactions DISABLE ROW LEVEL SECURITY'',
      Execute ''DROP POLICY IF EXISTS tenant_isolation_batches ON batches'',
      Execute ''ALTER TABLE batches NO FORCE ROW LEVEL SECURITY'',
      Execute ''ALTER TABLE batches DISABLE ROW LEVEL SECURITY'',
      Execute ''DROP POLICY IF EXISTS tenant_isolation_sync_logs ON sync_logs'',
      Execute ''ALTER TABLE sync_logs NO FORCE ROW LEVEL SECURITY'',
      Execute ''ALTER TABLE sync_logs DISABLE ROW LEVEL SECURITY'',
      Execute ''DROP POLICY IF EXISTS tenant_isolation_products ON products'',
      Execute ''ALTER TABLE products NO FORCE ROW LEVEL SECURITY'',
      Execute ''ALTER TABLE products DISABLE ROW LEVEL SECURITY'',
      Execute ''DROP POLICY IF EXISTS tenant_isolation_locations ON locations'',
      Execute ''ALTER TABLE locations NO FORCE ROW LEVEL SECURITY'',
      Execute ''ALTER TABLE locations DISABLE ROW LEVEL SECURITY'',
      DropIndex ''ix_transactions_tenant_type'',
      DropIndex ''ix_transactions_tenant_product'',
      DropIndex ''ix_transactions_tenant_location'',
      DropIndex ''ix_transactions_tenant_id'',
      DropIndex ''ix_transactions_tenant_date'',
      DropTable ''transactions'',
      DropIndex ''ix_batches_tenant_id'',
      DropTable ''batches'',
      DropIndex ''ix_sync_logs_tenant_status'',
      DropIndex ''ix_sync_logs_tenant_id'',
      DropTable ''sync_logs'',
      DropIndex ''ix_products_tenant_id'',
      DropTable ''products'',
      DropIndex ''ix_locations_tenant_id'',
      DropTable ''locations'']"

section \<open>Running them\<close>

record revision =
  rv_id :: string
  rv_down :: "string option"
  rv_upgrade :: "(string \<rightharpoonup> string) \<Rightarrow> (string \<Rightarrow> string) \<Rightarrow> exn + migration_op list"
  rv_downgrade :: "migration_op list"

text \<open>The files in the order of their names.\<close>

definition revisions :: "revision list" where
  "revisions =
     [\<lparr>rv_id = ''36e6ea49bb2b'', rv_down = None, rv_upgrade = \<lambda>_ _. Inr upgrade_36e6ea49bb2b,
        rv_downgrade = downgrade_36e6ea49bb2b\<rparr>,
      \<lparr>rv_id = ''3bd67eab8293'', rv_down = Some ''ef7f95410110'', rv_upgrade = \<lambda>_ _. Inr upgrade_3bd67eab8293,
        rv_downgrade = downgrade_3bd67eab8293\<rparr>,
      \<lparr>rv_id = ''444a0c65e4f0'', rv_down = Some ''4bc4e45b350d'', rv_upgrade = \<lambda>_ _. Inr upgrade_444a0c65e4f0,
        rv_downgrade = downgrade_444a0c65e4f0\<rparr>,
      \<lparr>rv_id = ''4bc4e45b350d'', rv_down = Some ''36e6ea49bb2b'', rv_upgrade = \<lambda>_ _. Inr upgrade_4bc4e45b350d,
        rv_downgrade = downgrade_4bc4e45b350d\<rparr>,
      \<lparr>rv_id = ''ca2c9afa5eb7'', rv_down = Some ''3bd67eab8293'', rv_upgrade = \<lambda>_ _. Inr upgrade_ca2c9afa5eb7,
        rv_downgrade = downgrade_ca2c9afa5eb7\<rparr>,
      \<lparr>rv_id = ''ef7f95410110'', rv_down = Some ''f7e098064859'', rv_upgrade = upgrade_ef7f95410110,
        rv_downgrade = downgrade_ef7f95410110\<rparr>,
      \<lparr>rv_id = ''f7e098064859'', rv_down = Some ''444a0c65e4f0'', rv_upgrade = \<lambda>_ _. Inr upgrade_f7e098064859,
        rv_downgrade = downgrade_f7e098064859\<rparr>]"

text \<open>The revisions above one, in the order of their application; there are no more steps than revisions.\<close>

fun chain_from :: "nat \<Rightarrow> string option \<Rightarrow> revision list" where
  "chain_from 0 down = []"
| "chain_from (Suc n) down = (case find (\<lambda>r. rv_down r = down) revisions of
     None \<Rightarrow> [] | Some r \<Rightarrow> r # chain_from n (Some (rv_id r)))"

definition history :: "revision list" where
  "history = chain_from (length revisions) None"

lemma history_ids:
  "map rv_id history = [''36e6ea49bb2b'', ''4bc4e45b350d'', ''444a0c65e4f0'', ''f7e098064859'', ''ef7f95410110'',
     ''3bd67eab8293'', ''ca2c9afa5eb7'']"
  "length history = length revisions"
  by (simp_all add: history_def revisions_def)

definition upgrade_step :: "(string \<rightharpoonup> string) \<Rightarrow> (string \<Rightarrow> string) \<Rightarrow> revision \<Rightarrow> schema \<Rightarrow> exn + schema" where
  "upgrade_step getenv hash r s = rbind (rv_upgrade r getenv hash) (\<lambda>ops. run_ops ops s)"

definition downgrade_step :: "revision \<Rightarrow> schema \<Rightarrow> exn + schema" where
  "downgrade_step r s = run_ops (rv_downgrade r) s"

fun upgrade_all :: "(string \<rightharpoonup> string) \<Rightarrow> (string \<Rightarrow> string) \<Rightarrow> revision list \<Rightarrow> schema \<Rightarrow> exn + schema" where
  "upgrade_all getenv hash [] s = Inr s"
| "upgrade_all getenv hash (r # rs) s = rbind (upgrade_step getenv hash r s) (upgrade_all getenv hash rs)"

section \<open>The connection (alembic/env.py)\<close>

text \<open>
  A SQLAlchemy connection commits what its \<open>begin_transaction\<close> block did; a statement after it begins a
  transaction of its own, which closing the connection rolls back.
\<close>

record connection =
  cn_committed :: schema
  cn_current :: schema

definition execute_sql :: "string \<Rightarrow> connection \<Rightarrow> (exn + unit) \<times> connection" where
  "execute_sql sql c = (case run_statement (words sql) (cn_current c) of
     Inl e \<Rightarrow> (Inl e, c) | Inr s \<Rightarrow> (Inr (), c\<lparr>cn_current := s\<rparr>))"

definition table_grant :: string where
  "table_grant = ''GRANT SELECT, INSERT, UPDATE, DELETE ON ALL TABLES IN SCHEMA public TO nexus_runtime''"

definition sequence_grant :: string where
  "sequence_grant = ''GRANT USAGE ON ALL SEQUENCES IN SCHEMA public TO nexus_runtime''"

definition post_migration_grants :: "connection \<Rightarrow> (exn + unit) \<times> connection" where
  "post_migration_grants = sbind (execute_sql table_grant) (\<lambda>_. execute_sql sequence_grant)"

definition run_in_transaction :: "(schema \<Rightarrow> exn + schema) \<Rightarrow> connection \<Rightarrow> (exn + unit) \<times> connection" where
  "run_in_transaction f c = (case f (cn_current c) of
     Inl e \<Rightarrow> (Inl e, c\<lparr>cn_current := cn_committed c\<rparr>)
   | Inr s \<Rightarrow> (Inr (), c\<lparr>cn_current := s, cn_committed := s\<rparr>))"

definition do_run_migrations :: "(schema \<Rightarrow> exn + schema) \<Rightarrow> connection \<Rightarrow> (exn + unit) \<times> connection" where
  "do_run_migrations migrate = sbind (run_in_transaction migrate) (\<lambda>_. post_migration_grants)"

text \<open>The database before and after the connection.\<close>

definition run_async_migrations :: "(schema \<Rightarrow> exn + schema) \<Rightarrow> schema \<Rightarrow> (exn + unit) \<times> schema" where
  "run_async_migrations migrate s =
     (case do_run_migrations migrate \<lparr>cn_committed = s, cn_current = s\<rparr> of (r, c) \<Rightarrow> (r, cn_committed c))"

text \<open>The grants after the migrations never reach the database: it holds what the migrations committed.\<close>

lemma grants_rolled_back:
  assumes "run_async_migrations migrate s = (Inr (), s')"
  shows "migrate s = Inr s'"
  using assms
  by (auto simp: run_async_migrations_def do_run_migrations_def run_in_transaction_def post_migration_grants_def
      execute_sql_def elim!: sbindE split: prod.splits sum.splits)

end
