(* ===== verification/Models.thy ===== *)
theory Models
  imports Migrations
begin

text \<open>
  What the SQLAlchemy models of \<open>app/models/\<close> declare of their tables, in the terms of the schema: the
  columns with their types, nullability and server defaults and with the row-level security flag of their
  \<open>info\<close>, the foreign keys, unique constraints and indexes.  \<open>Mapped[str]\<close> without a type is a VARCHAR,
  \<open>Mapped[bool]\<close> a BOOLEAN, \<open>Mapped[uuid.UUID]\<close> a UUID.
\<close>

record model =
  mo_table :: string
  mo_columns :: "(column \<times> bool) list"
  mo_foreign :: "(string \<times> string \<times> on_delete) list"
  mo_unique :: "(string \<times> string list) list"
  mo_indexes :: "(string \<times> string list \<times> bool) list"

definition plain :: "column \<Rightarrow> column \<times> bool" where
  "plain c = (c, False)"

definition with_tenant :: "model \<Rightarrow> model" where
  "with_tenant m = m\<lparr>mo_columns := mo_columns m @ [(required ''tenant_id'' UUID, True)],
     mo_foreign := mo_foreign m @ [(''tenant_id'', ''tenants'', RESTRICT)],
     mo_indexes := mo_indexes m @ [(''ix_'' @ mo_table m @ ''_tenant_id'', [''tenant_id''], False)]\<rparr>"

definition tenant_model :: model where
  "tenant_model =
    \<lparr>mo_table = ''tenants'', mo_columns = map plain
       [required ''id'' UUID, required ''name'' (VARCHAR (Some 255)),
        optional ''industry_type'' (VARCHAR (Some 100)), optional ''erp_type'' (VARCHAR (Some 100)),
        required ''subscription_plan'' (VARCHAR (Some 20)),
        required ''subscription_status'' (VARCHAR (Some 20)), optional ''trial_start_date'' DATE,
        optional ''trial_end_date'' DATE, optional ''subscription_start_date'' DATE,
        optional ''next_billing_date'' DATE, optional ''config'' JSONB, required ''is_active'' BOOLEAN,
        stamped ''created_at'' TIMESTAMPTZ, stamped ''updated_at'' TIMESTAMPTZ],
     mo_foreign = [],
     mo_unique = [(''tenants_name_key'', [''name''])],
     mo_indexes = []\<rparr>"

definition user_model :: model where
  "user_model = with_tenant
    \<lparr>mo_table = ''users'', mo_columns = map plain
       [required ''id'' UUID, required ''email'' (VARCHAR None), required ''role'' (ENUM ''user_role_enum''),
        required ''hashed_password'' (VARCHAR None), required ''is_active'' BOOLEAN,
        optional ''last_login'' TIMESTAMPTZ, stamped ''created_at'' TIMESTAMPTZ,
        stamped ''updated_at'' TIMESTAMPTZ],
     mo_foreign = [],
     mo_unique = [],
     mo_indexes = [(''ix_users_email'', [''email''], True)]\<rparr>"

definition location_model :: model where
  "location_model = with_tenant
    \<lparr>mo_table = ''locations'', mo_columns = map plain
       [required ''id'' UUID, required ''name'' (VARCHAR (Some 255)), required ''type'' (VARCHAR (Some 50)),
        optional ''city'' (VARCHAR (Some 100)), optional ''state'' (VARCHAR (Some 100)),
        required ''is_active'' BOOLEAN, stamped ''created_at'' TIMESTAMPTZ, stamped ''updated_at'' TIMESTAMPTZ],
     mo_foreign = [],
     mo_unique = [],
     mo_indexes = []\<rparr>"

definition product_model :: model where
  "product_model = with_tenant
    \<lparr>mo_table = ''products'', mo_columns = map plain
       [required ''id'' UUID, required ''sku_code'' (VARCHAR (Some 100)),
        required ''name'' (VARCHAR (Some 255)), optional ''category'' (VARCHAR (Some 100)),
        required ''unit_of_measure'' (VARCHAR (Some 50)), required ''unit_cost_paise'' BIGINT,
        required ''selling_price_paise'' BIGINT, optional ''industry_attributes'' JSONB,
        stamped ''created_at'' TIMESTAMPTZ, stamped ''updated_at'' TIMESTAMPTZ],
     mo_foreign = [],
     mo_unique = [(''uq_tenant_sku'', [''tenant_id'', ''sku_code''])],
     mo_indexes = []\<rparr>"

definition batch_model :: model where
  "batch_model = with_tenant
    \<lparr>mo_table = ''batches'', mo_columns = map plain
       [required ''id'' UUID, required ''product_id'' UUID, required ''batch_no'' (VARCHAR (Some 100)),
        optional ''manufactured_date'' DATE, optional ''expiry_date'' DATE, required ''quantity'' BIGINT,
        optional ''location_id'' UUID, stamped ''created_at'' TIMESTAMPTZ, stamped ''updated_at'' TIMESTAMPTZ],
     mo_foreign = [(''product_id'', ''products'', RESTRICT), (''location_id'', ''locations'', SET_NULL)],
     mo_unique = [(''uq_tenant_batch_product'', [''tenant_id'', ''batch_no'', ''product_id''])],
     mo_indexes = []\<rparr>"

definition transaction_model :: model where
  "transaction_model = with_tenant
    \<lparr>mo_table = ''transactions'', mo_columns = map plain
       [required ''id'' UUID, required ''product_id'' UUID, required ''location_id'' UUID,
        required ''transaction_type'' (VARCHAR (Some 50)), required ''quantity'' BIGINT,
        required ''unit_cost_paise'' BIGINT, optional ''reference_no'' (VARCHAR (Some 100)),
        required ''transaction_date'' TIMESTAMPTZ, stamped ''created_at'' TIMESTAMPTZ],
     mo_foreign = [(''product_id'', ''products'', RESTRICT), (''location_id'', ''locations'', RESTRICT)],
     mo_unique = [],
     mo_indexes = [(''ix_transactions_tenant_date'', [''tenant_id'', ''transaction_date DESC''], False),
       (''ix_transactions_tenant_product'', [''tenant_id'', ''product_id''], False),
       (''ix_transactions_tenant_type'', [''tenant_id'', ''transaction_type''], False),
       (''ix_transactions_tenant_location'', [''tenant_id'', ''location_id''], False)]\<rparr>"

definition sync_log_model :: model where
  "sync_log_model = with_tenant
    \<lparr>mo_table = ''sync_logs'', mo_columns = map plain
       [required ''id'' UUID, required ''connector_type'' (VARCHAR (Some 50)),
        optional ''original_filename'' (VARCHAR (Some 255)), optional ''stored_path'' (VARCHAR (Some 500)),
        required ''status'' (VARCHAR (Some 20)), required ''total_records'' INTEGER,
        required ''records_processed'' INTEGER, required ''records_failed'' INTEGER, optional ''errors'' JSONB,
        optional ''data_quality_score'' FLOAT, optional ''started_at'' TIMESTAMPTZ,
        optional ''completed_at'' TIMESTAMPTZ, stamped ''created_at'' TIMESTAMPTZ],
     mo_foreign = [],
     mo_unique = [],
     mo_indexes = [(''ix_sync_logs_tenant_status'', [''tenant_id'', ''status''], False)]\<rparr>"

definition models :: "model list" where
  "models = [tenant_model, user_model, location_model, product_model, batch_model, transaction_model, sync_log_model]"

text \<open>What the Alembic hook sees of them.\<close>

definition target_metadata :: metadata where
  "target_metadata = map (\<lambda>m. (mo_table m, map (\<lambda>(c, rls). (co_name c, rls)) (mo_columns m))) models"

lemma tenant_tables:
  "filter (is_rls_table target_metadata) (map mo_table models) =
     [''users'', ''locations'', ''products'', ''batches'', ''transactions'', ''sync_logs'']"
  by code_simp

section \<open>A schema that carries the models\<close>

definition same_set :: "'a list \<Rightarrow> 'a list \<Rightarrow> bool" where
  "same_set xs ys \<longleftrightarrow> length xs = length ys \<and> list_all (\<lambda>x. x \<in> set ys) xs \<and> list_all (\<lambda>y. y \<in> set xs) ys"

definition carries :: "schema \<Rightarrow> model \<Rightarrow> bool" where
  "carries s m \<longleftrightarrow> (case map_of (sc_tables s) (mo_table m) of None \<Rightarrow> False
     | Some t \<Rightarrow> same_set (ta_columns t) (map fst (mo_columns m)) \<and> ta_primary t = [''id''] \<and>
         same_set (map (\<lambda>k. (fk_column k, fk_table k, fk_ondelete k)) (ta_fkeys t)) (mo_foreign m) \<and>
         list_all (\<lambda>k. fk_target k = ''id'') (ta_fkeys t) \<and>
         same_set (ta_uniques t) (mo_unique m) \<and>
         same_set (map (\<lambda>i. (ix_name i, ix_columns i, ix_unique i)) (filter (\<lambda>i. ix_table i = mo_table m) (sc_indexes s)))
           (mo_indexes m))"

text \<open>
  A table is isolated: its security holds for its owner too, every command of the runtime role has a
  policy, and every policy there is asks the row to be the tenant's, the row read and the row written.
\<close>

definition reads_own :: "policy \<Rightarrow> bool" where
  "reads_own p \<longleftrightarrow> po_using p = Some ''tenant_id''"

definition writes_own :: "policy \<Rightarrow> bool" where
  "writes_own p \<longleftrightarrow> po_check p = Some ''tenant_id''"

definition policy_of :: "string \<Rightarrow> policy \<Rightarrow> bool" where
  "policy_of cmd p \<longleftrightarrow> po_role p = RUNTIME_ROLE \<and> po_command p \<in> {cmd, ''ALL''}"

definition isolated :: "table \<Rightarrow> bool" where
  "isolated t \<longleftrightarrow> ta_rls t \<and> ta_forced t \<and>
     list_all (\<lambda>cmd. list_ex (policy_of cmd) (ta_policies t)) [''SELECT'', ''INSERT'', ''UPDATE'', ''DELETE''] \<and>
     list_all (\<lambda>p. (po_command p \<noteq> ''INSERT'' \<longrightarrow> reads_own p) \<and>
       (po_command p \<in> {''INSERT'', ''UPDATE'', ''ALL''} \<longrightarrow> writes_own p)) (ta_policies t)"

definition isolates :: "schema \<Rightarrow> string \<Rightarrow> bool" where
  "isolates s n \<longleftrightarrow> (case map_of (sc_tables s) n of None \<Rightarrow> False | Some t \<Rightarrow> isolated t)"

definition ready :: "schema \<Rightarrow> bool" where
  "ready s \<longleftrightarrow> list_all (carries s) models \<and>
     list_all (isolates s) (filter (is_rls_table target_metadata) (map mo_table models)) \<and>
     map_of (sc_enums s) ''user_role_enum'' = Some (map role_value Enum.enum)"

end
