(* ===== verification/MigrationProps.thy ===== *)
theory MigrationProps
  imports Models
begin

text \<open>
  The revisions on an empty database: they build the tables the models declare, isolated by tenant, and
  each can be taken back.
\<close>

section \<open>The history, step by step\<close>

text \<open>The operations of each revision, with the seed's owner and hash.\<close>

definition steps :: "string \<Rightarrow> string \<Rightarrow> (migration_op list \<times> migration_op list) list" where
  "steps owner_email hashed =
     [(upgrade_36e6ea49bb2b, downgrade_36e6ea49bb2b), (upgrade_4bc4e45b350d, downgrade_4bc4e45b350d),
      (upgrade_444a0c65e4f0, downgrade_444a0c65e4f0), (upgrade_f7e098064859, downgrade_f7e098064859),
      (seed_ops owner_email hashed, downgrade_ef7f95410110), (upgrade_3bd67eab8293, downgrade_3bd67eab8293),
      (upgrade_ca2c9afa5eb7, downgrade_ca2c9afa5eb7)]"

text \<open>Each step in turn is taken, taken back, and taken again; what is left satisfies \<open>P\<close>.\<close>

fun walk :: "(schema \<Rightarrow> bool) \<Rightarrow> (migration_op list \<times> migration_op list) list \<Rightarrow> schema \<Rightarrow> bool" where
  "walk P [] s \<longleftrightarrow> P s"
| "walk P ((up, down) # ps) s \<longleftrightarrow> (case run_ops up s of Inl e \<Rightarrow> False
     | Inr s' \<Rightarrow> run_ops down s' = Inr s \<and> walk P ps s')"

lemma walk_steps: "walk ready (steps e h) empty_schema"
  by code_simp


text \<open>Every prefix of a walk that ends well can be gone, and its last step can be taken back.\<close>

fun go :: "(migration_op list \<times> migration_op list) list \<Rightarrow> schema \<Rightarrow> exn + schema" where
  "go [] s = Inr s"
| "go ((up, down) # ps) s = rbind (run_ops up s) (go ps)"

lemma walk_goes: "walk P ps s \<Longrightarrow> \<exists>s'. go ps s = Inr s' \<and> P s'"
  by (induction P ps s rule: walk.induct) (auto split: sum.splits)

lemma walk_undoes:
  assumes "walk P ps s" "k < length ps" "go (take k ps) s = Inr s1" "run_ops (fst (ps ! k)) s1 = Inr s2"
  shows "run_ops (snd (ps ! k)) s2 = Inr s1"
  using assms
proof (induction P ps s arbitrary: k rule: walk.induct)
  case (2 P up down ps s)
  then show ?case by (cases k) (auto split: sum.splits)
qed simp

lemma history_steps:
  assumes "getenv ''SEED_OWNER_EMAIL'' = Some e" "getenv ''SEED_OWNER_PASSWORD'' = Some p" "e \<noteq> []" "p \<noteq> []"
  shows "map (\<lambda>r. (rv_upgrade r getenv hash, rv_downgrade r)) history =
    map (\<lambda>(up, down). (Inr up, down)) (steps e (hash p))"
  using assms by (simp add: history_def revisions_def steps_def upgrade_ef7f95410110_def get_or_def)

lemma upgrade_all_goes:
  assumes "map (\<lambda>r. (rv_upgrade r getenv hash, rv_downgrade r)) rs = map (\<lambda>(up, down). (Inr up, down)) ps"
  shows "upgrade_all getenv hash rs s = go ps s"
  using assms
proof (induction rs arbitrary: ps s)
  case (Cons r rs)
  then obtain up down qs where ps: "ps = (up, down) # qs" "rv_upgrade r getenv hash = Inr up"
    "map (\<lambda>r. (rv_upgrade r getenv hash, rv_downgrade r)) rs = map (\<lambda>(up, down). (Inr up, down)) qs"
    by (cases ps) auto
  with Cons.IH[OF ps(3)] show ?case by (simp add: upgrade_step_def rbind_def split: sum.splits)
qed simp

section \<open>Properties\<close>

text \<open>
  Property C16.  With the owner's address and password in the environment the revisions run through on an
  empty database, and the schema they leave is the one the code relies on: every table of a model has the
  columns, keys, constraints and indexes the model declares and no others, the role is the enum of
  \<open>UserRole\<close>, and each table that carries a tenant is isolated, under forced row-level security with a
  policy for every command that ties the row to the tenant.
\<close>

theorem migrations_build_models:
  assumes "getenv ''SEED_OWNER_EMAIL'' = Some e" "getenv ''SEED_OWNER_PASSWORD'' = Some p" "e \<noteq> []" "p \<noteq> []"
  shows "\<exists>s. upgrade_all getenv hash history empty_schema = Inr s \<and> ready s"
  using walk_goes[OF walk_steps[of e "hash p"]] by (simp add: upgrade_all_goes[OF history_steps[OF assms]])

theorem migrations_build_models_witness:
  "\<exists>s. upgrade_all (\<lambda>n. Some ''owner@nexus.io'') rev history empty_schema = Inr s \<and> ready s"
  by (rule migrations_build_models[where e = "''owner@nexus.io''" and p = "''owner@nexus.io''"]) simp_all

text \<open>
  Property C28.  Each revision can be taken back: wherever on the way from the empty database the history
  stands, the downgrade of the next revision after its upgrade leaves the schema, its policies, grants and
  rows included, as it was.
\<close>

theorem downgrade_undoes_upgrade:
  assumes "getenv ''SEED_OWNER_EMAIL'' = Some e" "getenv ''SEED_OWNER_PASSWORD'' = Some p" "e \<noteq> []" "p \<noteq> []"
    and "k < length history" "upgrade_all getenv hash (take k history) empty_schema = Inr s"
    and "upgrade_step getenv hash (history ! k) s = Inr s'"
  shows "downgrade_step (history ! k) s' = Inr s"
proof -
  let ?ps = "steps e (hash p)"
  note hs = history_steps[OF assms(1-4), of hash]
  have len: "length ?ps = length history" using arg_cong[OF hs, of length] by simp
  have nth: "rv_upgrade (history ! k) getenv hash = Inr (fst (?ps ! k))" "rv_downgrade (history ! k) = snd (?ps ! k)"
    using arg_cong[OF hs, of "\<lambda>xs. xs ! k"] assms(5) len by (auto split: prod.splits)
  have "go (take k ?ps) empty_schema = Inr s"
    using upgrade_all_goes[of getenv hash "take k history" "take k ?ps"] hs assms(6) by (simp add: take_map[symmetric])
  from walk_undoes[OF walk_steps[of e "hash p"] _ this, of s'] assms(5,7) len nth
  show ?thesis by (simp add: upgrade_step_def downgrade_step_def)
qed

theorem downgrade_undoes_upgrade_witness:
  "\<exists>s s'. upgrade_step (\<lambda>n. Some ''owner@nexus.io'') rev (history ! 1) s = Inr s' \<and> downgrade_step (history ! 1) s' = Inr s"
proof -
  have "case upgrade_all (\<lambda>n. Some ''owner@nexus.io'') rev (take 1 history) empty_schema of Inl e \<Rightarrow> False
    | Inr s \<Rightarrow> (case upgrade_step (\<lambda>n. Some ''owner@nexus.io'') rev (history ! 1) s of Inl e \<Rightarrow> False | Inr s' \<Rightarrow> True)"
    by code_simp
  then obtain s s' where s: "upgrade_all (\<lambda>n. Some ''owner@nexus.io'') rev (take 1 history) empty_schema = Inr s"
    and s': "upgrade_step (\<lambda>n. Some ''owner@nexus.io'') rev (history ! 1) s = Inr s'"
    by (auto split: sum.splits)
  have "1 < length history" by (simp add: history_ids revisions_def)
  from downgrade_undoes_upgrade[OF _ _ _ _ this s s', of "''owner@nexus.io''" "''owner@nexus.io''"] s'
  show ?thesis by auto
qed

end
