(* ===== verification/Hook.thy ===== *)
theory Hook
  imports MigrationProps
begin

text \<open>
  What the Alembic hook of \<open>app/rls.py\<close> does to a database: the statements it adds to a revision, whatever
  tables the revision creates, secure these tables and no others, and those of the downgrade take them back.
\<close>

section \<open>The words of the statements\<close>










section \<open>One table\<close>









section \<open>All new tables\<close>




section \<open>Properties\<close>







end
