(* ===== verification/Offline.thy ===== *)
theory Offline
  imports Migrations
begin

text \<open>
  The two ways of \<open>alembic/env.py\<close>: \<open>online\<close> on a connection, and \<open>offline\<close>, where the revisions run
  against no database and their statements go to a script for \<open>psql\<close>.  The script, run on a database
  later, does what the connection would have done.
\<close>

section \<open>Writing the script\<close>

datatype script_line = BeginTx | CommitTx | Line migration_op

text \<open>
  A revision's function runs as it does online, except that its statements are printed, with the values
  in them (\<open>literal_binds\<close>).  What was printed before an exception stays printed.
\<close>

fun emit_revisions ::
  "(string \<rightharpoonup> string) \<Rightarrow> (string \<Rightarrow> string) \<Rightarrow> revision list \<Rightarrow> script_line list \<Rightarrow> (exn + unit) \<times> script_line list" where
  "emit_revisions getenv hash [] out = (Inr (), out)"
| "emit_revisions getenv hash (r # rs) out =
     (case rv_upgrade r getenv hash of
        Inl e \<Rightarrow> (Inl e, out)
      | Inr ops \<Rightarrow> emit_revisions getenv hash rs (out @ map Line ops))"

text \<open>\<open>with context.begin_transaction(): context.run_migrations()\<close>; no grants follow.\<close>

definition run_migrations_offline ::
  "(string \<rightharpoonup> string) \<Rightarrow> (string \<Rightarrow> string) \<Rightarrow> (exn + unit) \<times> script_line list" where
  "run_migrations_offline getenv hash =
     (case emit_revisions getenv hash history [BeginTx] of
        (Inl e, out) \<Rightarrow> (Inl e, out)
      | (Inr _, out) \<Rightarrow> (Inr (), out @ [CommitTx]))"

definition run_migrations_online ::
  "(string \<rightharpoonup> string) \<Rightarrow> (string \<Rightarrow> string) \<Rightarrow> schema \<Rightarrow> (exn + unit) \<times> schema" where
  "run_migrations_online getenv hash = run_async_migrations (upgrade_all getenv hash history)"

text \<open>The last lines of the file: one of the two, with what goes to the output and what the database becomes.\<close>

definition env_main ::
  "bool \<Rightarrow> (string \<rightharpoonup> string) \<Rightarrow> (string \<Rightarrow> string) \<Rightarrow> schema \<Rightarrow> (exn + unit) \<times> script_line list \<times> schema" where
  "env_main is_offline_mode getenv hash s =
     (if is_offline_mode then case run_migrations_offline getenv hash of (r, out) \<Rightarrow> (r, out, s)
      else case run_migrations_online getenv hash s of (r, s') \<Rightarrow> (r, [], s'))"

section \<open>Running the script\<close>

text \<open>
  \<open>psql\<close> goes on after an error, but a failed transaction answers every statement with an error and its
  COMMIT is a rollback; at the end of the input an open transaction is lost.
\<close>

datatype psql = Outside schema | Inside schema schema | Aborted schema

text \<open>There is no database to look at when the script is written: \<open>checkfirst\<close> is without effect.\<close>

fun run_line :: "migration_op \<Rightarrow> schema \<Rightarrow> exn + schema" where
  "run_line (CreateEnum e ls) s = (if map_of (sc_enums s) e \<noteq> None then Inl DatabaseError else create_enum e ls s)"
| "run_line p s = run_op p s"

fun psql_line :: "script_line \<Rightarrow> psql \<Rightarrow> psql" where
  "psql_line BeginTx (Outside s) = Inside s s"
| "psql_line CommitTx (Inside s s') = Outside s'"
| "psql_line CommitTx (Aborted s) = Outside s"
| "psql_line (Line p) (Inside s s') = (case run_line p s' of Inl e \<Rightarrow> Aborted s | Inr s'' \<Rightarrow> Inside s s'')"
| "psql_line (Line p) (Outside s) = (case run_line p s of Inl e \<Rightarrow> Outside s | Inr s' \<Rightarrow> Outside s')"
| "psql_line _ p = p"

fun left_by :: "psql \<Rightarrow> schema" where
  "left_by (Outside s) = s"
| "left_by (Inside s s') = s"
| "left_by (Aborted s) = s"

definition run_script :: "script_line list \<Rightarrow> schema \<Rightarrow> schema" where
  "run_script out s = left_by (fold psql_line out (Outside s))"

section \<open>Where \<open>checkfirst\<close> makes no difference\<close>

text \<open>The enums that operations create, and the ones of a database.\<close>

fun created :: "migration_op list \<Rightarrow> string list" where
  "created [] = []"
| "created (CreateEnum e ls # ps) = e # created ps"
| "created (p # ps) = created ps"

definition fresh_enums :: "migration_op list \<Rightarrow> schema \<Rightarrow> bool" where
  "fresh_enums ps s \<longleftrightarrow> distinct (created ps) \<and> (\<forall>e \<in> set (created ps). map_of (sc_enums s) e = None)"

lemma created_append: "created (ps @ qs) = created ps @ created qs"
  by (induction ps rule: created.induct) simp_all

lemma rbindE:
  assumes "rbind r f = Inr v"
  obtains u where "r = Inr u" "f u = Inr v"
  using assms by (cases r) (simp_all add: rbind_def)

lemma change_table_enums: "change_table n f s = Inr s' \<Longrightarrow> sc_enums s' = sc_enums s"
  by (auto simp: change_table_def elim!: rbindE)

lemma run_statement_enums: "run_statement ws s = Inr s' \<Longrightarrow> sc_enums s' = sc_enums s"
  by (auto simp: run_statement_def create_policy_def elim!: rbindE dest!: change_table_enums
      split: if_splits list.splits option.splits)

lemma run_op_enums:
  assumes "run_op p s = Inr s'" and "e \<notin> set (created [p])" and "map_of (sc_enums s) e = None"
  shows "map_of (sc_enums s') e = None"
proof (cases p)
  case (DropEnum e')
  with assms show ?thesis by (auto simp: drop_enum_def map_of_eq_None_iff elim!: rbindE)
qed (use assms in \<open>auto simp: create_table_def drop_table_def create_index_def drop_index_def add_column_def
    drop_column_def create_foreign_key_def drop_constraint_def alter_column_type_def insert_ignore_def
    delete_by_id_def update_unlisted_def create_enum_def elim!: rbindE
    dest!: change_table_enums run_statement_enums split: if_splits\<close>)

lemma run_line_op: "fresh_enums (p # ps) s \<Longrightarrow> run_line p s = run_op p s"
  by (cases p) (simp_all add: fresh_enums_def)

lemma fresh_enums_step:
  assumes "fresh_enums (p # ps) s" and "run_op p s = Inr s'"
  shows "fresh_enums ps s'"
proof -
  have "created (p # ps) = created [p] @ created ps" using created_append [of "[p]" ps] by simp
  with assms run_op_enums [OF assms(2)] show ?thesis by (auto simp: fresh_enums_def)
qed

lemma aborted_lines: "fold psql_line (map Line ps) (Aborted s) = Aborted s"
  by (induction ps) simp_all

text \<open>The lines of a transaction do what the operations do.\<close>

lemma psql_lines:
  "fresh_enums ps s' \<Longrightarrow> fold psql_line (map Line ps) (Inside s s') =
     (case run_ops ps s' of Inl e \<Rightarrow> Aborted s | Inr s'' \<Rightarrow> Inside s s'')"
proof (induction ps arbitrary: s')
  case (Cons p ps)
  then show ?case
    by (cases "run_op p s'") (simp_all add: run_line_op aborted_lines rbind_def fresh_enums_step)
qed simp

text \<open>What is printed, and what the connection is told to do.\<close>

lemma emitted:
  "\<exists>ps. snd (emit_revisions getenv hash rs out) = out @ map Line ps \<and>
    (\<forall>s. upgrade_all getenv hash rs s = (case fst (emit_revisions getenv hash rs out) of
       Inr _ \<Rightarrow> run_ops ps s | Inl e \<Rightarrow> rbind (run_ops ps s) (\<lambda>_. Inl e)))"
proof (induction rs arbitrary: out)
  case Nil
  show ?case by (rule exI [of _ "[]"]) simp
next
  case (Cons r rs)
  show ?case
  proof (cases "rv_upgrade r getenv hash")
    case (Inl e)
    then show ?thesis by (intro exI [of _ "[]"]) (simp add: upgrade_step_def rbind_def)
  next
    case (Inr ops)
    from Cons [of "out @ map Line ops"] obtain ps where ps:
      "snd (emit_revisions getenv hash rs (out @ map Line ops)) = (out @ map Line ops) @ map Line ps"
      "\<And>s. upgrade_all getenv hash rs s = (case fst (emit_revisions getenv hash rs (out @ map Line ops)) of
         Inr _ \<Rightarrow> run_ops ps s | Inl e \<Rightarrow> rbind (run_ops ps s) (\<lambda>_. Inl e))" by blast
    have "upgrade_all getenv hash (r # rs) s = rbind (run_ops ops s) (upgrade_all getenv hash rs)" for s
      using Inr by (simp add: upgrade_step_def rbind_def)
    with Inr ps show ?thesis
      by (intro exI [of _ "ops @ ps"])
        (auto simp: run_ops_append rbind_def split: sum.splits)
  qed
qed

text \<open>The history creates one enum.\<close>

lemma created_by:
  "created upgrade_36e6ea49bb2b = []" "created upgrade_4bc4e45b350d = []" "created upgrade_444a0c65e4f0 = []"
  "created upgrade_f7e098064859 = []" "created (seed_ops email hashed) = []"
  "created upgrade_3bd67eab8293 = [''user_role_enum'']" "created upgrade_ca2c9afa5eb7 = []"
  by (simp_all add: upgrade_36e6ea49bb2b_def upgrade_4bc4e45b350d_def upgrade_444a0c65e4f0_def
      upgrade_f7e098064859_def seed_ops_def upgrade_3bd67eab8293_def upgrade_ca2c9afa5eb7_def)

lemma history_creates:
  assumes "snd (emit_revisions getenv hash history out) = out @ map Line ps"
  shows "distinct (created ps)" "set (created ps) \<subseteq> {''user_role_enum''}"
proof -
  have m: "map Line ps = map Line qs \<longleftrightarrow> ps = qs" for ps qs :: "migration_op list"
    by (rule inj_map_eq_map) (simp add: inj_on_def)
  have "created ps = [] \<or> created ps = [''user_role_enum'']"
  proof (cases "upgrade_ef7f95410110 getenv hash")
    case (Inl e)
    with assms have "ps = upgrade_36e6ea49bb2b @ upgrade_4bc4e45b350d @ upgrade_444a0c65e4f0 @ upgrade_f7e098064859"
      by (simp add: history_def revisions_def m map_append [symmetric] del: map_append)
    then show ?thesis by (simp add: created_append created_by)
  next
    case (Inr ops)
    then obtain email hashed where "ops = seed_ops email hashed"
      by (auto simp: upgrade_ef7f95410110_def Let_def split: if_splits)
    moreover have "ps = upgrade_36e6ea49bb2b @ upgrade_4bc4e45b350d @ upgrade_444a0c65e4f0 @ upgrade_f7e098064859
        @ ops @ upgrade_3bd67eab8293 @ upgrade_ca2c9afa5eb7"
      using assms Inr by (simp add: history_def revisions_def m map_append [symmetric] del: map_append)
    ultimately show ?thesis by (simp add: created_append created_by)
  qed
  then show "distinct (created ps)" "set (created ps) \<subseteq> {''user_role_enum''}" by auto
qed

section \<open>The property\<close>

text \<open>What the connection leaves: its grants are lost (see \<open>grants_rolled_back\<close>).\<close>

lemma online_leaves:
  "snd (run_async_migrations migrate s) = (case migrate s of Inl e \<Rightarrow> s | Inr s' \<Rightarrow> s')"
  by (auto simp: run_async_migrations_def do_run_migrations_def run_in_transaction_def post_migration_grants_def
      execute_sql_def sbind_def split: prod.splits sum.splits)

text \<open>
  The script and the connection agree: on a database without the role's enum, running what
  the offline mode has printed leaves the database the online mode leaves, whether the revisions go through,
  are refused by the database, or stop for want of the owner's address and password.
\<close>

theorem offline_as_online:
  assumes "map_of (sc_enums s) ''user_role_enum'' = None"
  shows "run_script (snd (run_migrations_offline getenv hash)) s = snd (run_migrations_online getenv hash s)"
proof -
  obtain ps where ps: "snd (emit_revisions getenv hash history [BeginTx]) = [BeginTx] @ map Line ps"
    "\<And>s. upgrade_all getenv hash history s = (case fst (emit_revisions getenv hash history [BeginTx]) of
       Inr _ \<Rightarrow> run_ops ps s | Inl e \<Rightarrow> rbind (run_ops ps s) (\<lambda>_. Inl e))"
    using emitted [of getenv hash history "[BeginTx]"] by blast
  have "fresh_enums ps s" using history_creates [OF ps(1)] assms by (auto simp: fresh_enums_def)
  from psql_lines [OF this, of s] ps show ?thesis
    by (cases "emit_revisions getenv hash history [BeginTx]")
      (auto simp: run_migrations_offline_def run_migrations_online_def online_leaves run_script_def rbind_def
        split: sum.splits)
qed

theorem offline_as_online_witness:
  "run_script (snd (run_migrations_offline (\<lambda>n. Some ''owner@nexus.io'') rev)) empty_schema =
     snd (run_migrations_online (\<lambda>n. Some ''owner@nexus.io'') rev empty_schema)"
  by (rule offline_as_online) (simp add: empty_schema_def)

end
