(* ===== verification/Spec2Isabelle.thy ===== *)
theory Spec2Isabelle
  imports PersistProps UploadProps AppProps PlatformJobs Batches Hook Offline
begin

text \<open>
  Verification of the Nexus inventory platform: the Python code of \<open>src/app\<close>, the Alembic revisions of
  \<open>src/alembic\<close> and the Marg sync kit of \<open>src/integrations\<close>.

  \<^bold>\<open>The program.\<close>  Tenants upload CSV or Excel files of products, transactions and batches.  A route
  checks the file, stores it, inserts a pending job and sends a message; a Celery worker takes the message,
  reads the file through the CSV connector, validates each record in the normalizer and writes it into
  PostgreSQL in a session that row-level security confines to the tenant.  Users log in with a password,
  get an access token and a refresh token whose id is kept in Redis, and list their products and jobs.
  The kit turns the exports of Marg into CSV files, uploads them and polls the jobs.  The revisions create
  the tables and their policies.

  \<^bold>\<open>Conventions.\<close>  A function that may raise returns a sum, \<open>Inl\<close> the exception, and one with effects
  passes its state and keeps it on both branches; \<open>sbind\<close> of \<open>Prelude\<close> composes the steps.  A Python
  dictionary is an association list in insertion order, a text a list of characters up to 255, an integer
  unbounded except where a column bounds it.  What is not under \<open>src\<close> is a parameter: \<open>env\<close> says which
  statements the database answers and what time it is, \<open>web\<close> holds PyJWT, the password hasher and the
  answers of Redis, \<open>run\<close> and \<open>pandas\<close> the reading of files, \<open>outside\<close> the disk and the broker, \<open>host\<close> the
  replies to the kit.

  \<^bold>\<open>The theories.\<close>

  \<^item> \<open>Prelude\<close>: results, loops that stop at an exception, dictionaries, Python's string operations, and
    the collections \<open>str_simps\<close> and \<open>res_simps\<close>.
  \<^item> \<open>PyFloat\<close>, \<open>PyTime\<close>, \<open>Times\<close>: binary floating point with its rounding and parsing; dates,
    \<open>strptime\<close> and \<open>isoformat\<close>; the calendar of an instant.
  \<^item> \<open>Domain\<close>: \<open>app/models/enums.py\<close> (the classes as instances of \<open>enum\<close>), \<open>app/schemas/integration.py\<close>,
    JSON and \<open>repr\<close>.
  \<^item> \<open>Normalizer\<close>, \<open>Persist\<close>: \<open>app/integrations/normalizer.py\<close>, its pure half and the half that writes;
    the locales \<open>keyed_table\<close> and \<open>overwriting_table\<close> hold what an upsert promises of a table with a key.
  \<^item> \<open>Connector\<close>: \<open>app/integrations/csv_connector.py\<close>, \<open>factory.py\<close> and \<open>base.py\<close>; \<open>Pipeline\<close>: the connector
    followed by the normalizer.
  \<^item> \<open>Store\<close>: the rows of \<open>app/models\<close>, \<open>app/database.py\<close> and the statements of SQLAlchemy: a session
    with its transaction, its context and the job it tracks; \<open>encodable\<close> is what psycopg 3 refuses to send,
    \<open>row_types_ok\<close> what the server then refuses.  The locale \<open>session_invariant\<close> is the
    interface through which every later invariant reaches the statements.
  \<^item> \<open>Integrity\<close>, \<open>Effects\<close>: the invariants of the tables and what the writing operations do; the locale
    \<open>worker_invariant\<close> lifts an invariant of single changes to all of them.
  \<^item> \<open>Sync\<close>, \<open>SyncFacts\<close>, \<open>Progress\<close>, \<open>Score\<close>, \<open>SyncProps\<close>, \<open>PersistProps\<close>: \<open>app/services/sync.py\<close>
    and \<open>app/integrations/file_storage.py\<close> with the locale \<open>storage_protocol\<close>, the invariants lifted to a job (\<open>job_invariant\<close>), that a job
    whose rows fit completes, the score, and the properties.
  \<^item> \<open>Task\<close>, \<open>TaskProps\<close>: \<open>app/tasks/sync.py\<close> and the deliveries of its message as a step relation.
  \<^item> \<open>Import\<close>, \<open>Redelivery\<close>: what a completed product job has done whatever the database answered; the
    death of workers and the redelivery of the message (\<open>task_acks_late\<close> of \<open>app/celery_app.py\<close>) as the
    relation \<open>redeliver\<close>.  The locale \<open>job_account\<close> carries what is known of a job through all of it.
  \<^item> \<open>Reimport\<close>, \<open>Movements\<close>, \<open>Batches\<close>: what a live run reads of products, locations and transactions, that
    jobs of transactions complete and may be repeated, and that jobs of batches complete.
  \<^item> \<open>Web\<close>, \<open>Auth\<close>, \<open>AuthFacts\<close>, \<open>AuthProps\<close>: \<open>app/config.py\<close>, \<open>app/celery_app.py\<close>, \<open>app/security.py\<close>,
    \<open>app/services/auth.py\<close>, \<open>app/routes/auth.py\<close>, the dependencies and repositories; sequences of requests
    as the relation \<open>serves\<close>, their invariants through the locale \<open>server_invariant\<close>.
  \<^item> \<open>Csv\<close>: Python's \<open>csv\<close> writer and reader; every table of texts that is written is read back.
  \<^item> \<open>Upload\<close>, \<open>UploadFacts\<close>, \<open>UploadWork\<close>, \<open>UploadProps\<close>: \<open>app/routes/integrations.py\<close>, and the way of an
    upload through the message and the file to the run of the worker.
  \<^item> \<open>Products\<close>: \<open>app/routes/products.py\<close>, \<open>app/routes/health.py\<close>, \<open>get_tenant_db\<close>.
  \<^item> \<open>Marg\<close>, \<open>MargProps\<close>: \<open>integrations/marg_hook/nexus_marg_sync.py\<close>.
  \<^item> \<open>App\<close>, \<open>AppProps\<close>: \<open>app/main.py\<close>, the table of the routes and the dispatch \<open>handle\<close> of a request.
  \<^item> \<open>Platform\<close>, \<open>PlatformFacts\<close>, \<open>PlatformProps\<close>, \<open>Bystanders\<close>, \<open>PlatformJobs\<close>: all of it together.  A state is the database
    with Redis, the files and the messages that wait; a step of \<open>platform_step\<close> is a request, a run of the task,
    the death of a worker or a repeated delivery, and \<open>platform_run\<close> is any sequence of them.  The locales
    \<open>request_invariant\<close> and \<open>portal_invariant\<close> extend \<open>server_invariant\<close> to every route.  \<open>Bystanders\<close> shows what
    requests and the jobs of a tenant leave of the others' jobs and files, and the locale \<open>steady_job\<close> carries
    what the runs of one job keep over all the steps in between.
  \<^item> \<open>Rls\<close>: \<open>app/rls.py\<close>; \<open>Schema\<close>: what the operations of a revision do to a PostgreSQL schema;
    \<open>Migrations\<close>: the seven revisions and \<open>alembic/env.py\<close>; \<open>Models\<close>: what \<open>app/models\<close> declare of the
    tables; \<open>MigrationProps\<close>: their properties; \<open>Hook\<close>: what the statements of the Alembic hook do to a schema;
    \<open>Offline\<close>: the script of the offline mode.

  \<^bold>\<open>What is shown.\<close>  A job that completes has accounted for every row and imported the good ones in order;
  one that fails has changed nothing but its own account, and retries are atomic, bounded and end in an
  acknowledgement.  Jobs of all three kinds complete when the database answers and their rows fit.  Whatever
  requests, jobs, deaths of workers and repeated messages follow one another, nobody changes the rows of a
  tenant but by an upload of one of its owners, admins and ops users, no key or reference breaks, and nobody
  becomes more than a viewer; a product job whose worker dies, at whatever point and however often, is
  imported once or not at all, and a transaction job of dated rows writes once, whatever requests and jobs of other
  tenants come between its deliveries.  A file of transactions that is
  imported again adds nothing while the products of its rows stay.  Who is not recognized is refused by every route but the public ones, and
  leaves no trace.  An accepted upload is one job, one
  file and one message, reaches the worker with the columns of its form and ends in the catalogue; a
  refused one leaves nothing.  A refresh token is good once; logins grant what they should.  Status and pages show the own tenant only.  The kit's files are read back
  as the rows it made, it asks for nothing but routes of the application, and its polling ends.  The revisions build the declared tables, isolated by tenant,
  and each can be taken back; the hook isolates whatever tenant tables
  a revision creates; the printed script does what the connection does.  Some properties state how the code falls short: an unreadable number or a
  row the database refuses fails the whole job, later row errors are lost, and a completed job whose
  message comes again is reported as failed.

  \<^bold>\<open>Bounds and fuel.\<close>  A UUID is written in 32 hexadecimal digits, so texts of ids are read back below
  \<open>2 ^ 128\<close>, and the names of stored files differ up to there (\<open>stored_upload_is_own\<close>).
  Amounts are exact up to \<open>2 ^ 50\<close> paise.  Columns are bounded by their types (\<open>VARCHAR\<close>
  lengths, 32 and 64 bit integers), which a statement is checked against.  \<open>poll_rounds\<close> counts the 90 rounds of the
  source.  \<open>chain_from\<close> gets as many steps as there are revisions, and \<open>history_ids\<close> shows that it reaches
  them all.  \<open>repr\<close> of a float searches a digit count up to 17 and an exponent below 400, which covers
  every double.

  \<^bold>\<open>Not modelled.\<close>  Concurrent sessions: the statements of one session run one after another, and the steps
  of the platform do not overlap, so that a request or job starts from what those before it committed; what
  a run of the API finds changed between two of its own statements is not modelled.  The connection pool,
  and errors of the operating system except that the disk may refuse a file.  Character sets beyond one byte
  per character, and byte order marks; U+0000 in the texts of JSON columns, which PostgreSQL refuses too.  The owner's connection bypasses row-level security, as the platform's
  database user does.  PyJWT, pwdlib, email-validator, pandas, Redis, Celery and FastAPI appear by what the code
  uses of them; which route a URL selects is left to Starlette, and a request comes as the call of its route.
  The logging of \<open>alembic/env.py\<close>, the lifespan of \<open>app/main.py\<close>, which closes connections when the process
  ends, and \<open>app/redis.py\<close> only call libraries.  Of Alembic and PostgreSQL, \<open>Schema\<close> has the operations the
  revisions use; \<open>Offline\<close> takes of \<open>psql\<close> that it goes on after an error and loses an open transaction.
\<close>

end
